(* ===== verification/Prelude.thy ===== *)
theory Prelude
  imports Main "HOL-Library.Word" "HOL-Library.AList"
begin

text \<open>
  Shared vocabulary of the development: bytes, results, the checked integer
  operations the Rust sources use, and keyed tables.

  \<^item> A Rust \<open>Result\<close> is a sum: \<open>Err e\<close> is \<^term>\<open>Inl e\<close>, \<open>Ok x\<close> is \<^term>\<open>Inr x\<close>;
    the \<open>?\<close> operator is \<open>rbind\<close>.
  \<^item> A byte is an \<open>8 word\<close>; byte arrays and vectors are lists of bytes.
  \<^item> Unsigned counters, revisions and timestamps (\<open>u64\<close>, \<open>u32\<close>, \<open>u128\<close>) are naturals;
    every arithmetic operation the source performs on them is the checked or saturating
    operation at its width, so nothing computed by the model leaves the width.
  \<^item> A \<open>BTreeMap\<close> and an SQLite table with a primary key are association lists with
    distinct keys (\<open>tbl\<close>): \<open>len\<close> and \<open>COUNT(*)\<close> are the length.
\<close>

named_theorems result_simps \<open>equations of the result combinators\<close>
named_theorems table_simps \<open>lookup and size equations of keyed tables\<close>

section \<open>Results\<close>

type_synonym ('e, 'a) result = "'e + 'a"

abbreviation Err :: "'e \<Rightarrow> ('e, 'a) result" where "Err \<equiv> Inl"
abbreviation Ok :: "'a \<Rightarrow> ('e, 'a) result" where "Ok \<equiv> Inr"

definition rbind :: "('e, 'a) result \<Rightarrow> ('a \<Rightarrow> ('e, 'b) result) \<Rightarrow> ('e, 'b) result" where
  "rbind r f = (case r of Inl e \<Rightarrow> Inl e | Inr x \<Rightarrow> f x)"

definition ok_or :: "'a option \<Rightarrow> 'e \<Rightarrow> ('e, 'a) result" where
  "ok_or m e = (case m of None \<Rightarrow> Inl e | Some x \<Rightarrow> Inr x)"

definition map_err :: "('e \<Rightarrow> 'f) \<Rightarrow> ('e, 'a) result \<Rightarrow> ('f, 'a) result" where
  "map_err f r = (case r of Inl e \<Rightarrow> Inl (f e) | Inr x \<Rightarrow> Inr x)"

definition is_ok :: "('e, 'a) result \<Rightarrow> bool" where
  "is_ok r = (case r of Inl _ \<Rightarrow> False | Inr _ \<Rightarrow> True)"

text \<open>\<open>.collect::<Result<Vec<_>, _>>()\<close>: the first error wins.\<close>

fun collect_results :: "('e, 'a) result list \<Rightarrow> ('e, 'a list) result" where
  "collect_results [] = Inr []"
| "collect_results (r # rs) = rbind r (\<lambda>x. rbind (collect_results rs) (\<lambda>xs. Inr (x # xs)))"

lemma rbind_simps [simp, result_simps]:
  "rbind (Inl e) f = Inl e"
  "rbind (Inr x) f = f x"
  by (simp_all add: rbind_def)

lemma rbind_eq_Inr [simp]: "rbind r f = Inr y \<longleftrightarrow> (\<exists>x. r = Inr x \<and> f x = Inr y)"
  by (cases r) simp_all

lemma rbind_eq_Inl:
  "rbind r f = Inl e \<longleftrightarrow> r = Inl e \<or> (\<exists>x. r = Inr x \<and> f x = Inl e)"
  by (cases r) simp_all

lemma rbind_assoc: "rbind (rbind r f) g = rbind r (\<lambda>x. rbind (f x) g)"
  by (cases r) simp_all

lemma ok_or_simps [simp, result_simps]:
  "ok_or None e = Inl e"
  "ok_or (Some x) e = Inr x"
  by (simp_all add: ok_or_def)

lemma ok_or_eq_Inr [simp]: "ok_or m e = Inr x \<longleftrightarrow> m = Some x"
  by (cases m) simp_all

lemma ok_or_eq_Inl [simp]: "ok_or m e = Inl e' \<longleftrightarrow> m = None \<and> e' = e"
  by (cases m) auto

lemma map_err_simps [simp, result_simps]:
  "map_err f (Inl e) = Inl (f e)"
  "map_err f (Inr x) = Inr x"
  by (simp_all add: map_err_def)

lemma map_err_eq_Inr [simp]: "map_err f r = Inr x \<longleftrightarrow> r = Inr x"
  by (cases r) simp_all

lemma is_ok_simps [simp, result_simps]:
  "is_ok (Inl e) = False"
  "is_ok (Inr x) = True"
  by (simp_all add: is_ok_def)

lemma is_ok_iff: "is_ok r \<longleftrightarrow> (\<exists>x. r = Inr x)"
  by (cases r) simp_all

lemma if_Inl_eq_Inr [simp]:
  "((if b then Inl e else r) = Inr x) \<longleftrightarrow> \<not> b \<and> r = Inr x"
  by simp

lemma collect_results_Inr_length: "collect_results rs = Inr xs \<Longrightarrow> length xs = length rs"
  by (induction rs arbitrary: xs) auto

lemma collect_results_Ok: "collect_results rs = Inr xs \<longleftrightarrow> rs = map Inr xs"
  by (induction rs arbitrary: xs) (auto simp: map_eq_Cons_conv)

lemma map_Inr_project:
  "(\<And>r e. f r = Inr e \<Longrightarrow> g e = h r) \<Longrightarrow> map f rows = map Inr es \<Longrightarrow> map g es = map h rows"
proof (induction rows arbitrary: es)
  case (Cons r rows)
  then obtain e es' where "es = e # es'" "f r = Inr e" "map f rows = map Inr es'" by (cases es) auto
  with Cons show ?case by simp
qed simp

lemma split_at_separator:
  "z \<notin> set xs \<Longrightarrow> z \<notin> set xs' \<Longrightarrow> xs @ z # ys = xs' @ z # ys' \<longleftrightarrow> xs = xs' \<and> ys = ys'"
proof (induction xs arbitrary: xs')
  case Nil
  then show ?case by (cases xs') auto
next
  case (Cons x xs)
  then show ?case by (cases xs') auto
qed

section \<open>Bytes and fixed-width integers\<close>

type_synonym u8 = "8 word"
type_synonym bytes = "u8 list"
type_synonym u64 = nat
type_synonym u32 = nat
type_synonym u16 = nat
type_synonym u128 = nat

definition u64_max :: nat where "u64_max = 2 ^ 64 - 1"

definition checked_add_w :: "nat \<Rightarrow> nat \<Rightarrow> nat \<Rightarrow> nat option" where
  "checked_add_w w a b = (if a + b < 2 ^ w then Some (a + b) else None)"

definition checked_sub :: "nat \<Rightarrow> nat \<Rightarrow> nat option" where
  "checked_sub a b = (if b \<le> a then Some (a - b) else None)"

abbreviation checked_add_u64 :: "u64 \<Rightarrow> u64 \<Rightarrow> u64 option" where
  "checked_add_u64 \<equiv> checked_add_w 64"

abbreviation checked_add_u128 :: "u128 \<Rightarrow> u128 \<Rightarrow> u128 option" where
  "checked_add_u128 \<equiv> checked_add_w 128"

definition saturating_add_u64 :: "u64 \<Rightarrow> u64 \<Rightarrow> u64" where
  "saturating_add_u64 a b = (if a + b < 2 ^ 64 then a + b else u64_max)"

definition saturating_sub :: "nat \<Rightarrow> nat \<Rightarrow> nat" where
  "saturating_sub a b = a - b"

lemma checked_add_eq_Some [simp]:
  "checked_add_w w a b = Some c \<longleftrightarrow> c = a + b \<and> a + b < 2 ^ w"
  by (auto simp: checked_add_w_def)

lemma checked_add_eq_None [simp]: "checked_add_w w a b = None \<longleftrightarrow> 2 ^ w \<le> a + b"
  by (auto simp: checked_add_w_def)

lemma checked_sub_eq_Some [simp]: "checked_sub a b = Some c \<longleftrightarrow> b \<le> a \<and> c = a - b"
  by (auto simp: checked_sub_def)

lemma checked_sub_eq_None [simp]: "checked_sub a b = None \<longleftrightarrow> a < b"
  by (auto simp: checked_sub_def)

lemma saturating_add_u64_bound: "a < 2 ^ 64 \<Longrightarrow> saturating_add_u64 a b < 2 ^ 64"
  by (simp add: saturating_add_u64_def u64_max_def)

text \<open>\<open>to_be_bytes\<close>: the big-endian bytes of an unsigned integer of \<open>n\<close> bytes.\<close>

fun be_bytes :: "nat \<Rightarrow> nat \<Rightarrow> bytes" where
  "be_bytes 0 v = []"
| "be_bytes (Suc n) v = be_bytes n (v div 256) @ [word_of_nat (v mod 256)]"

fun be_value :: "bytes \<Rightarrow> nat \<Rightarrow> nat" where
  "be_value [] acc = acc"
| "be_value (b # bs) acc = be_value bs (acc * 256 + unat b)"

lemma length_be_bytes [simp]: "length (be_bytes n v) = n"
  by (induction n v rule: be_bytes.induct) simp_all

lemma be_value_append: "be_value (xs @ ys) acc = be_value ys (be_value xs acc)"
  by (induction xs arbitrary: acc) simp_all

lemma unat_word_of_mod_256 [simp]: "unat (word_of_nat (v mod 256) :: u8) = v mod 256"
  by (simp add: unat_of_nat)

lemma be_value_be_bytes: "v < 256 ^ n \<Longrightarrow> be_value (be_bytes n v) 0 = v"
proof (induction n v rule: be_bytes.induct)
  case (1 v)
  then show ?case by simp
next
  case (2 n v)
  from "2.prems" have "v div 256 < 256 ^ n"
    by (simp add: less_mult_imp_div_less mult.commute)
  with "2.IH" have "be_value (be_bytes n (v div 256)) 0 = v div 256" by blast
  then show ?case by (simp add: be_value_append)
qed

lemma be_bytes_inject:
  assumes "v < 256 ^ n" and "w < 256 ^ n" and "be_bytes n v = be_bytes n w"
  shows "v = w"
  by (metis assms be_value_be_bytes)

lemma be_bytes_8_inject:
  "v < 2 ^ 64 \<Longrightarrow> w < 2 ^ 64 \<Longrightarrow> be_bytes 8 v = be_bytes 8 w \<longleftrightarrow> v = w"
  by (rule iffI) (rule be_bytes_inject [of v 8 w], simp_all del: be_bytes.simps)

text \<open>\<open>bytes.iter().all(|byte| *byte == 0)\<close>\<close>

definition all_zero :: "bytes \<Rightarrow> bool" where
  "all_zero bs \<longleftrightarrow> list_all (\<lambda>b. b = 0) bs"

text \<open>A byte-string literal \<open>b"..."\<close> of the source, and a \<open>str\<close> as its UTF-8 bytes.\<close>

definition byte_str :: "string \<Rightarrow> bytes" where
  "byte_str s = map (\<lambda>c. word_of_nat (of_char c)) s"

lemma length_byte_str [simp]: "length (byte_str s) = length s"
  by (simp add: byte_str_def)

lemma inj_byte_of_char: "inj (\<lambda>c. word_of_nat (of_char c) :: u8)"
proof (rule injI)
  fix c d :: char
  assume "(word_of_nat (of_char c) :: u8) = word_of_nat (of_char d)"
  then have "unat (word_of_nat (of_char c) :: u8) = unat (word_of_nat (of_char d) :: u8)" by simp
  moreover have "(of_char c :: nat) < 256" and "(of_char d :: nat) < 256"
    using range_nat_of_char by fastforce+
  ultimately have "(of_char c :: nat) = of_char d"
    by (simp add: unat_of_nat)
  then show "c = d" by simp
qed

lemma byte_str_Nil [simp]: "byte_str s = [] \<longleftrightarrow> s = []"
  by (simp add: byte_str_def)

lemma byte_str_inject [simp]: "byte_str s = byte_str t \<longleftrightarrow> s = t"
  using inj_byte_of_char by (simp add: byte_str_def inj_map_eq_map)

section \<open>Keyed tables\<close>

type_synonym ('k, 'v) tbl = "('k \<times> 'v) list"

abbreviation tbl_get :: "('k, 'v) tbl \<Rightarrow> 'k \<Rightarrow> 'v option" where
  "tbl_get \<equiv> map_of"

abbreviation tbl_put :: "'k \<Rightarrow> 'v \<Rightarrow> ('k, 'v) tbl \<Rightarrow> ('k, 'v) tbl" where
  "tbl_put \<equiv> AList.update"

abbreviation tbl_del :: "'k \<Rightarrow> ('k, 'v) tbl \<Rightarrow> ('k, 'v) tbl" where
  "tbl_del \<equiv> AList.delete"

definition tbl_retain :: "('k \<Rightarrow> 'v \<Rightarrow> bool) \<Rightarrow> ('k, 'v) tbl \<Rightarrow> ('k, 'v) tbl" where
  "tbl_retain p t = filter (\<lambda>(k, v). p k v) t"

definition tbl_wf :: "('k, 'v) tbl \<Rightarrow> bool" where
  "tbl_wf t \<longleftrightarrow> distinct (map fst t)"

lemma tbl_get_put [simp, table_simps]:
  "tbl_get (tbl_put k v t) k' = (if k' = k then Some v else tbl_get t k')"
  by (simp add: update_conv')

lemma tbl_get_del [simp, table_simps]:
  "tbl_get (tbl_del k t) k' = (if k' = k then None else tbl_get t k')"
  by (simp add: delete_conv')

lemma tbl_wf_Nil [simp]: "tbl_wf []"
  by (simp add: tbl_wf_def)

lemma tbl_wf_put [simp, intro]: "tbl_wf t \<Longrightarrow> tbl_wf (tbl_put k v t)"
  by (simp add: tbl_wf_def distinct_update)

lemma tbl_wf_del [simp, intro]: "tbl_wf t \<Longrightarrow> tbl_wf (tbl_del k t)"
  by (simp add: tbl_wf_def distinct_delete)

lemma tbl_wf_retain [simp, intro]: "tbl_wf t \<Longrightarrow> tbl_wf (tbl_retain p t)"
  by (induction t) (auto simp: tbl_wf_def tbl_retain_def)

lemma tbl_get_retain:
  "tbl_wf t \<Longrightarrow> tbl_get (tbl_retain p t) k =
     (case tbl_get t k of None \<Rightarrow> None | Some v \<Rightarrow> if p k v then Some v else None)"
proof (induction t)
  case Nil
  then show ?case by (simp add: tbl_retain_def)
next
  case (Cons a t)
  obtain k' v' where a: "a = (k', v')" by fastforce
  from Cons.prems a have wf: "tbl_wf t" and nk: "k' \<notin> fst ` set t"
    by (auto simp: tbl_wf_def)
  from nk have none: "map_of t k' = None" by (simp add: map_of_eq_None_iff)
  from wf have IH: "tbl_get (tbl_retain p t) k =
      (case tbl_get t k of None \<Rightarrow> None | Some v \<Rightarrow> if p k v then Some v else None)"
    by (rule Cons.IH)
  show ?case
    by (cases "k = k'") (use IH none a in \<open>auto simp: tbl_retain_def\<close>)
qed

lemma tbl_retain_Some:
  "tbl_wf t \<Longrightarrow> tbl_get (tbl_retain p t) k = Some v \<longleftrightarrow> tbl_get t k = Some v \<and> p k v"
  by (auto simp: tbl_get_retain split: option.splits if_splits)

lemma filter_tbl_put_only: "filter P t = [] \<Longrightarrow> P (i, row) \<Longrightarrow> filter P (tbl_put i row t) = [(i, row)]"
  by (induction t) (auto split: if_splits)

lemma tbl_get_retain_keep: "tbl_get t k = Some v \<Longrightarrow> p k v \<Longrightarrow> tbl_get (tbl_retain p t) k = Some v"
  by (induction t) (auto simp: tbl_retain_def split: if_splits)

lemma length_retain_le: "length (tbl_retain p t) \<le> length t"
  by (simp add: tbl_retain_def)

lemma length_del_le: "length (tbl_del k t) \<le> length t"
  by (simp add: length_delete_le)

lemma length_put:
  "length (tbl_put k v t) = (if tbl_get t k = None then Suc (length t) else length t)"
  by (induction t) auto

lemma length_put_le: "length (tbl_put k v t) \<le> Suc (length t)"
  by (simp add: length_put)

lemma length_put_present: "tbl_get t k = Some v' \<Longrightarrow> length (tbl_put k v t) = length t"
  by (simp add: length_put)

section \<open>Operations on a mutable state that may fail\<close>

text \<open>
  A method that mutates its receiver and returns a \<open>Result\<close>: the state reached before an
  error is kept, as in the source, where only transactions roll back.
\<close>

type_synonym ('s, 'e, 'a) step = "'s \<Rightarrow> ('e + 'a) \<times> 's"

definition sbind :: "('s, 'e, 'a) step \<Rightarrow> ('a \<Rightarrow> ('s, 'e, 'b) step) \<Rightarrow> ('s, 'e, 'b) step" where
  "sbind m f s = (case m s of (Inl e, s') \<Rightarrow> (Inl e, s') | (Inr a, s') \<Rightarrow> f a s')"

definition lift_result :: "('e + 'a) \<Rightarrow> ('s, 'e, 'a) step" where
  "lift_result r s = (r, s)"

definition sfail :: "'e \<Rightarrow> ('s, 'e, 'a) step" where
  "sfail e s = (Inl e, s)"

definition sreturn :: "'a \<Rightarrow> ('s, 'e, 'a) step" where
  "sreturn a s = (Inr a, s)"

definition sget :: "('s \<Rightarrow> 'a) \<Rightarrow> ('s, 'e, 'a) step" where
  "sget f s = (Inr (f s), s)"

definition smodify :: "('s \<Rightarrow> 's) \<Rightarrow> ('s, 'e, unit) step" where
  "smodify f s = (Inr (), f s)"

named_theorems step_simps \<open>evaluation of step operations\<close>

lemma step_eval [step_simps, simp]:
  "lift_result r s = (r, s)" "sfail e s = (Inl e, s)" "sreturn a s = (Inr a, s)"
  "sget f s = (Inr (f s), s)" "smodify g s = (Inr (), g s)"
  by (simp_all add: lift_result_def sfail_def sreturn_def sget_def smodify_def)

lemma sbind_Inr:
  "sbind m f s = (Inr b, t) \<longleftrightarrow> (\<exists>a s'. m s = (Inr a, s') \<and> f a s' = (Inr b, t))"
  by (auto simp: sbind_def split: prod.splits sum.splits)

lemma sbind_Inl:
  "sbind m f s = (Inl e, t) \<longleftrightarrow> m s = (Inl e, t) \<or> (\<exists>a s'. m s = (Inr a, s') \<and> f a s' = (Inl e, t))"
  by (auto simp: sbind_def split: prod.splits sum.splits)

definition keeps :: "('s \<Rightarrow> bool) \<Rightarrow> ('s, 'e, 'a) step \<Rightarrow> bool" where
  "keeps P m \<longleftrightarrow> (\<forall>s. P s \<longrightarrow> P (snd (m s)))"

named_theorems keeps_intros \<open>rules for invariants of step operations\<close>

lemma keepsD: "keeps P m \<Longrightarrow> P s \<Longrightarrow> m s = (r, t) \<Longrightarrow> P t"
  by (metis keeps_def snd_conv)

lemma keeps_sbind [keeps_intros]:
  assumes "keeps P m" and "\<And>a. keeps P (f a)"
  shows "keeps P (sbind m f)"
  unfolding keeps_def
proof (intro allI impI)
  fix s assume "P s"
  with assms(1) have "P (snd (m s))" by (simp add: keeps_def)
  with assms(2) show "P (snd (sbind m f s))"
    by (auto simp: keeps_def sbind_def split: prod.splits sum.splits)
qed

lemma keeps_basic [keeps_intros]:
  "keeps P (lift_result r)" "keeps P (sfail e)" "keeps P (sreturn a)" "keeps P (sget g)"
  by (simp_all add: keeps_def)

lemma keeps_smodify [keeps_intros]: "(\<And>s. P s \<Longrightarrow> P (f s)) \<Longrightarrow> keeps P (smodify f)"
  by (simp add: keeps_def)

lemma keeps_if [keeps_intros]: "keeps P m \<Longrightarrow> keeps P n \<Longrightarrow> keeps P (if b then m else n)"
  by simp

lemma keeps_option [keeps_intros]:
  "keeps P m \<Longrightarrow> (\<And>x. keeps P (f x)) \<Longrightarrow> keeps P (case y of None \<Rightarrow> m | Some x \<Rightarrow> f x)"
  by (cases y) simp_all

lemma keeps_Let [keeps_intros]: "(\<And>x. keeps P (f x)) \<Longrightarrow> keeps P (let x = y in f x)"
  by simp

lemma keeps_prod [keeps_intros]: "(\<And>a b. keeps P (f a b)) \<Longrightarrow> keeps P (case x of (a, b) \<Rightarrow> f a b)"
  by (cases x) simp

section \<open>Weakest preconditions of steps\<close>

definition wp :: "('s, 'e, 'a) step \<Rightarrow> ('a \<Rightarrow> 's \<Rightarrow> bool) \<Rightarrow> ('e \<Rightarrow> 's \<Rightarrow> bool) \<Rightarrow> 's \<Rightarrow> bool" where
  "wp m Q E s = (case m s of (Inl e, t) \<Rightarrow> E e t | (Inr a, t) \<Rightarrow> Q a t)"

named_theorems wp_simps \<open>weakest preconditions\<close>

lemma wp_sbind [wp_simps]: "wp (sbind m f) Q E s = wp m (\<lambda>a. wp (f a) Q E) E s"
  by (simp add: wp_def sbind_def split: prod.splits sum.splits)

lemma wp_basic [wp_simps]:
  "wp (sfail e) Q E s = E e s" "wp (sreturn a) Q E s = Q a s"
  "wp (lift_result r) Q E s = (case r of Inl e \<Rightarrow> E e s | Inr a \<Rightarrow> Q a s)"
  by (simp_all add: wp_def split: sum.splits)

lemma wp_sget [wp_simps]: "wp (sget g) Q E s = Q (g s) s"
  by (simp add: wp_def)

lemma wp_smodify [wp_simps]: "wp (smodify h) Q E s = Q () (h s)"
  by (simp add: wp_def)

lemma wp_if [wp_simps]: "wp (if b then m else n) Q E s = (if b then wp m Q E s else wp n Q E s)"
  by simp

lemma wp_option [wp_simps]:
  "wp (case x of None \<Rightarrow> m | Some y \<Rightarrow> f y) Q E s = (case x of None \<Rightarrow> wp m Q E s | Some y \<Rightarrow> wp (f y) Q E s)"
  by (cases x) simp_all

lemma wp_Let [wp_simps]: "wp (let x = y in f x) Q E s = (let x = y in wp (f x) Q E s)"
  by simp

lemma wp_prod [wp_simps]: "wp (case x of (a, b) \<Rightarrow> f a b) Q E s = (case x of (a, b) \<Rightarrow> wp (f a b) Q E s)"
  by (cases x) simp

lemma wpD: "wp m Q E s \<Longrightarrow> m s = (Inr a, t) \<Longrightarrow> Q a t"
  by (simp add: wp_def)

lemma wp_mono: "wp m Q E s \<Longrightarrow> (\<And>a t. Q a t \<Longrightarrow> Q' a t) \<Longrightarrow> (\<And>e t. E e t \<Longrightarrow> E' e t) \<Longrightarrow> wp m Q' E' s"
  by (auto simp: wp_def split: prod.splits sum.splits)

lemma wp_snd: "wp m (\<lambda>_. P) (\<lambda>_. P) s \<longleftrightarrow> P (snd (m s))"
  by (auto simp: wp_def split: prod.splits sum.splits)

end
