(* ===== verification/Wallet_Types.thy ===== *)
theory Wallet_Types
  imports Prelude
begin

unbundle bit_operations_syntax

text \<open>
  The crate \<open>hns-wallet-types\<close> (\<open>crates/hns-wallet-types/src/lib.rs\<close>): identifiers and
  their base64url wire form, base-unit amounts and their decimal JSON form, receive targets,
  and the enumerations every other component speaks.

  The wire codec \<open>encode_wire_id\<close>/\<open>decode_wire_id\<close> walks its input in groups of three
  (four) bytes; here the index loops are the recursions \<open>encode_wire_id\<close> and
  \<open>decode_groups\<close> over the remaining input.
\<close>

section \<open>Enumerations\<close>

datatype module_id = Handshake | Bitcoin | Ethereum

datatype wallet_asset = Hns | Btc | Eth

fun asset :: "module_id \<Rightarrow> wallet_asset" where
  "asset Handshake = Hns"
| "asset Bitcoin = Btc"
| "asset Ethereum = Eth"

datatype sync_phase = Disabled | Starting | Headers | Filters | WalletScan | Ready | Degraded

datatype local_transaction_status =
  Prepared | Authorized | Broadcast | Mempool | Confirmed | Replaced | Conflicted | Reorged
| Dropped | Failed_tx

datatype key_role =
  HnsCoin | HnsName | HnsShakedex | HnsAtomicSwap | HnsIdentity | HnsDappSession
| BitcoinWallet | BitcoinAtomicSwap | EthereumWallet | EthereumAtomicSwap | MetadataEncryption

datatype permission_capability =
  Accounts | Balance | Transactions | ReceiveTarget | Send | Names | NameTransfer
| NameFinalize | NameUpdate | TypedIdentitySignature | NameMarket | CrossChainMarket
| SwapSettlement

datatype approval_kind =
  AK_Permission | AK_ModuleEnablement | AK_Send | AK_NameTransfer | AK_NameFinalize
| AK_NameUpdate | AK_TypedSignature | AK_NameMarketOffer | AK_NameMarketPurchase
| AK_DirectOffer | AK_DirectOfferAcceptance | AK_SwapRedeem | AK_SwapRefund
| AK_RecoveryPhraseDisplay

datatype workflow_kind =
  WK_HnsSend | WK_NameTransfer | WK_NameFinalize | WK_NameUpdate | WK_ShakedexSeller
| WK_ShakedexBuyer | WK_ShakedexSellerPlan | WK_ShakedexBuyerPlan | WK_ShakedexSellerOffer
| WK_ShakedexValue | WK_DirectOffer | WK_DirectOfferAcceptance | WK_AtomicSwap | WK_Refund

datatype wire_id_error = NonCanonical | Zero

datatype amount_error = Overflow | Underflow | AssetMismatch

datatype type_error = InvalidLength string nat | InvalidModule string string

text \<open>The fixed-size identifiers of \<open>semantic_id!\<close> are byte arrays; the length is the
  \<open>LENGTH\<close> constant of the macro.\<close>

type_synonym wallet_id = bytes
type_synonym account_id = bytes
type_synonym approval_id = bytes
type_synonym workflow_id = bytes
type_synonym session_id = bytes
type_synonym object_hash = bytes
type_synonym transaction_hash = bytes

section \<open>The wire identifier codec\<close>

definition BASE64URL_ALPHABET :: bytes where
  "BASE64URL_ALPHABET =
     byte_str ''ABCDEFGHIJKLMNOPQRSTUVWXYZabcdefghijklmnopqrstuvwxyz0123456789-_''"

definition alphabet_at :: "u8 \<Rightarrow> u8" where
  "alphabet_at v = BASE64URL_ALPHABET ! unat v"

fun encode_wire_id :: "bytes \<Rightarrow> bytes" where
  "encode_wire_id (first # second # third # rest) =
     alphabet_at (drop_bit 2 first)
     # alphabet_at (push_bit 4 (first AND 0x03) OR drop_bit 4 second)
     # alphabet_at (push_bit 2 (second AND 0x0f) OR drop_bit 6 third)
     # alphabet_at (third AND 0x3f)
     # encode_wire_id rest"
| "encode_wire_id [first] =
     [alphabet_at (drop_bit 2 first), alphabet_at (push_bit 4 (first AND 0x03))]"
| "encode_wire_id [first, second] =
     [alphabet_at (drop_bit 2 first),
      alphabet_at (push_bit 4 (first AND 0x03) OR drop_bit 4 second),
      alphabet_at (push_bit 2 (second AND 0x0f))]"
| "encode_wire_id [] = []"

text \<open>The local function \<open>value\<close> of \<open>decode_wire_id\<close>.\<close>

definition wire_value :: "u8 \<Rightarrow> u8 option" where
  "wire_value byte =
     (if 65 \<le> byte \<and> byte \<le> 90 then Some (byte - 65)
      else if 97 \<le> byte \<and> byte \<le> 122 then Some (byte - 97 + 26)
      else if 48 \<le> byte \<and> byte \<le> 57 then Some (byte - 48 + 52)
      else if byte = 45 then Some 62
      else if byte = 95 then Some 63
      else None)"

abbreviation wire_value_r :: "u8 \<Rightarrow> (wire_id_error, u8) result" where
  "wire_value_r b \<equiv> ok_or (wire_value b) NonCanonical"

text \<open>\<open>decode_groups room input\<close> is the loop and the final partial group of
  \<open>decode_wire_id\<close>; \<open>room\<close> is how many bytes of the output buffer are still unwritten
  (\<open>bytes.len() - output_index\<close>). It returns the bytes written and the room left.\<close>

fun decode_groups :: "nat \<Rightarrow> bytes \<Rightarrow> (wire_id_error, bytes \<times> nat) result" where
  "decode_groups room (a # b # c # d # rest) =
     rbind (wire_value_r a) (\<lambda>first.
     rbind (wire_value_r b) (\<lambda>second.
     rbind (wire_value_r c) (\<lambda>third.
     rbind (wire_value_r d) (\<lambda>fourth.
       if room < 3 then Err NonCanonical
       else rbind (decode_groups (room - 3) rest) (\<lambda>(written, left).
         Ok ((push_bit 2 first OR drop_bit 4 second)
             # (push_bit 4 second OR drop_bit 2 third)
             # (push_bit 6 third OR fourth)
             # written, left))))))"
| "decode_groups room [a, b] =
     rbind (wire_value_r a) (\<lambda>first.
     rbind (wire_value_r b) (\<lambda>second.
       if second AND 0x0f \<noteq> 0 \<or> room = 0 then Err NonCanonical
       else Ok ([push_bit 2 first OR drop_bit 4 second], room - 1)))"
| "decode_groups room [a, b, c] =
     rbind (wire_value_r a) (\<lambda>first.
     rbind (wire_value_r b) (\<lambda>second.
     rbind (wire_value_r c) (\<lambda>third.
       if third AND 0x03 \<noteq> 0 \<or> room < 2 then Err NonCanonical
       else Ok ([push_bit 2 first OR drop_bit 4 second,
                 push_bit 4 second OR drop_bit 2 third], room - 2))))"
| "decode_groups room [] = Ok ([], room)"
| "decode_groups room [a] = Err NonCanonical"

definition decode_wire_id :: "bytes \<Rightarrow> nat \<Rightarrow> (wire_id_error, bytes) result" where
  "decode_wire_id encoded sz =
     rbind (decode_groups sz encoded) (\<lambda>(written, left).
       if left \<noteq> 0 then Err NonCanonical else Ok written)"

text \<open>The methods of \<open>wire_id!\<close>, with the macro's \<open>$size\<close> as an argument.\<close>

definition wire_id_encoded_length :: "nat \<Rightarrow> nat" where
  "wire_id_encoded_length sz = (sz * 4 + 2) div 3"

definition wire_id_from_bytes :: "bytes \<Rightarrow> (wire_id_error, bytes) result" where
  "wire_id_from_bytes bs = (if all_zero bs then Err Zero else Ok bs)"

definition wire_id_parse :: "nat \<Rightarrow> bytes \<Rightarrow> (wire_id_error, bytes) result" where
  "wire_id_parse sz encoded =
     (if length encoded \<noteq> wire_id_encoded_length sz then Err NonCanonical
      else rbind (decode_wire_id encoded sz) wire_id_from_bytes)"

section \<open>Amounts\<close>

definition base_units_checked_add :: "u128 \<Rightarrow> u128 \<Rightarrow> (amount_error, u128) result" where
  "base_units_checked_add a b = ok_or (checked_add_u128 a b) Overflow"

definition base_units_checked_sub :: "u128 \<Rightarrow> u128 \<Rightarrow> (amount_error, u128) result" where
  "base_units_checked_sub a b = ok_or (checked_sub a b) Underflow"

record amount =
  am_asset :: wallet_asset
  am_base_units :: u128

definition amount_checked_add :: "amount \<Rightarrow> amount \<Rightarrow> (amount_error, amount) result" where
  "amount_checked_add a b =
     (if am_asset a \<noteq> am_asset b then Err AssetMismatch
      else rbind (base_units_checked_add (am_base_units a) (am_base_units b))
             (\<lambda>units. Ok \<lparr>am_asset = am_asset a, am_base_units = units\<rparr>))"

text \<open>\<open>u128::to_string\<close> and \<open>str::parse::<u128>\<close> as the serde implementations of
  \<open>BaseUnits\<close> use them: decimal digits, an optional leading plus sign, overflow refused.\<close>

fun decimal_digits :: "nat \<Rightarrow> bytes" where
  "decimal_digits n =
     (if n < 10 then [word_of_nat (48 + n)]
      else decimal_digits (n div 10) @ [word_of_nat (48 + n mod 10)])"

declare decimal_digits.simps [simp del]

definition digit_value :: "u8 \<Rightarrow> nat option" where
  "digit_value b = (if 48 \<le> b \<and> b \<le> 57 then Some (unat b - 48) else None)"

fun parse_digits :: "nat \<Rightarrow> bytes \<Rightarrow> nat option" where
  "parse_digits acc [] = Some acc"
| "parse_digits acc (b # bs) =
     (case digit_value b of
        None \<Rightarrow> None
      | Some d \<Rightarrow> if acc * 10 + d < 2 ^ 128 then parse_digits (acc * 10 + d) bs else None)"

definition base_units_serialize :: "u128 \<Rightarrow> bytes" where
  "base_units_serialize n = decimal_digits n"

definition base_units_deserialize :: "bytes \<Rightarrow> u128 option" where
  "base_units_deserialize text =
     (case text of
        [] \<Rightarrow> None
      | b # bs \<Rightarrow> if b = 43 then (if bs = [] then None else parse_digits 0 bs)
                  else parse_digits 0 text)"

section \<open>Receive targets\<close>

record receive_target =
  rt_module :: module_id
  rt_account :: account_id
  rt_display :: bytes
  rt_derivation_index :: u32

definition receive_target_validate :: "receive_target \<Rightarrow> (type_error, unit) result" where
  "receive_target_validate t =
     (if rt_display t = [] \<or> 512 < length (rt_display t)
      then Err (InvalidLength ''receive target'' 512) else Ok ())"

definition hns_name_receive_target_validate :: "receive_target \<Rightarrow> (type_error, unit) result" where
  "hns_name_receive_target_validate t =
     (if rt_module t \<noteq> Handshake
      then Err (InvalidModule ''HNS name receive target'' ''handshake'')
      else if rt_display t = [] \<or> 512 < length (rt_display t)
      then Err (InvalidLength ''HNS name receive target'' 512) else Ok ())"

section \<open>The wire codec is a bijection onto the canonical encodings\<close>

subsection \<open>The alphabet\<close>

lemma length_alphabet: "length BASE64URL_ALPHABET = 64"
  by (simp add: BASE64URL_ALPHABET_def)

lemma alphabet_table:
  "list_all (\<lambda>n. wire_value (BASE64URL_ALPHABET ! n) = Some (word_of_nat n)) [0..<64]"
  by (simp add: BASE64URL_ALPHABET_def byte_str_def wire_value_def upt_conv_Cons)

lemma wire_value_nth_alphabet:
  "n < 64 \<Longrightarrow> wire_value (BASE64URL_ALPHABET ! n) = Some (word_of_nat n)"
  using alphabet_table by (simp add: list_all_iff)

lemma wire_value_alphabet_at: "v < 64 \<Longrightarrow> wire_value (alphabet_at v) = Some v"
  using wire_value_nth_alphabet [of "unat v"] by (simp add: alphabet_at_def word_less_nat_alt)

lemma alphabet_eq:
  "BASE64URL_ALPHABET = map word_of_nat ([65..<91] @ [97..<123] @ [48..<58] @ [45, 95])"
  by (simp add: BASE64URL_ALPHABET_def byte_str_def upt_conv_Cons)

lemma set_alphabet:
  "set BASE64URL_ALPHABET = word_of_nat ` ({65..<91} \<union> {97..<123} \<union> {48..<58} \<union> {45, 95})"
  unfolding alphabet_eq set_map set_append set_upt by (simp only: list.set Un_assoc)

lemma wire_value_in_alphabet:
  assumes "wire_value b = Some v"
  shows "b \<in> set BASE64URL_ALPHABET"
proof -
  have "unat b \<in> {65..<91} \<union> {97..<123} \<union> {48..<58} \<union> {45, 95}"
    using assms by (auto simp: wire_value_def word_le_nat_alt split: if_splits)
  then have "(word_of_nat (unat b) :: u8) \<in> set BASE64URL_ALPHABET"
    unfolding set_alphabet by (rule imageI)
  then show ?thesis by simp
qed

lemma wire_value_SomeD:
  assumes "wire_value b = Some v"
  shows "v < 64" and "alphabet_at v = b"
proof -
  from wire_value_in_alphabet [OF assms] obtain n where
    n: "n < 64" "b = BASE64URL_ALPHABET ! n"
    by (auto simp: in_set_conv_nth length_alphabet)
  with assms wire_value_nth_alphabet have v: "v = word_of_nat n" by simp
  with n show "v < 64" by (simp add: word_less_nat_alt unat_of_nat)
  from v n show "alphabet_at v = b" by (simp add: alphabet_at_def unat_of_nat)
qed

subsection \<open>Bits of a group\<close>

lemma byte_masks: "(3::u8) = mask 2" "(15::u8) = mask 4" "(63::u8) = mask 6"
  by (simp_all add: mask_eq_exp_minus_1)

lemma byte_eqI: 
  assumes "bit x 0 = bit y 0" "bit x 1 = bit y 1" "bit x 2 = bit y 2" "bit x 3 = bit y 3"
    "bit x 4 = bit y 4" "bit x 5 = bit y 5" "bit x 6 = bit y 6" "bit x 7 = bit y 7"
  shows "x = (y::u8)"
proof (rule bit_word_eqI)
  fix n assume "n < LENGTH(8)"
  then have "n \<in> {0, 1, 2, 3, 4, 5, 6, 7}" by auto
  with assms show "bit x n = bit y n" by auto
qed

lemma sextet_bits: "(v::u8) < 64 \<longleftrightarrow> \<not> bit v 6 \<and> \<not> bit v 7"
proof -
  have "v < 64 \<longleftrightarrow> take_bit 6 v = v"
    by (simp add: word_less_nat_alt word_unat_eq_iff unsigned_take_bit_eq take_bit_nat_eq_self_iff)
  also have "\<dots> \<longleftrightarrow> \<not> bit v 6 \<and> \<not> bit v 7"
  proof
    assume "take_bit 6 v = v"
    then have "bit v 6 = bit (take_bit 6 v) 6" and "bit v 7 = bit (take_bit 6 v) 7" by simp_all
    then show "\<not> bit v 6 \<and> \<not> bit v 7" by (simp add: bit_simps)
  next
    assume "\<not> bit v 6 \<and> \<not> bit v 7"
    then show "take_bit 6 v = v" by (intro byte_eqI) (simp_all add: bit_simps)
  qed
  finally show ?thesis .
qed

lemma byte_bit_beyond [simp]: "8 \<le> n \<Longrightarrow> \<not> bit (a::u8) n"
  by (simp add: bit_word.rep_eq bit_imp_le_length)

lemma encode_sextets:
  "drop_bit 2 (a::u8) < 64"
  "push_bit 4 (a AND 3) OR drop_bit 4 b < (64::u8)"
  "push_bit 2 (b AND 15) OR drop_bit 6 c < (64::u8)"
  "c AND 63 < (64::u8)"
  "push_bit 4 (a AND 3) < (64::u8)"
  "push_bit 2 (b AND 15) < (64::u8)"
  by (simp_all add: sextet_bits bit_simps byte_masks)

lemma decode_encoded:
  "push_bit 2 (drop_bit 2 a) OR drop_bit 4 (push_bit 4 (a AND 3) OR drop_bit 4 b) = (a::u8)"
  "push_bit 4 (push_bit 4 (a AND 3) OR drop_bit 4 b)
     OR drop_bit 2 (push_bit 2 (b AND 15) OR drop_bit 6 c) = (b::u8)"
  "push_bit 6 (push_bit 2 (b AND 15) OR drop_bit 6 c) OR (c AND 63) = (c::u8)"
  "push_bit 2 (drop_bit 2 a) OR drop_bit 4 (push_bit 4 (a AND 3)) = (a::u8)"
  "push_bit 4 (push_bit 4 (a AND 3) OR drop_bit 4 b) OR drop_bit 2 (push_bit 2 (b AND 15)) = (b::u8)"
  "push_bit 4 (a AND 3) AND 15 = (0::u8)"
  "push_bit 2 (b AND 15) AND 3 = (0::u8)"
  by (rule byte_eqI; simp add: bit_simps byte_masks; (simp add: numeral_2_eq_2 numeral_3_eq_3)?)+

lemma encode_decoded:
  assumes "p < 64" and "q < 64" and "r < 64" and "s < (64::u8)"
  shows "drop_bit 2 (push_bit 2 p OR drop_bit 4 q) = p"
    and "push_bit 4 ((push_bit 2 p OR drop_bit 4 q) AND 3) OR drop_bit 4 (push_bit 4 q OR drop_bit 2 r) = q"
    and "push_bit 2 ((push_bit 4 q OR drop_bit 2 r) AND 15) OR drop_bit 6 (push_bit 6 r OR s) = r"
    and "(push_bit 6 r OR s) AND 63 = s"
    and "q AND 15 = 0 \<Longrightarrow> push_bit 4 ((push_bit 2 p OR drop_bit 4 q) AND 3) = q"
    and "r AND 3 = 0 \<Longrightarrow> push_bit 2 ((push_bit 4 q OR drop_bit 2 r) AND 15) = r"
  subgoal using assms by (intro byte_eqI; simp add: sextet_bits bit_simps; (simp add: numeral_2_eq_2 numeral_3_eq_3)?)
  subgoal using assms by (intro byte_eqI; simp add: sextet_bits bit_simps byte_masks; (simp add: numeral_2_eq_2 numeral_3_eq_3)?)
  subgoal using assms by (intro byte_eqI; simp add: sextet_bits bit_simps byte_masks; (simp add: numeral_2_eq_2 numeral_3_eq_3)?)
  subgoal using assms by (intro byte_eqI; simp add: sextet_bits bit_simps byte_masks; (simp add: numeral_2_eq_2 numeral_3_eq_3)?)
  subgoal premises h
  proof -
    have "bit (q AND 15) i = bit (0::u8) i" for i using h by simp
    from this [of 0] this [of 1] this [of 2] this [of 3] assms show ?thesis
      by (intro byte_eqI; simp add: sextet_bits bit_simps byte_masks; (simp add: numeral_2_eq_2 numeral_3_eq_3)?)
  qed
  subgoal premises h
  proof -
    have "bit (r AND 3) i = bit (0::u8) i" for i using h by simp
    from this [of 0] this [of 1] assms show ?thesis
      by (intro byte_eqI; simp add: sextet_bits bit_simps byte_masks; (simp add: numeral_2_eq_2 numeral_3_eq_3)?)
  qed
  done

subsection \<open>Encoding and decoding\<close>

lemma length_encode_wire_id: "length (encode_wire_id bs) = wire_id_encoded_length (length bs)"
  by (induction bs rule: encode_wire_id.induct) (auto simp: wire_id_encoded_length_def)

text \<open>The six-bit values an encoded group holds and the bytes a decoded group holds, as
  opaque names, so that the simplifier does not rewrite the bit operations.\<close>

definition e1 :: "u8 \<Rightarrow> u8" where "e1 a = drop_bit 2 a"
definition e2 :: "u8 \<Rightarrow> u8 \<Rightarrow> u8" where "e2 a b = push_bit 4 (a AND 3) OR drop_bit 4 b"
definition e3 :: "u8 \<Rightarrow> u8 \<Rightarrow> u8" where "e3 b c = push_bit 2 (b AND 15) OR drop_bit 6 c"
definition e4 :: "u8 \<Rightarrow> u8" where "e4 c = c AND 63"
definition d1 :: "u8 \<Rightarrow> u8 \<Rightarrow> u8" where "d1 p q = push_bit 2 p OR drop_bit 4 q"
definition d2 :: "u8 \<Rightarrow> u8 \<Rightarrow> u8" where "d2 q r = push_bit 4 q OR drop_bit 2 r"
definition d3 :: "u8 \<Rightarrow> u8 \<Rightarrow> u8" where "d3 r s = push_bit 6 r OR s"

lemmas group_defs = e1_def e2_def e3_def e4_def d1_def d2_def d3_def

lemma sextets_lt: "e1 a < 64" "e2 a b < 64" "e3 b c < 64" "e4 c < 64"
  using encode_sextets by (simp_all only: group_defs)

lemma d_of_e: "d1 (e1 a) (e2 a b) = a" "d2 (e2 a b) (e3 b c) = b" "d3 (e3 b c) (e4 c) = c"
  using decode_encoded by (simp_all only: group_defs)

lemma e_zero: "e2 a 0 AND 15 = 0" "e3 b 0 AND 3 = 0"
  "push_bit 4 (a AND 3) = e2 a 0" "push_bit 2 (b AND 15) = e3 b 0"
  using decode_encoded(6,7) by (simp_all only: group_defs drop_bit_of_0 or.right_neutral)

lemma e_of_d:
  assumes "p < 64" and "q < 64" and "r < 64" and "s < 64"
  shows "e1 (d1 p q) = p" and "e2 (d1 p q) (d2 q r) = q" and "e3 (d2 q r) (d3 r s) = r"
    and "e4 (d3 r s) = s"
    and "q AND 15 = 0 \<Longrightarrow> e2 (d1 p q) 0 = q" and "r AND 3 = 0 \<Longrightarrow> e3 (d2 q r) 0 = r"
  using encode_decoded [OF assms] by (simp_all only: group_defs drop_bit_of_0 or.right_neutral)

lemma encode_wire_id_groups:
  "encode_wire_id (a # b # c # rest) =
     alphabet_at (e1 a) # alphabet_at (e2 a b) # alphabet_at (e3 b c) # alphabet_at (e4 c)
     # encode_wire_id rest"
  "encode_wire_id [a] = [alphabet_at (e1 a), alphabet_at (e2 a 0)]"
  "encode_wire_id [a, b] = [alphabet_at (e1 a), alphabet_at (e2 a b), alphabet_at (e3 b 0)]"
  by (simp_all only: encode_wire_id.simps group_defs drop_bit_of_0 or.right_neutral)

lemmas decode_group_equations = decode_groups.simps [folded d1_def d2_def d3_def]

lemma decode_groups_encode: "decode_groups (length bs + k) (encode_wire_id bs) = Ok (bs, k)"
  by (induction bs rule: encode_wire_id.induct)
    (simp_all add: encode_wire_id_groups decode_group_equations wire_value_alphabet_at
      sextets_lt d_of_e e_zero(1,2) del: encode_wire_id.simps(1-3) decode_groups.simps(1-3))

lemma decode_groups_Ok:
  "decode_groups room e = Ok (w, left) \<Longrightarrow> encode_wire_id w = e \<and> room = length w + left"
proof (induction room e arbitrary: w left rule: decode_groups.induct)
  case (1 room a b c d rest)
  then obtain p q r s w' where
    v: "wire_value a = Some p" "wire_value b = Some q" "wire_value c = Some r"
       "wire_value d = Some s" and
    room: "\<not> room < 3" and rec: "decode_groups (room - 3) rest = Ok (w', left)" and
    w: "w = d1 p q # d2 q r # d3 r s # w'"
    by (auto simp: group_defs)
  from 1 v room rec have IH: "encode_wire_id w' = rest \<and> room - 3 = length w' + left" by simp
  note lt = v [THEN wire_value_SomeD(1)] and at = v [THEN wire_value_SomeD(2)]
  from IH room w show ?case
    by (auto simp: encode_wire_id_groups e_of_d(1-4) [OF lt] at simp del: encode_wire_id.simps(1-3))
next
  case (2 room a b)
  then obtain p q where v: "wire_value a = Some p" "wire_value b = Some q" and
    z: "q AND 15 = 0" and room: "room \<noteq> 0" "left = room - 1" and
    w: "w = [d1 p q]"
    by (auto simp: group_defs)
  note lt = v [THEN wire_value_SomeD(1)] and at = v [THEN wire_value_SomeD(2)]
  have "(0::u8) < 64" by simp
  note dec = e_of_d [OF lt this this]
  from room w show ?case
    by (simp add: encode_wire_id_groups dec(1) dec(5) [OF z] at del: encode_wire_id.simps(1-3))
next
  case (3 room a b c)
  then obtain p q r where
    v: "wire_value a = Some p" "wire_value b = Some q" "wire_value c = Some r" and
    z: "r AND 3 = 0" and room: "\<not> room < 2" "left = room - 2" and
    w: "w = [d1 p q, d2 q r]"
    by (auto simp: group_defs)
  note lt = v [THEN wire_value_SomeD(1)] and at = v [THEN wire_value_SomeD(2)]
  have "(0::u8) < 64" by simp
  note dec = e_of_d [OF lt this]
  from room w show ?case
    by (simp add: encode_wire_id_groups dec(1,2) dec(6) [OF z] at del: encode_wire_id.simps(1-3))
qed simp_all

lemma decode_wire_id_iff:
  "decode_wire_id e sz = Ok bs \<longleftrightarrow> length bs = sz \<and> e = encode_wire_id bs"
proof
  assume "decode_wire_id e sz = Ok bs"
  then have "decode_groups sz e = Ok (bs, 0)"
    by (auto simp: decode_wire_id_def split: if_splits)
  then show "length bs = sz \<and> e = encode_wire_id bs" by (auto dest: decode_groups_Ok)
next
  assume "length bs = sz \<and> e = encode_wire_id bs"
  then show "decode_wire_id e sz = Ok bs"
    using decode_groups_encode [of bs 0] by (simp add: decode_wire_id_def)
qed

section \<open>Decimal base units\<close>

lemma digit_value_digit: "d < 10 \<Longrightarrow> digit_value (word_of_nat (48 + d)) = Some d"
  by (simp add: digit_value_def word_le_nat_alt unat_of_nat del: of_nat_add)

lemma parse_digits_append:
  "parse_digits acc (xs @ ys) = Option.bind (parse_digits acc xs) (\<lambda>a. parse_digits a ys)"
  by (induction xs arbitrary: acc) (auto split: option.splits)

lemma parse_decimal_digits:
  "parse_digits 0 (decimal_digits n) = (if n < 2 ^ 128 then Some n else None)"
proof (induction n rule: decimal_digits.induct)
  case (1 n)
  show ?case
  proof (cases "n < 10")
    case True
    then show ?thesis
      by (subst decimal_digits.simps) (use digit_value_digit [of n] in simp)
  next
    case False
    with 1 have IH: "parse_digits 0 (decimal_digits (n div 10)) =
        (if n div 10 < 2 ^ 128 then Some (n div 10) else None)" by simp
    have "n div 10 * 10 + n mod 10 = n" by simp
    with False IH digit_value_digit [of "n mod 10"] show ?thesis
      by (subst decimal_digits.simps) (auto simp: parse_digits_append)
  qed
qed

lemma decimal_digits_Cons: "\<exists>b bs. decimal_digits n = b # bs \<and> b \<noteq> 43"
proof (induction n rule: decimal_digits.induct)
  case (1 n)
  show ?case
  proof (cases "n < 10")
    case True
    then have "(word_of_nat (48 + n) :: u8) \<noteq> 43"
      by (simp add: word_unat_eq_iff unat_of_nat del: of_nat_add)
    with True show ?thesis by (subst decimal_digits.simps) simp
  next
    case False
    with 1 show ?thesis by (subst decimal_digits.simps) auto
  qed
qed

section \<open>Properties\<close>

text \<open>C30. The text form of a wire identifier is canonical: a string parses to an identifier exactly
  when it is the encoding of those bytes, they have the right length and are not all zero, so no two
  strings name the same identifier.\<close>

theorem wire_id_text_is_canonical:
  "wire_id_parse sz text = Inr bs \<longleftrightarrow> length bs = sz \<and> \<not> all_zero bs \<and> text = encode_wire_id bs"
  by (auto simp: wire_id_parse_def wire_id_from_bytes_def decode_wire_id_iff length_encode_wire_id
      if_Inl_eq_Inr split: if_splits)

text \<open>The decimal text of an amount parses back to the amount, and the text of a number that does
  not fit 128 bits is refused.\<close>

theorem base_units_text_round_trip:
  "base_units_deserialize (base_units_serialize n) = (if n < 2 ^ 128 then Some n else None)"
  using decimal_digits_Cons [of n] parse_decimal_digits [of n]
  by (auto simp: base_units_serialize_def base_units_deserialize_def simp del: parse_digits.simps)

end
