(* ===== verification/Wallet_Store.thy ===== *)
theory Wallet_Store
  imports Wallet_Types "HOL-Library.List_Lexorder"
begin

text \<open>
  The crate \<open>hns-wallet-store\<close> (\<open>crates/hns-wallet-store/src/lib.rs\<close>): the encrypted,
  revisioned SQLite records beneath every other component.

  The state is \<open>wallet_store\<close>: the database identifier, the decrypted record key (absent
  while locked) and one table per SQLite table, each keyed by its primary key. A mutating
  method is a function that returns the new store; an error returns no store, because the
  source drops the immediate transaction and SQLite rolls it back.

  XChaCha20-Poly1305, HMAC-SHA256 and the system random source are not part of the
  repository: they are the fields of a \<open>crypto\<close> record every operation takes, and
  \<open>crypto_law\<close> states what the store relies on (opening a sealed message with the same key,
  nonce and associated data gives it back). Likewise \<open>serde_json\<close> is a \<open>codec\<close> with
  \<open>codec_law\<close>. SQLite binds an unsigned integer as a signed 64-bit one and refuses larger
  values (\<open>fallible_uint\<close>); that refusal is \<open>sql_uint\<close>. Other SQLite and I/O failures are
  not modelled.
\<close>

named_theorems store_defs \<open>definitions of the store's record layer\<close>

section \<open>Kinds, labels and limits\<close>

datatype entity_kind =
  EK_WalletAccount | EK_NativeHnsReadProfile | EK_DerivedAddress | EK_HnsUtxo
| EK_HnsTransaction | EK_HnsLightChain | EK_HnsLightWallet | EK_KnownName
| EK_NameOwnerOutpoint | EK_NameTransfer | EK_Shakedex | EK_HnsShakedexKeyAllocation
| EK_HnsaHnsrPublisherSequence | EK_ShakescapeBoardObject | EK_BitcoinHeader
| EK_BitcoinFilterHeader | EK_BitcoinPeer | EK_BitcoinWalletState | EK_BitcoinWalletChangeSet
| EK_BitcoinScanState | EK_BitcoinSwapKeyAllocation | EK_BitcoinSwapWatch
| EK_CrossChainSwapKeyAllocation | EK_BitcoinUtxo | EK_BitcoinTransaction
| EK_EthereumAccount | EK_EthereumTransaction | EK_SwapSession | EK_SwapFundingAuthorization
| EK_RefundTransaction | EK_HnsRecoveryState | EK_HnsShakescapeWatch
| EK_HnsVerifiedSettlement | EK_PendingApproval | EK_InputReservation

fun entity_kind_label :: "entity_kind \<Rightarrow> string" where
  "entity_kind_label EK_WalletAccount = ''wallet_account''"
| "entity_kind_label EK_NativeHnsReadProfile = ''native_hns_read_profile''"
| "entity_kind_label EK_DerivedAddress = ''derived_address''"
| "entity_kind_label EK_HnsUtxo = ''hns_utxo''"
| "entity_kind_label EK_HnsTransaction = ''hns_transaction''"
| "entity_kind_label EK_HnsLightChain = ''hns_light_chain''"
| "entity_kind_label EK_HnsLightWallet = ''hns_light_wallet''"
| "entity_kind_label EK_KnownName = ''known_name''"
| "entity_kind_label EK_NameOwnerOutpoint = ''name_owner_outpoint''"
| "entity_kind_label EK_NameTransfer = ''name_transfer''"
| "entity_kind_label EK_Shakedex = ''shakedex''"
| "entity_kind_label EK_HnsShakedexKeyAllocation = ''hns_shakedex_key_allocation''"
| "entity_kind_label EK_HnsaHnsrPublisherSequence = ''hnsa_hnsr_publisher_sequence''"
| "entity_kind_label EK_ShakescapeBoardObject = ''shakescape_board_object''"
| "entity_kind_label EK_BitcoinHeader = ''bitcoin_header''"
| "entity_kind_label EK_BitcoinFilterHeader = ''bitcoin_filter_header''"
| "entity_kind_label EK_BitcoinPeer = ''bitcoin_peer''"
| "entity_kind_label EK_BitcoinWalletState = ''bitcoin_wallet_state''"
| "entity_kind_label EK_BitcoinWalletChangeSet = ''bitcoin_wallet_changeset''"
| "entity_kind_label EK_BitcoinScanState = ''bitcoin_scan_state''"
| "entity_kind_label EK_BitcoinSwapKeyAllocation = ''bitcoin_swap_key_allocation''"
| "entity_kind_label EK_BitcoinSwapWatch = ''bitcoin_swap_watch''"
| "entity_kind_label EK_CrossChainSwapKeyAllocation = ''cross_chain_swap_key_allocation''"
| "entity_kind_label EK_BitcoinUtxo = ''bitcoin_utxo''"
| "entity_kind_label EK_BitcoinTransaction = ''bitcoin_transaction''"
| "entity_kind_label EK_EthereumAccount = ''ethereum_account''"
| "entity_kind_label EK_EthereumTransaction = ''ethereum_transaction''"
| "entity_kind_label EK_SwapSession = ''swap_session''"
| "entity_kind_label EK_SwapFundingAuthorization = ''swap_funding_authorization''"
| "entity_kind_label EK_RefundTransaction = ''refund_transaction''"
| "entity_kind_label EK_HnsRecoveryState = ''hns_recovery_state''"
| "entity_kind_label EK_HnsShakescapeWatch = ''hns_shakescape_watch''"
| "entity_kind_label EK_HnsVerifiedSettlement = ''hns_verified_settlement''"
| "entity_kind_label EK_PendingApproval = ''pending_approval''"
| "entity_kind_label EK_InputReservation = ''input_reservation''"

definition deletion_protected :: "entity_kind \<Rightarrow> bool" where
  "deletion_protected k \<longleftrightarrow> k \<in> {EK_NativeHnsReadProfile, EK_HnsShakedexKeyAllocation,
     EK_HnsaHnsrPublisherSequence, EK_BitcoinWalletState, EK_BitcoinSwapKeyAllocation,
     EK_CrossChainSwapKeyAllocation}"

datatype secret_kind =
  RecoverySeed | PrivateKey | MetadataKey | HtlcPreimage | ProviderCapability
| SessionAuthorization

fun secret_kind_label :: "secret_kind \<Rightarrow> string" where
  "secret_kind_label RecoverySeed = ''recovery_seed''"
| "secret_kind_label PrivateKey = ''private_key''"
| "secret_kind_label MetadataKey = ''metadata_key''"
| "secret_kind_label HtlcPreimage = ''htlc_preimage''"
| "secret_kind_label ProviderCapability = ''provider_capability''"
| "secret_kind_label SessionAuthorization = ''session_authorization''"

definition MAX_RECORD_ID_BYTES :: nat where "MAX_RECORD_ID_BYTES = 128"
definition MAX_SECRET_BYTES :: nat where "MAX_SECRET_BYTES = 1048576"
definition MAX_STATE_BYTES :: nat where "MAX_STATE_BYTES = 1048576"
definition MAX_ENTITY_LIST_RESULTS :: nat where "MAX_ENTITY_LIST_RESULTS = 10000"
definition MAX_ENTITY_BATCH_OPERATIONS :: nat where "MAX_ENTITY_BATCH_OPERATIONS = 16384"
definition RECOVERY_SEED_BYTES :: nat where "RECOVERY_SEED_BYTES = 64"
definition NONCE_BYTES :: nat where "NONCE_BYTES = 24"
definition TAG_BYTES :: nat where "TAG_BYTES = 16"
definition MAX_ENCRYPTED_RECORD_BYTES :: nat where
  "MAX_ENCRYPTED_RECORD_BYTES = MAX_SECRET_BYTES + NONCE_BYTES + TAG_BYTES"
definition AAD_DOMAIN :: bytes where "AAD_DOMAIN = byte_str ''hns-wallet-store/record/v1''"

lemmas store_limits = MAX_RECORD_ID_BYTES_def MAX_SECRET_BYTES_def MAX_STATE_BYTES_def
  MAX_ENTITY_LIST_RESULTS_def MAX_ENTITY_BATCH_OPERATIONS_def RECOVERY_SEED_BYTES_def
  NONCE_BYTES_def TAG_BYTES_def MAX_ENCRYPTED_RECORD_BYTES_def

datatype store_error =
  SE_Io | SE_Sqlite | SE_Json | SE_AlreadyInitialized | SE_DatabaseExists | SE_NotInitialized | SE_Locked
| SE_InvalidPassphrase | SE_PassphraseChangedCheckpointPending | SE_UnsafeKdfParameters | SE_KeyDerivation
| SE_Randomness | SE_Encryption | SE_KindMismatch | SE_ProtectedSecret | SE_InvalidRecoverySeed
| SE_BootstrapConflict | SE_WorkflowKindMismatch | SE_InvalidRecordId | SE_InvalidOrigin | SE_RecordTooLarge
| SE_CorruptMetadata | SE_NewerSchema u32 | SE_StaleRevision u64 u64 | SE_StaleEntitySet
| SE_InvalidEntityPrefixLease | SE_RevisionOverflow | SE_Replay | SE_InvalidReplayWindow
| SE_InvalidApprovalWindow | SE_ReplayCapacity | SE_ReplayGlobalCapacity | SE_ReplayOriginCapacity
| SE_ProviderCapacity | SE_ApprovalCapacity | SE_InvalidGeneration | SE_StaleGeneration u64 u64
| SE_InvalidListLimit | SE_ListCapacity | SE_InvalidRevision | SE_ProtectedEntity
| SE_DuplicateBatchEntity | SE_BatchCapacity | SE_LegacyEncryptionPending
| SE_LegacyEntityMigrationRequired string | SE_WalCheckpointBusy | SE_UnsafeFilesystemBoundary
| SE_UnsupportedFilesystemBoundary | SE_Concurrency

fun workflow_kind_label :: "workflow_kind \<Rightarrow> string" where
  "workflow_kind_label WK_HnsSend = ''hns_send''"
| "workflow_kind_label WK_NameTransfer = ''name_transfer''"
| "workflow_kind_label WK_NameFinalize = ''name_finalize''"
| "workflow_kind_label WK_NameUpdate = ''name_update''"
| "workflow_kind_label WK_ShakedexSeller = ''shakedex_seller''"
| "workflow_kind_label WK_ShakedexBuyer = ''shakedex_buyer''"
| "workflow_kind_label WK_ShakedexSellerPlan = ''shakedex_seller_plan''"
| "workflow_kind_label WK_ShakedexBuyerPlan = ''shakedex_buyer_plan''"
| "workflow_kind_label WK_ShakedexSellerOffer = ''shakedex_seller_offer''"
| "workflow_kind_label WK_ShakedexValue = ''shakedex_value''"
| "workflow_kind_label WK_DirectOffer = ''direct_offer''"
| "workflow_kind_label WK_DirectOfferAcceptance = ''direct_offer_acceptance''"
| "workflow_kind_label WK_AtomicSwap = ''atomic_swap''"
| "workflow_kind_label WK_Refund = ''refund''"

definition parse_workflow_kind :: "string \<Rightarrow> (store_error, workflow_kind) result" where
  "parse_workflow_kind v =
     (if v = ''hns_send'' then Ok WK_HnsSend
      else if v = ''name_transfer'' then Ok WK_NameTransfer
      else if v = ''name_finalize'' then Ok WK_NameFinalize
      else if v = ''name_update'' then Ok WK_NameUpdate
      else if v = ''shakedex_seller'' then Ok WK_ShakedexSeller
      else if v = ''shakedex_buyer'' then Ok WK_ShakedexBuyer
      else if v = ''shakedex_seller_plan'' then Ok WK_ShakedexSellerPlan
      else if v = ''shakedex_buyer_plan'' then Ok WK_ShakedexBuyerPlan
      else if v = ''shakedex_seller_offer'' then Ok WK_ShakedexSellerOffer
      else if v = ''shakedex_value'' then Ok WK_ShakedexValue
      else if v = ''direct_offer'' then Ok WK_DirectOffer
      else if v = ''direct_offer_acceptance'' then Ok WK_DirectOfferAcceptance
      else if v = ''atomic_swap'' then Ok WK_AtomicSwap
      else if v = ''refund'' then Ok WK_Refund
      else Err SE_CorruptMetadata)"

section \<open>External code\<close>

record crypto =
  seal :: "bytes \<Rightarrow> bytes \<Rightarrow> bytes \<Rightarrow> bytes \<Rightarrow> bytes option"
  unseal :: "bytes \<Rightarrow> bytes \<Rightarrow> bytes \<Rightarrow> bytes \<Rightarrow> bytes option"
  fill_random :: "string \<Rightarrow> bytes \<Rightarrow> bytes option"
  hmac_sha256 :: "bytes \<Rightarrow> bytes \<Rightarrow> bytes"
  sha256 :: "bytes \<Rightarrow> bytes"

definition crypto_law :: "crypto \<Rightarrow> bool" where
  "crypto_law C \<longleftrightarrow>
     (\<forall>k n a m c. seal C k n a m = Some c \<longrightarrow>
        unseal C k n a c = Some m \<and> length c = length m + TAG_BYTES) \<and>
     (\<forall>l i n. fill_random C l i = Some n \<longrightarrow> length n = NONCE_BYTES)"

record 'a codec =
  js_encode :: "'a \<Rightarrow> bytes option"
  js_decode :: "bytes \<Rightarrow> 'a option"

definition codec_law :: "'a codec \<Rightarrow> bool" where
  "codec_law J \<longleftrightarrow> (\<forall>x b. js_encode J x = Some b \<longrightarrow> js_decode J b = Some x)"

definition sql_uint :: "nat \<Rightarrow> (store_error, unit) result" where
  "sql_uint n = (if n < 2 ^ 63 then Ok () else Err SE_Sqlite)"

lemma sql_uint_Ok [simp]: "sql_uint n = Inr u \<longleftrightarrow> n < 2 ^ 63"
  by (auto simp: sql_uint_def)

section \<open>The record envelope\<close>

definition validate_id :: "bytes \<Rightarrow> (store_error, unit) result" where
  "validate_id i = (if i = [] \<or> MAX_RECORD_ID_BYTES < length i then Err SE_InvalidRecordId else Ok ())"

definition record_aad :: "bytes \<Rightarrow> string \<Rightarrow> bytes \<Rightarrow> (store_error, bytes) result" where
  "record_aad db kind i =
     (if i = [] \<or> MAX_RECORD_ID_BYTES + 64 < length i then Err SE_InvalidRecordId
      else if kind = [] \<or> 64 < length kind then Err SE_InvalidRecordId
      else Ok (AAD_DOMAIN @ db @ byte_str kind @ [0] @ i))"

definition encrypt_record ::
  "crypto \<Rightarrow> bytes \<Rightarrow> bytes \<Rightarrow> string \<Rightarrow> bytes \<Rightarrow> bytes \<Rightarrow> (store_error, bytes) result" where
  "encrypt_record C key db kind i cleartext =
     (if cleartext = [] \<or> MAX_SECRET_BYTES < length cleartext then Err SE_RecordTooLarge
      else rbind (ok_or (fill_random C kind i) SE_Randomness) (\<lambda>nonce.
           rbind (record_aad db kind i) (\<lambda>aad.
           rbind (ok_or (seal C key nonce aad cleartext) SE_Encryption) (\<lambda>ciphertext.
             Ok (nonce @ ciphertext)))))"

definition validate_encrypted_record_length :: "nat \<Rightarrow> (store_error, unit) result" where
  "validate_encrypted_record_length n =
     (if n \<le> NONCE_BYTES \<or> MAX_ENCRYPTED_RECORD_BYTES < n then Err SE_Encryption else Ok ())"

definition decrypt_record ::
  "crypto \<Rightarrow> bytes \<Rightarrow> bytes \<Rightarrow> string \<Rightarrow> bytes \<Rightarrow> bytes \<Rightarrow> (store_error, bytes) result" where
  "decrypt_record C key db kind i envelope =
     rbind (validate_encrypted_record_length (length envelope)) (\<lambda>_.
     rbind (record_aad db kind i) (\<lambda>aad.
       ok_or (unseal C key (take NONCE_BYTES envelope) aad (drop NONCE_BYTES envelope))
         SE_Encryption))"

definition entity_label :: "entity_kind \<Rightarrow> string" where
  "entity_label kind = ''entity/'' @ entity_kind_label kind"

definition workflow_label :: "workflow_kind \<Rightarrow> string" where
  "workflow_label kind = ''workflow/'' @ workflow_kind_label kind"

definition revisioned_aad_id ::
  "bytes \<Rightarrow> u64 \<Rightarrow> u64 \<Rightarrow> bool option \<Rightarrow> (store_error, bytes) result" where
  "revisioned_aad_id i revision updated_at_unix broadcast_prepared =
     rbind (validate_id i) (\<lambda>_.
       Ok (i @ be_bytes 8 revision @ be_bytes 8 updated_at_unix @
           (case broadcast_prepared of None \<Rightarrow> [] | Some p \<Rightarrow> [if p then 1 else 0])))"

section \<open>Tables and state\<close>

record workflow_row =
  wr_kind :: string
  wr_revision :: u64
  wr_state :: bytes
  wr_broadcast :: bool
  wr_updated :: u64
  wr_version :: u32

record entity_row =
  er_revision :: u64
  er_value :: bytes
  er_updated :: u64

record secret_row =
  sr_kind :: string
  sr_value :: bytes
  sr_updated :: u64

record permission_row =
  pr_generation :: u64
  pr_record :: bytes
  pr_updated :: u64
  pr_revoked :: bool

record approval_row =
  ar_origin_token :: bytes
  ar_record :: bytes
  ar_expires :: u64

record replay_row =
  rr_origin :: bytes
  rr_expires :: u64

record wallet_store =
  ws_database_id :: bytes
  ws_key :: "bytes option"
  ws_workflows :: "(workflow_id, workflow_row) tbl"
  ws_entities :: "(entity_kind \<times> bytes, entity_row) tbl"
  ws_secrets :: "(bytes, secret_row) tbl"
  ws_permissions :: "(bytes, permission_row) tbl"
  ws_approvals :: "(approval_id, approval_row) tbl"
  ws_replay :: "(bytes \<times> u64, replay_row) tbl"

record 'a stored_workflow =
  sw_id :: workflow_id
  sw_kind :: workflow_kind
  sw_revision :: u64
  sw_state :: 'a
  sw_irreversible_broadcast_prepared :: bool
  sw_updated_at_unix :: u64

record 'a stored_entity =
  se_kind :: entity_kind
  se_id :: bytes
  se_revision :: u64
  se_value :: 'a
  se_updated_at_unix :: u64

record 'a entity_batch_save =
  bs_id :: bytes
  bs_expected_revision :: u64
  bs_value :: 'a
  bs_updated_at_unix :: u64

record entity_batch_delete =
  bd_id :: bytes
  bd_expected_revision :: u64

record entity_revision_assertion =
  ea_id :: bytes
  ea_expected_revision :: u64

record workflow_revision_assertion =
  wa_id :: workflow_id
  wa_kind :: workflow_kind
  wa_expected_revision :: u64

abbreviation store_key :: "wallet_store \<Rightarrow> (store_error, bytes) result" where
  "store_key s \<equiv> ok_or (ws_key s) SE_Locked"

definition lock :: "wallet_store \<Rightarrow> wallet_store" where
  "lock s = s\<lparr>ws_key := None\<rparr>"

definition is_locked :: "wallet_store \<Rightarrow> bool" where
  "is_locked s \<longleftrightarrow> ws_key s = None"

section \<open>Secrets\<close>

definition put_secret ::
  "crypto \<Rightarrow> wallet_store \<Rightarrow> bytes \<Rightarrow> secret_kind \<Rightarrow> bytes \<Rightarrow> u64 \<Rightarrow>
   (store_error, wallet_store) result" where
  "put_secret C s i kind cleartext updated_at_unix =
     rbind (validate_id i) (\<lambda>_.
     if cleartext = [] \<or> MAX_SECRET_BYTES < length cleartext then Err SE_RecordTooLarge
     else rbind (store_key s) (\<lambda>key.
       let write = rbind (encrypt_record C key (ws_database_id s) (secret_kind_label kind) i cleartext)
             (\<lambda>encrypted. rbind (sql_uint updated_at_unix) (\<lambda>_.
               Ok (s\<lparr>ws_secrets := tbl_put i \<lparr>sr_kind = secret_kind_label kind,
                     sr_value = encrypted, sr_updated = updated_at_unix\<rparr> (ws_secrets s)\<rparr>)))
       in case tbl_get (ws_secrets s) i of
         None \<Rightarrow> write
       | Some row \<Rightarrow>
           if sr_kind row \<noteq> secret_kind_label kind then Err SE_KindMismatch
           else if kind = RecoverySeed then
             rbind (decrypt_record C key (ws_database_id s) (secret_kind_label kind) i (sr_value row))
               (\<lambda>current_clear. if current_clear = cleartext then Ok s else Err SE_ProtectedSecret)
           else write))"

definition get_secret ::
  "crypto \<Rightarrow> wallet_store \<Rightarrow> bytes \<Rightarrow> secret_kind \<Rightarrow> (store_error, bytes option) result" where
  "get_secret C s i expected_kind =
     rbind (validate_id i) (\<lambda>_. rbind (store_key s) (\<lambda>key.
       case tbl_get (ws_secrets s) i of
         None \<Rightarrow> Ok None
       | Some row \<Rightarrow>
           if sr_kind row \<noteq> secret_kind_label expected_kind then Err SE_KindMismatch
           else rbind (decrypt_record C key (ws_database_id s) (secret_kind_label expected_kind) i
                   (sr_value row)) (\<lambda>clear. Ok (Some clear))))"

definition delete_secret ::
  "wallet_store \<Rightarrow> bytes \<Rightarrow> (store_error, bool \<times> wallet_store) result" where
  "delete_secret s i =
     rbind (validate_id i) (\<lambda>_. rbind (store_key s) (\<lambda>_.
       case tbl_get (ws_secrets s) i of
         None \<Rightarrow> Ok (False, s)
       | Some row \<Rightarrow>
           if sr_kind row = secret_kind_label RecoverySeed then Err SE_ProtectedSecret
           else Ok (True, s\<lparr>ws_secrets := tbl_del i (ws_secrets s)\<rparr>)))"

definition recovery_seed_count :: "wallet_store \<Rightarrow> nat" where
  "recovery_seed_count s =
     length (filter (\<lambda>(_, row). sr_kind row = secret_kind_label RecoverySeed) (ws_secrets s))"

definition validate_single_recovery_seed ::
  "crypto \<Rightarrow> wallet_store \<Rightarrow> bytes \<Rightarrow> (store_error, unit) result" where
  "validate_single_recovery_seed C s i =
     rbind (validate_id i) (\<lambda>_. rbind (store_key s) (\<lambda>key.
       case tbl_get (ws_secrets s) i of
         None \<Rightarrow> Err SE_BootstrapConflict
       | Some row \<Rightarrow>
           if sr_kind row \<noteq> secret_kind_label RecoverySeed then Err SE_KindMismatch
           else rbind (decrypt_record C key (ws_database_id s) (secret_kind_label RecoverySeed) i
                   (sr_value row)) (\<lambda>seed.
             if length seed \<noteq> RECOVERY_SEED_BYTES then Err SE_InvalidRecoverySeed
             else if recovery_seed_count s \<noteq> 1 then Err SE_BootstrapConflict
             else Ok ())))"

section \<open>Entities\<close>

definition authenticated_entity_revision ::
  "crypto \<Rightarrow> bytes \<Rightarrow> wallet_store \<Rightarrow> entity_kind \<Rightarrow> bytes \<Rightarrow> (store_error, u64 option) result" where
  "authenticated_entity_revision C key s kind i =
     (case tbl_get (ws_entities s) (kind, i) of
        None \<Rightarrow> Ok None
      | Some row \<Rightarrow>
          rbind (revisioned_aad_id i (er_revision row) (er_updated row) None) (\<lambda>aad_id.
          rbind (decrypt_record C key (ws_database_id s) (entity_label kind) aad_id (er_value row))
            (\<lambda>_. Ok (Some (er_revision row)))))"

definition entity_revision_or_zero ::
  "crypto \<Rightarrow> bytes \<Rightarrow> wallet_store \<Rightarrow> entity_kind \<Rightarrow> bytes \<Rightarrow> (store_error, u64) result" where
  "entity_revision_or_zero C key s kind i =
     rbind (authenticated_entity_revision C key s kind i)
       (\<lambda>r. Ok (case r of None \<Rightarrow> 0 | Some n \<Rightarrow> n))"

definition assert_revision :: "u64 \<Rightarrow> u64 \<Rightarrow> (store_error, unit) result" where
  "assert_revision expected actual =
     (if actual \<noteq> expected then Err (SE_StaleRevision expected actual) else Ok ())"

definition seal_entity ::
  "crypto \<Rightarrow> bytes \<Rightarrow> wallet_store \<Rightarrow> entity_kind \<Rightarrow> bytes \<Rightarrow> u64 \<Rightarrow> bytes \<Rightarrow> u64 \<Rightarrow>
   (store_error, bytes) result" where
  "seal_entity C key s kind i revision encoded updated_at_unix =
     rbind (revisioned_aad_id i revision updated_at_unix None) (\<lambda>aad_id.
       encrypt_record C key (ws_database_id s) (entity_label kind) aad_id encoded)"

definition write_entity ::
  "wallet_store \<Rightarrow> entity_kind \<Rightarrow> bytes \<Rightarrow> u64 \<Rightarrow> bytes \<Rightarrow> u64 \<Rightarrow>
   (store_error, wallet_store) result" where
  "write_entity s kind i revision encrypted updated_at_unix =
     rbind (sql_uint revision) (\<lambda>_. rbind (sql_uint updated_at_unix) (\<lambda>_.
       Ok (s\<lparr>ws_entities := tbl_put (kind, i) \<lparr>er_revision = revision, er_value = encrypted,
             er_updated = updated_at_unix\<rparr> (ws_entities s)\<rparr>)))"

definition remove_entity :: "wallet_store \<Rightarrow> entity_kind \<Rightarrow> bytes \<Rightarrow> wallet_store" where
  "remove_entity s kind i = s\<lparr>ws_entities := tbl_del (kind, i) (ws_entities s)\<rparr>"

definition save_entity ::
  "crypto \<Rightarrow> 'a codec \<Rightarrow> wallet_store \<Rightarrow> entity_kind \<Rightarrow> bytes \<Rightarrow> u64 \<Rightarrow> 'a \<Rightarrow> u64 \<Rightarrow>
   (store_error, u64 \<times> wallet_store) result" where
  "save_entity C J s kind i expected_revision v updated_at_unix =
     rbind (validate_id i) (\<lambda>_.
     rbind (ok_or (js_encode J v) SE_Json) (\<lambda>encoded.
     if encoded = [] \<or> MAX_STATE_BYTES < length encoded then Err SE_RecordTooLarge
     else rbind (store_key s) (\<lambda>key.
       rbind (entity_revision_or_zero C key s kind i) (\<lambda>actual.
       rbind (assert_revision expected_revision actual) (\<lambda>_.
       rbind (ok_or (checked_add_u64 actual 1) SE_RevisionOverflow) (\<lambda>next.
       rbind (seal_entity C key s kind i next encoded updated_at_unix) (\<lambda>encrypted.
       rbind (write_entity s kind i next encrypted updated_at_unix) (\<lambda>s'.
         Ok (next, s')))))))))"

definition open_entity ::
  "crypto \<Rightarrow> 'a codec \<Rightarrow> bytes \<Rightarrow> wallet_store \<Rightarrow> entity_kind \<Rightarrow> bytes \<Rightarrow> entity_row \<Rightarrow>
   (store_error, 'a stored_entity) result" where
  "open_entity C J key s kind i row =
     rbind (revisioned_aad_id i (er_revision row) (er_updated row) None) (\<lambda>aad_id.
     rbind (decrypt_record C key (ws_database_id s) (entity_label kind) aad_id (er_value row))
       (\<lambda>clear. rbind (ok_or (js_decode J clear) SE_Json) (\<lambda>v.
         Ok \<lparr>se_kind = kind, se_id = i, se_revision = er_revision row, se_value = v,
             se_updated_at_unix = er_updated row\<rparr>)))"

definition load_entity ::
  "crypto \<Rightarrow> 'a codec \<Rightarrow> wallet_store \<Rightarrow> entity_kind \<Rightarrow> bytes \<Rightarrow>
   (store_error, 'a stored_entity option) result" where
  "load_entity C J s kind i =
     rbind (validate_id i) (\<lambda>_. rbind (store_key s) (\<lambda>key.
       case tbl_get (ws_entities s) (kind, i) of
         None \<Rightarrow> Ok None
       | Some row \<Rightarrow> rbind (open_entity C J key s kind i row) (\<lambda>e. Ok (Some e))))"

definition delete_entity ::
  "crypto \<Rightarrow> wallet_store \<Rightarrow> entity_kind \<Rightarrow> bytes \<Rightarrow> u64 \<Rightarrow>
   (store_error, bool \<times> wallet_store) result" where
  "delete_entity C s kind i expected_revision =
     rbind (validate_id i) (\<lambda>_.
     if deletion_protected kind then Err SE_ProtectedEntity
     else rbind (store_key s) (\<lambda>key.
       if expected_revision = 0 then Err SE_InvalidRevision
       else rbind (authenticated_entity_revision C key s kind i) (\<lambda>current.
         case current of
           None \<Rightarrow> Ok (False, s)
         | Some actual \<Rightarrow>
             rbind (assert_revision expected_revision actual) (\<lambda>_.
               Ok (True, remove_entity s kind i)))))"

fun check_entity_deletes ::
  "(entity_kind \<times> bytes) list \<Rightarrow> (entity_kind \<times> entity_batch_delete) list \<Rightarrow>
   (store_error, unit) result" where
  "check_entity_deletes seen [] = Ok ()"
| "check_entity_deletes seen ((kind, d) # ds) =
     rbind (validate_id (bd_id d)) (\<lambda>_.
       if deletion_protected kind then Err SE_ProtectedEntity
       else if bd_expected_revision d = 0 then Err SE_InvalidRevision
       else if (kind, bd_id d) \<in> set seen then Err SE_DuplicateBatchEntity
       else check_entity_deletes ((kind, bd_id d) # seen) ds)"

fun authenticate_deletes ::
  "crypto \<Rightarrow> bytes \<Rightarrow> wallet_store \<Rightarrow> (entity_kind \<times> entity_batch_delete) list \<Rightarrow>
   (store_error, unit) result" where
  "authenticate_deletes C key s [] = Ok ()"
| "authenticate_deletes C key s ((kind, d) # ds) =
     rbind (entity_revision_or_zero C key s kind (bd_id d)) (\<lambda>actual.
     rbind (assert_revision (bd_expected_revision d) actual) (\<lambda>_.
       authenticate_deletes C key s ds))"

definition delete_entities ::
  "crypto \<Rightarrow> wallet_store \<Rightarrow> (entity_kind \<times> entity_batch_delete) list \<Rightarrow>
   (store_error, wallet_store) result" where
  "delete_entities C s ds =
     (if ds = [] then Err SE_InvalidRevision
      else if MAX_ENTITY_BATCH_OPERATIONS < length ds then Err SE_BatchCapacity
      else rbind (check_entity_deletes [] ds) (\<lambda>_.
           rbind (store_key s) (\<lambda>key.
           rbind (authenticate_deletes C key s ds) (\<lambda>_.
             Ok (fold (\<lambda>(kind, d) t. remove_entity t kind (bd_id d)) ds s)))))"

definition open_listed ::
  "crypto \<Rightarrow> 'a codec \<Rightarrow> bytes \<Rightarrow> wallet_store \<Rightarrow> entity_kind \<Rightarrow>
   ((entity_kind \<times> bytes) \<times> entity_row) list \<Rightarrow> (store_error, 'a stored_entity list) result" where
  "open_listed C J key s kind rows =
     collect_results (map (\<lambda>((_, i), row).
       rbind (validate_id i) (\<lambda>_. open_entity C J key s kind i row)) rows)"

definition list_entities ::
  "crypto \<Rightarrow> 'a codec \<Rightarrow> wallet_store \<Rightarrow> entity_kind \<Rightarrow> nat \<Rightarrow>
   (store_error, 'a stored_entity list) result" where
  "list_entities C J s kind limit =
     (if limit = 0 \<or> MAX_ENTITY_LIST_RESULTS < limit then Err SE_InvalidListLimit
      else rbind (store_key s) (\<lambda>key.
        open_listed C J key s kind
          (take limit (sort_key (snd \<circ> fst) (filter (\<lambda>((k, _), _). k = kind) (ws_entities s))))))"

definition list_entities_by_id_prefix ::
  "crypto \<Rightarrow> 'a codec \<Rightarrow> wallet_store \<Rightarrow> entity_kind \<Rightarrow> bytes \<Rightarrow> nat \<Rightarrow>
   (store_error, 'a stored_entity list) result" where
  "list_entities_by_id_prefix C J s kind pre limit =
     rbind (validate_id pre) (\<lambda>_.
       if limit = 0 \<or> MAX_ENTITY_LIST_RESULTS < limit then Err SE_InvalidListLimit
       else rbind (store_key s) (\<lambda>key.
         let rows = take (limit + 1) (sort_key (snd \<circ> fst)
               (filter (\<lambda>((k, i), _). k = kind \<and> take (length pre) i = pre) (ws_entities s)))
         in if limit < length rows then Err SE_ListCapacity
            else open_listed C J key s kind rows))"

section \<open>Entity batches\<close>

fun prepare_saves ::
  "'a codec \<Rightarrow> bytes list \<Rightarrow> 'a entity_batch_save list \<Rightarrow>
   (store_error, bytes list \<times> (bytes \<times> u64 \<times> bytes \<times> u64) list) result" where
  "prepare_saves J ids [] = Ok (ids, [])"
| "prepare_saves J ids (save # saves) =
     rbind (validate_id (bs_id save)) (\<lambda>_.
       if bs_id save \<in> set ids then Err SE_DuplicateBatchEntity
       else rbind (ok_or (js_encode J (bs_value save)) SE_Json) (\<lambda>encoded.
         if encoded = [] \<or> MAX_STATE_BYTES < length encoded then Err SE_RecordTooLarge
         else rbind (prepare_saves J (bs_id save # ids) saves) (\<lambda>(ids', prepared).
           Ok (ids', (bs_id save, bs_expected_revision save, encoded, bs_updated_at_unix save)
                     # prepared))))"

fun check_deletes :: "bytes list \<Rightarrow> entity_batch_delete list \<Rightarrow> (store_error, unit) result" where
  "check_deletes ids [] = Ok ()"
| "check_deletes ids (d # ds) =
     rbind (validate_id (bd_id d)) (\<lambda>_.
       if bd_expected_revision d = 0 \<or> bd_id d \<in> set ids then Err SE_DuplicateBatchEntity
       else check_deletes (bd_id d # ids) ds)"

definition prepare_entity_batch ::
  "'a codec \<Rightarrow> 'a entity_batch_save list \<Rightarrow> entity_batch_delete list \<Rightarrow>
   (store_error, (bytes \<times> u64 \<times> bytes \<times> u64) list) result" where
  "prepare_entity_batch J saves deletes =
     (if MAX_ENTITY_BATCH_OPERATIONS < length saves + length deletes then Err SE_BatchCapacity
      else rbind (prepare_saves J [] saves) (\<lambda>(ids, prepared).
           rbind (check_deletes ids deletes) (\<lambda>_. Ok prepared)))"

fun authenticate_saves ::
  "crypto \<Rightarrow> bytes \<Rightarrow> wallet_store \<Rightarrow> entity_kind \<Rightarrow> (bytes \<times> u64 \<times> bytes \<times> u64) list \<Rightarrow>
   (store_error, (bytes \<times> u64 \<times> bytes \<times> u64) list) result" where
  "authenticate_saves C key s kind [] = Ok []"
| "authenticate_saves C key s kind ((i, expected_revision, encoded, updated_at) # saves) =
     rbind (entity_revision_or_zero C key s kind i) (\<lambda>actual.
     rbind (assert_revision expected_revision actual) (\<lambda>_.
     rbind (ok_or (checked_add_u64 actual 1) SE_RevisionOverflow) (\<lambda>next.
     rbind (seal_entity C key s kind i next encoded updated_at) (\<lambda>encrypted.
     rbind (authenticate_saves C key s kind saves) (\<lambda>rest.
       Ok ((i, next, encrypted, updated_at) # rest))))))"

definition authenticate_entity_batch ::
  "crypto \<Rightarrow> bytes \<Rightarrow> wallet_store \<Rightarrow> entity_kind \<Rightarrow> (bytes \<times> u64 \<times> bytes \<times> u64) list \<Rightarrow>
   entity_batch_delete list \<Rightarrow> (store_error, (bytes \<times> u64 \<times> bytes \<times> u64) list) result" where
  "authenticate_entity_batch C key s kind saves deletes =
     (if deletion_protected kind \<and> deletes \<noteq> [] then Err SE_ProtectedEntity
      else rbind (authenticate_saves C key s kind saves) (\<lambda>encrypted_saves.
           rbind (authenticate_deletes C key s (map (Pair kind) deletes)) (\<lambda>_.
             Ok encrypted_saves)))"

fun write_saves ::
  "entity_kind \<Rightarrow> (bytes \<times> u64 \<times> bytes \<times> u64) list \<Rightarrow> wallet_store \<Rightarrow>
   (store_error, wallet_store) result" where
  "write_saves kind [] s = Ok s"
| "write_saves kind ((i, revision, encrypted, updated_at) # saves) s =
     rbind (write_entity s kind i revision encrypted updated_at) (write_saves kind saves)"

definition write_entity_batch ::
  "wallet_store \<Rightarrow> entity_kind \<Rightarrow> (bytes \<times> u64 \<times> bytes \<times> u64) list \<Rightarrow>
   entity_batch_delete list \<Rightarrow> (store_error, wallet_store) result" where
  "write_entity_batch s kind encrypted_saves deletes =
     rbind (write_saves kind encrypted_saves s) (\<lambda>s'.
       Ok (fold (\<lambda>d t. remove_entity t kind (bd_id d)) deletes s'))"

definition apply_entity_batch_in_transaction ::
  "crypto \<Rightarrow> bytes \<Rightarrow> wallet_store \<Rightarrow> entity_kind \<Rightarrow> (bytes \<times> u64 \<times> bytes \<times> u64) list \<Rightarrow>
   entity_batch_delete list \<Rightarrow> (store_error, wallet_store) result" where
  "apply_entity_batch_in_transaction C key s kind saves deletes =
     rbind (authenticate_entity_batch C key s kind saves deletes) (\<lambda>encrypted_saves.
       write_entity_batch s kind encrypted_saves deletes)"

definition apply_entity_batch ::
  "crypto \<Rightarrow> 'a codec \<Rightarrow> wallet_store \<Rightarrow> entity_kind \<Rightarrow> 'a entity_batch_save list \<Rightarrow>
   entity_batch_delete list \<Rightarrow> (store_error, wallet_store) result" where
  "apply_entity_batch C J s kind saves deletes =
     rbind (prepare_entity_batch J saves deletes) (\<lambda>prepared.
     rbind (store_key s) (\<lambda>key.
       apply_entity_batch_in_transaction C key s kind prepared deletes))"

definition consume_authenticated_entity_revision ::
  "crypto \<Rightarrow> bytes \<Rightarrow> wallet_store \<Rightarrow> entity_kind \<Rightarrow> entity_revision_assertion \<Rightarrow> u64 \<Rightarrow>
   (store_error, wallet_store) result" where
  "consume_authenticated_entity_revision C key s kind a consumed_at_unix =
     (case tbl_get (ws_entities s) (kind, ea_id a) of
        None \<Rightarrow> Err (SE_StaleRevision (ea_expected_revision a) 0)
      | Some row \<Rightarrow>
          if er_revision row \<noteq> ea_expected_revision a
          then Err (SE_StaleRevision (ea_expected_revision a) (er_revision row))
          else rbind (revisioned_aad_id (ea_id a) (er_revision row) (er_updated row) None) (\<lambda>aad_id.
               rbind (decrypt_record C key (ws_database_id s) (entity_label kind) aad_id
                   (er_value row)) (\<lambda>plaintext.
               rbind (ok_or (checked_add_u64 (er_revision row) 1) SE_RevisionOverflow) (\<lambda>next.
               rbind (seal_entity C key s kind (ea_id a) next plaintext consumed_at_unix)
                 (\<lambda>encrypted. write_entity s kind (ea_id a) next encrypted consumed_at_unix)))))"

section \<open>Workflows\<close>

definition authenticated_workflow_revision ::
  "crypto \<Rightarrow> bytes \<Rightarrow> wallet_store \<Rightarrow> workflow_id \<Rightarrow> workflow_kind \<Rightarrow> (store_error, u64) result" where
  "authenticated_workflow_revision C key s i expected_kind =
     (case tbl_get (ws_workflows s) i of
        None \<Rightarrow> Ok 0
      | Some row \<Rightarrow>
          rbind (parse_workflow_kind (wr_kind row)) (\<lambda>kind.
            if kind \<noteq> expected_kind then Err SE_WorkflowKindMismatch
            else if wr_version row \<noteq> 1 then Err SE_LegacyEncryptionPending
            else rbind (revisioned_aad_id i (wr_revision row) (wr_updated row)
                   (Some (wr_broadcast row))) (\<lambda>aad_id.
                 rbind (decrypt_record C key (ws_database_id s) (workflow_label kind) aad_id
                   (wr_state row)) (\<lambda>_. Ok (wr_revision row)))))"

definition seal_workflow ::
  "crypto \<Rightarrow> bytes \<Rightarrow> wallet_store \<Rightarrow> workflow_id \<Rightarrow> workflow_kind \<Rightarrow> u64 \<Rightarrow> bytes \<Rightarrow> bool \<Rightarrow> u64 \<Rightarrow>
   (store_error, bytes) result" where
  "seal_workflow C key s i kind revision encoded broadcast updated_at_unix =
     rbind (revisioned_aad_id i revision updated_at_unix (Some broadcast)) (\<lambda>aad_id.
       encrypt_record C key (ws_database_id s) (workflow_label kind) aad_id encoded)"

definition write_workflow ::
  "wallet_store \<Rightarrow> workflow_id \<Rightarrow> workflow_kind \<Rightarrow> u64 \<Rightarrow> bytes \<Rightarrow> bool \<Rightarrow> u64 \<Rightarrow>
   (store_error, wallet_store) result" where
  "write_workflow s i kind revision encrypted broadcast updated_at_unix =
     rbind (sql_uint revision) (\<lambda>_. rbind (sql_uint updated_at_unix) (\<lambda>_.
       let kept_kind = (case tbl_get (ws_workflows s) i of
                          None \<Rightarrow> workflow_kind_label kind | Some row \<Rightarrow> wr_kind row)
       in Ok (s\<lparr>ws_workflows := tbl_put i \<lparr>wr_kind = kept_kind, wr_revision = revision,
             wr_state = encrypted, wr_broadcast = broadcast, wr_updated = updated_at_unix,
             wr_version = 1\<rparr> (ws_workflows s)\<rparr>)))"

definition advance_workflow ::
  "crypto \<Rightarrow> bytes \<Rightarrow> wallet_store \<Rightarrow> workflow_id \<Rightarrow> workflow_kind \<Rightarrow> u64 \<Rightarrow> bytes \<Rightarrow> bool \<Rightarrow> u64 \<Rightarrow>
   (store_error, u64 \<times> wallet_store) result" where
  "advance_workflow C key s i kind actual encoded broadcast updated_at_unix =
     rbind (ok_or (checked_add_u64 actual 1) SE_RevisionOverflow) (\<lambda>next.
     rbind (seal_workflow C key s i kind next encoded broadcast updated_at_unix) (\<lambda>encrypted.
     rbind (write_workflow s i kind next encrypted broadcast updated_at_unix) (\<lambda>s'.
       Ok (next, s'))))"

definition save_workflow ::
  "crypto \<Rightarrow> 'a codec \<Rightarrow> wallet_store \<Rightarrow> workflow_id \<Rightarrow> workflow_kind \<Rightarrow> u64 \<Rightarrow> 'a \<Rightarrow> bool \<Rightarrow> u64 \<Rightarrow>
   (store_error, u64 \<times> wallet_store) result" where
  "save_workflow C J s i kind expected_revision v broadcast updated_at_unix =
     rbind (ok_or (js_encode J v) SE_Json) (\<lambda>encoded.
       if MAX_STATE_BYTES < length encoded then Err SE_RecordTooLarge
       else rbind (store_key s) (\<lambda>key.
         rbind (authenticated_workflow_revision C key s i kind) (\<lambda>actual.
         rbind (assert_revision expected_revision actual) (\<lambda>_.
           advance_workflow C key s i kind actual encoded broadcast updated_at_unix))))"

definition load_workflow ::
  "crypto \<Rightarrow> 'a codec \<Rightarrow> wallet_store \<Rightarrow> workflow_id \<Rightarrow>
   (store_error, 'a stored_workflow option) result" where
  "load_workflow C J s i =
     rbind (store_key s) (\<lambda>key.
       case tbl_get (ws_workflows s) i of
         None \<Rightarrow> Ok None
       | Some row \<Rightarrow>
           if wr_version row \<noteq> 1 then Err SE_LegacyEncryptionPending
           else rbind (parse_workflow_kind (wr_kind row)) (\<lambda>kind.
                rbind (revisioned_aad_id i (wr_revision row) (wr_updated row)
                  (Some (wr_broadcast row))) (\<lambda>aad_id.
                rbind (decrypt_record C key (ws_database_id s) (workflow_label kind) aad_id
                  (wr_state row)) (\<lambda>clear.
                rbind (ok_or (js_decode J clear) SE_Json) (\<lambda>v.
                  Ok (Some \<lparr>sw_id = i, sw_kind = kind, sw_revision = wr_revision row,
                    sw_state = v, sw_irreversible_broadcast_prepared = wr_broadcast row,
                    sw_updated_at_unix = wr_updated row\<rparr>))))))"

section \<open>Composite transactions\<close>

definition encode_state :: "'a codec \<Rightarrow> 'a \<Rightarrow> (store_error, bytes) result" where
  "encode_state J v =
     rbind (ok_or (js_encode J v) SE_Json) (\<lambda>encoded.
       if encoded = [] \<or> MAX_STATE_BYTES < length encoded then Err SE_RecordTooLarge
       else Ok encoded)"

definition save_workflow_with_entity_batch ::
  "crypto \<Rightarrow> 'w codec \<Rightarrow> 'e codec \<Rightarrow> wallet_store \<Rightarrow> workflow_id \<Rightarrow> workflow_kind \<Rightarrow> u64 \<Rightarrow> 'w \<Rightarrow> bool \<Rightarrow>
   u64 \<Rightarrow> entity_kind \<Rightarrow> 'e entity_batch_save list \<Rightarrow> entity_batch_delete list \<Rightarrow>
   (store_error, u64 \<times> wallet_store) result" where
  "save_workflow_with_entity_batch C JW JE s i kind expected_revision v broadcast updated_at_unix
     entity_kind saves deletes =
     rbind (encode_state JW v) (\<lambda>encoded.
     rbind (prepare_entity_batch JE saves deletes) (\<lambda>prepared.
     rbind (store_key s) (\<lambda>key.
     rbind (authenticated_workflow_revision C key s i kind) (\<lambda>actual.
     rbind (assert_revision expected_revision actual) (\<lambda>_.
     rbind (apply_entity_batch_in_transaction C key s entity_kind prepared deletes) (\<lambda>s1.
       advance_workflow C key s1 i kind actual encoded broadcast updated_at_unix))))))"

definition batch_touches :: "'e entity_batch_save list \<Rightarrow> entity_batch_delete list \<Rightarrow> bytes \<Rightarrow> bool" where
  "batch_touches saves deletes i \<longleftrightarrow>
     list_ex (\<lambda>save. bs_id save = i) saves \<or> list_ex (\<lambda>d. bd_id d = i) deletes"

definition save_workflow_with_entity_batch_and_guards ::
  "crypto \<Rightarrow> 'w codec \<Rightarrow> 'e codec \<Rightarrow> wallet_store \<Rightarrow> workflow_id \<Rightarrow> workflow_kind \<Rightarrow> u64 \<Rightarrow> 'w \<Rightarrow> bool \<Rightarrow>
   u64 \<Rightarrow> entity_kind \<Rightarrow> 'e entity_batch_save list \<Rightarrow> entity_batch_delete list \<Rightarrow>
   workflow_revision_assertion \<Rightarrow> entity_kind \<Rightarrow> entity_revision_assertion \<Rightarrow> bool \<Rightarrow>
   (store_error, u64 \<times> wallet_store) result" where
  "save_workflow_with_entity_batch_and_guards C JW JE s i kind expected_revision v broadcast
     updated_at_unix entity_kind saves deletes workflow_guard guard_kind entity_guard consume =
     (if wa_expected_revision workflow_guard = 0 \<or> ea_expected_revision entity_guard = 0 \<or>
         wa_id workflow_guard = i then Err SE_InvalidRevision
      else rbind (validate_id (ea_id entity_guard)) (\<lambda>_.
        if consume \<and> deletion_protected guard_kind then Err SE_ProtectedEntity
        else if guard_kind = entity_kind \<and> batch_touches saves deletes (ea_id entity_guard)
        then Err SE_DuplicateBatchEntity
        else rbind (encode_state JW v) (\<lambda>encoded.
          rbind (prepare_entity_batch JE saves deletes) (\<lambda>prepared.
          rbind (store_key s) (\<lambda>key.
          rbind (authenticated_workflow_revision C key s i kind) (\<lambda>actual.
          rbind (assert_revision expected_revision actual) (\<lambda>_.
          rbind (authenticated_workflow_revision C key s (wa_id workflow_guard)
                   (wa_kind workflow_guard)) (\<lambda>guarded.
          rbind (assert_revision (wa_expected_revision workflow_guard) guarded) (\<lambda>_.
          rbind (entity_revision_or_zero C key s guard_kind (ea_id entity_guard)) (\<lambda>guarded_entity.
          rbind (assert_revision (ea_expected_revision entity_guard) guarded_entity) (\<lambda>_.
          rbind (apply_entity_batch_in_transaction C key s entity_kind prepared deletes) (\<lambda>s1.
          rbind (if consume
                 then consume_authenticated_entity_revision C key s1 guard_kind entity_guard
                        updated_at_unix
                 else Ok s1) (\<lambda>s2.
            advance_workflow C key s2 i kind actual encoded broadcast updated_at_unix)))))))))))))"

definition apply_entity_batch_with_workflow_guard_and_consumed_entity ::
  "crypto \<Rightarrow> 'e codec \<Rightarrow> wallet_store \<Rightarrow> entity_kind \<Rightarrow> 'e entity_batch_save list \<Rightarrow>
   entity_batch_delete list \<Rightarrow> workflow_revision_assertion \<Rightarrow> entity_kind \<Rightarrow>
   entity_revision_assertion \<Rightarrow> u64 \<Rightarrow> (store_error, wallet_store) result" where
  "apply_entity_batch_with_workflow_guard_and_consumed_entity C JE s entity_kind saves deletes
     workflow_guard consumed_kind consumed consumed_at_unix =
     (if wa_expected_revision workflow_guard = 0 \<or> ea_expected_revision consumed = 0 \<or>
         deletion_protected consumed_kind \<or> consumed_at_unix = 0 then Err SE_InvalidRevision
      else rbind (validate_id (ea_id consumed)) (\<lambda>_.
        if consumed_kind = entity_kind \<and> batch_touches saves deletes (ea_id consumed)
        then Err SE_DuplicateBatchEntity
        else rbind (prepare_entity_batch JE saves deletes) (\<lambda>prepared.
          rbind (store_key s) (\<lambda>key.
          rbind (authenticated_workflow_revision C key s (wa_id workflow_guard)
                   (wa_kind workflow_guard)) (\<lambda>guarded.
          rbind (assert_revision (wa_expected_revision workflow_guard) guarded) (\<lambda>_.
          rbind (entity_revision_or_zero C key s consumed_kind (ea_id consumed)) (\<lambda>consumed_revision.
          rbind (assert_revision (ea_expected_revision consumed) consumed_revision) (\<lambda>_.
          rbind (apply_entity_batch_in_transaction C key s entity_kind prepared deletes) (\<lambda>s1.
            consume_authenticated_entity_revision C key s1 consumed_kind consumed
              consumed_at_unix)))))))))"

fun check_assertions ::
  "bytes list \<Rightarrow> entity_revision_assertion list \<Rightarrow> (store_error, unit) result" where
  "check_assertions ids [] = Ok ()"
| "check_assertions ids (a # as) =
     rbind (validate_id (ea_id a)) (\<lambda>_.
       if ea_expected_revision a = 0 then Err SE_InvalidRevision
       else if ea_id a \<in> set ids then Err SE_DuplicateBatchEntity
       else check_assertions (ea_id a # ids) as)"

fun check_unique_ids :: "bytes list \<Rightarrow> bytes list \<Rightarrow> (store_error, bytes list) result" where
  "check_unique_ids ids [] = Ok ids"
| "check_unique_ids ids (i # is) =
     rbind (validate_id i) (\<lambda>_.
       if i \<in> set ids then Err SE_DuplicateBatchEntity else check_unique_ids (i # ids) is)"

definition validate_entity_revision_assertions ::
  "'e entity_batch_save list \<Rightarrow> entity_batch_delete list \<Rightarrow> entity_revision_assertion list \<Rightarrow>
   (store_error, unit) result" where
  "validate_entity_revision_assertions saves deletes assertions =
     (if MAX_ENTITY_BATCH_OPERATIONS < length saves + length deletes + length assertions
      then Err SE_BatchCapacity
      else rbind (check_unique_ids [] (map bs_id saves)) (\<lambda>ids1.
           rbind (check_unique_ids ids1 (map bd_id deletes)) (\<lambda>ids2.
             check_assertions ids2 assertions)))"

fun authenticate_entity_revision_assertions ::
  "crypto \<Rightarrow> bytes \<Rightarrow> wallet_store \<Rightarrow> entity_kind \<Rightarrow> entity_revision_assertion list \<Rightarrow>
   (store_error, unit) result" where
  "authenticate_entity_revision_assertions C key s kind [] = Ok ()"
| "authenticate_entity_revision_assertions C key s kind (a # as) =
     rbind (entity_revision_or_zero C key s kind (ea_id a)) (\<lambda>actual.
     rbind (assert_revision (ea_expected_revision a) actual) (\<lambda>_.
       authenticate_entity_revision_assertions C key s kind as))"

definition apply_entity_batch_with_assertions ::
  "crypto \<Rightarrow> 'e codec \<Rightarrow> wallet_store \<Rightarrow> entity_kind \<Rightarrow> 'e entity_batch_save list \<Rightarrow>
   entity_batch_delete list \<Rightarrow> entity_revision_assertion list \<Rightarrow>
   (store_error, wallet_store) result" where
  "apply_entity_batch_with_assertions C J s kind saves deletes assertions =
     rbind (prepare_entity_batch J saves deletes) (\<lambda>prepared.
     rbind (validate_entity_revision_assertions saves deletes assertions) (\<lambda>_.
     rbind (store_key s) (\<lambda>key.
     rbind (authenticate_entity_batch C key s kind prepared deletes) (\<lambda>encrypted_saves.
     rbind (authenticate_entity_revision_assertions C key s kind assertions) (\<lambda>_.
       write_entity_batch s kind encrypted_saves deletes)))))"

definition initialize_recovery_seed_and_wallet_account ::
  "crypto \<Rightarrow> 'a codec \<Rightarrow> wallet_store \<Rightarrow> bytes \<Rightarrow> bytes \<Rightarrow> bytes \<Rightarrow> 'a \<Rightarrow> u64 \<Rightarrow>
   (store_error, u64 \<times> wallet_store) result" where
  "initialize_recovery_seed_and_wallet_account C J s seed_id seed account_id account updated_at_unix =
     rbind (validate_id seed_id) (\<lambda>_. rbind (validate_id account_id) (\<lambda>_.
     if length seed \<noteq> RECOVERY_SEED_BYTES then Err SE_InvalidRecoverySeed
     else rbind (encode_state J account) (\<lambda>encoded_account.
     rbind (store_key s) (\<lambda>key.
     case tbl_get (ws_secrets s) seed_id of
       Some row \<Rightarrow>
         if sr_kind row \<noteq> secret_kind_label RecoverySeed then Err SE_KindMismatch
         else rbind (decrypt_record C key (ws_database_id s) (secret_kind_label RecoverySeed) seed_id
                 (sr_value row)) (\<lambda>_. Err SE_BootstrapConflict)
     | None \<Rightarrow>
         if recovery_seed_count s \<noteq> 0 then Err SE_BootstrapConflict
         else rbind (authenticated_entity_revision C key s EK_WalletAccount account_id) (\<lambda>present.
           case present of
             Some actual \<Rightarrow> Err (SE_StaleRevision 0 actual)
           | None \<Rightarrow>
               if filter (\<lambda>((k, _), _). k = EK_WalletAccount) (ws_entities s) \<noteq> []
               then Err SE_BootstrapConflict
               else rbind (encrypt_record C key (ws_database_id s) (secret_kind_label RecoverySeed)
                       seed_id seed) (\<lambda>encrypted_seed.
                    rbind (seal_entity C key s EK_WalletAccount account_id 1 encoded_account
                       updated_at_unix) (\<lambda>encrypted_account.
                    rbind (sql_uint updated_at_unix) (\<lambda>_.
                    rbind (write_entity (s\<lparr>ws_secrets := tbl_put seed_id
                          \<lparr>sr_kind = secret_kind_label RecoverySeed, sr_value = encrypted_seed,
                           sr_updated = updated_at_unix\<rparr> (ws_secrets s)\<rparr>)
                        EK_WalletAccount account_id 1 encrypted_account updated_at_unix) (\<lambda>s'.
                      Ok (1, s'))))))))))"

end
