(* ===== verification/Store_Laws.thy ===== *)
theory Store_Laws
  imports Wallet_Store
begin

text \<open>
  The laws of the store's record layer: opening what was sealed, the invariant
  \<open>store_inv\<close> (every row of the workflow, entity and secret tables opens under the record
  key at its own position), its preservation by every operation of \<open>Wallet_Store\<close>, the
  effect of an entity batch, and the contract \<open>revisioned_store\<close> of a compare-and-swap
  table, interpreted on the entity and the workflow rows.
\<close>

section \<open>The record envelope\<close>

lemma validate_id_Ok [simp]:
  "validate_id i = Inr u \<longleftrightarrow> i \<noteq> [] \<and> length i \<le> MAX_RECORD_ID_BYTES"
  by (auto simp: validate_id_def)

lemma record_aad_Ok [simp]:
  "record_aad db kind i = Inr a \<longleftrightarrow> i \<noteq> [] \<and> length i \<le> MAX_RECORD_ID_BYTES + 64 \<and>
     kind \<noteq> [] \<and> length kind \<le> 64 \<and> a = AAD_DOMAIN @ db @ byte_str kind @ [0] @ i"
  by (auto simp: record_aad_def)

lemma revisioned_aad_id_Ok [simp]:
  "revisioned_aad_id i r u b = Inr a \<longleftrightarrow> i \<noteq> [] \<and> length i \<le> MAX_RECORD_ID_BYTES \<and>
     a = i @ be_bytes 8 r @ be_bytes 8 u @ (case b of None \<Rightarrow> [] | Some p \<Rightarrow> [if p then 1 else 0])"
  by (auto simp: revisioned_aad_id_def)

lemma assert_revision_Ok [simp]: "assert_revision e a = Inr u \<longleftrightarrow> a = e"
  by (auto simp: assert_revision_def)

lemma encrypt_record_Ok:
  assumes "encrypt_record C key db kind i m = Inr env"
  obtains nonce aad c where "fill_random C kind i = Some nonce" "record_aad db kind i = Inr aad"
    "seal C key nonce aad m = Some c" "env = nonce @ c" "m \<noteq> []" "length m \<le> MAX_SECRET_BYTES"
  using assms by (auto simp: encrypt_record_def if_Inl_eq_Inr split: if_splits option.splits)

lemma decrypt_encrypt:
  assumes law: "crypto_law C" and enc: "encrypt_record C key db kind i m = Inr env"
  shows "decrypt_record C key db kind i env = Inr m"
proof -
  from enc obtain nonce aad c where
    n: "fill_random C kind i = Some nonce" and a: "record_aad db kind i = Inr aad" and
    c: "seal C key nonce aad m = Some c" and e: "env = nonce @ c" and m: "m \<noteq> []" and
    b: "length m \<le> MAX_SECRET_BYTES"
    by (rule encrypt_record_Ok)
  from law n c have ln: "length nonce = NONCE_BYTES" and u: "unseal C key nonce aad c = Some m" and
    lc: "length c = length m + TAG_BYTES"
    by (auto simp: crypto_law_def)
  have "validate_encrypted_record_length (length env) = Inr ()"
    using m b lc ln e by (auto simp: validate_encrypted_record_length_def MAX_ENCRYPTED_RECORD_BYTES_def)
  then show ?thesis
    using a e ln u by (simp add: decrypt_record_def)
qed

lemma parse_workflow_kind_label: "parse_workflow_kind (workflow_kind_label k) = Inr k"
  by (cases k) (simp_all add: parse_workflow_kind_def)

lemma parse_workflow_kind_inv: "parse_workflow_kind l = Inr k \<longleftrightarrow> l = workflow_kind_label k"
  by (auto simp: parse_workflow_kind_label) (auto simp: parse_workflow_kind_def split: if_splits)

section \<open>The store invariant\<close>

definition entity_opens :: "crypto \<Rightarrow> bytes \<Rightarrow> bytes \<Rightarrow> entity_kind \<Rightarrow> bytes \<Rightarrow> entity_row \<Rightarrow> bool" where
  "entity_opens C key db kind i row \<longleftrightarrow> 0 < er_revision row \<and> er_revision row < 2 ^ 63 \<and>
     is_ok (rbind (revisioned_aad_id i (er_revision row) (er_updated row) None) (\<lambda>a.
       decrypt_record C key db (entity_label kind) a (er_value row)))"

definition workflow_opens :: "crypto \<Rightarrow> bytes \<Rightarrow> bytes \<Rightarrow> workflow_id \<Rightarrow> workflow_row \<Rightarrow> bool" where
  "workflow_opens C key db i row \<longleftrightarrow> 0 < wr_revision row \<and> wr_revision row < 2 ^ 63 \<and>
     wr_version row = 1 \<and>
     is_ok (rbind (parse_workflow_kind (wr_kind row)) (\<lambda>kind.
       rbind (revisioned_aad_id i (wr_revision row) (wr_updated row) (Some (wr_broadcast row))) (\<lambda>a.
       decrypt_record C key db (workflow_label kind) a (wr_state row))))"

definition secret_opens :: "crypto \<Rightarrow> bytes \<Rightarrow> bytes \<Rightarrow> bytes \<Rightarrow> secret_row \<Rightarrow> bool" where
  "secret_opens C key db i row \<longleftrightarrow> is_ok (decrypt_record C key db (sr_kind row) i (sr_value row))"

definition store_inv :: "crypto \<Rightarrow> bytes \<Rightarrow> wallet_store \<Rightarrow> bool" where
  "store_inv C key s \<longleftrightarrow> (ws_key s = None \<or> ws_key s = Some key) \<and>
     tbl_wf (ws_entities s) \<and> tbl_wf (ws_workflows s) \<and> tbl_wf (ws_secrets s) \<and>
     (\<forall>kind i row. tbl_get (ws_entities s) (kind, i) = Some row \<longrightarrow>
        entity_opens C key (ws_database_id s) kind i row) \<and>
     (\<forall>i row. tbl_get (ws_workflows s) i = Some row \<longrightarrow>
        workflow_opens C key (ws_database_id s) i row) \<and>
     (\<forall>i row. tbl_get (ws_secrets s) i = Some row \<longrightarrow>
        secret_opens C key (ws_database_id s) i row)"

definition entity_rev :: "wallet_store \<Rightarrow> entity_kind \<Rightarrow> bytes \<Rightarrow> u64" where
  "entity_rev s kind i = (case tbl_get (ws_entities s) (kind, i) of None \<Rightarrow> 0 | Some r \<Rightarrow> er_revision r)"

definition workflow_rev :: "wallet_store \<Rightarrow> workflow_id \<Rightarrow> u64" where
  "workflow_rev s i = (case tbl_get (ws_workflows s) i of None \<Rightarrow> 0 | Some r \<Rightarrow> wr_revision r)"

lemma store_inv_key: "store_inv C key s \<Longrightarrow> store_key s = Inr k \<Longrightarrow> k = key"
  by (auto simp: store_inv_def ok_or_def split: option.splits)

lemma entity_revision_or_zero_Ok:
  "entity_revision_or_zero C key s kind i = Inr n \<Longrightarrow> n = entity_rev s kind i"
  by (auto simp: entity_revision_or_zero_def authenticated_entity_revision_def entity_rev_def
      split: option.splits)

lemma entity_revision_or_zero_inv:
  "store_inv C key s \<Longrightarrow> entity_revision_or_zero C key s kind i = Inr (entity_rev s kind i)"
  by (fastforce simp: store_inv_def entity_opens_def is_ok_iff entity_revision_or_zero_def
      authenticated_entity_revision_def entity_rev_def split: option.splits)

lemma authenticated_workflow_revision_Ok:
  "authenticated_workflow_revision C key s i kind = Inr n \<Longrightarrow> n = workflow_rev s i"
  by (auto simp: authenticated_workflow_revision_def workflow_rev_def if_Inl_eq_Inr
      split: option.splits if_splits)

lemma seal_entity_opens:
  assumes "crypto_law C" and "seal_entity C key s kind i r m u = Inr e" and "0 < r" and "r < 2 ^ 63"
  shows "entity_opens C key (ws_database_id s) kind i \<lparr>er_revision = r, er_value = e, er_updated = u\<rparr>"
  using assms by (auto simp: seal_entity_def entity_opens_def is_ok_iff dest: decrypt_encrypt)

lemma write_entity_Ok:
  "write_entity s kind i r e u = Inr s' \<longleftrightarrow> r < 2 ^ 63 \<and> u < 2 ^ 63 \<and>
     s' = s\<lparr>ws_entities := tbl_put (kind, i) \<lparr>er_revision = r, er_value = e, er_updated = u\<rparr>
            (ws_entities s)\<rparr>"
  by (auto simp: write_entity_def)

lemma write_entity_inv:
  assumes law: "crypto_law C" and inv: "store_inv C key s"
    and e: "entity_opens C key (ws_database_id s) kind i \<lparr>er_revision = r, er_value = e, er_updated = u\<rparr>"
    and w: "write_entity s kind i r e u = Inr s'"
  shows "store_inv C key s'"
  using assms by (auto simp: write_entity_Ok store_inv_def table_simps)

lemma remove_entity_inv: "store_inv C key s \<Longrightarrow> store_inv C key (remove_entity s kind i)"
  by (auto simp: remove_entity_def store_inv_def table_simps split: if_splits)

lemma seal_workflow_opens:
  assumes "crypto_law C" and "seal_workflow C key s i kind r m b u = Inr e" and "0 < r" "r < 2 ^ 63"
  shows "workflow_opens C key (ws_database_id s) i \<lparr>wr_kind = workflow_kind_label kind,
    wr_revision = r, wr_state = e, wr_broadcast = b, wr_updated = u, wr_version = 1\<rparr>"
  using assms
  by (auto simp: seal_workflow_def workflow_opens_def is_ok_iff parse_workflow_kind_label
      dest: decrypt_encrypt)

lemma advance_workflow_Ok:
  assumes "advance_workflow C key s i kind a m b u = Inr (n, s')"
    and "\<And>row. tbl_get (ws_workflows s) i = Some row \<Longrightarrow> wr_kind row = workflow_kind_label kind"
  obtains e where "n = a + 1" "n < 2 ^ 63" "u < 2 ^ 63" "seal_workflow C key s i kind n m b u = Inr e"
    "s' = s\<lparr>ws_workflows := tbl_put i \<lparr>wr_kind = workflow_kind_label kind, wr_revision = n,
       wr_state = e, wr_broadcast = b, wr_updated = u, wr_version = 1\<rparr> (ws_workflows s)\<rparr>"
  using assms
  by (auto simp: advance_workflow_def write_workflow_def Let_def split: option.splits)

lemma advance_workflow_row:
  assumes "advance_workflow C key s i kind a m b u = Inr (n, s')"
    and "\<And>row. tbl_get (ws_workflows s) i = Some row \<Longrightarrow> wr_kind row = workflow_kind_label kind"
  shows "\<exists>row. n = a + 1 \<and> wr_revision row = n \<and> wr_kind row = workflow_kind_label kind \<and>
     s' = s\<lparr>ws_workflows := tbl_put i row (ws_workflows s)\<rparr>"
  using assms
proof (rule advance_workflow_Ok)
  fix e
  let ?row = "\<lparr>wr_kind = workflow_kind_label kind, wr_revision = n, wr_state = e, wr_broadcast = b,
    wr_updated = u, wr_version = 1\<rparr>"
  assume "n = a + 1" "s' = s\<lparr>ws_workflows := tbl_put i ?row (ws_workflows s)\<rparr>"
  then show ?thesis by (intro exI [of _ ?row]) simp
qed simp

lemma authenticated_workflow_kind:
  assumes "authenticated_workflow_revision C key s i kind = Inr a" "tbl_get (ws_workflows s) i = Some row"
  shows "wr_kind row = workflow_kind_label kind"
  using assms
  by (auto simp: authenticated_workflow_revision_def if_Inl_eq_Inr parse_workflow_kind_inv
      split: if_splits)

lemma advance_workflow_inv:
  assumes "crypto_law C" "store_inv C key s" "advance_workflow C key s i kind a m b u = Inr (n, s')"
    and "\<And>row. tbl_get (ws_workflows s) i = Some row \<Longrightarrow> wr_kind row = workflow_kind_label kind"
  shows "store_inv C key s'"
proof -
  from assms(3,4) obtain e where
    e: "n = a + 1" "n < 2 ^ 63" "seal_workflow C key s i kind n m b u = Inr e" and
    s': "s' = s\<lparr>ws_workflows := tbl_put i \<lparr>wr_kind = workflow_kind_label kind, wr_revision = n,
       wr_state = e, wr_broadcast = b, wr_updated = u, wr_version = 1\<rparr> (ws_workflows s)\<rparr>"
    by (rule advance_workflow_Ok) auto
  show ?thesis
    using seal_workflow_opens [OF assms(1) e(3)] e(1,2) assms(2)
    by (auto simp: s' store_inv_def table_simps)
qed

section \<open>Operations keep the invariant\<close>

lemma encode_state_Ok:
  "encode_state J v = Inr m \<longleftrightarrow> js_encode J v = Some m \<and> m \<noteq> [] \<and> length m \<le> MAX_STATE_BYTES"
  by (auto simp: encode_state_def if_Inl_eq_Inr ok_or_def split: option.splits)

lemma save_entity_Ok:
  assumes "save_entity C J s kind i r v u = Inr (n, s')"
  obtains key m e where "store_key s = Inr key" "js_encode J v = Some m"
    "entity_rev s kind i = r" "n = r + 1" "n < 2 ^ 63" "u < 2 ^ 63"
    "seal_entity C key s kind i n m u = Inr e"
    "s' = s\<lparr>ws_entities := tbl_put (kind, i) \<lparr>er_revision = n, er_value = e, er_updated = u\<rparr>
            (ws_entities s)\<rparr>"
  using assms
  by (auto simp: save_entity_def if_Inl_eq_Inr write_entity_Ok ok_or_def
      dest!: entity_revision_or_zero_Ok split: option.splits if_splits)

lemma save_entity_inv:
  assumes "crypto_law C" "store_inv C key s" "save_entity C J s kind i r v u = Inr (n, s')"
  shows "store_inv C key s'"
  using assms(3)
proof (rule save_entity_Ok)
  fix k m e
  assume k: "store_key s = Inr k" and e: "seal_entity C k s kind i n m u = Inr e"
    and n: "n = r + 1" "n < 2 ^ 63" "u < 2 ^ 63"
    and s': "s' = s\<lparr>ws_entities := tbl_put (kind, i) \<lparr>er_revision = n, er_value = e, er_updated = u\<rparr>
            (ws_entities s)\<rparr>"
  have k': "k = key" using store_inv_key [OF assms(2) k] .
  have w: "write_entity s kind i n e u = Inr s'" using n s' by (simp add: write_entity_Ok)
  have "0 < n" using n by simp
  from seal_entity_opens [OF assms(1) e [unfolded k'] this n(2)] w show ?thesis
    by (rule write_entity_inv [OF assms(1,2)])
qed

lemma save_workflow_Ok:
  assumes "save_workflow C J s i kind r v b u = Inr (n, s')"
  obtains key m where "store_key s = Inr key" "js_encode J v = Some m" "workflow_rev s i = r"
    "authenticated_workflow_revision C key s i kind = Inr r"
    "advance_workflow C key s i kind r m b u = Inr (n, s')"
  using assms
  by (auto simp: save_workflow_def if_Inl_eq_Inr ok_or_def
      dest: authenticated_workflow_revision_Ok split: option.splits if_splits)

lemma save_workflow_inv:
  assumes "crypto_law C" "store_inv C key s" "save_workflow C J s i kind r v b u = Inr (n, s')"
  shows "store_inv C key s'"
  using assms(3)
proof (rule save_workflow_Ok)
  fix k m
  assume "store_key s = Inr k" "authenticated_workflow_revision C k s i kind = Inr r"
    "advance_workflow C k s i kind r m b u = Inr (n, s')"
  then show ?thesis
    using advance_workflow_inv [OF assms(1,2)] authenticated_workflow_kind store_inv_key [OF assms(2)]
    by blast
qed

lemma delete_entity_inv:
  "store_inv C key s \<Longrightarrow> delete_entity C' s kind i r = Inr (b, s') \<Longrightarrow> store_inv C key s'"
  by (auto simp: delete_entity_def if_Inl_eq_Inr intro: remove_entity_inv split: if_splits option.splits)

lemma fold_remove_inv:
  "store_inv C key s \<Longrightarrow> store_inv C key (fold (\<lambda>d t. remove_entity t (f d) (g d)) ds s)"
  by (induction ds arbitrary: s) (auto intro: remove_entity_inv)

lemma delete_entities_inv:
  "store_inv C key s \<Longrightarrow> delete_entities C' s ds = Inr s' \<Longrightarrow> store_inv C key s'"
  using fold_remove_inv [of C key s fst "bd_id \<circ> snd" ds]
  by (auto simp: delete_entities_def if_Inl_eq_Inr case_prod_unfold split: if_splits)

lemma put_secret_Ok:
  assumes "put_secret C s i kind m u = Inr s'"
  shows "s' = s \<or> (\<exists>key e. store_key s = Inr key \<and>
     encrypt_record C key (ws_database_id s) (secret_kind_label kind) i m = Inr e \<and>
     s' = s\<lparr>ws_secrets := tbl_put i \<lparr>sr_kind = secret_kind_label kind, sr_value = e, sr_updated = u\<rparr>
            (ws_secrets s)\<rparr>)"
  using assms by (auto simp: put_secret_def Let_def if_Inl_eq_Inr split: option.splits if_splits)

lemma put_secret_inv:
  assumes "crypto_law C" "store_inv C key s" "put_secret C s i kind m u = Inr s'"
  shows "store_inv C key s'"
  using put_secret_Ok [OF assms(3)]
proof (elim disjE exE conjE)
  fix k e
  assume k: "store_key s = Inr k"
    and e: "encrypt_record C k (ws_database_id s) (secret_kind_label kind) i m = Inr e"
    and s': "s' = s\<lparr>ws_secrets := tbl_put i \<lparr>sr_kind = secret_kind_label kind, sr_value = e,
        sr_updated = u\<rparr> (ws_secrets s)\<rparr>"
  have "k = key" using store_inv_key [OF assms(2) k] .
  with decrypt_encrypt [OF assms(1) e] assms(2) show ?thesis
    by (auto simp: s' store_inv_def table_simps secret_opens_def)
qed (use assms(2) in simp)

lemma delete_secret_inv:
  "store_inv C key s \<Longrightarrow> delete_secret s i = Inr (b, s') \<Longrightarrow> store_inv C key s'"
  by (auto simp: delete_secret_def store_inv_def table_simps split: option.splits if_splits)

lemma lock_inv: "store_inv C key s \<Longrightarrow> store_inv C key (lock s)"
  by (simp add: lock_def store_inv_def)

section \<open>Entity batches\<close>

lemma prepare_saves_Ok:
  "prepare_saves J ids saves = Inr (ids', ps) \<Longrightarrow>
     distinct (map bs_id saves) \<and> set (map bs_id saves) \<inter> set ids = {} \<and>
     set ids' = set ids \<union> set (map bs_id saves) \<and>
     list_all2 (\<lambda>save (i, r, m, u). i = bs_id save \<and> r = bs_expected_revision save \<and>
        u = bs_updated_at_unix save \<and> js_encode J (bs_value save) = Some m \<and> m \<noteq> []) saves ps"
  by (induction J ids saves arbitrary: ids' ps rule: prepare_saves.induct)
     (fastforce simp: if_Inl_eq_Inr ok_or_def split: option.splits if_splits)+

lemma check_deletes_Ok:
  "check_deletes ids ds = Inr u \<Longrightarrow> distinct (map bd_id ds) \<and> set (map bd_id ds) \<inter> set ids = {} \<and>
     (\<forall>d\<in>set ds. 0 < bd_expected_revision d)"
  by (induction ids ds rule: check_deletes.induct) (auto simp: if_Inl_eq_Inr split: if_splits)

lemma authenticate_saves_Ok:
  "authenticate_saves C key s kind ps = Inr es \<Longrightarrow>
     list_all2 (\<lambda>(i, r, m, u) (i', n, e, u'). i' = i \<and> u' = u \<and> n = r + 1 \<and> entity_rev s kind i = r \<and>
       seal_entity C key s kind i n m u = Inr e) ps es"
  by (induction C key s kind ps arbitrary: es rule: authenticate_saves.induct)
     (auto dest!: entity_revision_or_zero_Ok)

lemma authenticate_deletes_Ok:
  "authenticate_deletes C key s ds = Inr u \<Longrightarrow>
     (\<forall>(kind, d)\<in>set ds. entity_rev s kind (bd_id d) = bd_expected_revision d)"
  by (induction C key s ds rule: authenticate_deletes.induct) (auto dest!: entity_revision_or_zero_Ok)

lemma write_saves_Ok:
  "write_saves kind es s = Inr s' \<Longrightarrow>
     (\<forall>(i, n, e, u)\<in>set es. n < 2 ^ 63 \<and> u < 2 ^ 63) \<and>
     s' = s\<lparr>ws_entities := fold (\<lambda>(i, n, e, u). tbl_put (kind, i)
            \<lparr>er_revision = n, er_value = e, er_updated = u\<rparr>) es (ws_entities s)\<rparr>"
proof (induction kind es s arbitrary: s' rule: write_saves.induct)
  case (2 kind i n e u es s)
  let ?t = "s\<lparr>ws_entities := tbl_put (kind, i) \<lparr>er_revision = n, er_value = e, er_updated = u\<rparr>
              (ws_entities s)\<rparr>"
  from "2.prems" have w: "write_saves kind es ?t = Inr s'" and b: "n < 2 ^ 63" "u < 2 ^ 63"
    by (auto simp: write_entity_Ok)
  from "2.IH" [OF w] b show ?case by simp
qed simp

lemma fold_remove_entity:
  "fold (\<lambda>d t. remove_entity t (f d) (g d)) ds s =
     s\<lparr>ws_entities := fold (\<lambda>d. tbl_del (f d, g d)) ds (ws_entities s)\<rparr>"
  by (induction ds arbitrary: s) (auto simp: remove_entity_def)

lemma tbl_get_fold_del:
  "tbl_get (fold (\<lambda>d. tbl_del (g d)) ds t) k = (if k \<in> g ` set ds then None else tbl_get t k)"
  by (induction ds arbitrary: t) (auto simp: tbl_get_del)

lemma tbl_get_fold_put_other:
  "k \<notin> f ` set es \<Longrightarrow> tbl_get (fold (\<lambda>e. tbl_put (f e) (g e)) es t) k = tbl_get t k"
  by (induction es arbitrary: t) (auto simp: tbl_get_put)

lemma tbl_get_fold_put_mem:
  "distinct (map f es) \<Longrightarrow> e \<in> set es \<Longrightarrow> tbl_get (fold (\<lambda>e. tbl_put (f e) (g e)) es t) (f e) = Some (g e)"
proof (induction es arbitrary: t)
  case (Cons x xs)
  then show ?case
    using tbl_get_fold_put_other [of "f e" f xs g "tbl_put (f x) (g x) t"]
    by (cases "e = x") (auto simp: tbl_get_put)
qed simp

definition batch_effect ::
  "crypto \<Rightarrow> 'a codec \<Rightarrow> bytes \<Rightarrow> entity_kind \<Rightarrow> 'a entity_batch_save list \<Rightarrow> entity_batch_delete list \<Rightarrow>
   wallet_store \<Rightarrow> wallet_store \<Rightarrow> bool" where
  "batch_effect C J key kind saves deletes s s' \<longleftrightarrow>
     s' = s\<lparr>ws_entities := ws_entities s'\<rparr> \<and>
     (tbl_wf (ws_entities s) \<longrightarrow> tbl_wf (ws_entities s')) \<and>
     (\<forall>save\<in>set saves. entity_rev s kind (bs_id save) = bs_expected_revision save \<and>
        (\<exists>m e. js_encode J (bs_value save) = Some m \<and>
           bs_expected_revision save + 1 < 2 ^ 63 \<and>
           seal_entity C key s kind (bs_id save) (bs_expected_revision save + 1) m
             (bs_updated_at_unix save) = Inr e \<and>
           tbl_get (ws_entities s') (kind, bs_id save) =
             Some \<lparr>er_revision = bs_expected_revision save + 1, er_value = e,
                   er_updated = bs_updated_at_unix save\<rparr>)) \<and>
     (\<forall>d\<in>set deletes. entity_rev s kind (bd_id d) = bd_expected_revision d \<and>
        0 < bd_expected_revision d \<and> \<not> deletion_protected kind \<and>
        tbl_get (ws_entities s') (kind, bd_id d) = None) \<and>
     (\<forall>k i. \<not> (k = kind \<and> batch_touches saves deletes i) \<longrightarrow>
        tbl_get (ws_entities s') (k, i) = tbl_get (ws_entities s) (k, i))"

lemma batch_touches_iff:
  "batch_touches saves deletes i \<longleftrightarrow> i \<in> bs_id ` set saves \<or> i \<in> bd_id ` set deletes"
  by (auto simp: batch_touches_def list_ex_iff)

lemma tbl_wf_fold_put: "tbl_wf t \<Longrightarrow> tbl_wf (fold (\<lambda>e. tbl_put (f e) (g e)) es t)"
  by (induction es arbitrary: t) (auto simp: table_simps)

lemma tbl_wf_fold_del: "tbl_wf t \<Longrightarrow> tbl_wf (fold (\<lambda>d. tbl_del (g d)) ds t)"
  by (induction ds arbitrary: t) (auto simp: table_simps)

lemma write_batch_get:
  assumes "write_entity_batch s kind es deletes = Inr s'"
  shows "s' = s\<lparr>ws_entities := ws_entities s'\<rparr>"
    and "tbl_wf (ws_entities s) \<Longrightarrow> tbl_wf (ws_entities s')"
    and "\<And>i n e u. distinct (map fst es) \<Longrightarrow> (i, n, e, u) \<in> set es \<Longrightarrow> i \<notin> bd_id ` set deletes \<Longrightarrow>
       n < 2 ^ 63 \<and> tbl_get (ws_entities s') (kind, i) = Some \<lparr>er_revision = n, er_value = e, er_updated = u\<rparr>"
    and "\<And>d. d \<in> set deletes \<Longrightarrow> tbl_get (ws_entities s') (kind, bd_id d) = None"
    and "\<And>k i. \<not> (k = kind \<and> (i \<in> fst ` set es \<or> i \<in> bd_id ` set deletes)) \<Longrightarrow>
       tbl_get (ws_entities s') (k, i) = tbl_get (ws_entities s) (k, i)"
proof -
  let ?key = "\<lambda>x. (kind, fst x)"
  let ?row = "\<lambda>x. \<lparr>er_revision = fst (snd x), er_value = fst (snd (snd x)), er_updated = snd (snd (snd x))\<rparr>"
  let ?E = "fold (\<lambda>x. tbl_put (?key x) (?row x)) es (ws_entities s)"
  let ?D = "fold (\<lambda>d. tbl_del (kind, bd_id d)) deletes ?E"
  from assms obtain s1 where w: "write_saves kind es s = Inr s1"
    and s': "s' = fold (\<lambda>d t. remove_entity t kind (bd_id d)) deletes s1"
    by (auto simp: write_entity_batch_def)
  from write_saves_Ok [OF w] have s1: "s1 = s\<lparr>ws_entities := ?E\<rparr>"
    and bound: "\<forall>(i, n, e, u)\<in>set es. n < 2 ^ 63 \<and> u < 2 ^ 63"
    by (auto simp: case_prod_unfold)
  have eq: "s' = s\<lparr>ws_entities := ?D\<rparr>"
    by (simp add: s' s1 fold_remove_entity)
  then show "s' = s\<lparr>ws_entities := ws_entities s'\<rparr>" by simp
  show "tbl_wf (ws_entities s) \<Longrightarrow> tbl_wf (ws_entities s')"
    by (simp add: eq tbl_wf_fold_put tbl_wf_fold_del)
  show "tbl_get (ws_entities s') (kind, bd_id d) = None" if "d \<in> set deletes" for d
    using that by (simp add: eq tbl_get_fold_del)
  show "n < 2 ^ 63 \<and> tbl_get (ws_entities s') (kind, i) = Some \<lparr>er_revision = n, er_value = e, er_updated = u\<rparr>"
    if "distinct (map fst es)" "(i, n, e, u) \<in> set es" "i \<notin> bd_id ` set deletes" for i n e u
  proof -
    have "distinct (map ?key es)" using that(1) by (simp add: distinct_map inj_on_def)
    from tbl_get_fold_put_mem [of ?key, OF this that(2), of ?row "ws_entities s"] that bound show ?thesis
      by (auto simp: eq tbl_get_fold_del)
  qed
  show "tbl_get (ws_entities s') (k, i) = tbl_get (ws_entities s) (k, i)"
    if "\<not> (k = kind \<and> (i \<in> fst ` set es \<or> i \<in> bd_id ` set deletes))" for k i
    using that tbl_get_fold_put_other [of "(k, i)" ?key es ?row "ws_entities s"]
    by (auto simp: eq tbl_get_fold_del image_iff)
qed

lemma prepared_saves_authenticated:
  assumes ps: "prepare_saves J [] saves = Inr (ids, ps)"
    and es: "authenticate_saves C key s kind ps = Inr es"
  shows "map fst es = map bs_id saves"
    and "\<And>save. save \<in> set saves \<Longrightarrow> \<exists>m e.
      (bs_id save, bs_expected_revision save + 1, e, bs_updated_at_unix save) \<in> set es \<and>
      entity_rev s kind (bs_id save) = bs_expected_revision save \<and>
      js_encode J (bs_value save) = Some m \<and> seal_entity C key s kind (bs_id save)
        (bs_expected_revision save + 1) m (bs_updated_at_unix save) = Inr e"
proof -
  have zip: "list_all2 (\<lambda>save (i, n, e, u). i = bs_id save \<and> u = bs_updated_at_unix save \<and>
      entity_rev s kind i = bs_expected_revision save \<and> n = bs_expected_revision save + 1 \<and>
      (\<exists>m. js_encode J (bs_value save) = Some m \<and> seal_entity C key s kind i n m u = Inr e)) saves es"
    using prepare_saves_Ok [OF ps] authenticate_saves_Ok [OF es]
    by (elim conjE) (erule (1) list_all2_trans [rotated], auto)
  then show "map fst es = map bs_id saves"
    by (induction rule: list_all2_induct) auto
  show "\<exists>m e. (bs_id save, bs_expected_revision save + 1, e, bs_updated_at_unix save) \<in> set es \<and>
      entity_rev s kind (bs_id save) = bs_expected_revision save \<and>
      js_encode J (bs_value save) = Some m \<and> seal_entity C key s kind (bs_id save)
        (bs_expected_revision save + 1) m (bs_updated_at_unix save) = Inr e"
    if "save \<in> set saves" for save
    using zip that by (induction rule: list_all2_induct) fastforce+
qed

lemma apply_batch_effect:
  assumes p: "prepare_entity_batch J saves deletes = Inr ps"
    and a: "apply_entity_batch_in_transaction C key s kind ps deletes = Inr s'"
  shows "batch_effect C J key kind saves deletes s s'"
proof -
  from p obtain ids where ps: "prepare_saves J [] saves = Inr (ids, ps)"
    and cd: "check_deletes ids deletes = Inr ()"
    by (auto simp: prepare_entity_batch_def if_Inl_eq_Inr split: if_splits)
  from a obtain es where es: "authenticate_saves C key s kind ps = Inr es"
    and ds: "authenticate_deletes C key s (map (Pair kind) deletes) = Inr ()"
    and prot: "deletes \<noteq> [] \<longrightarrow> \<not> deletion_protected kind"
    and w: "write_entity_batch s kind es deletes = Inr s'"
    by (auto simp: apply_entity_batch_in_transaction_def authenticate_entity_batch_def if_Inl_eq_Inr
        split: if_splits)
  note P = prepare_saves_Ok [OF ps] and D = check_deletes_Ok [OF cd]
    and F = authenticate_deletes_Ok [OF ds]
    and ids = prepared_saves_authenticated(1) [OF ps es]
    and saves = prepared_saves_authenticated(2) [OF ps es]
  have mem: "fst ` set es = bs_id ` set saves" using ids by (metis list.set_map)
  have dist: "distinct (map fst es)" using P ids by simp
  have disj: "bs_id save \<notin> bd_id ` set deletes" if "save \<in> set saves" for save
    using P D that by auto
  note W = write_batch_get [OF w]
  show ?thesis
    unfolding batch_effect_def
  proof (intro conjI ballI allI impI)
    fix save assume save: "save \<in> set saves"
    from saves [OF this] show "entity_rev s kind (bs_id save) = bs_expected_revision save" by blast
    from saves [OF save] W(3) [OF dist _ disj [OF save]]
    show "\<exists>m e. js_encode J (bs_value save) = Some m \<and> bs_expected_revision save + 1 < 2 ^ 63 \<and>
       seal_entity C key s kind (bs_id save) (bs_expected_revision save + 1) m (bs_updated_at_unix save) = Inr e \<and>
       tbl_get (ws_entities s') (kind, bs_id save) = Some \<lparr>er_revision = bs_expected_revision save + 1,
         er_value = e, er_updated = bs_updated_at_unix save\<rparr>" by metis
  qed (use W D F prot mem in \<open>auto simp: batch_touches_iff\<close>)
qed

lemma batch_effect_frame:
  assumes "batch_effect C J key kind saves deletes s s'"
  shows "ws_workflows s' = ws_workflows s" "ws_secrets s' = ws_secrets s" "ws_key s' = ws_key s"
    "ws_database_id s' = ws_database_id s" "ws_permissions s' = ws_permissions s"
    "ws_approvals s' = ws_approvals s" "ws_replay s' = ws_replay s"
  using assms unfolding batch_effect_def
  by (metis wallet_store.ext_inject wallet_store.surjective wallet_store.update_convs(4))+

lemma batch_effect_inv:
  assumes law: "crypto_law C" and inv: "store_inv C key s"
    and eff: "batch_effect C J key kind saves deletes s s'"
  shows "store_inv C key s'"
proof -
  have "entity_opens C key (ws_database_id s) k i row"
    if get: "tbl_get (ws_entities s') (k, i) = Some row" for k i row
  proof (cases "k = kind \<and> batch_touches saves deletes i")
    case True
    with get eff obtain save where save: "save \<in> set saves" "i = bs_id save"
      by (auto simp: batch_effect_def batch_touches_iff)
    with eff True get obtain m e where
      "seal_entity C key s kind (bs_id save) (bs_expected_revision save + 1) m
         (bs_updated_at_unix save) = Inr e" "bs_expected_revision save + 1 < 2 ^ 63"
      "row = \<lparr>er_revision = bs_expected_revision save + 1, er_value = e,
         er_updated = bs_updated_at_unix save\<rparr>"
      unfolding batch_effect_def by (metis option.inject)
    with seal_entity_opens [OF law] True save show ?thesis by simp
  next
    case False
    with eff have "tbl_get (ws_entities s') (k, i) = tbl_get (ws_entities s) (k, i)"
      unfolding batch_effect_def by blast
    with inv get show ?thesis by (auto simp: store_inv_def)
  qed
  moreover have "tbl_wf (ws_entities s')" using eff inv by (auto simp: batch_effect_def store_inv_def)
  ultimately show ?thesis
    using inv by (auto simp: store_inv_def batch_effect_frame [OF eff])
qed

lemma consume_Ok:
  assumes "consume_authenticated_entity_revision C key s kind a u = Inr s'"
  obtains row m e where "tbl_get (ws_entities s) (kind, ea_id a) = Some row"
    "er_revision row = ea_expected_revision a"
    "rbind (revisioned_aad_id (ea_id a) (er_revision row) (er_updated row) None)
       (\<lambda>x. decrypt_record C key (ws_database_id s) (entity_label kind) x (er_value row)) = Inr m"
    "seal_entity C key s kind (ea_id a) (ea_expected_revision a + 1) m u = Inr e"
    "write_entity s kind (ea_id a) (ea_expected_revision a + 1) e u = Inr s'"
  using assms
  by (auto simp: consume_authenticated_entity_revision_def if_Inl_eq_Inr ok_or_def
      split: option.splits if_splits)

lemma consume_inv:
  assumes "crypto_law C" "store_inv C key s"
    "consume_authenticated_entity_revision C key s kind a u = Inr s'"
  shows "store_inv C key s'"
  using assms(3)
proof (rule consume_Ok)
  fix m e
  assume e: "seal_entity C key s kind (ea_id a) (ea_expected_revision a + 1) m u = Inr e"
    and w: "write_entity s kind (ea_id a) (ea_expected_revision a + 1) e u = Inr s'"
  from w have "ea_expected_revision a + 1 < 2 ^ 63" by (simp add: write_entity_Ok)
  from seal_entity_opens [OF assms(1) e _ this] w show ?thesis
    by (auto intro: write_entity_inv [OF assms(1,2)])
qed

lemma apply_entity_batch_inv:
  assumes "crypto_law C" "store_inv C key s" "apply_entity_batch C J s kind saves deletes = Inr s'"
  shows "store_inv C key s'"
  using assms(3) store_inv_key [OF assms(2)] batch_effect_inv [OF assms(1,2) apply_batch_effect]
  unfolding apply_entity_batch_def rbind_eq_Inr by blast

lemma save_workflow_with_entity_batch_inv:
  assumes law: "crypto_law C" and inv: "store_inv C key s"
    and "save_workflow_with_entity_batch C JW JE s i kind r v b u ek saves deletes = Inr (n, s')"
  shows "store_inv C key s'"
proof -
  from assms(3) obtain m ps k s1 where p: "prepare_entity_batch JE saves deletes = Inr ps"
    and k: "store_key s = Inr k" and w: "authenticated_workflow_revision C k s i kind = Inr r"
    and a: "apply_entity_batch_in_transaction C k s ek ps deletes = Inr s1"
    and adv: "advance_workflow C k s1 i kind r m b u = Inr (n, s')"
    unfolding save_workflow_with_entity_batch_def rbind_eq_Inr assert_revision_Ok by blast
  have kk: "k = key" using store_inv_key [OF inv k] .
  have eff: "batch_effect C JE key ek saves deletes s s1"
    using apply_batch_effect [OF p a] kk by simp
  show ?thesis
    using advance_workflow_inv [OF law batch_effect_inv [OF law inv eff] adv [unfolded kk]]
      authenticated_workflow_kind [OF w] batch_effect_frame(1) [OF eff] by metis
qed

lemma save_workflow_with_entity_batch_and_guards_Ok:
  assumes "save_workflow_with_entity_batch_and_guards C JW JE s i kind r v b u ek saves deletes wg gk eg
      consume = Inr (n, s')"
  obtains m ps key s1 s2 where "js_encode JW v = Some m" "prepare_entity_batch JE saves deletes = Inr ps"
    "store_key s = Inr key" "authenticated_workflow_revision C key s i kind = Inr r"
    "workflow_rev s (wa_id wg) = wa_expected_revision wg" "wa_id wg \<noteq> i"
    "entity_rev s gk (ea_id eg) = ea_expected_revision eg"
    "0 < wa_expected_revision wg" "0 < ea_expected_revision eg"
    "apply_entity_batch_in_transaction C key s ek ps deletes = Inr s1"
    "(if consume then consume_authenticated_entity_revision C key s1 gk eg u else Inr s1) = Inr s2"
    "advance_workflow C key s2 i kind r m b u = Inr (n, s')"
    "\<not> (gk = ek \<and> batch_touches saves deletes (ea_id eg))" "consume \<longrightarrow> \<not> deletion_protected gk"
  using assms
  unfolding save_workflow_with_entity_batch_and_guards_def if_Inl_eq_Inr rbind_eq_Inr
    assert_revision_Ok encode_state_Ok
  by (auto dest!: authenticated_workflow_revision_Ok [of _ _ _ "wa_id wg"] entity_revision_or_zero_Ok)

lemma consume_workflows:
  assumes "(if c then consume_authenticated_entity_revision C key s k a u else Inr s) = Inr s'"
  shows "ws_workflows s' = ws_workflows s"
  using assms by (auto elim!: consume_Ok simp: write_entity_Ok split: if_splits)

lemma save_workflow_with_entity_batch_and_guards_inv:
  assumes law: "crypto_law C" and inv: "store_inv C key s"
    and "save_workflow_with_entity_batch_and_guards C JW JE s i kind r v b u ek saves deletes wg gk eg
      consume = Inr (n, s')"
  shows "store_inv C key s'"
  using assms(3)
proof (rule save_workflow_with_entity_batch_and_guards_Ok)
  fix m ps k s1 s2
  assume p: "prepare_entity_batch JE saves deletes = Inr ps"
    and k: "store_key s = Inr k" and w: "authenticated_workflow_revision C k s i kind = Inr r"
    and a: "apply_entity_batch_in_transaction C k s ek ps deletes = Inr s1"
    and c: "(if consume then consume_authenticated_entity_revision C k s1 gk eg u else Inr s1) = Inr s2"
    and adv: "advance_workflow C k s2 i kind r m b u = Inr (n, s')"
  have kk: "k = key" using store_inv_key [OF inv k] .
  have eff: "batch_effect C JE key ek saves deletes s s1"
    using apply_batch_effect [OF p a] kk by simp
  have "store_inv C key s2"
    using batch_effect_inv [OF law inv eff] consume_inv [OF law] c kk by (auto split: if_splits)
  moreover have "ws_workflows s2 = ws_workflows s"
    using consume_workflows [OF c] batch_effect_frame(1) [OF eff] by simp
  ultimately show ?thesis
    using advance_workflow_inv [OF law _ adv [unfolded kk]] authenticated_workflow_kind [OF w] by metis
qed

lemma apply_entity_batch_with_workflow_guard_and_consumed_entity_Ok:
  assumes "apply_entity_batch_with_workflow_guard_and_consumed_entity C JE s ek saves deletes wg ck c u
      = Inr s'"
  obtains ps key s1 where "prepare_entity_batch JE saves deletes = Inr ps" "store_key s = Inr key"
    "workflow_rev s (wa_id wg) = wa_expected_revision wg" "0 < wa_expected_revision wg"
    "entity_rev s ck (ea_id c) = ea_expected_revision c" "0 < ea_expected_revision c"
    "apply_entity_batch_in_transaction C key s ek ps deletes = Inr s1"
    "consume_authenticated_entity_revision C key s1 ck c u = Inr s'"
    "\<not> (ck = ek \<and> batch_touches saves deletes (ea_id c))" "\<not> deletion_protected ck" "u \<noteq> 0"
  using assms
  unfolding apply_entity_batch_with_workflow_guard_and_consumed_entity_def if_Inl_eq_Inr rbind_eq_Inr
    assert_revision_Ok
  by (auto dest!: authenticated_workflow_revision_Ok entity_revision_or_zero_Ok)

lemma apply_entity_batch_with_workflow_guard_and_consumed_entity_inv:
  assumes law: "crypto_law C" and inv: "store_inv C key s"
    and "apply_entity_batch_with_workflow_guard_and_consumed_entity C JE s ek saves deletes wg ck c u
      = Inr s'"
  shows "store_inv C key s'"
  using assms(3)
proof (rule apply_entity_batch_with_workflow_guard_and_consumed_entity_Ok)
  fix ps k s1
  assume p: "prepare_entity_batch JE saves deletes = Inr ps" and k: "store_key s = Inr k"
    and a: "apply_entity_batch_in_transaction C k s ek ps deletes = Inr s1"
    and c: "consume_authenticated_entity_revision C k s1 ck c u = Inr s'"
  have kk: "k = key" using store_inv_key [OF inv k] .
  show ?thesis
    using consume_inv [OF law batch_effect_inv [OF law inv apply_batch_effect [OF p a [unfolded kk]]]
        c [unfolded kk]] .
qed

lemma apply_entity_batch_with_assertions_Ok:
  assumes "apply_entity_batch_with_assertions C J s kind saves deletes as = Inr s'"
  shows "apply_entity_batch C J s kind saves deletes = Inr s'"
  using assms
  by (auto simp: apply_entity_batch_with_assertions_def apply_entity_batch_def
      apply_entity_batch_in_transaction_def)

lemma initialize_Ok:
  assumes "initialize_recovery_seed_and_wallet_account C J s sid seed aid account u = Inr (n, s')"
  obtains key m es ea s1 where "store_key s = Inr key" "js_encode J account = Some m" "n = 1"
    "length seed = RECOVERY_SEED_BYTES" "tbl_get (ws_secrets s) sid = None" "recovery_seed_count s = 0"
    "encrypt_record C key (ws_database_id s) (secret_kind_label RecoverySeed) sid seed = Inr es"
    "seal_entity C key s EK_WalletAccount aid 1 m u = Inr ea"
    "sid \<noteq> []" "length sid \<le> MAX_RECORD_ID_BYTES" "aid \<noteq> []" "length aid \<le> MAX_RECORD_ID_BYTES"
    "s1 = s\<lparr>ws_secrets := tbl_put sid \<lparr>sr_kind = secret_kind_label RecoverySeed, sr_value = es,
       sr_updated = u\<rparr> (ws_secrets s)\<rparr>"
    "write_entity s1 EK_WalletAccount aid 1 ea u = Inr s'"
    "\<forall>i. tbl_get (ws_entities s) (EK_WalletAccount, i) = None"
proof -
  have none: "filter (\<lambda>((k, _), _). k = EK_WalletAccount) (ws_entities s) = [] \<Longrightarrow>
      \<forall>i. tbl_get (ws_entities s) (EK_WalletAccount, i) = None"
    by (auto simp: filter_empty_conv map_of_eq_None_iff)
  from assms show thesis
    unfolding initialize_recovery_seed_and_wallet_account_def if_Inl_eq_Inr rbind_eq_Inr encode_state_Ok
    by (auto simp del: filter_empty_conv filter_False split: option.splits if_splits
        simp: if_Inl_eq_Inr intro!: that dest!: none)
qed

lemma write_secret_inv:
  assumes "store_inv C key s" "decrypt_record C key (ws_database_id s) (sr_kind row) i (sr_value row) = Inr m"
  shows "store_inv C key (s\<lparr>ws_secrets := tbl_put i row (ws_secrets s)\<rparr>)"
  using assms by (auto simp: store_inv_def table_simps secret_opens_def)

lemma initialize_inv:
  assumes law: "crypto_law C" and inv: "store_inv C key s"
    and "initialize_recovery_seed_and_wallet_account C J s sid seed aid account u = Inr (n, s')"
  shows "store_inv C key s'"
  using assms(3)
proof (rule initialize_Ok)
  fix k m es ea s1
  assume k: "store_key s = Inr k"
    and es: "encrypt_record C k (ws_database_id s) (secret_kind_label RecoverySeed) sid seed = Inr es"
    and ea: "seal_entity C k s EK_WalletAccount aid 1 m u = Inr ea"
    and s1: "s1 = s\<lparr>ws_secrets := tbl_put sid \<lparr>sr_kind = secret_kind_label RecoverySeed,
       sr_value = es, sr_updated = u\<rparr> (ws_secrets s)\<rparr>"
    and w: "write_entity s1 EK_WalletAccount aid 1 ea u = Inr s'"
  have kk: "k = key" using store_inv_key [OF inv k] .
  have inv1: "store_inv C key s1"
    using write_secret_inv [OF inv, of "\<lparr>sr_kind = secret_kind_label RecoverySeed, sr_value = es,
        sr_updated = u\<rparr>"] decrypt_encrypt [OF law es] by (simp add: s1 kk)
  have "entity_opens C key (ws_database_id s1) EK_WalletAccount aid
      \<lparr>er_revision = 1, er_value = ea, er_updated = u\<rparr>"
    using seal_entity_opens [OF law ea] by (simp add: s1 kk)
  from write_entity_inv [OF law inv1 this w] show ?thesis .
qed

section \<open>Compare-and-swap stores\<close>

fun run_commits :: "('s \<Rightarrow> 'w \<Rightarrow> 'e + nat \<times> 's) \<Rightarrow> 's \<Rightarrow> 'w list \<Rightarrow> 's \<times> 'w list" where
  "run_commits c s [] = (s, [])"
| "run_commits c s (w # ws) =
     (case c s w of
        Inl _ \<Rightarrow> run_commits c s ws
      | Inr (_, s') \<Rightarrow> (case run_commits c s' ws of (t, accepted) \<Rightarrow> (t, w # accepted)))"

locale revisioned_store =
  fixes invar :: "'s \<Rightarrow> bool"
    and revision :: "'s \<Rightarrow> 'k \<Rightarrow> nat"
    and lookup :: "'s \<Rightarrow> 'k \<Rightarrow> 'v option"
    and commit :: "'s \<Rightarrow> 'w \<Rightarrow> 'e + nat \<times> 's"
    and wkey :: "'w \<Rightarrow> 'k" and wexpected :: "'w \<Rightarrow> nat" and wvalue :: "'w \<Rightarrow> 'v"
  assumes commit_inv: "invar s \<Longrightarrow> commit s w = Inr (n, s') \<Longrightarrow> invar s'"
    and commit_cas: "invar s \<Longrightarrow> commit s w = Inr (n, s') \<Longrightarrow>
      revision s (wkey w) = wexpected w \<and> n = wexpected w + 1 \<and> revision s' (wkey w) = n"
    and commit_lookup: "invar s \<Longrightarrow> commit s w = Inr (n, s') \<Longrightarrow> lookup s' (wkey w) = Some (wvalue w)"
    and commit_frame: "invar s \<Longrightarrow> commit s w = Inr (n, s') \<Longrightarrow> k \<noteq> wkey w \<Longrightarrow>
      revision s' k = revision s k \<and> lookup s' k = lookup s k"
begin

lemma second_writer_loses:
  assumes "invar s" "commit s w = Inr (n, s')" "wkey w2 = wkey w" "wexpected w2 = wexpected w"
  shows "\<exists>e. commit s' w2 = Inl e"
proof (cases "commit s' w2")
  case (Inr r)
  then obtain n2 s2 where "commit s' w2 = Inr (n2, s2)" by (cases r) auto
  with commit_cas [OF commit_inv [OF assms(1,2)] this] commit_cas [OF assms(1,2)] assms(3,4)
  show ?thesis by simp
qed simp

lemma run_commits_linear:
  assumes "invar s" "run_commits commit s ws = (t, accepted)"
  shows "invar t \<and>
    map wexpected (filter (\<lambda>w. wkey w = k) accepted) = [revision s k ..< revision t k] \<and>
    revision t k = revision s k + length (filter (\<lambda>w. wkey w = k) accepted) \<and>
    lookup t k = (case filter (\<lambda>w. wkey w = k) accepted of
       [] \<Rightarrow> lookup s k | w # ws \<Rightarrow> Some (wvalue (last (w # ws))))"
  using assms
proof (induction ws arbitrary: s t accepted)
  case (Cons w ws)
  show ?case
  proof (cases "commit s w")
    case (Inl e)
    with Cons show ?thesis by simp
  next
    case (Inr r)
    then obtain n s' where c: "commit s w = Inr (n, s')" by (cases r) auto
    from Cons.prems c obtain acc where run: "run_commits commit s' ws = (t, acc)"
      and acc: "accepted = w # acc"
      by (auto split: prod.splits)
    note inv' = commit_inv [OF Cons.prems(1) c]
    note IH = Cons.IH [OF inv' run]
    show ?thesis
    proof (cases "wkey w = k")
      case True
      have "revision s k < revision t k" "revision s' k = Suc (revision s k)"
        using IH commit_cas [OF Cons.prems(1) c] True by auto
      then have "[revision s k ..< revision t k] = revision s k # [revision s' k ..< revision t k]"
        by (simp only: upt_conv_Cons)
      with IH commit_cas [OF Cons.prems(1) c] commit_lookup [OF Cons.prems(1) c] True show ?thesis
        by (auto simp: acc split: list.splits)
    next
      case False
      with IH commit_frame [OF Cons.prems(1) c, of k] show ?thesis by (auto simp: acc split: list.splits)
    qed
  qed
qed simp

end


record 'a entity_write =
  ew_kind :: entity_kind
  ew_id :: bytes
  ew_expected :: u64
  ew_value :: 'a
  ew_updated :: u64

record 'a workflow_write =
  ww_id :: workflow_id
  ww_kind :: workflow_kind
  ww_expected :: u64
  ww_state :: 'a
  ww_broadcast :: bool
  ww_updated :: u64

definition commit_entity ::
  "crypto \<Rightarrow> 'a codec \<Rightarrow> wallet_store \<Rightarrow> 'a entity_write \<Rightarrow> (store_error, u64 \<times> wallet_store) result" where
  "commit_entity C J s w = save_entity C J s (ew_kind w) (ew_id w) (ew_expected w) (ew_value w) (ew_updated w)"

definition commit_workflow ::
  "crypto \<Rightarrow> 'a codec \<Rightarrow> wallet_store \<Rightarrow> 'a workflow_write \<Rightarrow> (store_error, u64 \<times> wallet_store) result" where
  "commit_workflow C J s w = save_workflow C J s (ww_id w) (ww_kind w) (ww_expected w) (ww_state w)
     (ww_broadcast w) (ww_updated w)"

definition lookup_entity :: "crypto \<Rightarrow> 'a codec \<Rightarrow> wallet_store \<Rightarrow> entity_kind \<times> bytes \<Rightarrow> 'a option" where
  "lookup_entity C J s k = (case load_entity C J s (fst k) (snd k) of
     Inr (Some e) \<Rightarrow> Some (se_value e) | _ \<Rightarrow> None)"

definition lookup_workflow :: "crypto \<Rightarrow> 'a codec \<Rightarrow> wallet_store \<Rightarrow> workflow_id \<Rightarrow> 'a option" where
  "lookup_workflow C J s i = (case load_workflow C J s i of Inr (Some w) \<Rightarrow> Some (sw_state w) | _ \<Rightarrow> None)"

lemma seal_entity_open:
  assumes "crypto_law C" "codec_law J" "js_encode J v = Some m" "seal_entity C key s kind i n m u = Inr e"
    "er_revision row = n" "er_value row = e" "er_updated row = u"
  shows "open_entity C J key s kind i row = Inr \<lparr>se_kind = kind, se_id = i, se_revision = n,
    se_value = v, se_updated_at_unix = u\<rparr>"
  using assms by (auto simp: open_entity_def seal_entity_def codec_law_def dest!: decrypt_encrypt)

lemma seal_entity_id: "seal_entity C key s kind i n m u = Inr e \<Longrightarrow> validate_id i = Inr ()"
  by (auto simp: seal_entity_def)

lemma load_save_entity:
  assumes "crypto_law C" "codec_law J" "save_entity C J s kind i r v u = Inr (n, s')"
  shows "load_entity C J s' kind i = Inr (Some \<lparr>se_kind = kind, se_id = i, se_revision = n,
    se_value = v, se_updated_at_unix = u\<rparr>)"
  using assms(3)
proof (rule save_entity_Ok)
  fix k m e
  assume k: "store_key s = Inr k" and m: "js_encode J v = Some m"
    and e: "seal_entity C k s kind i n m u = Inr e"
    and s': "s' = s\<lparr>ws_entities := tbl_put (kind, i) \<lparr>er_revision = n, er_value = e, er_updated = u\<rparr>
            (ws_entities s)\<rparr>"
  have "seal_entity C k s' kind i n m u = Inr e" using e by (simp add: s' seal_entity_def)
  from seal_entity_open [OF assms(1,2) m this] seal_entity_id [OF this] k show ?thesis
    by (simp add: load_entity_def s' tbl_get_put)
qed

lemma load_entity_frame:
  assumes "tbl_get (ws_entities s') (kind, i) = tbl_get (ws_entities s) (kind, i)" "ws_key s' = ws_key s"
    "ws_database_id s' = ws_database_id s"
  shows "load_entity C J s' kind i = load_entity C J s kind i"
  using assms by (simp add: load_entity_def open_entity_def cong: option.case_cong)

lemma load_workflow_frame:
  assumes "tbl_get (ws_workflows s') i = tbl_get (ws_workflows s) i" "ws_key s' = ws_key s"
    "ws_database_id s' = ws_database_id s"
  shows "load_workflow C J s' i = load_workflow C J s i"
  using assms by (simp add: load_workflow_def cong: option.case_cong if_cong)

lemma load_advanced_workflow:
  assumes law: "crypto_law C" "codec_law J" and m: "js_encode J v = Some m"
    and adv: "advance_workflow C key s i kind r m b u = Inr (n, s')" and k: "store_key s = Inr key"
    and kind: "\<And>row. tbl_get (ws_workflows s) i = Some row \<Longrightarrow> wr_kind row = workflow_kind_label kind"
  shows "load_workflow C J s' i = Inr (Some \<lparr>sw_id = i, sw_kind = kind, sw_revision = n, sw_state = v,
    sw_irreversible_broadcast_prepared = b, sw_updated_at_unix = u\<rparr>)"
  using adv kind
proof (rule advance_workflow_Ok)
  fix e
  assume e: "seal_workflow C key s i kind n m b u = Inr e"
    and s': "s' = s\<lparr>ws_workflows := tbl_put i \<lparr>wr_kind = workflow_kind_label kind, wr_revision = n,
       wr_state = e, wr_broadcast = b, wr_updated = u, wr_version = 1\<rparr> (ws_workflows s)\<rparr>"
  from e k m law show ?thesis
    by (auto simp: s' load_workflow_def tbl_get_put seal_workflow_def parse_workflow_kind_label codec_law_def
        dest!: decrypt_encrypt)
qed auto

lemma load_save_workflow:
  assumes "crypto_law C" "codec_law J" "save_workflow C J s i kind r v b u = Inr (n, s')"
  shows "load_workflow C J s' i = Inr (Some \<lparr>sw_id = i, sw_kind = kind, sw_revision = n, sw_state = v,
    sw_irreversible_broadcast_prepared = b, sw_updated_at_unix = u\<rparr>)"
  using assms(3)
  by (rule save_workflow_Ok)
     (erule (1) load_advanced_workflow [OF assms(1,2)], simp, blast dest: authenticated_workflow_kind)

definition store_laws :: "crypto \<Rightarrow> 'a codec \<Rightarrow> bytes \<Rightarrow> wallet_store \<Rightarrow> bool" where
  "store_laws C J key s \<longleftrightarrow> crypto_law C \<and> codec_law J \<and> store_inv C key s"

interpretation entity_rows: revisioned_store "store_laws C J key" "\<lambda>s k. entity_rev s (fst k) (snd k)"
  "lookup_entity C J" "commit_entity C J" "\<lambda>w. (ew_kind w, ew_id w)" ew_expected ew_value
  for C :: crypto and J :: "'a codec" and key :: bytes
proof
  fix s w n s'
  assume laws: "store_laws C J key s" and c: "commit_entity C J s w = Inr (n, s')"
  show "store_laws C J key s'"
    using laws c by (auto simp: store_laws_def commit_entity_def intro: save_entity_inv)
  show "entity_rev s (fst (ew_kind w, ew_id w)) (snd (ew_kind w, ew_id w)) = ew_expected w \<and>
      n = ew_expected w + 1 \<and> entity_rev s' (fst (ew_kind w, ew_id w)) (snd (ew_kind w, ew_id w)) = n"
    using c by (auto simp: commit_entity_def entity_rev_def tbl_get_put elim!: save_entity_Ok)
  show "lookup_entity C J s' (ew_kind w, ew_id w) = Some (ew_value w)"
    using laws c load_save_entity by (fastforce simp: store_laws_def commit_entity_def lookup_entity_def)
  show "entity_rev s' (fst k) (snd k) = entity_rev s (fst k) (snd k) \<and>
      lookup_entity C J s' k = lookup_entity C J s k" if "k \<noteq> (ew_kind w, ew_id w)" for k
  proof -
    from c obtain row where s': "s' = s\<lparr>ws_entities := tbl_put (ew_kind w, ew_id w) row (ws_entities s)\<rparr>"
      by (auto simp: commit_entity_def elim!: save_entity_Ok)
    have get: "tbl_get (ws_entities s') (fst k, snd k) = tbl_get (ws_entities s) (fst k, snd k)"
      using that by (cases k) (auto simp: s' tbl_get_put)
    with load_entity_frame [OF this, of C J] show ?thesis
      by (simp add: lookup_entity_def entity_rev_def s')
  qed
qed

interpretation workflow_rows: revisioned_store "store_laws C J key" workflow_rev
  "lookup_workflow C J" "commit_workflow C J" ww_id ww_expected ww_state
  for C :: crypto and J :: "'a codec" and key :: bytes
proof
  fix s w n s'
  assume laws: "store_laws C J key s" and c: "commit_workflow C J s w = Inr (n, s')"
  show "store_laws C J key s'"
    using laws c by (auto simp: store_laws_def commit_workflow_def intro: save_workflow_inv)
  from c obtain k m where r: "workflow_rev s (ww_id w) = ww_expected w"
    and a: "authenticated_workflow_revision C k s (ww_id w) (ww_kind w) = Inr (ww_expected w)"
    and adv: "advance_workflow C k s (ww_id w) (ww_kind w) (ww_expected w) m (ww_broadcast w)
      (ww_updated w) = Inr (n, s')"
    by (auto simp: commit_workflow_def elim!: save_workflow_Ok)
  from advance_workflow_row [OF adv authenticated_workflow_kind [OF a]] obtain row where
    n: "n = ww_expected w + 1" "wr_revision row = n"
    and s': "s' = s\<lparr>ws_workflows := tbl_put (ww_id w) row (ws_workflows s)\<rparr>"
    by blast
  show "workflow_rev s (ww_id w) = ww_expected w \<and> n = ww_expected w + 1 \<and> workflow_rev s' (ww_id w) = n"
    using r n by (simp add: s' workflow_rev_def tbl_get_put)
  show "lookup_workflow C J s' (ww_id w) = Some (ww_state w)"
    using laws c load_save_workflow by (fastforce simp: store_laws_def commit_workflow_def lookup_workflow_def)
  show "workflow_rev s' k = workflow_rev s k \<and> lookup_workflow C J s' k = lookup_workflow C J s k"
    if "k \<noteq> ww_id w" for k
    using that load_workflow_frame [of s' k s C J]
    by (simp add: s' workflow_rev_def lookup_workflow_def tbl_get_put)
qed

lemma save_workflow_with_entity_batch_Ok:
  assumes "save_workflow_with_entity_batch C JW JE s i kind r v b u ek saves deletes = Inr (n, s')"
  obtains key m s1 where "store_key s = Inr key" "js_encode JW v = Some m"
    "authenticated_workflow_revision C key s i kind = Inr r" "batch_effect C JE key ek saves deletes s s1"
    "advance_workflow C key s1 i kind r m b u = Inr (n, s')"
  using assms apply_batch_effect
  unfolding save_workflow_with_entity_batch_def rbind_eq_Inr assert_revision_Ok encode_state_Ok by blast

end
