(* ===== verification/Provider_Store.thy ===== *)
theory Provider_Store
  imports Store_Laws
begin

text \<open>
  The provider tables of \<open>hns-wallet-store\<close>: permissions by origin with a generation counter
  and a revocation tombstone, pending approvals that are consumed once, and the replay
  protection rows. An origin is the UTF-8 text of the source as bytes. Rows are located by
  a keyed token of the origin; the token function is \<open>hmac_sha256\<close> of the \<open>crypto\<close> record, and
  nothing below relies on it being collision free, because every read compares the origin
  inside the ciphertext with the one asked for.
\<close>

section \<open>Origins, tokens and record identifiers\<close>

type_synonym origin_text = bytes

definition MAX_PROVIDER_PERMISSIONS :: nat where "MAX_PROVIDER_PERMISSIONS = 4096"
definition MAX_PENDING_APPROVALS :: nat where "MAX_PENDING_APPROVALS = 4096"
definition MAX_REPLAY_ROWS_PER_ORIGIN :: nat where "MAX_REPLAY_ROWS_PER_ORIGIN = 4096"
definition MAX_REPLAY_ORIGINS :: nat where "MAX_REPLAY_ORIGINS = 4096"
definition MAX_REPLAY_ROWS :: nat where "MAX_REPLAY_ROWS = 65536"
definition MAX_REPLAY_LIFETIME_SECONDS :: u64 where "MAX_REPLAY_LIFETIME_SECONDS = 86400"
definition MAX_APPROVAL_LIFETIME_SECONDS :: u64 where "MAX_APPROVAL_LIFETIME_SECONDS = 3600"
definition ORIGIN_TOKEN_DOMAIN :: bytes where
  "ORIGIN_TOKEN_DOMAIN = byte_str ''hns-wallet-store/origin-token/v1''"

definition validate_origin :: "origin_text \<Rightarrow> (store_error, unit) result" where
  "validate_origin origin =
     (if origin = [] \<or> 512 < length origin \<or> \<not> list_all (\<lambda>b. b < 128) origin
      then Err SE_InvalidOrigin else Ok ())"

definition origin_lookup_token :: "crypto \<Rightarrow> bytes \<Rightarrow> bytes \<Rightarrow> origin_text \<Rightarrow> bytes" where
  "origin_lookup_token C key db origin = hmac_sha256 C key (ORIGIN_TOKEN_DOMAIN @ db @ origin)"

definition encode_origin_payload :: "origin_text \<Rightarrow> bytes \<Rightarrow> (store_error, bytes) result" where
  "encode_origin_payload origin payload =
     rbind (validate_origin origin) (\<lambda>_.
       if payload = [] then Err SE_RecordTooLarge
       else if 2 ^ 16 \<le> length origin then Err SE_InvalidOrigin
       else if MAX_SECRET_BYTES < 2 + length origin + length payload then Err SE_RecordTooLarge
       else Ok (be_bytes 2 (length origin) @ origin @ payload))"

definition decode_origin_payload :: "bytes \<Rightarrow> (store_error, origin_text \<times> bytes) result" where
  "decode_origin_payload encoded =
     (if length encoded < 3 \<or> MAX_SECRET_BYTES < length encoded then Err SE_Encryption
      else let payload_offset = 2 + be_value (take 2 encoded) 0
           in if length encoded \<le> payload_offset then Err SE_Encryption
              else let origin = take (payload_offset - 2) (drop 2 encoded)
                   in rbind (map_err (\<lambda>_. SE_Encryption) (validate_origin origin)) (\<lambda>_.
                        Ok (origin, drop payload_offset encoded)))"

definition permission_record_id :: "bytes \<Rightarrow> u64 \<Rightarrow> bool \<Rightarrow> u64 \<Rightarrow> bytes" where
  "permission_record_id token generation revoked updated_at_unix =
     token @ be_bytes 8 generation @ [if revoked then 1 else 0] @ be_bytes 8 updated_at_unix"

definition approval_record_id :: "approval_id \<Rightarrow> bytes \<Rightarrow> u64 \<Rightarrow> bytes" where
  "approval_record_id i token expires_at_unix = i @ token @ be_bytes 8 expires_at_unix"

definition replay_record_id :: "bytes \<Rightarrow> u64 \<Rightarrow> u64 \<Rightarrow> bytes" where
  "replay_record_id token nonce expires_at_unix = token @ be_bytes 8 nonce @ be_bytes 8 expires_at_unix"

section \<open>Permissions\<close>

definition open_permission ::
  "crypto \<Rightarrow> bytes \<Rightarrow> wallet_store \<Rightarrow> origin_text \<Rightarrow> bytes \<Rightarrow> permission_row \<Rightarrow> (store_error, bytes) result" where
  "open_permission C key s origin token row =
     rbind (decrypt_record C key (ws_database_id s) ''provider_permission''
         (permission_record_id token (pr_generation row) (pr_revoked row) (pr_updated row))
         (pr_record row)) (\<lambda>clear.
     rbind (decode_origin_payload clear) (\<lambda>(stored_origin, payload).
       if stored_origin \<noteq> origin then Err SE_Encryption else Ok payload))"

definition seal_permission ::
  "crypto \<Rightarrow> bytes \<Rightarrow> wallet_store \<Rightarrow> bytes \<Rightarrow> u64 \<Rightarrow> bool \<Rightarrow> u64 \<Rightarrow> bytes \<Rightarrow> (store_error, bytes) result" where
  "seal_permission C key s token generation revoked updated_at_unix clear =
     encrypt_record C key (ws_database_id s) ''provider_permission''
       (permission_record_id token generation revoked updated_at_unix) clear"

definition write_permission ::
  "wallet_store \<Rightarrow> bytes \<Rightarrow> permission_row \<Rightarrow> (store_error, wallet_store) result" where
  "write_permission s token row =
     rbind (sql_uint (pr_generation row)) (\<lambda>_. rbind (sql_uint (pr_updated row)) (\<lambda>_.
       Ok (s\<lparr>ws_permissions := tbl_put token row (ws_permissions s)\<rparr>)))"

definition put_provider_permission ::
  "crypto \<Rightarrow> wallet_store \<Rightarrow> origin_text \<Rightarrow> u64 \<Rightarrow> bytes \<Rightarrow> u64 \<Rightarrow> (store_error, wallet_store) result" where
  "put_provider_permission C s origin generation permission_json updated_at_unix =
     rbind (validate_origin origin) (\<lambda>_.
     if generation = 0 then Err SE_InvalidGeneration
     else if permission_json = [] \<or> MAX_STATE_BYTES < length permission_json
     then Err SE_RecordTooLarge
     else rbind (store_key s) (\<lambda>key.
       let token = origin_lookup_token C key (ws_database_id s) origin;
           current = tbl_get (ws_permissions s) token
       in rbind (encode_origin_payload origin permission_json) (\<lambda>clear.
          rbind (case current of
                   None \<Rightarrow> Ok generation
                 | Some row \<Rightarrow> rbind (open_permission C key s origin token row) (\<lambda>_.
                     ok_or (checked_add_u64 (pr_generation row) 1) SE_RevisionOverflow))
            (\<lambda>expected_generation.
          if generation \<noteq> expected_generation
          then Err (SE_StaleGeneration expected_generation generation)
          else rbind (seal_permission C key s token generation False updated_at_unix clear)
            (\<lambda>encrypted.
              if current = None \<and> MAX_PROVIDER_PERMISSIONS \<le> length (ws_permissions s)
              then Err SE_ProviderCapacity
              else write_permission s token \<lparr>pr_generation = generation, pr_record = encrypted,
                     pr_updated = updated_at_unix, pr_revoked = False\<rparr>)))))"

definition provider_permission ::
  "crypto \<Rightarrow> wallet_store \<Rightarrow> origin_text \<Rightarrow> (store_error, (u64 \<times> bytes) option) result" where
  "provider_permission C s origin =
     rbind (validate_origin origin) (\<lambda>_. rbind (store_key s) (\<lambda>key.
       let token = origin_lookup_token C key (ws_database_id s) origin
       in case tbl_get (ws_permissions s) token of
            None \<Rightarrow> Ok None
          | Some row \<Rightarrow> rbind (open_permission C key s origin token row) (\<lambda>payload.
              Ok (if pr_revoked row then None else Some (pr_generation row, payload)))))"

definition provider_permission_generation ::
  "crypto \<Rightarrow> wallet_store \<Rightarrow> origin_text \<Rightarrow> (store_error, u64 option) result" where
  "provider_permission_generation C s origin =
     rbind (validate_origin origin) (\<lambda>_. rbind (store_key s) (\<lambda>key.
       let token = origin_lookup_token C key (ws_database_id s) origin
       in case tbl_get (ws_permissions s) token of
            None \<Rightarrow> Ok None
          | Some row \<Rightarrow> rbind (open_permission C key s origin token row) (\<lambda>_.
              Ok (Some (pr_generation row)))))"

definition revoke_provider_permission ::
  "crypto \<Rightarrow> wallet_store \<Rightarrow> origin_text \<Rightarrow> u64 \<Rightarrow> u64 \<Rightarrow> u64 \<Rightarrow> (store_error, wallet_store) result" where
  "revoke_provider_permission C s origin expected_generation next_generation updated_at_unix =
     rbind (validate_origin origin) (\<lambda>_.
     if expected_generation = 0 then Err SE_InvalidGeneration
     else rbind (ok_or (checked_add_u64 expected_generation 1) SE_RevisionOverflow) (\<lambda>successor.
     if next_generation \<noteq> successor then Err SE_InvalidGeneration
     else rbind (store_key s) (\<lambda>key.
       let token = origin_lookup_token C key (ws_database_id s) origin
       in case tbl_get (ws_permissions s) token of
            None \<Rightarrow> Err (SE_StaleGeneration expected_generation 0)
          | Some row \<Rightarrow>
              if pr_generation row \<noteq> expected_generation \<or> pr_revoked row
              then Err (SE_StaleGeneration expected_generation (pr_generation row))
              else rbind (open_permission C key s origin token row) (\<lambda>_.
                   rbind (encode_origin_payload origin (byte_str ''revoked'')) (\<lambda>tombstone.
                   rbind (seal_permission C key s token next_generation True updated_at_unix tombstone)
                     (\<lambda>encrypted. write_permission s token \<lparr>pr_generation = next_generation,
                        pr_record = encrypted, pr_updated = updated_at_unix, pr_revoked = True\<rparr>))))))"

section \<open>Pending approvals\<close>

record pending_approval =
  pa_id :: approval_id
  pa_origin :: origin_text
  pa_request_json :: bytes
  pa_expires_at_unix :: u64

definition open_approval ::
  "crypto \<Rightarrow> bytes \<Rightarrow> wallet_store \<Rightarrow> approval_id \<Rightarrow> approval_row \<Rightarrow> (store_error, pending_approval) result" where
  "open_approval C key s i row =
     (if length (ar_origin_token row) \<noteq> 32 then Err SE_CorruptMetadata
      else rbind (decrypt_record C key (ws_database_id s) ''pending_approval''
             (approval_record_id i (ar_origin_token row) (ar_expires row)) (ar_record row)) (\<lambda>clear.
           rbind (decode_origin_payload clear) (\<lambda>(origin, request_json).
             if ar_origin_token row \<noteq> origin_lookup_token C key (ws_database_id s) origin
             then Err SE_Encryption
             else Ok \<lparr>pa_id = i, pa_origin = origin, pa_request_json = request_json,
                      pa_expires_at_unix = ar_expires row\<rparr>)))"

definition authenticated_pending_approval ::
  "crypto \<Rightarrow> bytes \<Rightarrow> wallet_store \<Rightarrow> approval_id \<Rightarrow> (store_error, pending_approval option) result" where
  "authenticated_pending_approval C key s i =
     (case tbl_get (ws_approvals s) i of
        None \<Rightarrow> Ok None
      | Some row \<Rightarrow> rbind (open_approval C key s i row) (\<lambda>a. Ok (Some a)))"

definition prune_expired_approvals ::
  "crypto \<Rightarrow> bytes \<Rightarrow> wallet_store \<Rightarrow> u64 \<Rightarrow> (store_error, wallet_store) result" where
  "prune_expired_approvals C key s now_unix =
     (if MAX_PENDING_APPROVALS < length (ws_approvals s) then Err SE_ApprovalCapacity
      else rbind (collect_results (map (\<lambda>(i, row). open_approval C key s i row)
               (sort_key fst (ws_approvals s)))) (\<lambda>_.
             Ok (s\<lparr>ws_approvals := tbl_retain (\<lambda>_ row. now_unix < ar_expires row) (ws_approvals s)\<rparr>)))"

definition put_pending_approval ::
  "crypto \<Rightarrow> wallet_store \<Rightarrow> approval_id \<Rightarrow> origin_text \<Rightarrow> bytes \<Rightarrow> u64 \<Rightarrow> u64 \<Rightarrow>
   (store_error, wallet_store) result" where
  "put_pending_approval C s i origin request_json now_unix expires_at_unix =
     rbind (validate_origin origin) (\<lambda>_.
     if expires_at_unix \<le> now_unix \<or> MAX_APPROVAL_LIFETIME_SECONDS < expires_at_unix - now_unix
     then Err SE_InvalidApprovalWindow
     else if request_json = [] \<or> MAX_STATE_BYTES < length request_json then Err SE_RecordTooLarge
     else rbind (store_key s) (\<lambda>key.
       let token = origin_lookup_token C key (ws_database_id s) origin
       in rbind (encode_origin_payload origin request_json) (\<lambda>clear.
          rbind (encrypt_record C key (ws_database_id s) ''pending_approval''
                   (approval_record_id i token expires_at_unix) clear) (\<lambda>encrypted.
          rbind (prune_expired_approvals C key s now_unix) (\<lambda>s1.
          if MAX_PENDING_APPROVALS \<le> length (ws_approvals s1) then Err SE_ApprovalCapacity
          else if tbl_get (ws_approvals s1) i \<noteq> None then Err SE_Sqlite
          else rbind (sql_uint expires_at_unix) (\<lambda>_.
            Ok (s1\<lparr>ws_approvals := tbl_put i \<lparr>ar_origin_token = token, ar_record = encrypted,
                  ar_expires = expires_at_unix\<rparr> (ws_approvals s1)\<rparr>)))))))"

definition get_pending_approval ::
  "crypto \<Rightarrow> wallet_store \<Rightarrow> approval_id \<Rightarrow> u64 \<Rightarrow> (store_error, pending_approval option) result" where
  "get_pending_approval C s i now_unix =
     rbind (store_key s) (\<lambda>key. rbind (authenticated_pending_approval C key s i) (\<lambda>found.
       Ok (case found of None \<Rightarrow> None
           | Some a \<Rightarrow> if now_unix < pa_expires_at_unix a then Some a else None)))"

definition remove_approval :: "wallet_store \<Rightarrow> approval_id \<Rightarrow> wallet_store" where
  "remove_approval s i = s\<lparr>ws_approvals := tbl_del i (ws_approvals s)\<rparr>"

definition take_pending_approval ::
  "crypto \<Rightarrow> wallet_store \<Rightarrow> approval_id \<Rightarrow> u64 \<Rightarrow>
   (store_error, pending_approval option \<times> wallet_store) result" where
  "take_pending_approval C s i now_unix =
     rbind (store_key s) (\<lambda>key. rbind (authenticated_pending_approval C key s i) (\<lambda>found.
       Ok (case found of
             None \<Rightarrow> (None, s)
           | Some a \<Rightarrow> if pa_expires_at_unix a \<le> now_unix then (None, remove_approval s i)
                       else (Some a, remove_approval s i))))"

definition consume_approval_and_save_workflow_with_entity_batch ::
  "crypto \<Rightarrow> 'w codec \<Rightarrow> 'e codec \<Rightarrow> wallet_store \<Rightarrow> pending_approval \<Rightarrow> u64 \<Rightarrow> workflow_id \<Rightarrow>
   workflow_kind \<Rightarrow> u64 \<Rightarrow> 'w \<Rightarrow> bool \<Rightarrow> entity_kind \<Rightarrow> 'e entity_batch_save list \<Rightarrow>
   entity_batch_delete list \<Rightarrow> (store_error, u64 option \<times> wallet_store) result" where
  "consume_approval_and_save_workflow_with_entity_batch C JW JE s expected_approval now_unix i kind
     expected_revision v broadcast entity_kind saves deletes =
     rbind (encode_state JW v) (\<lambda>encoded.
     rbind (prepare_entity_batch JE saves deletes) (\<lambda>prepared.
     rbind (store_key s) (\<lambda>key.
     rbind (authenticated_pending_approval C key s (pa_id expected_approval)) (\<lambda>found.
     case found of
       None \<Rightarrow> Ok (None, s)
     | Some current \<Rightarrow>
         if pa_expires_at_unix current \<le> now_unix
         then Ok (None, remove_approval s (pa_id expected_approval))
         else if pa_origin current \<noteq> pa_origin expected_approval \<or>
                 pa_expires_at_unix current \<noteq> pa_expires_at_unix expected_approval \<or>
                 pa_request_json current \<noteq> pa_request_json expected_approval
         then Ok (None, s)
         else rbind (authenticated_workflow_revision C key s i kind) (\<lambda>actual.
              rbind (assert_revision expected_revision actual) (\<lambda>_.
              rbind (authenticate_entity_batch C key s entity_kind prepared deletes) (\<lambda>encrypted_entities.
              rbind (ok_or (checked_add_u64 actual 1) SE_RevisionOverflow) (\<lambda>next.
              rbind (seal_workflow C key s i kind next encoded broadcast now_unix) (\<lambda>encrypted_workflow.
              rbind (write_entity_batch s entity_kind encrypted_entities deletes) (\<lambda>s1.
              rbind (write_workflow (remove_approval s1 (pa_id expected_approval)) i kind next
                       encrypted_workflow broadcast now_unix) (\<lambda>s2.
                Ok (Some next, s2))))))))))))"

section \<open>Replay protection\<close>

definition open_replay ::
  "crypto \<Rightarrow> bytes \<Rightarrow> wallet_store \<Rightarrow> bytes \<Rightarrow> u64 \<Rightarrow> replay_row \<Rightarrow> (store_error, origin_text) result" where
  "open_replay C key s token nonce row =
     (if length token \<noteq> 32 then Err SE_CorruptMetadata
      else rbind (decrypt_record C key (ws_database_id s) ''replay_origin''
             (replay_record_id token nonce (rr_expires row)) (rr_origin row)) (\<lambda>origin.
           rbind (map_err (\<lambda>_. SE_Encryption) (validate_origin origin)) (\<lambda>_.
             if origin_lookup_token C key (ws_database_id s) origin \<noteq> token then Err SE_Encryption
             else Ok origin)))"

definition prune_expired_replay ::
  "crypto \<Rightarrow> bytes \<Rightarrow> wallet_store \<Rightarrow> u64 \<Rightarrow> (store_error, wallet_store) result" where
  "prune_expired_replay C key s now_unix =
     (if MAX_REPLAY_ROWS < length (ws_replay s) then Err SE_ReplayGlobalCapacity
      else rbind (collect_results (map (\<lambda>((token, nonce), row). open_replay C key s token nonce row)
               (sort_key (fst \<circ> fst) (sort_key (snd \<circ> fst) (ws_replay s))))) (\<lambda>_.
             Ok (s\<lparr>ws_replay := tbl_retain (\<lambda>_ row. now_unix < rr_expires row) (ws_replay s)\<rparr>)))"

definition consume_replay_nonce ::
  "crypto \<Rightarrow> wallet_store \<Rightarrow> origin_text \<Rightarrow> u64 \<Rightarrow> u64 \<Rightarrow> u64 \<Rightarrow> (store_error, wallet_store) result" where
  "consume_replay_nonce C s origin nonce now_unix expires_at_unix =
     rbind (validate_origin origin) (\<lambda>_.
     if nonce = 0 \<or> expires_at_unix \<le> now_unix \<or>
        MAX_REPLAY_LIFETIME_SECONDS < expires_at_unix - now_unix then Err SE_InvalidReplayWindow
     else rbind (store_key s) (\<lambda>key.
       let token = origin_lookup_token C key (ws_database_id s) origin
       in rbind (encrypt_record C key (ws_database_id s) ''replay_origin''
                   (replay_record_id token nonce expires_at_unix) origin) (\<lambda>encrypted_origin.
          rbind (prune_expired_replay C key s now_unix) (\<lambda>s1.
          let count = length (filter (\<lambda>((t, _), _). t = token) (ws_replay s1))
          in if MAX_REPLAY_ROWS_PER_ORIGIN \<le> count then Err SE_ReplayCapacity
             else if MAX_REPLAY_ROWS \<le> length (ws_replay s1) then Err SE_ReplayGlobalCapacity
             else if count = 0 \<and>
                     MAX_REPLAY_ORIGINS \<le> length (remdups (map (fst \<circ> fst) (ws_replay s1)))
             then Err SE_ReplayOriginCapacity
             else rbind (sql_uint nonce) (\<lambda>_. rbind (sql_uint expires_at_unix) (\<lambda>_.
               case tbl_get (ws_replay s1) (token, nonce) of
                 Some _ \<Rightarrow> Err SE_Replay
               | None \<Rightarrow> Ok (s1\<lparr>ws_replay := tbl_put (token, nonce)
                   \<lparr>rr_origin = encrypted_origin, rr_expires = expires_at_unix\<rparr>
                   (ws_replay s1)\<rparr>)))))))"

end
