(* ===== verification/Provider.thy ===== *)
theory Provider
  imports Provider_Store
begin

text \<open>
  The crate \<open>hns-wallet-provider\<close> (\<open>crates/hns-wallet-provider/src/lib.rs\<close>): the policy core
  between hostile pages and the wallet. \<open>provider_core\<close> is the struct \<open>ProviderCore\<close>; its
  methods are \<open>step\<close> operations that return the state reached, because accepting a time,
  counting a request or consuming a nonce persists when a later check fails.

  The trait \<open>ProviderStateStore\<close> is the record \<open>provider_ops\<close> of its four methods;
  \<open>memory_ops\<close> is the in-memory implementation and \<open>wallet_ops\<close> the one over the wallet store.
  The \<open>url\<close> crate and \<open>serde_json\<close> are parameters: a parsed URL is given by its accessors
  (\<open>parsed_url\<close>), a request by a decoding function. BTreeSets are duplicate-free lists.
\<close>

section \<open>Constants, errors and origins\<close>

definition MAX_PROVIDER_REQUEST_BYTES :: nat where "MAX_PROVIDER_REQUEST_BYTES = 65536"
definition MAX_METHOD_BYTES :: nat where "MAX_METHOD_BYTES = 96"
definition MAX_ORIGIN_BYTES :: nat where "MAX_ORIGIN_BYTES = 512"
definition APPROVAL_LIFETIME_SECONDS :: u64 where "APPROVAL_LIFETIME_SECONDS = 90"
definition RATE_WINDOW_SECONDS :: u64 where "RATE_WINDOW_SECONDS = 60"
definition MAX_REGISTERED_AUTHORITIES :: nat where "MAX_REGISTERED_AUTHORITIES = 256"
definition MAX_CORE_PENDING_APPROVALS :: nat where "MAX_CORE_PENDING_APPROVALS = 128"
definition MAX_REPLAY_NONCES :: nat where "MAX_REPLAY_NONCES = 4096"
definition MAX_APPROVED_ACCOUNTS :: nat where "MAX_APPROVED_ACCOUNTS = 16"
definition MAX_APPROVED_NAMES :: nat where "MAX_APPROVED_NAMES = 128"

datatype provider_error =
  PE_InvalidOrigin | PE_InsecureContext | PE_AuthorityNotFound | PE_DuplicateAuthority
| PE_AuthorityCapacity | PE_StaleContext | PE_ClockRollback | PE_RequestTooLarge
| PE_MethodNotFound | PE_ForbiddenMethod | PE_InvalidParams | PE_Unauthorized
| PE_WalletLocked | PE_RateLimited | PE_Replay | PE_StaleApproval | PE_InvalidPermission
| PE_Persistence

fun provider_error_from_store :: "store_error \<Rightarrow> provider_error" where
  "provider_error_from_store SE_Replay = PE_Replay"
| "provider_error_from_store SE_Locked = PE_WalletLocked"
| "provider_error_from_store _ = PE_Persistence"

datatype url_host = Domain bytes | Ipv4 "8 word list" | Ipv6 "8 word list"

record parsed_url =
  url_scheme :: bytes
  url_username :: bytes
  url_password :: "bytes option"
  url_query :: "bytes option"
  url_fragment :: "bytes option"
  url_path :: bytes
  url_host_of :: "url_host option"
  url_host_str :: "bytes option"
  url_port_or_known_default :: "nat option"

fun is_loopback :: "url_host \<Rightarrow> bool" where
  "is_loopback (Domain d) \<longleftrightarrow> d = byte_str ''localhost''"
| "is_loopback (Ipv4 a) \<longleftrightarrow> (case a of b # _ \<Rightarrow> b = 127 | [] \<Rightarrow> False)"
| "is_loopback (Ipv6 a) \<longleftrightarrow> a = replicate 15 0 @ [1]"

definition origin_parse ::
  "(bytes \<Rightarrow> parsed_url option) \<Rightarrow> bytes \<Rightarrow> (provider_error, origin_text) result" where
  "origin_parse url_parse input =
     (if input = [] \<or> MAX_ORIGIN_BYTES < length input \<or> \<not> list_all (\<lambda>b. b < 128) input
      then Err PE_InvalidOrigin
      else rbind (ok_or (url_parse input) PE_InvalidOrigin) (\<lambda>parsed.
        if url_username parsed \<noteq> [] \<or> url_password parsed \<noteq> None \<or> url_query parsed \<noteq> None \<or>
           url_fragment parsed \<noteq> None \<or> url_path parsed \<noteq> byte_str ''/''
        then Err PE_InvalidOrigin
        else rbind (ok_or (url_host_of parsed) PE_InvalidOrigin) (\<lambda>host.
          let https = (url_scheme parsed = byte_str ''https'');
              http = (url_scheme parsed = byte_str ''http'')
          in if \<not> (https \<or> (http \<and> is_loopback host)) then Err PE_InsecureContext
             else rbind (ok_or (url_port_or_known_default parsed) PE_InvalidOrigin) (\<lambda>port.
                  rbind (ok_or (url_host_str parsed) PE_InvalidOrigin) (\<lambda>host_str.
                    Ok (url_scheme parsed @ byte_str ''://'' @ host_str @
                        (if (https \<and> port = 443) \<or> (http \<and> port = 80) then []
                         else byte_str '':'' @ decimal_digits port)))))))"

section \<open>Methods\<close>

datatype provider_method =
  PM_WalletGetCapabilities | PM_WalletGetEnabledModules | PM_WalletEnableModule
| PM_WalletDisableModule | PM_WalletRequestPermissions | PM_WalletGetPermissions
| PM_WalletRevokePermissions | PM_WalletLock | PM_WalletGetStatus | PM_HnsRequestAccounts
| PM_HnsAccounts | PM_HnsGetBalance | PM_HnsGetTransactions | PM_HnsGetReceiveAddress
| PM_HnsSend | PM_HnsGetNames | PM_HnsGetName | PM_HnsImportKnownName | PM_HnsTransferName
| PM_HnsFinalizeName | PM_HnsSignTypedMessage | PM_AssetGetAccount | PM_AssetGetBalance
| PM_AssetGetTransactions | PM_AssetGetReceiveTarget | PM_AssetSend
| PM_NameMarketListOffers | PM_NameMarketCreateFixedPriceOffer | PM_NameMarketCancelOffer
| PM_NameMarketAcceptOffer | PM_NameMarketGetSession | PM_NameMarketFinalizePurchase
| PM_NameMarketRecoverName | PM_SwapGetSupportedPairs | PM_SwapListDirectOffers
| PM_SwapPublishDirectOffer | PM_SwapCancelDirectOffer | PM_SwapAcceptDirectOffer
| PM_SwapGetSession | PM_SwapRedeem | PM_SwapRefund | PM_HnsUpdateName
| PM_NameMarketListMyOffers | PM_NameMarketGetOffer

definition ALL_METHODS :: "provider_method list" where
  "ALL_METHODS =
    [PM_WalletGetCapabilities, PM_WalletGetEnabledModules, PM_WalletEnableModule,
     PM_WalletDisableModule, PM_WalletRequestPermissions, PM_WalletGetPermissions,
     PM_WalletRevokePermissions, PM_WalletLock, PM_WalletGetStatus, PM_HnsRequestAccounts,
     PM_HnsAccounts, PM_HnsGetBalance, PM_HnsGetTransactions, PM_HnsGetReceiveAddress,
     PM_HnsSend, PM_HnsGetNames, PM_HnsGetName, PM_HnsImportKnownName, PM_HnsTransferName,
     PM_HnsFinalizeName, PM_HnsSignTypedMessage, PM_AssetGetAccount, PM_AssetGetBalance,
     PM_AssetGetTransactions, PM_AssetGetReceiveTarget, PM_AssetSend,
     PM_NameMarketListOffers, PM_NameMarketCreateFixedPriceOffer, PM_NameMarketCancelOffer,
     PM_NameMarketAcceptOffer, PM_NameMarketGetSession, PM_NameMarketFinalizePurchase,
     PM_NameMarketRecoverName, PM_SwapGetSupportedPairs, PM_SwapListDirectOffers,
     PM_SwapPublishDirectOffer, PM_SwapCancelDirectOffer, PM_SwapAcceptDirectOffer,
     PM_SwapGetSession, PM_SwapRedeem, PM_SwapRefund, PM_HnsUpdateName,
     PM_NameMarketListMyOffers, PM_NameMarketGetOffer]"

definition PROVIDER_METHOD_WIRE_NAMES :: "string list" where
  "PROVIDER_METHOD_WIRE_NAMES =
    [''wallet_getCapabilities'', ''wallet_getEnabledModules'', ''wallet_enableModule'',
     ''wallet_disableModule'', ''wallet_requestPermissions'', ''wallet_getPermissions'',
     ''wallet_revokePermissions'', ''wallet_lock'', ''wallet_getStatus'',
     ''hns_requestAccounts'', ''hns_accounts'', ''hns_getBalance'', ''hns_getTransactions'',
     ''hns_getReceiveAddress'', ''hns_send'', ''hns_getNames'', ''hns_getName'',
     ''hns_importKnownName'', ''hns_transferName'', ''hns_finalizeName'',
     ''hns_signTypedMessage'', ''asset_getAccount'', ''asset_getBalance'',
     ''asset_getTransactions'', ''asset_getReceiveTarget'', ''asset_send'',
     ''nameMarket_listOffers'', ''nameMarket_createFixedPriceOffer'',
     ''nameMarket_cancelOffer'', ''nameMarket_acceptOffer'', ''nameMarket_getSession'',
     ''nameMarket_finalizePurchase'', ''nameMarket_recoverName'', ''swap_getSupportedPairs'',
     ''swap_listDirectOffers'', ''swap_publishDirectOffer'', ''swap_cancelDirectOffer'',
     ''swap_acceptDirectOffer'', ''swap_getSession'', ''swap_redeem'', ''swap_refund'',
     ''hns_updateName'', ''nameMarket_listMyOffers'', ''nameMarket_getOffer'']"

definition FORBIDDEN_METHODS :: "string list" where
  "FORBIDDEN_METHODS =
    [''eth_sendTransaction'', ''eth_call'', ''eth_estimateGas'', ''eth_sign'',
     ''personal_sign'', ''wallet_addEthereumChain'', ''wallet_switchEthereumChain'',
     ''bitcoin_signPsbt'', ''signRawTransaction'', ''wallet_getSeed'', ''wallet_getPrivateKey'']"

fun position :: "'a \<Rightarrow> 'a list \<Rightarrow> nat option" where
  "position x [] = None"
| "position x (y # ys) = (if y = x then Some 0 else map_option Suc (position x ys))"

definition method_index :: "provider_method \<Rightarrow> nat" where
  "method_index m = (case position m ALL_METHODS of Some i \<Rightarrow> i | None \<Rightarrow> 0)"

definition wire_name :: "provider_method \<Rightarrow> string" where
  "wire_name m = PROVIDER_METHOD_WIRE_NAMES ! method_index m"

definition provider_method_parse :: "string \<Rightarrow> (provider_error, provider_method) result" where
  "provider_method_parse method =
     (case position method PROVIDER_METHOD_WIRE_NAMES of
        Some index \<Rightarrow> Ok (ALL_METHODS ! index)
      | None \<Rightarrow> if method \<in> set FORBIDDEN_METHODS then Err PE_ForbiddenMethod
                else Err PE_MethodNotFound)"

definition requires_hns_namespace :: "provider_method \<Rightarrow> bool" where
  "requires_hns_namespace m \<longleftrightarrow> m \<in> {PM_HnsRequestAccounts, PM_HnsAccounts, PM_HnsGetBalance,
     PM_HnsGetTransactions, PM_HnsGetReceiveAddress, PM_HnsSend, PM_HnsGetNames, PM_HnsGetName,
     PM_HnsImportKnownName, PM_HnsTransferName, PM_HnsFinalizeName, PM_HnsUpdateName,
     PM_HnsSignTypedMessage, PM_NameMarketListOffers, PM_NameMarketListMyOffers,
     PM_NameMarketGetOffer, PM_NameMarketCreateFixedPriceOffer, PM_NameMarketCancelOffer,
     PM_NameMarketAcceptOffer, PM_NameMarketGetSession, PM_NameMarketFinalizePurchase,
     PM_NameMarketRecoverName}"

definition method_permission :: "provider_method \<Rightarrow> permission_capability option" where
  "method_permission m =
     (if m \<in> {PM_WalletGetCapabilities, PM_WalletGetEnabledModules, PM_WalletRequestPermissions,
              PM_WalletGetPermissions, PM_WalletRevokePermissions, PM_WalletLock,
              PM_WalletGetStatus, PM_HnsRequestAccounts, PM_SwapGetSupportedPairs} then None
      else if m \<in> {PM_HnsAccounts, PM_AssetGetAccount} then Some Accounts
      else if m \<in> {PM_HnsGetBalance, PM_AssetGetBalance} then Some Balance
      else if m \<in> {PM_HnsGetTransactions, PM_AssetGetTransactions} then Some Transactions
      else if m \<in> {PM_HnsGetReceiveAddress, PM_AssetGetReceiveTarget} then Some ReceiveTarget
      else if m \<in> {PM_HnsSend, PM_AssetSend} then Some Send
      else if m \<in> {PM_HnsGetNames, PM_HnsGetName, PM_HnsImportKnownName} then Some Names
      else if m = PM_HnsTransferName then Some NameTransfer
      else if m = PM_HnsFinalizeName then Some NameFinalize
      else if m = PM_HnsUpdateName then Some NameUpdate
      else if m = PM_HnsSignTypedMessage then Some TypedIdentitySignature
      else if m \<in> {PM_NameMarketListOffers, PM_NameMarketListMyOffers, PM_NameMarketGetOffer,
              PM_NameMarketCreateFixedPriceOffer, PM_NameMarketCancelOffer,
              PM_NameMarketAcceptOffer, PM_NameMarketGetSession, PM_NameMarketFinalizePurchase,
              PM_NameMarketRecoverName} then Some NameMarket
      else if m \<in> {PM_SwapListDirectOffers, PM_SwapPublishDirectOffer, PM_SwapCancelDirectOffer,
              PM_SwapAcceptDirectOffer} then Some CrossChainMarket
      else if m \<in> {PM_SwapGetSession, PM_SwapRedeem, PM_SwapRefund} then Some SwapSettlement
      else None)"

definition method_approval :: "provider_method \<Rightarrow> approval_kind option" where
  "method_approval m =
     (if m \<in> {PM_WalletEnableModule, PM_WalletDisableModule} then Some AK_ModuleEnablement
      else if m \<in> {PM_WalletRequestPermissions, PM_HnsRequestAccounts} then Some AK_Permission
      else if m \<in> {PM_HnsSend, PM_AssetSend} then Some AK_Send
      else if m = PM_HnsTransferName then Some AK_NameTransfer
      else if m = PM_HnsFinalizeName then Some AK_NameFinalize
      else if m = PM_HnsUpdateName then Some AK_NameUpdate
      else if m = PM_HnsSignTypedMessage then Some AK_TypedSignature
      else if m \<in> {PM_NameMarketCreateFixedPriceOffer, PM_NameMarketCancelOffer}
      then Some AK_NameMarketOffer
      else if m \<in> {PM_NameMarketAcceptOffer, PM_NameMarketFinalizePurchase}
      then Some AK_NameMarketPurchase
      else if m = PM_NameMarketRecoverName then Some AK_NameMarketOffer
      else if m \<in> {PM_SwapPublishDirectOffer, PM_SwapCancelDirectOffer} then Some AK_DirectOffer
      else if m = PM_SwapAcceptDirectOffer then Some AK_DirectOfferAcceptance
      else if m = PM_SwapRedeem then Some AK_SwapRedeem
      else if m = PM_SwapRefund then Some AK_SwapRefund
      else None)"

definition rate_limit :: "provider_method \<Rightarrow> nat" where
  "rate_limit m = (if method_approval m \<noteq> None then 10 else 120)"

section \<open>Requests\<close>

datatype json = J_Null | J_Bool bool | J_Number bytes | J_String string
  | J_Array "json list" | J_Object "(string \<times> json) list"

record provider_request =
  rq_method :: string
  rq_params :: json

definition provider_request_decode ::
  "(bytes \<Rightarrow> provider_request option) \<Rightarrow> bytes \<Rightarrow> (provider_error, provider_request) result" where
  "provider_request_decode from_slice input =
     (if input = [] \<or> MAX_PROVIDER_REQUEST_BYTES < length input then Err PE_RequestTooLarge
      else rbind (ok_or (from_slice input) PE_InvalidParams) (\<lambda>request.
        if rq_method request = [] \<or> MAX_METHOD_BYTES < length (rq_method request)
        then Err PE_MethodNotFound else Ok request))"

fun as_object :: "json \<Rightarrow> (string \<times> json) list option" where
  "as_object (J_Object members) = Some members"
| "as_object _ = None"

fun as_str :: "json \<Rightarrow> string option" where
  "as_str (J_String v) = Some v"
| "as_str _ = None"

definition validate_module_params :: "provider_method \<Rightarrow> json \<Rightarrow> (provider_error, unit) result" where
  "validate_module_params m params =
     (if m \<notin> {PM_AssetGetAccount, PM_AssetGetBalance, PM_AssetGetTransactions,
              PM_AssetGetReceiveTarget, PM_AssetSend} then Ok ()
      else rbind (ok_or (Option.bind (Option.bind (as_object params)
                 (\<lambda>object. map_of object ''module'')) as_str) PE_InvalidParams) (\<lambda>module.
        if module \<noteq> ''bitcoin'' \<and> module \<noteq> ''ethereum'' then Err PE_InvalidParams else Ok ()))"

section \<open>Authorities, permissions and approvals\<close>

datatype selected_namespace = NsHns | NsIcann

record host_authority_registration =
  ha_origin :: origin_text
  ha_namespace :: selected_namespace
  ha_runtime_session :: bytes
  ha_runtime_generation :: u64
  ha_policy_generation :: u64
  ha_navigation_generation :: u64
  ha_decision_fingerprint :: bytes
  ha_valid_until_unix_ms :: u64

definition host_authority_validate ::
  "host_authority_registration \<Rightarrow> u64 \<Rightarrow> (provider_error, unit) result" where
  "host_authority_validate facts now_unix_ms =
     (if ha_runtime_generation facts = 0 \<or> ha_policy_generation facts = 0 \<or>
         ha_navigation_generation facts = 0 \<or> ha_valid_until_unix_ms facts \<le> now_unix_ms
      then Err PE_StaleContext else Ok ())"

record permission_record =
  pm_origin :: origin_text
  pm_namespace :: selected_namespace
  pm_generation :: u64
  pm_capabilities :: "permission_capability list"
  pm_approved_accounts :: "account_id list"
  pm_approved_names :: "bytes list"
  pm_created_at_unix :: u64
  pm_expires_at_unix :: "u64 option"

definition permits :: "permission_record \<Rightarrow> permission_capability \<Rightarrow> u64 \<Rightarrow> bool" where
  "permits r capability now_unix \<longleftrightarrow> capability \<in> set (pm_capabilities r) \<and>
     (case pm_expires_at_unix r of None \<Rightarrow> True | Some expiry \<Rightarrow> now_unix < expiry)"

record approved_call =
  ac_origin :: origin_text
  ac_namespace :: selected_namespace
  ac_method :: provider_method
  ac_params :: json
  ac_request_nonce :: u64

record core_approval =
  ca_id :: approval_id
  ca_kind :: approval_kind
  ca_call :: approved_call
  ca_authority_handle :: bytes
  ca_authority_revision :: u64
  ca_wallet_session :: bytes
  ca_permission_generation :: u64
  ca_expires_at_unix :: u64

datatype provider_action = Execute approved_call | ApprovalRequired core_approval

record registered_authority =
  ra_facts :: host_authority_registration
  ra_revision :: u64

record rate_window =
  rw_starts_at_unix :: u64
  rw_count :: nat

record permission_snapshot =
  ps_generation :: u64
  ps_record :: "permission_record option"

definition HEX_DIGITS :: string where "HEX_DIGITS = ''0123456789abcdef''"

definition hex_lower :: "bytes \<Rightarrow> bytes" where
  "hex_lower bs = concat (map (\<lambda>b. byte_str [HEX_DIGITS ! (unat b div 16), HEX_DIGITS ! (unat b mod 16)]) bs)"

fun namespace_label :: "selected_namespace \<Rightarrow> string" where
  "namespace_label NsHns = ''hns''"
| "namespace_label NsIcann = ''icann''"

definition permission_scope :: "crypto \<Rightarrow> host_authority_registration \<Rightarrow> origin_text" where
  "permission_scope C facts =
     byte_str ''hns-provider-permission-v2:'' @ byte_str (namespace_label (ha_namespace facts)) @
     byte_str '':'' @
     hex_lower (sha256 C (byte_str ''hns-provider-permission-scope/v2'' @ [0] @
       byte_str (namespace_label (ha_namespace facts)) @ [0] @ ha_origin facts))"

definition core_approval_id ::
  "crypto \<Rightarrow> bytes \<Rightarrow> u64 \<Rightarrow> bytes \<Rightarrow> u64 \<Rightarrow> provider_method \<Rightarrow> selected_namespace \<Rightarrow> origin_text \<Rightarrow>
   approval_id" where
  "core_approval_id C handle authority_revision wallet_session request_nonce m namespace origin =
     take 16 (sha256 C (byte_str ''hns-provider-approval/v2'' @ handle @ be_bytes 8 authority_revision @
       wallet_session @ be_bytes 8 request_nonce @
       [case namespace of NsHns \<Rightarrow> 0 | NsIcann \<Rightarrow> 1] @
       be_bytes 8 (length origin) @ origin @ byte_str (wire_name m)))"

definition validate_permission_identity ::
  "permission_record option \<Rightarrow> host_authority_registration \<Rightarrow> u64 \<Rightarrow>
   (provider_error, permission_record option) result" where
  "validate_permission_identity permission facts now_unix =
     (case permission of
        None \<Rightarrow> Ok None
      | Some p \<Rightarrow>
          if pm_origin p \<noteq> ha_origin facts \<or> pm_namespace p \<noteq> ha_namespace facts \<or>
             pm_generation p = 0 \<or> pm_capabilities p = [] \<or>
             MAX_APPROVED_ACCOUNTS < length (pm_approved_accounts p) \<or>
             MAX_APPROVED_NAMES < length (pm_approved_names p) \<or>
             list_ex all_zero (pm_approved_accounts p) \<or>
             (Accounts \<in> set (pm_capabilities p)) = (pm_approved_accounts p = []) \<or>
             (pm_approved_accounts p \<noteq> [] \<and> pm_namespace p \<noteq> NsHns) \<or>
             (pm_approved_names p \<noteq> [] \<and>
               (Names \<notin> set (pm_capabilities p) \<or> Accounts \<notin> set (pm_capabilities p) \<or>
                pm_approved_accounts p = [] \<or> pm_namespace p \<noteq> NsHns)) \<or>
             now_unix < pm_created_at_unix p \<or>
             (case pm_expires_at_unix p of None \<Rightarrow> False | Some e \<Rightarrow> e \<le> pm_created_at_unix p)
          then Err PE_Persistence
          else if (case pm_expires_at_unix p of None \<Rightarrow> False | Some e \<Rightarrow> e \<le> now_unix)
          then Ok None
          else Ok (Some p))"

section \<open>The state store interface\<close>

record 's provider_ops =
  po_permission :: "'s \<Rightarrow> origin_text \<Rightarrow> (provider_error, permission_record option) result"
  po_generation :: "'s \<Rightarrow> origin_text \<Rightarrow> (provider_error, u64 option) result"
  po_save :: "'s \<Rightarrow> origin_text \<Rightarrow> permission_record \<Rightarrow> (provider_error, 's) result"
  po_revoke :: "'s \<Rightarrow> origin_text \<Rightarrow> u64 \<Rightarrow> u64 \<Rightarrow> u64 \<Rightarrow> (provider_error, 's) result"

definition wallet_ops :: "crypto \<Rightarrow> permission_record codec \<Rightarrow> wallet_store provider_ops" where
  "wallet_ops C J = \<lparr>
     po_permission = (\<lambda>s scope.
       rbind (map_err provider_error_from_store (provider_permission C s scope)) (\<lambda>found.
         case found of
           None \<Rightarrow> Ok None
         | Some (_, bs) \<Rightarrow> rbind (ok_or (js_decode J bs) PE_Persistence) (\<lambda>r. Ok (Some r)))),
     po_generation = (\<lambda>s scope.
       map_err provider_error_from_store (provider_permission_generation C s scope)),
     po_save = (\<lambda>s scope record.
       rbind (ok_or (js_encode J record) PE_Persistence) (\<lambda>encoded.
         map_err provider_error_from_store (put_provider_permission C s scope
           (pm_generation record) encoded (pm_created_at_unix record)))),
     po_revoke = (\<lambda>s scope expected_generation next_generation now_unix.
       map_err provider_error_from_store (revoke_provider_permission C s scope
         expected_generation next_generation now_unix)) \<rparr>"

record memory_provider_state =
  mp_permissions :: "(origin_text, permission_record) tbl"
  mp_generations :: "(origin_text, u64) tbl"

definition memory_save_permission ::
  "memory_provider_state \<Rightarrow> origin_text \<Rightarrow> permission_record \<Rightarrow>
   (provider_error, memory_provider_state) result" where
  "memory_save_permission s scope record =
     rbind (case tbl_get (mp_generations s) scope of
              Some current \<Rightarrow> ok_or (checked_add_u64 current 1) PE_StaleContext
            | None \<Rightarrow> Ok (pm_generation record)) (\<lambda>expected.
       if pm_generation record \<noteq> expected then Err PE_StaleContext
       else Ok \<lparr>mp_permissions = tbl_put scope record (mp_permissions s),
                mp_generations = tbl_put scope (pm_generation record) (mp_generations s)\<rparr>)"

definition memory_revoke_permission ::
  "memory_provider_state \<Rightarrow> origin_text \<Rightarrow> u64 \<Rightarrow> u64 \<Rightarrow> (provider_error, memory_provider_state) result" where
  "memory_revoke_permission s scope expected_generation next_generation =
     (if tbl_get (mp_generations s) scope \<noteq> Some expected_generation then Err PE_StaleContext
      else rbind (ok_or (checked_add_u64 expected_generation 1) PE_StaleContext) (\<lambda>successor.
        if next_generation \<noteq> successor then Err PE_StaleContext
        else Ok \<lparr>mp_permissions = tbl_del scope (mp_permissions s),
                 mp_generations = tbl_put scope next_generation (mp_generations s)\<rparr>))"

definition memory_ops :: "memory_provider_state provider_ops" where
  "memory_ops = \<lparr>
     po_permission = (\<lambda>s scope. Ok (tbl_get (mp_permissions s) scope)),
     po_generation = (\<lambda>s scope. Ok (tbl_get (mp_generations s) scope)),
     po_save = memory_save_permission,
     po_revoke = (\<lambda>s scope expected_generation next_generation _.
       memory_revoke_permission s scope expected_generation next_generation) \<rparr>"

end
