(* ===== verification/Provider_Core.thy ===== *)
theory Provider_Core
  imports Provider
begin

text \<open>
  The methods of \<open>ProviderCore\<close> (\<open>crates/hns-wallet-provider/src/lib.rs\<close>, the second half): the
  registry of host authorities, requests, approvals, permission grants and revocations. The
  core is generic in its state store: every method that reads or writes a permission takes the
  \<open>provider_ops\<close> of the store.
\<close>

section \<open>State\<close>

record 's provider_core =
  pc_state :: 's
  pc_authorities :: "(bytes, registered_authority) tbl"
  pc_wallet_session :: bytes
  pc_wallet_locked :: bool
  pc_last_now_unix_ms :: u64
  pc_pending :: "(approval_id, core_approval) tbl"
  pc_replay :: "(bytes \<times> u64, u64) tbl"
  pc_rate :: "(bytes \<times> provider_method, rate_window) tbl"

type_synonym ('s, 'a) core_step = "('s provider_core, provider_error, 'a) step"

definition provider_core_new :: "'s \<Rightarrow> bytes \<Rightarrow> bool \<Rightarrow> 's provider_core" where
  "provider_core_new state wallet_session wallet_locked =
     \<lparr>pc_state = state, pc_authorities = [], pc_wallet_session = wallet_session,
      pc_wallet_locked = wallet_locked, pc_last_now_unix_ms = 0, pc_pending = [],
      pc_replay = [], pc_rate = []\<rparr>"

definition accept_time :: "u64 \<Rightarrow> ('s, unit) core_step" where
  "accept_time now_unix_ms =
     sbind (sget pc_last_now_unix_ms) (\<lambda>last.
       if now_unix_ms < last then sfail PE_ClockRollback
       else smodify (\<lambda>c. c\<lparr>pc_last_now_unix_ms := now_unix_ms\<rparr>))"

definition authority :: "bytes \<Rightarrow> u64 \<Rightarrow> u64 \<Rightarrow> ('s, registered_authority) core_step" where
  "authority handle authority_revision now_unix_ms =
     sbind (sget pc_authorities) (\<lambda>authorities.
     sbind (lift_result (ok_or (tbl_get authorities handle) PE_AuthorityNotFound)) (\<lambda>a.
       if authority_revision = 0 \<or> ra_revision a \<noteq> authority_revision \<or>
          ha_valid_until_unix_ms (ra_facts a) \<le> now_unix_ms
       then sfail PE_StaleContext else sreturn a))"

definition forget_handle :: "bytes \<Rightarrow> 's provider_core \<Rightarrow> 's provider_core" where
  "forget_handle handle c =
     c\<lparr>pc_pending := tbl_retain (\<lambda>_ a. ca_authority_handle a \<noteq> handle) (pc_pending c),
       pc_rate := tbl_retain (\<lambda>(candidate, _) _. candidate \<noteq> handle) (pc_rate c),
       pc_replay := tbl_retain (\<lambda>(candidate, _) _. candidate \<noteq> handle) (pc_replay c)\<rparr>"

definition remove_authority :: "bytes \<Rightarrow> 's provider_core \<Rightarrow> 's provider_core" where
  "remove_authority handle c =
     forget_handle handle (c\<lparr>pc_authorities := tbl_del handle (pc_authorities c)\<rparr>)"

definition prune_expired_authorities :: "u64 \<Rightarrow> 's provider_core \<Rightarrow> 's provider_core" where
  "prune_expired_authorities now_unix_ms c =
     fold remove_authority
       (map fst (filter (\<lambda>(_, a). ha_valid_until_unix_ms (ra_facts a) \<le> now_unix_ms) (pc_authorities c))) c"

section \<open>Authorities\<close>

definition register_authority :: "bytes \<Rightarrow> host_authority_registration \<Rightarrow> u64 \<Rightarrow> ('s, u64) core_step" where
  "register_authority handle facts now_unix_ms =
     sbind (accept_time now_unix_ms) (\<lambda>_.
     sbind (lift_result (host_authority_validate facts now_unix_ms)) (\<lambda>_.
     sbind (smodify (prune_expired_authorities now_unix_ms)) (\<lambda>_.
     sbind (sget pc_authorities) (\<lambda>authorities.
       if tbl_get authorities handle \<noteq> None then sfail PE_DuplicateAuthority
       else if MAX_REGISTERED_AUTHORITIES \<le> length authorities then sfail PE_AuthorityCapacity
       else sbind (smodify (\<lambda>c. c\<lparr>pc_authorities := tbl_put handle
              \<lparr>ra_facts = facts, ra_revision = 1\<rparr> (pc_authorities c)\<rparr>)) (\<lambda>_. sreturn 1)))))"

definition replace_authority ::
  "bytes \<Rightarrow> u64 \<Rightarrow> host_authority_registration \<Rightarrow> u64 \<Rightarrow> ('s, u64) core_step" where
  "replace_authority handle expected_revision replacement now_unix_ms =
     sbind (accept_time now_unix_ms) (\<lambda>_.
     sbind (lift_result (host_authority_validate replacement now_unix_ms)) (\<lambda>_.
     sbind (sget pc_authorities) (\<lambda>authorities.
     sbind (lift_result (ok_or (tbl_get authorities handle) PE_AuthorityNotFound)) (\<lambda>current.
     let facts = ra_facts current
     in if expected_revision = 0 \<or> ra_revision current \<noteq> expected_revision \<or>
           ha_valid_until_unix_ms facts \<le> now_unix_ms \<or>
           ha_origin replacement \<noteq> ha_origin facts \<or>
           ha_namespace replacement \<noteq> ha_namespace facts \<or>
           ha_runtime_session replacement \<noteq> ha_runtime_session facts \<or>
           ha_runtime_generation replacement < ha_runtime_generation facts \<or>
           ha_policy_generation replacement < ha_policy_generation facts \<or>
           ha_navigation_generation replacement < ha_navigation_generation facts
        then sfail PE_StaleContext
        else sbind (lift_result (ok_or (checked_add_u64 (ra_revision current) 1) PE_StaleContext))
          (\<lambda>revision. sbind (smodify (\<lambda>c. forget_handle handle
              (c\<lparr>pc_authorities := tbl_put handle \<lparr>ra_facts = replacement, ra_revision = revision\<rparr>
                 (pc_authorities c)\<rparr>))) (\<lambda>_. sreturn revision))))))"

definition revoke_authority :: "bytes \<Rightarrow> u64 \<Rightarrow> ('s, unit) core_step" where
  "revoke_authority handle expected_revision =
     sbind (sget pc_authorities) (\<lambda>authorities.
     sbind (lift_result (ok_or (tbl_get authorities handle) PE_AuthorityNotFound)) (\<lambda>a.
       if expected_revision = 0 \<or> ra_revision a \<noteq> expected_revision then sfail PE_StaleContext
       else smodify (remove_authority handle)))"

definition set_wallet_state :: "bytes \<Rightarrow> bool \<Rightarrow> 's provider_core \<Rightarrow> 's provider_core" where
  "set_wallet_state wallet_session wallet_locked c =
     (if wallet_session \<noteq> pc_wallet_session c \<or> wallet_locked \<noteq> pc_wallet_locked c
      then c\<lparr>pc_pending := [], pc_replay := [], pc_rate := []\<rparr> else c)
     \<lparr>pc_wallet_session := wallet_session, pc_wallet_locked := wallet_locked\<rparr>"

section \<open>Requests\<close>

definition enforce_rate :: "bytes \<Rightarrow> provider_method \<Rightarrow> u64 \<Rightarrow> ('s, unit) core_step" where
  "enforce_rate handle m now_unix =
     sbind (sget pc_rate) (\<lambda>rate.
     let entry = (case tbl_get rate (handle, m) of
                    Some w \<Rightarrow> w | None \<Rightarrow> \<lparr>rw_starts_at_unix = now_unix, rw_count = 0\<rparr>);
         window = (if RATE_WINDOW_SECONDS \<le> saturating_sub now_unix (rw_starts_at_unix entry)
                   then \<lparr>rw_starts_at_unix = now_unix, rw_count = 0\<rparr> else entry);
         store = (\<lambda>w. smodify (\<lambda>c. c\<lparr>pc_rate := tbl_put (handle, m) w (pc_rate c)\<rparr>))
     in if rate_limit m \<le> rw_count window
        then sbind (store window) (\<lambda>_. sfail PE_RateLimited)
        else store (window\<lparr>rw_count := rw_count window + 1\<rparr>))"

definition consume_nonce :: "bytes \<Rightarrow> u64 \<Rightarrow> u64 \<Rightarrow> u64 \<Rightarrow> ('s, unit) core_step" where
  "consume_nonce handle nonce now_unix expires_at_unix =
     sbind (smodify (\<lambda>c. c\<lparr>pc_replay := tbl_retain (\<lambda>_ expiry. now_unix < expiry) (pc_replay c)\<rparr>)) (\<lambda>_.
     sbind (sget pc_replay) (\<lambda>replay.
       if tbl_get replay (handle, nonce) \<noteq> None then sfail PE_Replay
       else if MAX_REPLAY_NONCES \<le> length replay then sfail PE_RateLimited
       else smodify (\<lambda>c. c\<lparr>pc_replay := tbl_put (handle, nonce) expires_at_unix (pc_replay c)\<rparr>)))"

definition generation_or_zero :: "'s provider_ops \<Rightarrow> origin_text \<Rightarrow> ('s, u64) core_step" where
  "generation_or_zero ops scope =
     sbind (sget pc_state) (\<lambda>state.
     sbind (lift_result (po_generation ops state scope)) (\<lambda>g.
       sreturn (case g of None \<Rightarrow> 0 | Some n \<Rightarrow> n)))"

definition check_permission ::
  "'s provider_ops \<Rightarrow> origin_text \<Rightarrow> host_authority_registration \<Rightarrow> provider_method \<Rightarrow> u64 \<Rightarrow> u64 \<Rightarrow>
   provider_error \<Rightarrow> ('s, unit) core_step" where
  "check_permission ops scope facts m permission_generation now_unix refusal =
     (case method_permission m of
        None \<Rightarrow> sreturn ()
      | Some required \<Rightarrow>
          sbind (sget pc_state) (\<lambda>state.
          sbind (lift_result (po_permission ops state scope)) (\<lambda>stored.
          sbind (lift_result (validate_permission_identity stored facts now_unix)) (\<lambda>validated.
          sbind (lift_result (ok_or validated refusal)) (\<lambda>permission.
            if pm_generation permission \<noteq> permission_generation \<or> \<not> permits permission required now_unix
            then sfail refusal else sreturn ())))))"

definition issue_action ::
  "'s provider_ops \<Rightarrow> crypto \<Rightarrow> bytes \<Rightarrow> u64 \<Rightarrow> u64 \<Rightarrow> host_authority_registration \<Rightarrow> provider_method \<Rightarrow>
   json \<Rightarrow> u64 \<Rightarrow> u64 \<Rightarrow> ('s, provider_action) core_step" where
  "issue_action ops C handle authority_revision request_nonce facts m params now_unix expires_at_unix =
     (let scope = permission_scope C facts;
          call = \<lparr>ac_origin = ha_origin facts, ac_namespace = ha_namespace facts, ac_method = m,
                  ac_params = params, ac_request_nonce = request_nonce\<rparr>
      in sbind (generation_or_zero ops scope) (\<lambda>permission_generation.
      sbind (check_permission ops scope facts m permission_generation now_unix PE_Unauthorized) (\<lambda>_.
      case method_approval m of
        None \<Rightarrow> sreturn (Execute call)
      | Some kind \<Rightarrow>
          sbind (smodify (\<lambda>c. c\<lparr>pc_pending :=
              tbl_retain (\<lambda>_ p. now_unix < ca_expires_at_unix p) (pc_pending c)\<rparr>)) (\<lambda>_.
          sbind (sget pc_pending) (\<lambda>pending.
          if MAX_CORE_PENDING_APPROVALS \<le> length pending then sfail PE_RateLimited
          else sbind (sget pc_wallet_session) (\<lambda>session.
            let approval = \<lparr>ca_id = core_approval_id C handle authority_revision session
                     request_nonce m (ha_namespace facts) (ha_origin facts),
                   ca_kind = kind, ca_call = call, ca_authority_handle = handle,
                   ca_authority_revision = authority_revision, ca_wallet_session = session,
                   ca_permission_generation = permission_generation,
                   ca_expires_at_unix = expires_at_unix\<rparr>
            in sbind (smodify (\<lambda>c. c\<lparr>pc_pending := tbl_put (ca_id approval) approval (pc_pending c)\<rparr>))
                 (\<lambda>_. sreturn (ApprovalRequired approval))))))))"

definition admit_method ::
  "bytes \<Rightarrow> u64 \<Rightarrow> host_authority_registration \<Rightarrow> provider_request \<Rightarrow> u64 \<Rightarrow>
   ('s, provider_method \<times> u64) core_step" where
  "admit_method handle request_nonce facts rq now_unix_ms =
     (if request_nonce = 0 then sfail PE_Replay
      else sbind (lift_result (provider_method_parse (rq_method rq))) (\<lambda>m.
      if requires_hns_namespace m \<and> ha_namespace facts \<noteq> NsHns then sfail PE_Unauthorized
      else sbind (lift_result (validate_module_params m (rq_params rq))) (\<lambda>_.
      sbind (enforce_rate handle m (now_unix_ms div 1000)) (\<lambda>_.
      sbind (lift_result (ok_or (checked_add_u64 now_unix_ms (APPROVAL_LIFETIME_SECONDS * 1000))
                            PE_StaleContext)) (\<lambda>deadline_ms.
      sbind (consume_nonce handle request_nonce (now_unix_ms div 1000) (deadline_ms div 1000)) (\<lambda>_.
        sreturn (m, deadline_ms div 1000)))))))"

definition request ::
  "'s provider_ops \<Rightarrow> crypto \<Rightarrow> (bytes \<Rightarrow> provider_request option) \<Rightarrow> bytes \<Rightarrow> u64 \<Rightarrow> u64 \<Rightarrow> u64 \<Rightarrow> bytes \<Rightarrow>
   ('s, provider_action) core_step" where
  "request ops C from_slice handle authority_revision request_nonce now_unix_ms request_bytes =
     sbind (accept_time now_unix_ms) (\<lambda>_.
     sbind (lift_result (provider_request_decode from_slice request_bytes)) (\<lambda>rq.
     sbind (authority handle authority_revision now_unix_ms) (\<lambda>a.
     sbind (admit_method handle request_nonce (ra_facts a) rq now_unix_ms) (\<lambda>(m, expires_at_unix).
     sbind (sget pc_wallet_locked) (\<lambda>locked.
       if locked \<and> m \<noteq> PM_WalletGetStatus \<and> m \<noteq> PM_WalletGetCapabilities then sfail PE_WalletLocked
       else issue_action ops C handle authority_revision request_nonce (ra_facts a) m (rq_params rq)
              (now_unix_ms div 1000) expires_at_unix)))))"

section \<open>Approvals\<close>

definition approval_is_stale ::
  "core_approval \<Rightarrow> host_authority_registration \<Rightarrow> bytes \<Rightarrow> u64 \<Rightarrow> bytes \<Rightarrow> u64 \<Rightarrow> u64 \<Rightarrow> bool" where
  "approval_is_stale p facts handle authority_revision session permission_generation now_unix_ms \<longleftrightarrow>
     ca_expires_at_unix p \<le> now_unix_ms div 1000 \<or>
     ac_origin (ca_call p) \<noteq> ha_origin facts \<or> ac_namespace (ca_call p) \<noteq> ha_namespace facts \<or>
     ca_authority_handle p \<noteq> handle \<or> ca_authority_revision p \<noteq> authority_revision \<or>
     ca_wallet_session p \<noteq> session \<or> ca_permission_generation p \<noteq> permission_generation"

definition approve ::
  "'s provider_ops \<Rightarrow> crypto \<Rightarrow> bytes \<Rightarrow> u64 \<Rightarrow> approval_id \<Rightarrow> u64 \<Rightarrow> ('s, approved_call) core_step" where
  "approve ops C handle authority_revision i now_unix_ms =
     sbind (accept_time now_unix_ms) (\<lambda>_.
     sbind (authority handle authority_revision now_unix_ms) (\<lambda>a.
     sbind (sget pc_pending) (\<lambda>pending.
     sbind (lift_result (ok_or (tbl_get pending i) PE_StaleApproval)) (\<lambda>p.
     let facts = ra_facts a; scope = permission_scope C facts; now_unix = now_unix_ms div 1000
     in sbind (generation_or_zero ops scope) (\<lambda>permission_generation.
     sbind (sget pc_wallet_session) (\<lambda>session.
     if approval_is_stale p facts handle authority_revision session permission_generation now_unix_ms
     then sfail PE_StaleApproval
     else sbind (check_permission ops scope facts (ac_method (ca_call p)) permission_generation
                   now_unix PE_StaleApproval) (\<lambda>_.
          sbind (smodify (\<lambda>c. c\<lparr>pc_pending := tbl_del i (pc_pending c)\<rparr>)) (\<lambda>_.
            sreturn (ca_call p)))))))))"

definition reject ::
  "'s provider_ops \<Rightarrow> crypto \<Rightarrow> bytes \<Rightarrow> u64 \<Rightarrow> approval_id \<Rightarrow> u64 \<Rightarrow> ('s, unit) core_step" where
  "reject ops C handle authority_revision i now_unix_ms =
     sbind (accept_time now_unix_ms) (\<lambda>_.
     sbind (authority handle authority_revision now_unix_ms) (\<lambda>a.
     sbind (sget pc_pending) (\<lambda>pending.
     sbind (lift_result (ok_or (tbl_get pending i) PE_StaleApproval)) (\<lambda>p.
     let facts = ra_facts a
     in sbind (generation_or_zero ops (permission_scope C facts)) (\<lambda>permission_generation.
     sbind (sget pc_wallet_session) (\<lambda>session.
     if approval_is_stale p facts handle authority_revision session permission_generation now_unix_ms
     then sfail PE_StaleApproval
     else smodify (\<lambda>c. c\<lparr>pc_pending := tbl_del i (pc_pending c)\<rparr>)))))))"

section \<open>Permissions\<close>

definition permission_snapshot_of ::
  "'s provider_ops \<Rightarrow> crypto \<Rightarrow> bytes \<Rightarrow> u64 \<Rightarrow> u64 \<Rightarrow> ('s, permission_snapshot) core_step" where
  "permission_snapshot_of ops C handle authority_revision now_unix_ms =
     sbind (accept_time now_unix_ms) (\<lambda>_.
     sbind (authority handle authority_revision now_unix_ms) (\<lambda>a.
     let facts = ra_facts a; scope = permission_scope C facts
     in sbind (generation_or_zero ops scope) (\<lambda>generation.
     sbind (sget pc_state) (\<lambda>state.
     sbind (lift_result (po_permission ops state scope)) (\<lambda>stored.
     if (case stored of None \<Rightarrow> False | Some p \<Rightarrow> pm_generation p \<noteq> generation)
     then sfail PE_Persistence
     else sbind (lift_result (validate_permission_identity stored facts (now_unix_ms div 1000)))
       (\<lambda>permission. sreturn \<lparr>ps_generation = generation, ps_record = permission\<rparr>))))))"

definition grant_is_invalid ::
  "host_authority_registration \<Rightarrow> permission_capability list \<Rightarrow> account_id list \<Rightarrow> bytes list \<Rightarrow> u64 \<Rightarrow>
   u64 option \<Rightarrow> bool" where
  "grant_is_invalid facts capabilities approved_accounts approved_names now_unix expires_at_unix \<longleftrightarrow>
     (let binds_accounts = (approved_accounts \<noteq> [])
      in capabilities = [] \<or> MAX_APPROVED_ACCOUNTS < length approved_accounts \<or>
         MAX_APPROVED_NAMES < length approved_names \<or> list_ex all_zero approved_accounts \<or>
         (Accounts \<in> set capabilities) \<noteq> binds_accounts \<or>
         (binds_accounts \<and> ha_namespace facts \<noteq> NsHns) \<or>
         (approved_names \<noteq> [] \<and>
           (Names \<notin> set capabilities \<or> Accounts \<notin> set capabilities \<or> approved_accounts = [] \<or>
            ha_namespace facts \<noteq> NsHns)) \<or>
         (case expires_at_unix of None \<Rightarrow> False | Some expiry \<Rightarrow> expiry \<le> now_unix))"

definition forget_scope :: "host_authority_registration \<Rightarrow> 's provider_core \<Rightarrow> 's provider_core" where
  "forget_scope facts c = c\<lparr>pc_pending := tbl_retain (\<lambda>_ p.
     ac_origin (ca_call p) \<noteq> ha_origin facts \<or> ac_namespace (ca_call p) \<noteq> ha_namespace facts)
     (pc_pending c)\<rparr>"

definition grant_scoped_permissions_inner ::
  "'s provider_ops \<Rightarrow> crypto \<Rightarrow> bytes \<Rightarrow> u64 \<Rightarrow> u64 option \<Rightarrow> permission_capability list \<Rightarrow>
   account_id list \<Rightarrow> bytes list \<Rightarrow> u64 \<Rightarrow> u64 option \<Rightarrow> ('s, permission_record) core_step" where
  "grant_scoped_permissions_inner ops C handle authority_revision expected_generation capabilities
     approved_accounts approved_names now_unix_ms expires_at_unix =
     sbind (accept_time now_unix_ms) (\<lambda>_.
     let now_unix = now_unix_ms div 1000
     in sbind (authority handle authority_revision now_unix_ms) (\<lambda>a.
     let facts = ra_facts a; scope = permission_scope C facts
     in if grant_is_invalid facts capabilities approved_accounts approved_names now_unix expires_at_unix
     then sfail PE_InvalidPermission
     else sbind (generation_or_zero ops scope) (\<lambda>current_generation.
     if (case expected_generation of None \<Rightarrow> False | Some e \<Rightarrow> e \<noteq> current_generation)
     then sfail PE_StaleApproval
     else sbind (lift_result (ok_or (checked_add_u64 current_generation 1) PE_StaleContext))
       (\<lambda>next_generation.
     let r = \<lparr>pm_origin = ha_origin facts, pm_namespace = ha_namespace facts,
              pm_generation = next_generation, pm_capabilities = capabilities,
              pm_approved_accounts = approved_accounts, pm_approved_names = approved_names,
              pm_created_at_unix = now_unix, pm_expires_at_unix = expires_at_unix\<rparr>
     in sbind (sget pc_state) (\<lambda>state.
     sbind (lift_result (po_save ops state scope r)) (\<lambda>state'.
     sbind (smodify (\<lambda>c. forget_scope facts (c\<lparr>pc_state := state'\<rparr>))) (\<lambda>_. sreturn r)))))))"

definition grant_scoped_permissions ::
  "'s provider_ops \<Rightarrow> crypto \<Rightarrow> bytes \<Rightarrow> u64 \<Rightarrow> permission_capability list \<Rightarrow> account_id list \<Rightarrow>
   bytes list \<Rightarrow> u64 \<Rightarrow> u64 option \<Rightarrow> ('s, permission_record) core_step" where
  "grant_scoped_permissions ops C handle authority_revision capabilities approved_accounts
     approved_names now_unix_ms expires_at_unix =
     grant_scoped_permissions_inner ops C handle authority_revision None capabilities
       approved_accounts approved_names now_unix_ms expires_at_unix"

definition grant_scoped_permissions_at_generation ::
  "'s provider_ops \<Rightarrow> crypto \<Rightarrow> bytes \<Rightarrow> u64 \<Rightarrow> u64 \<Rightarrow> permission_capability list \<Rightarrow> account_id list \<Rightarrow>
   bytes list \<Rightarrow> u64 \<Rightarrow> u64 option \<Rightarrow> ('s, permission_record) core_step" where
  "grant_scoped_permissions_at_generation ops C handle authority_revision expected_generation
     capabilities approved_accounts approved_names now_unix_ms expires_at_unix =
     grant_scoped_permissions_inner ops C handle authority_revision (Some expected_generation)
       capabilities approved_accounts approved_names now_unix_ms expires_at_unix"

definition grant_permissions ::
  "'s provider_ops \<Rightarrow> crypto \<Rightarrow> bytes \<Rightarrow> u64 \<Rightarrow> permission_capability list \<Rightarrow> bytes list \<Rightarrow> u64 \<Rightarrow>
   u64 option \<Rightarrow> ('s, permission_record) core_step" where
  "grant_permissions ops C handle authority_revision capabilities approved_names now_unix_ms
     expires_at_unix =
     grant_scoped_permissions ops C handle authority_revision capabilities [] approved_names
       now_unix_ms expires_at_unix"

definition revoke_permissions ::
  "'s provider_ops \<Rightarrow> crypto \<Rightarrow> bytes \<Rightarrow> u64 \<Rightarrow> u64 \<Rightarrow> ('s, u64) core_step" where
  "revoke_permissions ops C handle authority_revision now_unix_ms =
     sbind (accept_time now_unix_ms) (\<lambda>_.
     sbind (authority handle authority_revision now_unix_ms) (\<lambda>a.
     let facts = ra_facts a; scope = permission_scope C facts
     in sbind (sget pc_state) (\<lambda>state.
     sbind (lift_result (po_generation ops state scope)) (\<lambda>g.
     sbind (lift_result (ok_or g PE_InvalidPermission)) (\<lambda>expected_generation.
     sbind (lift_result (ok_or (checked_add_u64 expected_generation 1) PE_StaleContext))
       (\<lambda>next_generation.
     sbind (lift_result (po_revoke ops state scope expected_generation next_generation
                           (now_unix_ms div 1000))) (\<lambda>state'.
     sbind (smodify (\<lambda>c. forget_scope facts (c\<lparr>pc_state := state'\<rparr>))) (\<lambda>_.
       sreturn next_generation))))))))"

end
