(* ===== verification/Provider_State.thy ===== *)
theory Provider_State
  imports Provider_Core
begin

text \<open>
  The contract of \<open>ProviderStateStore\<close> as the locale \<open>provider_state_store\<close>, and its two
  implementations: the in-memory state and the permission rows of the wallet store. The
  contract says what the policy core relies on: a saved record is the one read back, its
  generation is the successor of the stored one, a revoked scope reads as absent, and no
  operation on one scope gives another scope a permission it did not have.
\<close>

lemma validate_origin_Ok [simp]:
  "validate_origin r = Inr u \<longleftrightarrow> r \<noteq> [] \<and> length r \<le> 512 \<and> list_all (\<lambda>b. b < 128) r"
  by (auto simp: validate_origin_def)

lemma be_bytes_2_value:
  assumes "length bs = 2"
  shows "be_bytes 2 (be_value bs 0) = bs"
proof -
  from assms obtain a b where bs: "bs = [a, b]"
    by (metis (no_types, lifting) One_nat_def Suc_1 length_0_conv length_Suc_conv)
  have "unat a < 256" "unat b < 256" using unsigned_less [of a] unsigned_less [of b] by simp_all
  then show ?thesis by (simp add: bs numeral_2_eq_2)
qed

lemma decode_origin_payload_iff:
  "decode_origin_payload e = Inr (origin, payload) \<longleftrightarrow> encode_origin_payload origin payload = Inr e"
proof
  assume "encode_origin_payload origin payload = Inr e"
  then have e: "e = be_bytes 2 (length origin) @ origin @ payload" "origin \<noteq> []" "length origin \<le> 512"
    "list_all (\<lambda>b. b < 128) origin" "payload \<noteq> []" "2 + length origin + length payload \<le> MAX_SECRET_BYTES"
    by (auto simp: encode_origin_payload_def if_Inl_eq_Inr split: if_splits)
  have "be_value (be_bytes 2 (length origin)) 0 = length origin"
    using e(3) by (intro be_value_be_bytes) simp
  with e show "decode_origin_payload e = Inr (origin, payload)"
    by (cases origin; cases payload)
       (simp_all add: decode_origin_payload_def Let_def del: be_bytes.simps)
next
  assume d: "decode_origin_payload e = Inr (origin, payload)"
  let ?n = "be_value (take 2 e) 0"
  from d have l: "3 \<le> length e" "length e \<le> MAX_SECRET_BYTES" "2 + ?n < length e"
    and o: "origin = take ?n (drop 2 e)" "payload = drop (2 + ?n) e" "origin \<noteq> []" "length origin \<le> 512"
    "list_all (\<lambda>b. b < 128) origin"
    by (auto simp: decode_origin_payload_def Let_def if_Inl_eq_Inr map_err_def split: if_splits sum.splits)
  have n: "length origin = ?n" using o(1) l by simp
  have b: "be_bytes 2 ?n = take 2 e" using l by (intro be_bytes_2_value) simp
  have "e = take 2 e @ take ?n (drop 2 e) @ drop (2 + ?n) e"
    by (metis append_take_drop_id drop_drop add.commute)
  then have "e = be_bytes 2 (length origin) @ origin @ payload" using o(1,2) n b by simp
  moreover have "payload \<noteq> []" using o(2) l by simp
  moreover have "2 + length origin + length payload \<le> MAX_SECRET_BYTES" using o(2) n l by simp
  ultimately show "encode_origin_payload origin payload = Inr e"
    using o by (simp add: encode_origin_payload_def)
qed

section \<open>The contract of a provider state store\<close>

locale provider_state_store =
  fixes invar :: "'s \<Rightarrow> bool" and ops :: "'s provider_ops"
  assumes save_inv: "invar s \<Longrightarrow> po_save ops s sc r = Inr s' \<Longrightarrow> invar s'"
    and revoke_inv: "invar s \<Longrightarrow> po_revoke ops s sc e n u = Inr s' \<Longrightarrow> invar s'"
    and coherent: "invar s \<Longrightarrow> po_permission ops s sc = Inr (Some r) \<Longrightarrow>
      po_generation ops s sc = Inr (Some (pm_generation r))"
    and save_permission: "invar s \<Longrightarrow> po_save ops s sc r = Inr s' \<Longrightarrow>
      po_permission ops s' sc = Inr (Some r) \<and> po_generation ops s' sc = Inr (Some (pm_generation r))"
    and save_generation: "invar s \<Longrightarrow> po_save ops s sc r = Inr s' \<Longrightarrow>
      po_generation ops s sc = Inr None \<or>
      (\<exists>g. po_generation ops s sc = Inr (Some g) \<and> pm_generation r = g + 1)"
    and save_frame: "invar s \<Longrightarrow> po_save ops s sc r = Inr s' \<Longrightarrow> sc' \<noteq> sc \<Longrightarrow>
      po_permission ops s' sc' = Inr p \<Longrightarrow> po_permission ops s sc' = Inr p"
    and revoke_permission: "invar s \<Longrightarrow> po_revoke ops s sc e n u = Inr s' \<Longrightarrow>
      po_permission ops s' sc = Inr None \<and> po_generation ops s' sc = Inr (Some n) \<and>
      po_generation ops s sc = Inr (Some e) \<and> n = e + 1"
    and revoke_frame: "invar s \<Longrightarrow> po_revoke ops s sc e n u = Inr s' \<Longrightarrow> sc' \<noteq> sc \<Longrightarrow>
      po_permission ops s' sc' = Inr p \<Longrightarrow> po_permission ops s sc' = Inr p"

definition memory_inv :: "memory_provider_state \<Rightarrow> bool" where
  "memory_inv s \<longleftrightarrow> (\<forall>sc r. tbl_get (mp_permissions s) sc = Some r \<longrightarrow>
     tbl_get (mp_generations s) sc = Some (pm_generation r))"

lemma memory_save_Ok:
  "memory_save_permission s sc r = Inr s' \<longleftrightarrow>
     (case tbl_get (mp_generations s) sc of None \<Rightarrow> True | Some g \<Rightarrow> g + 1 < 2 ^ 64 \<and> pm_generation r = g + 1) \<and>
     s' = \<lparr>mp_permissions = tbl_put sc r (mp_permissions s),
           mp_generations = tbl_put sc (pm_generation r) (mp_generations s)\<rparr>"
  by (auto simp: memory_save_permission_def if_Inl_eq_Inr split: option.splits)

lemma memory_revoke_Ok:
  "memory_revoke_permission s sc e n = Inr s' \<longleftrightarrow>
     tbl_get (mp_generations s) sc = Some e \<and> n = e + 1 \<and> n < 2 ^ 64 \<and>
     s' = \<lparr>mp_permissions = tbl_del sc (mp_permissions s), mp_generations = tbl_put sc n (mp_generations s)\<rparr>"
  by (auto simp: memory_revoke_permission_def if_Inl_eq_Inr)

lemma memory_ops_sel [simp]:
  "po_permission memory_ops s sc = Inr (tbl_get (mp_permissions s) sc)"
  "po_generation memory_ops s sc = Inr (tbl_get (mp_generations s) sc)"
  "po_save memory_ops = memory_save_permission"
  "po_revoke memory_ops s sc e n u = memory_revoke_permission s sc e n"
  by (simp_all add: memory_ops_def)

interpretation memory_state: provider_state_store memory_inv memory_ops
proof (unfold_locales, goal_cases)
  case (1 s sc r s')
  then show ?case by (auto simp: memory_save_Ok memory_inv_def tbl_get_put)
next
  case (2 s sc e n u s')
  then show ?case by (auto simp: memory_revoke_Ok memory_inv_def tbl_get_put tbl_get_del split: if_splits)
next
  case (5 s sc r s')
  then show ?case by (auto simp: memory_save_Ok split: option.splits)
qed (auto simp: memory_inv_def memory_save_Ok memory_revoke_Ok tbl_get_put tbl_get_del)

section \<open>Permission rows of the wallet store\<close>

lemma open_sealed_permission:
  assumes "crypto_law C" "encode_origin_payload origin payload = Inr clear"
    "seal_permission C key s token g b u clear = Inr e"
    "ws_database_id s' = ws_database_id s"
  shows "open_permission C key s' origin' token \<lparr>pr_generation = g, pr_record = e, pr_updated = u,
      pr_revoked = b\<rparr> = (if origin' = origin then Inr payload else Inl SE_Encryption)"
proof -
  have "decrypt_record C key (ws_database_id s) ''provider_permission'' (permission_record_id token g b u) e
      = Inr clear"
    using assms(3) decrypt_encrypt [OF assms(1)] by (simp add: seal_permission_def)
  moreover have "decode_origin_payload clear = Inr (origin, payload)"
    using assms(2) by (simp add: decode_origin_payload_iff)
  ultimately show ?thesis using assms(4) by (simp add: open_permission_def)
qed

definition perm_token :: "crypto \<Rightarrow> wallet_store \<Rightarrow> bytes \<Rightarrow> origin_text \<Rightarrow> bytes" where
  "perm_token C s key sc = origin_lookup_token C key (ws_database_id s) sc"

lemma put_provider_permission_Ok:
  assumes "put_provider_permission C s sc g json u = Inr s'"
  obtains key clear e where "store_key s = Inr key" "0 < g" "json \<noteq> []"
    "encode_origin_payload sc json = Inr clear"
    "seal_permission C key s (perm_token C s key sc) g False u clear = Inr e"
    "case tbl_get (ws_permissions s) (perm_token C s key sc) of
       None \<Rightarrow> length (ws_permissions s) < MAX_PROVIDER_PERMISSIONS
     | Some row \<Rightarrow> is_ok (open_permission C key s sc (perm_token C s key sc) row) \<and> g = pr_generation row + 1"
    "s' = s\<lparr>ws_permissions := tbl_put (perm_token C s key sc)
        \<lparr>pr_generation = g, pr_record = e, pr_updated = u, pr_revoked = False\<rparr> (ws_permissions s)\<rparr>"
  using assms
  unfolding put_provider_permission_def Let_def rbind_eq_Inr if_Inl_eq_Inr write_permission_def
    perm_token_def [symmetric] ok_or_eq_Inr
  by (elim exE conjE, cases "tbl_get (ws_permissions s) (perm_token C s (the (ws_key s)) sc)")
     (simp_all add: is_ok_iff not_le)

lemma revoke_provider_permission_Ok:
  assumes "revoke_provider_permission C s sc g n u = Inr s'"
  obtains key clear e row where "store_key s = Inr key" "0 < g" "n = g + 1"
    "encode_origin_payload sc (byte_str ''revoked'') = Inr clear"
    "tbl_get (ws_permissions s) (perm_token C s key sc) = Some row"
    "pr_generation row = g" "\<not> pr_revoked row"
    "is_ok (open_permission C key s sc (perm_token C s key sc) row)"
    "seal_permission C key s (perm_token C s key sc) n True u clear = Inr e"
    "s' = s\<lparr>ws_permissions := tbl_put (perm_token C s key sc)
        \<lparr>pr_generation = n, pr_record = e, pr_updated = u, pr_revoked = True\<rparr> (ws_permissions s)\<rparr>"
  using assms
  unfolding revoke_provider_permission_def Let_def rbind_eq_Inr if_Inl_eq_Inr write_permission_def
    perm_token_def [symmetric] ok_or_eq_Inr
  by (elim exE conjE, cases "tbl_get (ws_permissions s) (perm_token C s (the (ws_key s)) sc)")
     (simp, simp add: is_ok_iff if_Inl_eq_Inr, blast)

lemma provider_permission_eq:
  assumes "store_key s = Inr key" "validate_origin sc = Inr ()"
  shows "provider_permission C s sc = (case tbl_get (ws_permissions s) (perm_token C s key sc) of
       None \<Rightarrow> Inr None
     | Some row \<Rightarrow> rbind (open_permission C key s sc (perm_token C s key sc) row)
         (\<lambda>payload. Inr (if pr_revoked row then None else Some (pr_generation row, payload))))"
    and "provider_permission_generation C s sc = (case tbl_get (ws_permissions s) (perm_token C s key sc) of
       None \<Rightarrow> Inr None
     | Some row \<Rightarrow> rbind (open_permission C key s sc (perm_token C s key sc) row)
         (\<lambda>_. Inr (Some (pr_generation row))))"
  unfolding provider_permission_def provider_permission_generation_def Let_def perm_token_def [symmetric]
    assms rbind_simps by (rule refl)+

lemma encode_origin_payload_origin:
  "encode_origin_payload sc p = Inr c \<Longrightarrow> validate_origin sc = Inr ()"
  by (simp add: encode_origin_payload_def)

text \<open>Rewriting the row of one scope to a sealed row of that scope changes no other scope's view,
  except that a scope whose token collides stops being readable.\<close>

lemma permission_row_written:
  assumes law: "crypto_law C" and key: "store_key s = Inr key"
    and enc: "encode_origin_payload sc payload = Inr clear"
    and e: "seal_permission C key s (perm_token C s key sc) g b u clear = Inr e"
    and s': "s' = s\<lparr>ws_permissions := tbl_put (perm_token C s key sc)
        \<lparr>pr_generation = g, pr_record = e, pr_updated = u, pr_revoked = b\<rparr> (ws_permissions s)\<rparr>"
  shows "provider_permission C s' sc = Inr (if b then None else Some (g, payload))"
    and "provider_permission_generation C s' sc = Inr (Some g)"
    and "\<And>sc' v. sc' \<noteq> sc \<Longrightarrow> provider_permission C s' sc' = Inr v \<Longrightarrow>
      provider_permission C s sc' = Inr v \<and>
      provider_permission_generation C s' sc' = provider_permission_generation C s sc'"
proof -
  have key': "store_key s' = Inr key" and tok: "perm_token C s' = perm_token C s"
    and db: "ws_database_id s' = ws_database_id s"
    using key by (simp_all add: s' perm_token_def fun_eq_iff)
  note opn = open_sealed_permission [OF law enc e db]
  have get: "tbl_get (ws_permissions s') t = (if t = perm_token C s key sc
      then Some \<lparr>pr_generation = g, pr_record = e, pr_updated = u, pr_revoked = b\<rparr>
      else tbl_get (ws_permissions s) t)" for t
    by (simp add: s' tbl_get_put)
  have eq: "open_permission C key s' = open_permission C key s"
    by (simp add: open_permission_def db fun_eq_iff)
  note v = encode_origin_payload_origin [OF enc]
  show "provider_permission C s' sc = Inr (if b then None else Some (g, payload))"
    by (simp add: provider_permission_eq(1) [OF key' v] get tok opn)
  show "provider_permission_generation C s' sc = Inr (Some g)"
    by (simp add: provider_permission_eq(2) [OF key' v] get tok opn)
  fix sc' w assume ne: "sc' \<noteq> sc" and w: "provider_permission C s' sc' = Inr w"
  from w have v': "validate_origin sc' = Inr ()" by (simp add: provider_permission_def)
  have "perm_token C s key sc' \<noteq> perm_token C s key sc"
    using w ne by (auto simp: provider_permission_eq(1) [OF key' v'] get tok opn)
  then show "provider_permission C s sc' = Inr w \<and>
      provider_permission_generation C s' sc' = provider_permission_generation C s sc'"
    using w by (simp add: provider_permission_eq [OF key' v'] provider_permission_eq [OF key v'] get tok eq
        cong: option.case_cong)
qed

section \<open>The wallet store as a provider state store\<close>

definition wallet_perm_inv :: "crypto \<Rightarrow> permission_record codec \<Rightarrow> wallet_store \<Rightarrow> bool" where
  "wallet_perm_inv C J s \<longleftrightarrow> crypto_law C \<and> codec_law J \<and>
     (\<forall>sc r. po_permission (wallet_ops C J) s sc = Inr (Some r) \<longrightarrow>
        po_generation (wallet_ops C J) s sc = Inr (Some (pm_generation r)))"

lemma map_err_Inr [simp]: "map_err f r = Inr x \<longleftrightarrow> r = Inr x"
  by (cases r) simp_all

lemma wallet_ops_permission_Ok:
  "po_permission (wallet_ops C J) s sc = Inr p \<longleftrightarrow>
     (\<exists>v. provider_permission C s sc = Inr v \<and>
        (case v of None \<Rightarrow> p = None | Some (_, bs) \<Rightarrow> \<exists>r. js_decode J bs = Some r \<and> p = Some r))"
  by (auto simp: wallet_ops_def split: option.splits)

lemma wallet_ops_generation_Ok:
  "po_generation (wallet_ops C J) s sc = Inr g \<longleftrightarrow> provider_permission_generation C s sc = Inr g"
  by (simp add: wallet_ops_def)

lemma wallet_save_Ok:
  assumes "crypto_law C" "codec_law J" "po_save (wallet_ops C J) s sc r = Inr s'"
  shows "po_permission (wallet_ops C J) s' sc = Inr (Some r)"
    and "po_generation (wallet_ops C J) s' sc = Inr (Some (pm_generation r))"
    and "po_generation (wallet_ops C J) s sc = Inr None \<or>
      (\<exists>g. po_generation (wallet_ops C J) s sc = Inr (Some g) \<and> pm_generation r = g + 1)"
    and "\<And>sc' p. sc' \<noteq> sc \<Longrightarrow> po_permission (wallet_ops C J) s' sc' = Inr p \<Longrightarrow>
      po_permission (wallet_ops C J) s sc' = Inr p \<and>
      po_generation (wallet_ops C J) s' sc' = po_generation (wallet_ops C J) s sc'"
proof -
  from assms(3) obtain bs where bs: "js_encode J r = Some bs"
    and put: "put_provider_permission C s sc (pm_generation r) bs (pm_created_at_unix r) = Inr s'"
    by (auto simp: wallet_ops_def)
  from put obtain key clear e where key: "store_key s = Inr key"
    and enc: "encode_origin_payload sc bs = Inr clear"
    and e: "seal_permission C key s (perm_token C s key sc) (pm_generation r) False
        (pm_created_at_unix r) clear = Inr e"
    and old: "case tbl_get (ws_permissions s) (perm_token C s key sc) of
         None \<Rightarrow> length (ws_permissions s) < MAX_PROVIDER_PERMISSIONS
       | Some row \<Rightarrow> is_ok (open_permission C key s sc (perm_token C s key sc) row) \<and>
           pm_generation r = pr_generation row + 1"
    and s': "s' = s\<lparr>ws_permissions := tbl_put (perm_token C s key sc)
        \<lparr>pr_generation = pm_generation r, pr_record = e, pr_updated = pm_created_at_unix r,
         pr_revoked = False\<rparr> (ws_permissions s)\<rparr>"
    by (rule put_provider_permission_Ok)
  note W = permission_row_written [OF assms(1) key enc e s']
  show "po_permission (wallet_ops C J) s' sc = Inr (Some r)"
    using W(1) bs assms(2) by (simp add: wallet_ops_permission_Ok codec_law_def)
  show "po_generation (wallet_ops C J) s' sc = Inr (Some (pm_generation r))"
    using W(2) by (simp add: wallet_ops_generation_Ok)
  show "po_generation (wallet_ops C J) s sc = Inr None \<or>
      (\<exists>g. po_generation (wallet_ops C J) s sc = Inr (Some g) \<and> pm_generation r = g + 1)"
    using old provider_permission_eq(2) [OF key encode_origin_payload_origin [OF enc], of C]
    by (auto simp: wallet_ops_generation_Ok is_ok_iff split: option.splits)
  fix sc' p assume "sc' \<noteq> sc" "po_permission (wallet_ops C J) s' sc' = Inr p"
  then show "po_permission (wallet_ops C J) s sc' = Inr p \<and>
      po_generation (wallet_ops C J) s' sc' = po_generation (wallet_ops C J) s sc'"
    using W(3) [of sc'] by (auto simp: wallet_ops_permission_Ok) (simp add: wallet_ops_def)
qed

lemma wallet_revoke_Ok:
  assumes "crypto_law C" "po_revoke (wallet_ops C J) s sc g n u = Inr s'"
  shows "po_permission (wallet_ops C J) s' sc = Inr None"
    and "po_generation (wallet_ops C J) s' sc = Inr (Some n)"
    and "po_generation (wallet_ops C J) s sc = Inr (Some g) \<and> n = g + 1"
    and "\<And>sc' p. sc' \<noteq> sc \<Longrightarrow> po_permission (wallet_ops C J) s' sc' = Inr p \<Longrightarrow>
      po_permission (wallet_ops C J) s sc' = Inr p \<and>
      po_generation (wallet_ops C J) s' sc' = po_generation (wallet_ops C J) s sc'"
proof -
  from assms(2) have "revoke_provider_permission C s sc g n u = Inr s'" by (simp add: wallet_ops_def)
  then obtain key clear e row where key: "store_key s = Inr key" and n: "n = g + 1"
    and enc: "encode_origin_payload sc (byte_str ''revoked'') = Inr clear"
    and row: "tbl_get (ws_permissions s) (perm_token C s key sc) = Some row" "pr_generation row = g"
      "is_ok (open_permission C key s sc (perm_token C s key sc) row)"
    and e: "seal_permission C key s (perm_token C s key sc) n True u clear = Inr e"
    and s': "s' = s\<lparr>ws_permissions := tbl_put (perm_token C s key sc)
        \<lparr>pr_generation = n, pr_record = e, pr_updated = u, pr_revoked = True\<rparr> (ws_permissions s)\<rparr>"
    by (rule revoke_provider_permission_Ok)
  note W = permission_row_written [OF assms(1) key enc e s']
  show "po_permission (wallet_ops C J) s' sc = Inr None"
    using W(1) by (simp add: wallet_ops_permission_Ok)
  show "po_generation (wallet_ops C J) s' sc = Inr (Some n)"
    using W(2) by (simp add: wallet_ops_generation_Ok)
  show "po_generation (wallet_ops C J) s sc = Inr (Some g) \<and> n = g + 1"
    using row n provider_permission_eq(2) [OF key encode_origin_payload_origin [OF enc], of C]
    by (auto simp: wallet_ops_generation_Ok is_ok_iff)
  fix sc' p assume "sc' \<noteq> sc" "po_permission (wallet_ops C J) s' sc' = Inr p"
  then show "po_permission (wallet_ops C J) s sc' = Inr p \<and>
      po_generation (wallet_ops C J) s' sc' = po_generation (wallet_ops C J) s sc'"
    using W(3) [of sc'] by (auto simp: wallet_ops_permission_Ok) (simp add: wallet_ops_def)
qed

interpretation wallet_state: provider_state_store "wallet_perm_inv C J" "wallet_ops C J"
  for C :: crypto and J :: "permission_record codec"
proof (unfold_locales, goal_cases)
  case (1 s sc r s')
  then have law: "crypto_law C" "codec_law J" by (simp_all add: wallet_perm_inv_def)
  note S = wallet_save_Ok [OF law 1(2)]
  show ?case
    unfolding wallet_perm_inv_def
  proof (intro conjI allI impI law)
    fix sc' p assume p: "po_permission (wallet_ops C J) s' sc' = Inr (Some p)"
    show "po_generation (wallet_ops C J) s' sc' = Inr (Some (pm_generation p))"
      using p S(1,2) S(4) [OF _ p] 1(1) by (cases "sc' = sc") (simp_all add: wallet_perm_inv_def)
  qed
next
  case (2 s sc e n u s')
  then have law: "crypto_law C" "codec_law J" by (simp_all add: wallet_perm_inv_def)
  note S = wallet_revoke_Ok [OF law(1) 2(2)]
  show ?case
    unfolding wallet_perm_inv_def
  proof (intro conjI allI impI law)
    fix sc' p assume p: "po_permission (wallet_ops C J) s' sc' = Inr (Some p)"
    show "po_generation (wallet_ops C J) s' sc' = Inr (Some (pm_generation p))"
      using p S(1,2) S(4) [OF _ p] 2(1) by (cases "sc' = sc") (simp_all add: wallet_perm_inv_def)
  qed
qed (simp add: wallet_perm_inv_def,
     use wallet_save_Ok wallet_revoke_Ok in \<open>auto simp: wallet_perm_inv_def\<close>)
end
