(* ===== verification/Provider_Laws.thy ===== *)
theory Provider_Laws
  imports Provider_State
begin

text \<open>
  The policy core's invariant (\<open>core_inv\<close>) and what a granted request or approval has
  established (\<open>request_granted\<close>, \<open>approve_granted\<close>), for every sequence of core operations.
  The proofs compute weakest preconditions of the \<open>step\<close> operations (\<open>wp\<close>).
\<close>

section \<open>The steps of a request\<close>

definition with_rate :: "bytes \<Rightarrow> provider_method \<Rightarrow> u64 \<Rightarrow> 's provider_core \<Rightarrow> rate_window" where
  "with_rate handle m now_unix c =
     (let entry = (case tbl_get (pc_rate c) (handle, m) of
                     Some w \<Rightarrow> w | None \<Rightarrow> \<lparr>rw_starts_at_unix = now_unix, rw_count = 0\<rparr>)
      in if RATE_WINDOW_SECONDS \<le> saturating_sub now_unix (rw_starts_at_unix entry)
         then \<lparr>rw_starts_at_unix = now_unix, rw_count = 0\<rparr> else entry)"

definition set_rate :: "bytes \<Rightarrow> provider_method \<Rightarrow> rate_window \<Rightarrow> 's provider_core \<Rightarrow> 's provider_core" where
  "set_rate handle m w c = c\<lparr>pc_rate := tbl_put (handle, m) w (pc_rate c)\<rparr>"

definition live_replay :: "u64 \<Rightarrow> 's provider_core \<Rightarrow> 's provider_core" where
  "live_replay now_unix c = c\<lparr>pc_replay := tbl_retain (\<lambda>_ expiry. now_unix < expiry) (pc_replay c)\<rparr>"

definition set_nonce :: "bytes \<Rightarrow> u64 \<Rightarrow> u64 \<Rightarrow> 's provider_core \<Rightarrow> 's provider_core" where
  "set_nonce handle nonce expiry c = c\<lparr>pc_replay := tbl_put (handle, nonce) expiry (pc_replay c)\<rparr>"

definition live_pending :: "u64 \<Rightarrow> 's provider_core \<Rightarrow> 's provider_core" where
  "live_pending now_unix c = c\<lparr>pc_pending := tbl_retain (\<lambda>_ p. now_unix < ca_expires_at_unix p) (pc_pending c)\<rparr>"

definition add_pending :: "core_approval \<Rightarrow> 's provider_core \<Rightarrow> 's provider_core" where
  "add_pending p c = c\<lparr>pc_pending := tbl_put (ca_id p) p (pc_pending c)\<rparr>"

lemma wp_accept_time [wp_simps]:
  "wp (accept_time now) Q E c = (if now < pc_last_now_unix_ms c then E PE_ClockRollback c
     else Q () (c\<lparr>pc_last_now_unix_ms := now\<rparr>))"
  by (simp add: accept_time_def wp_simps)

lemma wp_authority [wp_simps]:
  "wp (authority h r now) Q E c = (case tbl_get (pc_authorities c) h of
     None \<Rightarrow> E PE_AuthorityNotFound c
   | Some a \<Rightarrow> if r = 0 \<or> ra_revision a \<noteq> r \<or> ha_valid_until_unix_ms (ra_facts a) \<le> now
              then E PE_StaleContext c else Q a c)"
  by (simp add: authority_def wp_simps split: option.splits)

lemma wp_enforce_rate [wp_simps]:
  "wp (enforce_rate h m now) Q E c = (let w = with_rate h m now c in
     if rate_limit m \<le> rw_count w then E PE_RateLimited (set_rate h m w c)
     else Q () (set_rate h m (w\<lparr>rw_count := rw_count w + 1\<rparr>) c))"
  by (simp add: enforce_rate_def wp_simps Let_def with_rate_def set_rate_def)

lemma wp_consume_nonce [wp_simps]:
  "wp (consume_nonce h n now e) Q E c = (let d = live_replay now c in
     if tbl_get (pc_replay d) (h, n) \<noteq> None then E PE_Replay d
     else if MAX_REPLAY_NONCES \<le> length (pc_replay d) then E PE_RateLimited d
     else Q () (set_nonce h n e d))"
  by (simp add: consume_nonce_def wp_simps Let_def live_replay_def set_nonce_def)

lemma wp_generation_or_zero [wp_simps]:
  "wp (generation_or_zero ops sc) Q E c = (case po_generation ops (pc_state c) sc of
     Inl e \<Rightarrow> E e c | Inr g \<Rightarrow> Q (case g of None \<Rightarrow> 0 | Some n \<Rightarrow> n) c)"
  by (simp add: generation_or_zero_def wp_simps split: sum.splits)

definition permitted ::
  "'s provider_ops \<Rightarrow> 's \<Rightarrow> origin_text \<Rightarrow> host_authority_registration \<Rightarrow> provider_method \<Rightarrow> u64 \<Rightarrow> u64 \<Rightarrow> bool" where
  "permitted ops state sc facts m g now_unix \<longleftrightarrow>
     (case method_permission m of
        None \<Rightarrow> True
      | Some required \<Rightarrow> \<exists>p. po_permission ops state sc = Inr (Some p) \<and>
          pm_origin p = ha_origin facts \<and> pm_namespace p = ha_namespace facts \<and>
          pm_generation p = g \<and> permits p required now_unix)"

lemma validate_permission_identity_Some:
  "validate_permission_identity stored facts now = Inr (Some p) \<Longrightarrow>
     stored = Some p \<and> pm_origin p = ha_origin facts \<and> pm_namespace p = ha_namespace facts"
  by (auto simp: validate_permission_identity_def if_Inl_eq_Inr split: option.splits if_splits)

lemma wp_check_permission:
  assumes "permitted ops (pc_state c) sc facts m g now \<Longrightarrow> Q () c" and "\<And>e. E e c"
  shows "wp (check_permission ops sc facts m g now refusal) Q E c"
proof -
  have "snd (check_permission ops sc facts m g now refusal c) = c"
    by (auto simp: check_permission_def sbind_def split: option.splits sum.splits)
  moreover have "permitted ops (pc_state c) sc facts m g now"
    if "check_permission ops sc facts m g now refusal c = (Inr u, t)" for u t
    using that validate_permission_identity_Some
    by (fastforce simp: check_permission_def permitted_def sbind_Inr split: option.splits if_splits)
  ultimately show ?thesis using assms by (auto simp: wp_def split: prod.splits sum.splits)
qed

section \<open>The core invariant\<close>

definition approval_bound :: "'s provider_core \<Rightarrow> approval_id \<Rightarrow> core_approval \<Rightarrow> bool" where
  "approval_bound c i p \<longleftrightarrow> ca_id p = i \<and> ca_wallet_session p = pc_wallet_session c \<and>
     method_approval (ac_method (ca_call p)) = Some (ca_kind p) \<and> 0 < ca_authority_revision p \<and>
     (\<exists>a. tbl_get (pc_authorities c) (ca_authority_handle p) = Some a \<and>
        ra_revision a = ca_authority_revision p \<and>
        ha_origin (ra_facts a) = ac_origin (ca_call p) \<and>
        ha_namespace (ra_facts a) = ac_namespace (ca_call p))"

definition core_inv :: "'s provider_core \<Rightarrow> bool" where
  "core_inv c \<longleftrightarrow>
     tbl_wf (pc_authorities c) \<and> tbl_wf (pc_pending c) \<and> tbl_wf (pc_replay c) \<and> tbl_wf (pc_rate c) \<and>
     length (pc_authorities c) \<le> MAX_REGISTERED_AUTHORITIES \<and>
     length (pc_pending c) \<le> MAX_CORE_PENDING_APPROVALS \<and>
     length (pc_replay c) \<le> MAX_REPLAY_NONCES \<and>
     (pc_wallet_locked c \<longrightarrow> pc_pending c = []) \<and>
     (\<forall>i p. tbl_get (pc_pending c) i = Some p \<longrightarrow> approval_bound c i p) \<and>
     (\<forall>h m w. tbl_get (pc_rate c) (h, m) = Some w \<longrightarrow> rw_count w \<le> rate_limit m)"

lemma core_inv_pending: "core_inv c \<Longrightarrow> tbl_get (pc_pending c) i = Some p \<Longrightarrow> approval_bound c i p"
  by (simp add: core_inv_def)

lemma core_inv_new: "core_inv (provider_core_new state session locked)"
  by (simp add: core_inv_def provider_core_new_def tbl_wf_def)

lemma core_inv_time: "core_inv c \<Longrightarrow> core_inv (c\<lparr>pc_last_now_unix_ms := n\<rparr>)"
  by (simp add: core_inv_def approval_bound_def)

lemma core_inv_state: "core_inv c \<Longrightarrow> core_inv (c\<lparr>pc_state := t\<rparr>)"
  by (simp add: core_inv_def approval_bound_def)

lemma core_inv_retain_pending:
  assumes "core_inv c"
  shows "core_inv (c\<lparr>pc_pending := tbl_retain f (pc_pending c)\<rparr>)"
  using assms length_retain_le [of f "pc_pending c"] unfolding core_inv_def approval_bound_def
  by (auto simp: tbl_get_retain tbl_retain_def [of f "[]"] split: option.splits if_splits)

lemma core_inv_del_pending:
  assumes "core_inv c" "P = pc_pending c"
  shows "core_inv (c\<lparr>pc_pending := tbl_del i P\<rparr>)"
  using assms(1) length_del_le [of i "pc_pending c"] unfolding core_inv_def approval_bound_def assms(2)
  by (auto simp: tbl_get_del split: if_splits)

lemma core_inv_retain_replay:
  assumes "core_inv c"
  shows "core_inv (c\<lparr>pc_replay := tbl_retain f (pc_replay c)\<rparr>)"
  using assms length_retain_le [of f "pc_replay c"] unfolding core_inv_def approval_bound_def by auto

lemma core_inv_retain_rate:
  assumes "core_inv c"
  shows "core_inv (c\<lparr>pc_rate := tbl_retain f (pc_rate c)\<rparr>)"
  using assms unfolding core_inv_def approval_bound_def
  by (auto simp: tbl_get_retain split: option.splits if_splits)

lemma core_inv_set_nonce:
  assumes "core_inv c" "length (pc_replay c) < MAX_REPLAY_NONCES"
  shows "core_inv (set_nonce h n e c)"
  using assms length_put_le [of "(h, n)" e "pc_replay c"]
  unfolding core_inv_def approval_bound_def set_nonce_def by auto

lemma with_rate_count: "core_inv c \<Longrightarrow> rw_count (with_rate h m now c) \<le> rate_limit m"
  by (auto simp: core_inv_def with_rate_def Let_def split: option.splits)

lemma core_inv_set_rate:
  assumes "core_inv c" "rw_count w \<le> rate_limit m"
  shows "core_inv (set_rate h m w c)"
  using assms unfolding core_inv_def approval_bound_def set_rate_def by (auto simp: tbl_get_put)

lemma core_inv_add_pending:
  assumes "core_inv c" "length (pc_pending c) < MAX_CORE_PENDING_APPROVALS" "\<not> pc_wallet_locked c"
    "approval_bound c (ca_id p) p"
  shows "core_inv (add_pending p c)"
  using assms length_put_le [of "ca_id p" p "pc_pending c"]
  unfolding core_inv_def approval_bound_def add_pending_def by (auto simp: tbl_get_put)

lemma core_inv_forget_scope: "core_inv c \<Longrightarrow> core_inv (forget_scope facts c)"
  unfolding forget_scope_def by (rule core_inv_retain_pending)

lemma core_inv_forget_handle: "core_inv c \<Longrightarrow> core_inv (forget_handle h c)"
  using core_inv_retain_replay [OF core_inv_retain_rate [OF core_inv_retain_pending]]
  unfolding forget_handle_def by (simp add: case_prod_unfold)

lemma forget_handle_no_pending:
  assumes "core_inv c" "tbl_get (pc_pending (forget_handle h c)) i = Some p"
  shows "ca_authority_handle p \<noteq> h \<and> tbl_get (pc_pending c) i = Some p"
  using assms by (auto simp: core_inv_def forget_handle_def tbl_get_retain split: option.splits if_splits)

lemma forget_handle_authorities:
  "forget_handle h (c\<lparr>pc_authorities := A\<rparr>) = forget_handle h c\<lparr>pc_authorities := A\<rparr>"
  by (cases c) (simp add: forget_handle_def)

lemma core_inv_authorities:
  assumes "core_inv c" "tbl_wf A" "length A \<le> MAX_REGISTERED_AUTHORITIES"
    and "\<And>i p. tbl_get (pc_pending c) i = Some p \<Longrightarrow>
      tbl_get A (ca_authority_handle p) = tbl_get (pc_authorities c) (ca_authority_handle p)"
  shows "core_inv (c\<lparr>pc_authorities := A\<rparr>)"
  using assms unfolding core_inv_def approval_bound_def by simp

lemma core_inv_remove_authority:
  assumes "core_inv c"
  shows "core_inv (remove_authority h c)"
proof -
  have "core_inv (forget_handle h c\<lparr>pc_authorities := tbl_del h (pc_authorities c)\<rparr>)"
  proof (rule core_inv_authorities [OF core_inv_forget_handle [OF assms]])
    show "tbl_wf (tbl_del h (pc_authorities c))" "length (tbl_del h (pc_authorities c)) \<le> MAX_REGISTERED_AUTHORITIES"
      using assms length_del_le [of h "pc_authorities c"] by (auto simp: core_inv_def)
    show "tbl_get (tbl_del h (pc_authorities c)) (ca_authority_handle p) =
        tbl_get (pc_authorities (forget_handle h c)) (ca_authority_handle p)"
      if "tbl_get (pc_pending (forget_handle h c)) i = Some p" for i p
      using forget_handle_no_pending [OF assms that] by (simp add: tbl_get_del forget_handle_def)
  qed
  then show ?thesis by (simp add: remove_authority_def forget_handle_authorities)
qed

lemma core_inv_prune: "core_inv c \<Longrightarrow> core_inv (prune_expired_authorities now c)"
proof -
  have "core_inv c \<Longrightarrow> core_inv (fold remove_authority hs c)" for hs
    by (induction hs arbitrary: c) (auto intro: core_inv_remove_authority)
  then show "core_inv c \<Longrightarrow> core_inv (prune_expired_authorities now c)"
    by (simp add: prune_expired_authorities_def)
qed

lemma core_inv_set_wallet_state: "core_inv c \<Longrightarrow> core_inv (set_wallet_state w l c)"
  by (auto simp: core_inv_def set_wallet_state_def approval_bound_def tbl_wf_def)

lemma core_inv_replace_authority:
  assumes "core_inv c" "tbl_get (pc_authorities c) h = Some old" "A = pc_authorities c"
  shows "core_inv (forget_handle h (c\<lparr>pc_authorities := tbl_put h a A\<rparr>))"
proof -
  have "core_inv (forget_handle h c\<lparr>pc_authorities := tbl_put h a (pc_authorities c)\<rparr>)"
  proof (rule core_inv_authorities [OF core_inv_forget_handle [OF assms(1)]])
    show "tbl_wf (tbl_put h a (pc_authorities c))" "length (tbl_put h a (pc_authorities c)) \<le> MAX_REGISTERED_AUTHORITIES"
      using assms length_put_present [OF assms(2), of a] by (auto simp: core_inv_def)
    show "tbl_get (tbl_put h a (pc_authorities c)) (ca_authority_handle p) =
        tbl_get (pc_authorities (forget_handle h c)) (ca_authority_handle p)"
      if "tbl_get (pc_pending (forget_handle h c)) i = Some p" for i p
      using forget_handle_no_pending [OF assms(1) that] by (simp add: tbl_get_put forget_handle_def)
  qed
  then show ?thesis by (simp add: forget_handle_authorities assms(3))
qed

lemma core_inv_add_authority:
  assumes "core_inv c" "tbl_get (pc_authorities c) h = None"
    "length (pc_authorities c) < MAX_REGISTERED_AUTHORITIES"
  shows "core_inv (c\<lparr>pc_authorities := tbl_put h a (pc_authorities c)\<rparr>)"
proof (rule core_inv_authorities [OF assms(1)])
  show "tbl_wf (tbl_put h a (pc_authorities c))" "length (tbl_put h a (pc_authorities c)) \<le> MAX_REGISTERED_AUTHORITIES"
    using assms length_put_le [of h a "pc_authorities c"] by (auto simp: core_inv_def)
  show "tbl_get (tbl_put h a (pc_authorities c)) (ca_authority_handle p) =
      tbl_get (pc_authorities c) (ca_authority_handle p)"
    if "tbl_get (pc_pending c) i = Some p" for i p
    using core_inv_pending [OF assms(1) that] assms(2) by (auto simp: tbl_get_put approval_bound_def)
qed

section \<open>Every operation keeps the invariant\<close>

lemmas core_inv_intros = core_inv_time core_inv_state core_inv_retain_pending core_inv_del_pending
  core_inv_forget_scope core_inv_prune core_inv_replace_authority core_inv_add_authority
  core_inv_remove_authority

lemma register_authority_inv: "core_inv c \<Longrightarrow> core_inv (snd (register_authority h facts now c))"
  unfolding wp_snd [symmetric] register_authority_def
  by (auto simp: wp_simps not_le intro!: core_inv_intros split: sum.splits)

lemma replace_authority_inv: "core_inv c \<Longrightarrow> core_inv (snd (replace_authority h r facts now c))"
  unfolding wp_snd [symmetric] replace_authority_def
  by (auto simp: wp_simps Let_def intro!: core_inv_time core_inv_replace_authority split: sum.splits option.splits)

lemma revoke_authority_inv: "core_inv c \<Longrightarrow> core_inv (snd (revoke_authority h r c))"
  unfolding wp_snd [symmetric] revoke_authority_def
  by (auto simp: wp_simps intro!: core_inv_remove_authority split: sum.splits)

lemma reject_inv: "core_inv c \<Longrightarrow> core_inv (snd (reject ops C h r i now c))"
  unfolding wp_snd [symmetric] reject_def
  by (auto simp: wp_simps Let_def intro!: core_inv_intros split: sum.splits option.splits)

lemma approve_inv: "core_inv c \<Longrightarrow> core_inv (snd (approve ops C h r i now c))"
  unfolding wp_snd [symmetric] approve_def
  by (auto simp: wp_simps Let_def intro!: core_inv_time core_inv_del_pending wp_check_permission
      split: sum.splits option.splits)

lemma permission_snapshot_inv: "core_inv c \<Longrightarrow> core_inv (snd (permission_snapshot_of ops C h r now c))"
  unfolding wp_snd [symmetric] permission_snapshot_of_def
  by (auto simp: wp_simps Let_def intro!: core_inv_time split: sum.splits option.splits)

lemma grant_inv:
  "core_inv c \<Longrightarrow> core_inv (snd (grant_scoped_permissions_inner ops C h r e caps accts names now x c))"
  unfolding wp_snd [symmetric] grant_scoped_permissions_inner_def
  by (auto simp: wp_simps Let_def intro!: core_inv_time core_inv_forget_scope core_inv_state
      split: sum.splits option.splits)

lemma revoke_permissions_inv: "core_inv c \<Longrightarrow> core_inv (snd (revoke_permissions ops C h r now c))"
  unfolding wp_snd [symmetric] revoke_permissions_def
  by (auto simp: wp_simps Let_def intro!: core_inv_time core_inv_forget_scope core_inv_state
      split: sum.splits option.splits)

lemma core_frames [simp]:
  "pc_authorities (set_rate h m w c) = pc_authorities c" "pc_state (set_rate h m w c) = pc_state c"
  "pc_wallet_locked (set_rate h m w c) = pc_wallet_locked c" "pc_pending (set_rate h m w c) = pc_pending c"
  "pc_wallet_session (set_rate h m w c) = pc_wallet_session c" "pc_replay (set_rate h m w c) = pc_replay c"
  "pc_last_now_unix_ms (set_rate h m w c) = pc_last_now_unix_ms c"
  "pc_authorities (live_replay now c) = pc_authorities c" "pc_state (live_replay now c) = pc_state c"
  "pc_wallet_locked (live_replay now c) = pc_wallet_locked c" "pc_pending (live_replay now c) = pc_pending c"
  "pc_wallet_session (live_replay now c) = pc_wallet_session c"
  "pc_last_now_unix_ms (live_replay now c) = pc_last_now_unix_ms c" "pc_rate (live_replay now c) = pc_rate c"
  "pc_authorities (set_nonce h n e c) = pc_authorities c" "pc_state (set_nonce h n e c) = pc_state c"
  "pc_wallet_locked (set_nonce h n e c) = pc_wallet_locked c" "pc_pending (set_nonce h n e c) = pc_pending c"
  "pc_wallet_session (set_nonce h n e c) = pc_wallet_session c"
  "pc_last_now_unix_ms (set_nonce h n e c) = pc_last_now_unix_ms c" "pc_rate (set_nonce h n e c) = pc_rate c"
  "pc_authorities (live_pending now c) = pc_authorities c" "pc_state (live_pending now c) = pc_state c"
  "pc_wallet_locked (live_pending now c) = pc_wallet_locked c" "pc_replay (live_pending now c) = pc_replay c"
  "pc_wallet_session (live_pending now c) = pc_wallet_session c"
  "pc_last_now_unix_ms (live_pending now c) = pc_last_now_unix_ms c" "pc_rate (live_pending now c) = pc_rate c"
  "pc_authorities (add_pending p c) = pc_authorities c" "pc_state (add_pending p c) = pc_state c"
  "pc_wallet_locked (add_pending p c) = pc_wallet_locked c" "pc_replay (add_pending p c) = pc_replay c"
  "pc_wallet_session (add_pending p c) = pc_wallet_session c"
  "pc_last_now_unix_ms (add_pending p c) = pc_last_now_unix_ms c" "pc_rate (add_pending p c) = pc_rate c"
  by (simp_all add: set_rate_def live_replay_def set_nonce_def live_pending_def add_pending_def)

text \<open>What a request that is not refused has established.\<close>

definition action_call :: "provider_action \<Rightarrow> approved_call" where
  "action_call x = (case x of Execute call \<Rightarrow> call | ApprovalRequired p \<Rightarrow> ca_call p)"

definition request_granted ::
  "'s provider_ops \<Rightarrow> crypto \<Rightarrow> 's provider_core \<Rightarrow> bytes \<Rightarrow> u64 \<Rightarrow> u64 \<Rightarrow> u64 \<Rightarrow> provider_action \<Rightarrow>
   's provider_core \<Rightarrow> bool" where
  "request_granted ops C c h r nonce now x c' \<longleftrightarrow>
     (\<exists>a g. tbl_get (pc_authorities c) h = Some a \<and> ra_revision a = r \<and>
        now < ha_valid_until_unix_ms (ra_facts a) \<and>
        ac_origin (action_call x) = ha_origin (ra_facts a) \<and>
        ac_namespace (action_call x) = ha_namespace (ra_facts a) \<and>
        ac_request_nonce (action_call x) = nonce \<and>
        (requires_hns_namespace (ac_method (action_call x)) \<longrightarrow> ha_namespace (ra_facts a) = NsHns) \<and>
        (po_generation ops (pc_state c) (permission_scope C (ra_facts a)) = Inr (Some g) \<or>
         po_generation ops (pc_state c) (permission_scope C (ra_facts a)) = Inr None \<and> g = 0) \<and>
        permitted ops (pc_state c) (permission_scope C (ra_facts a)) (ra_facts a)
          (ac_method (action_call x)) g (now div 1000) \<and>
        (pc_wallet_locked c \<longrightarrow>
           ac_method (action_call x) \<in> {PM_WalletGetStatus, PM_WalletGetCapabilities}) \<and>
        (case x of
           Execute call \<Rightarrow> method_approval (ac_method call) = None
         | ApprovalRequired p \<Rightarrow> method_approval (ac_method (ca_call p)) = Some (ca_kind p) \<and>
             tbl_get (pc_pending c') (ca_id p) = Some p \<and> ca_permission_generation p = g \<and>
             ca_authority_handle p = h \<and> ca_authority_revision p = r \<and>
             ca_expires_at_unix p = (now + 90000) div 1000)) \<and>
     0 < nonce \<and> (\<forall>e. tbl_get (pc_replay c) (h, nonce) = Some e \<longrightarrow> e \<le> now div 1000) \<and>
     tbl_get (pc_replay c') (h, nonce) = Some ((now + 90000) div 1000) \<and>
     pc_last_now_unix_ms c \<le> now \<and>
     pc_state c' = pc_state c \<and> pc_authorities c' = pc_authorities c \<and>
     pc_wallet_locked c' = pc_wallet_locked c \<and> pc_wallet_session c' = pc_wallet_session c"

lemma live_replay_get:
  "core_inv c \<Longrightarrow> tbl_get (pc_replay (live_replay now c)) k =
     (case tbl_get (pc_replay c) k of None \<Rightarrow> None | Some e \<Rightarrow> if now < e then Some e else None)"
  by (simp add: core_inv_def live_replay_def tbl_get_retain)

lemma core_inv_live:
  "core_inv c \<Longrightarrow> core_inv (live_replay now c)" "core_inv c \<Longrightarrow> core_inv (live_pending now c)"
  by (simp_all add: live_replay_def live_pending_def core_inv_retain_replay core_inv_retain_pending)

lemma unlocked_approval:
  "method_approval m = Some k \<Longrightarrow> (locked \<longrightarrow> m = PM_WalletGetStatus \<or> m = PM_WalletGetCapabilities) \<Longrightarrow> \<not> locked"
  by (auto simp: method_approval_def)

lemma wp_admit_method:
  assumes inv: "core_inv c"
    and Q: "\<And>m w. \<lbrakk>requires_hns_namespace m \<longrightarrow> ha_namespace facts = NsHns; 0 < nonce; now + 90000 < 2 ^ 64;
        \<forall>e. tbl_get (pc_replay c) (h, nonce) = Some e \<longrightarrow> e \<le> now div 1000;
        core_inv (set_nonce h nonce ((now + 90000) div 1000) (live_replay (now div 1000) (set_rate h m w c)))\<rbrakk> \<Longrightarrow>
      Q (m, (now + 90000) div 1000)
        (set_nonce h nonce ((now + 90000) div 1000) (live_replay (now div 1000) (set_rate h m w c)))"
    and E: "\<And>e d. core_inv d \<Longrightarrow> E e d"
  shows "wp (admit_method h nonce facts rq now) Q E c"
proof -
  have rate: "core_inv (set_rate h m (with_rate h m u c) c)" for m u
    using core_inv_set_rate [OF inv with_rate_count [OF inv]] .
  have bumped: "core_inv (set_rate h m (w\<lparr>rw_count := Suc (rw_count w)\<rparr>) c)"
    if "rw_count w < rate_limit m" for m w
    using that by (intro core_inv_set_rate [OF inv]) simp
  have fresh: "e \<le> u" if "tbl_get (pc_replay (live_replay u (set_rate h m w c))) (h, nonce) = None"
    "core_inv (set_rate h m w c)" "tbl_get (pc_replay c) (h, nonce) = Some e" for m w u e
    using that live_replay_get [OF that(2), of u "(h, nonce)"] by (simp split: if_splits)
  show ?thesis
    unfolding admit_method_def wp_simps Let_def
    by (auto simp: APPROVAL_LIFETIME_SECONDS_def not_le split: sum.splits option.splits
        intro!: E Q inv rate bumped core_inv_live core_inv_set_nonce dest: fresh [rotated 2])
qed

lemma wp_issue_action:
  assumes inv: "core_inv c"
    and auth: "tbl_get (pc_authorities c) h = Some a" "ra_revision a = r" "0 < r" "facts = ra_facts a"
    and lock: "pc_wallet_locked c \<longrightarrow> m = PM_WalletGetStatus \<or> m = PM_WalletGetCapabilities"
    and Q: "\<And>x d g. \<lbrakk>core_inv d;
        po_generation ops (pc_state c) (permission_scope C facts) = Inr (Some g) \<or>
        po_generation ops (pc_state c) (permission_scope C facts) = Inr None \<and> g = 0;
        permitted ops (pc_state c) (permission_scope C facts) facts m g now;
        action_call x = \<lparr>ac_origin = ha_origin facts, ac_namespace = ha_namespace facts, ac_method = m,
          ac_params = params, ac_request_nonce = nonce\<rparr>;
        case x of Execute call \<Rightarrow> method_approval m = None
         | ApprovalRequired p \<Rightarrow> method_approval m = Some (ca_kind p) \<and>
             tbl_get (pc_pending d) (ca_id p) = Some p \<and> ca_permission_generation p = g \<and>
             ca_authority_handle p = h \<and> ca_authority_revision p = r \<and> ca_expires_at_unix p = x0;
        d = c\<lparr>pc_pending := pc_pending d\<rparr>\<rbrakk> \<Longrightarrow> Q x d"
    and E: "\<And>e d. core_inv d \<Longrightarrow> E e d"
  shows "wp (issue_action ops C h r nonce facts m params now x0) Q E c"
proof -
  let ?sc = "permission_scope C facts"
  let ?call = "\<lparr>ac_origin = ha_origin facts, ac_namespace = ha_namespace facts, ac_method = m,
          ac_params = params, ac_request_nonce = nonce\<rparr>"
  let ?live = "c\<lparr>pc_pending := tbl_retain (\<lambda>_ p. now < ca_expires_at_unix p) (pc_pending c)\<rparr>"
  have live: "core_inv ?live" by (rule core_inv_retain_pending [OF inv])
  let ?p = "\<lambda>kind g. \<lparr>ca_id = core_approval_id C h r (pc_wallet_session c) nonce m (ha_namespace facts)
      (ha_origin facts), ca_kind = kind, ca_call = ?call, ca_authority_handle = h,
      ca_authority_revision = r, ca_wallet_session = pc_wallet_session c,
      ca_permission_generation = g, ca_expires_at_unix = x0\<rparr>"
  have exec: "Q (Execute ?call) c" if "method_approval m = None" "permitted ops (pc_state c) ?sc facts m g now"
    "po_generation ops (pc_state c) ?sc = Inr (Some g) \<or> po_generation ops (pc_state c) ?sc = Inr None \<and> g = 0" for g
    using that inv by (intro Q [of _ g]) (simp_all add: action_call_def)
  have add: "Q (ApprovalRequired (?p kind g)) (add_pending (?p kind g) ?live)"
    if "method_approval m = Some kind" "permitted ops (pc_state c) ?sc facts m g now"
      "length (pc_pending ?live) < MAX_CORE_PENDING_APPROVALS"
      "po_generation ops (pc_state c) ?sc = Inr (Some g) \<or> po_generation ops (pc_state c) ?sc = Inr None \<and> g = 0"
    for kind g
  proof (rule Q [of _ g])
    have "\<not> pc_wallet_locked c" using unlocked_approval [OF that(1) lock] .
    then show "core_inv (add_pending (?p kind g) ?live)"
      using that(1,3) auth by (intro core_inv_add_pending live) (simp_all add: approval_bound_def)
  qed (use that in \<open>simp_all add: action_call_def add_pending_def tbl_get_put\<close>)
  show ?thesis
    unfolding issue_action_def wp_simps Let_def
    using exec add live
    by (auto simp: add_pending_def not_le split: sum.splits option.splits intro!: E inv wp_check_permission)
qed

lemma request_grantedI:
  assumes a: "tbl_get (pc_authorities c) h = Some a" "ra_revision a = r" "now < ha_valid_until_unix_ms (ra_facts a)"
    and t: "pc_last_now_unix_ms c \<le> now" "0 < nonce"
    and n: "requires_hns_namespace m \<longrightarrow> ha_namespace (ra_facts a) = NsHns"
    and l: "pc_wallet_locked c \<longrightarrow> m = PM_WalletGetStatus \<or> m = PM_WalletGetCapabilities"
    and f: "\<forall>e. tbl_get (pc_replay c) (h, nonce) = Some e \<longrightarrow> e \<le> now div 1000"
    and g: "po_generation ops (pc_state c) (permission_scope C (ra_facts a)) = Inr (Some g) \<or>
      po_generation ops (pc_state c) (permission_scope C (ra_facts a)) = Inr None \<and> g = 0"
    and p: "permitted ops (pc_state c) (permission_scope C (ra_facts a)) (ra_facts a) m g (now div 1000)"
    and x: "action_call x = \<lparr>ac_origin = ha_origin (ra_facts a), ac_namespace = ha_namespace (ra_facts a),
      ac_method = m, ac_params = params, ac_request_nonce = nonce\<rparr>"
      "case x of Execute call \<Rightarrow> method_approval m = None
         | ApprovalRequired p \<Rightarrow> method_approval m = Some (ca_kind p) \<and>
             tbl_get (pc_pending d) (ca_id p) = Some p \<and> ca_permission_generation p = g \<and>
             ca_authority_handle p = h \<and> ca_authority_revision p = r \<and>
             ca_expires_at_unix p = (now + 90000) div 1000"
    and d: "d = set_nonce h nonce ((now + 90000) div 1000) (live_replay (now div 1000)
      (set_rate h m w (c\<lparr>pc_last_now_unix_ms := now\<rparr>)))\<lparr>pc_pending := pc_pending d\<rparr>"
  shows "request_granted ops C c h r nonce now x d"
proof -
  have D: "pc_state d = pc_state c" "pc_authorities d = pc_authorities c"
    "pc_wallet_locked d = pc_wallet_locked c" "pc_wallet_session d = pc_wallet_session c"
    "tbl_get (pc_replay d) (h, nonce) = Some ((now + 90000) div 1000)"
    by (subst d, simp add: set_nonce_def tbl_get_put)+
  show ?thesis
    unfolding request_granted_def
    using assms(1-11) D x by (intro conjI exI [of _ a] exI [of _ g]) (simp_all add: action_call_def split: provider_action.splits)
qed

lemma request_wp:
  assumes inv: "core_inv c"
  shows "wp (request ops C fs h r nonce now bs)
    (\<lambda>x c'. core_inv c' \<and> request_granted ops C c h r nonce now x c') (\<lambda>_ c'. core_inv c') c"
    (is "wp _ ?Q ?E c")
proof -
  let ?c1 = "c\<lparr>pc_last_now_unix_ms := now\<rparr>"
  let ?d = "\<lambda>m w. set_nonce h nonce ((now + 90000) div 1000) (live_replay (now div 1000)
      (set_rate h m w ?c1))"
  have inv1: "core_inv ?c1" by (rule core_inv_time [OF inv])
  have issue: "wp (issue_action ops C h (ra_revision a) nonce (ra_facts a) m (rq_params rq) (now div 1000)
        ((now + 90000) div 1000))
      (\<lambda>x c'. core_inv c' \<and> request_granted ops C c h (ra_revision a) nonce now x c') ?E (?d m w)"
    if "tbl_get (pc_authorities c) h = Some a" "0 < ra_revision a"
      "now < ha_valid_until_unix_ms (ra_facts a)" "pc_last_now_unix_ms c \<le> now" "0 < nonce"
      "requires_hns_namespace m \<longrightarrow> ha_namespace (ra_facts a) = NsHns"
      "pc_wallet_locked c \<longrightarrow> m = PM_WalletGetStatus \<or> m = PM_WalletGetCapabilities"
      "\<forall>e. tbl_get (pc_replay c) (h, nonce) = Some e \<longrightarrow> e \<le> now div 1000" "core_inv (?d m w)" for a m w rq
    using that
    by (intro wp_issue_action [where a = a]) (auto intro: request_grantedI)
  show ?thesis
    unfolding request_def wp_simps Let_def
    by (auto simp: wp_simps not_le not_less inv inv1 split: sum.splits option.splits
        intro!: wp_admit_method [OF inv1] issue)
qed

definition approve_granted ::
  "'s provider_ops \<Rightarrow> crypto \<Rightarrow> 's provider_core \<Rightarrow> bytes \<Rightarrow> u64 \<Rightarrow> approval_id \<Rightarrow> u64 \<Rightarrow> approved_call \<Rightarrow>
   's provider_core \<Rightarrow> bool" where
  "approve_granted ops C c h r i now call c' \<longleftrightarrow>
     (\<exists>a p. tbl_get (pc_authorities c) h = Some a \<and> ra_revision a = r \<and>
        now < ha_valid_until_unix_ms (ra_facts a) \<and>
        tbl_get (pc_pending c) i = Some p \<and> ca_call p = call \<and>
        ca_authority_handle p = h \<and> ca_authority_revision p = r \<and>
        ca_wallet_session p = pc_wallet_session c \<and> now div 1000 < ca_expires_at_unix p \<and>
        ac_origin call = ha_origin (ra_facts a) \<and> ac_namespace call = ha_namespace (ra_facts a) \<and>
        (po_generation ops (pc_state c) (permission_scope C (ra_facts a)) =
           Inr (Some (ca_permission_generation p)) \<or>
         po_generation ops (pc_state c) (permission_scope C (ra_facts a)) = Inr None \<and>
           ca_permission_generation p = 0) \<and>
        permitted ops (pc_state c) (permission_scope C (ra_facts a)) (ra_facts a) (ac_method call)
          (ca_permission_generation p) (now div 1000)) \<and>
     pc_last_now_unix_ms c \<le> now \<and>
     c' = c\<lparr>pc_last_now_unix_ms := now, pc_pending := tbl_del i (pc_pending c)\<rparr>"

lemma approve_wp: "wp (approve ops C h r i now) (approve_granted ops C c h r i now) (\<lambda>_ _. True) c"
  unfolding approve_def wp_simps Let_def approve_granted_def approval_is_stale_def
  by (auto simp: not_le not_less split: sum.splits option.splits intro!: wp_check_permission)

section \<open>Sequences of operations\<close>

datatype core_op =
  OpRegister bytes host_authority_registration u64
| OpReplace bytes u64 host_authority_registration u64
| OpRevokeAuthority bytes u64
| OpSetWallet bytes bool
| OpRequest bytes u64 u64 u64 bytes
| OpApprove bytes u64 approval_id u64
| OpReject bytes u64 approval_id u64
| OpSnapshot bytes u64 u64
| OpGrant bytes u64 "u64 option" "permission_capability list" "account_id list" "bytes list" u64 "u64 option"
| OpRevokePermissions bytes u64 u64

fun run_op ::
  "'s provider_ops \<Rightarrow> crypto \<Rightarrow> (bytes \<Rightarrow> provider_request option) \<Rightarrow> core_op \<Rightarrow> 's provider_core \<Rightarrow> 's provider_core" where
  "run_op ops C fs (OpRegister h facts now) c = snd (register_authority h facts now c)"
| "run_op ops C fs (OpReplace h r facts now) c = snd (replace_authority h r facts now c)"
| "run_op ops C fs (OpRevokeAuthority h r) c = snd (revoke_authority h r c)"
| "run_op ops C fs (OpSetWallet w l) c = set_wallet_state w l c"
| "run_op ops C fs (OpRequest h r n now bs) c = snd (request ops C fs h r n now bs c)"
| "run_op ops C fs (OpApprove h r i now) c = snd (approve ops C h r i now c)"
| "run_op ops C fs (OpReject h r i now) c = snd (reject ops C h r i now c)"
| "run_op ops C fs (OpSnapshot h r now) c = snd (permission_snapshot_of ops C h r now c)"
| "run_op ops C fs (OpGrant h r e caps accts names now x) c =
     snd (grant_scoped_permissions_inner ops C h r e caps accts names now x c)"
| "run_op ops C fs (OpRevokePermissions h r now) c = snd (revoke_permissions ops C h r now c)"

fun is_grant :: "core_op \<Rightarrow> bool" where
  "is_grant (OpGrant _ _ _ _ _ _ _ _) = True"
| "is_grant _ = False"

fun is_page_op :: "core_op \<Rightarrow> bool" where
  "is_page_op (OpRegister _ _ _) = False"
| "is_page_op (OpReplace _ _ _ _) = False"
| "is_page_op (OpRevokeAuthority _ _) = False"
| "is_page_op (OpSetWallet _ _) = False"
| "is_page_op _ = True"

definition run_ops ::
  "'s provider_ops \<Rightarrow> crypto \<Rightarrow> (bytes \<Rightarrow> provider_request option) \<Rightarrow> core_op list \<Rightarrow> 's provider_core \<Rightarrow> 's provider_core" where
  "run_ops ops C fs l c = fold (run_op ops C fs) l c"

lemma run_op_inv: "core_inv c \<Longrightarrow> core_inv (run_op ops C fs op c)"
proof (cases op)
  case (OpRequest h r n now bs)
  assume "core_inv c"
  from request_wp [OF this] have "wp (request ops C fs h r n now bs) (\<lambda>_. core_inv) (\<lambda>_. core_inv) c"
    by (rule wp_mono) auto
  then show ?thesis by (simp add: OpRequest wp_snd)
qed (simp_all add: register_authority_inv replace_authority_inv revoke_authority_inv reject_inv approve_inv
    permission_snapshot_inv grant_inv revoke_permissions_inv core_inv_set_wallet_state)

lemma run_ops_inv: "core_inv c \<Longrightarrow> core_inv (run_ops ops C fs l c)"
  unfolding run_ops_def by (induction l arbitrary: c) (simp_all add: run_op_inv)
end
