(* ===== verification/Provider_Sequences.thy ===== *)
theory Provider_Sequences
  imports Provider_Laws
begin

text \<open>
  What holds along sequences of core operations: a spent nonce stays spent until it expires, a
  consumed approval does not come back without a new request, and, for every state store that
  meets its contract, a revoked scope passes no permissioned request until it is granted again
  and a granted record is read back as granted.
\<close>

section \<open>Nonces\<close>

definition nonce_spent :: "bytes \<Rightarrow> u64 \<Rightarrow> u64 \<Rightarrow> 's provider_core \<Rightarrow> bool" where
  "nonce_spent h n e c \<longleftrightarrow> tbl_get (pc_replay c) (h, n) = Some e \<or> e \<le> pc_last_now_unix_ms c div 1000"

lemma nonce_spent_time: "nonce_spent h n e c \<Longrightarrow> pc_last_now_unix_ms c \<le> now \<Longrightarrow>
    nonce_spent h n e (c\<lparr>pc_last_now_unix_ms := now\<rparr>)"
  by (auto simp: nonce_spent_def intro: order_trans [OF _ div_le_mono])

lemma nonce_spent_live:
  "tbl_wf (pc_replay c) \<Longrightarrow> nonce_spent h n e c \<Longrightarrow> now = pc_last_now_unix_ms c div 1000 \<Longrightarrow>
     nonce_spent h n e (live_replay now c)"
  by (auto simp: nonce_spent_def live_replay_def tbl_get_retain)

definition quiet :: "'s provider_core \<Rightarrow> 's provider_core \<Rightarrow> bool" where
  "quiet c d \<longleftrightarrow> pc_replay d = pc_replay c \<and> pc_last_now_unix_ms d = pc_last_now_unix_ms c"

lemma quiet_keeps:
  "keeps (quiet c) (generation_or_zero ops sc)" "keeps (quiet c) (check_permission ops sc facts m g now x)"
  "keeps (quiet c) (authority h r now)" "keeps (quiet c) (issue_action ops C h r nonce facts m params now x0)"
  unfolding generation_or_zero_def check_permission_def authority_def issue_action_def
  by (intro keeps_intros; simp add: quiet_def)+

lemma spent_after_time:
  assumes "nonce_spent h n e c" and "\<And>d. keeps (quiet d) (f ())"
  shows "nonce_spent h n e (snd (sbind (accept_time now) f c))"
proof -
  have "wp (sbind (accept_time now) f) (\<lambda>_. nonce_spent h n e) (\<lambda>_. nonce_spent h n e) c"
    unfolding wp_simps
  proof (simp add: assms(1), intro impI)
    let ?d = "c\<lparr>pc_last_now_unix_ms := now\<rparr>"
    assume "\<not> now < pc_last_now_unix_ms c"
    then have "nonce_spent h n e ?d" using nonce_spent_time [OF assms(1)] by simp
    moreover have "quiet ?d (snd (f () ?d))" using assms(2) [of ?d] by (simp add: keeps_def quiet_def)
    ultimately show "wp (f ()) (\<lambda>_. nonce_spent h n e) (\<lambda>_. nonce_spent h n e) ?d"
      unfolding wp_snd by (auto simp: quiet_def nonce_spent_def)
  qed
  then show ?thesis by (simp add: wp_snd)
qed

lemma admit_method_spent:
  assumes "tbl_wf (pc_replay c)" "nonce_spent h n e c" "pc_last_now_unix_ms c = now"
  shows "nonce_spent h n e (snd (admit_method h' n' facts rq now c))"
proof -
  have rate: "nonce_spent h n e (set_rate k m w c)" for k m w
    using assms(2) by (simp add: nonce_spent_def)
  have live: "nonce_spent h n e (live_replay (now div 1000) (set_rate k m w c))" for k m w
    using assms(1,3) by (intro nonce_spent_live rate) simp_all
  have set: "nonce_spent h n e (set_nonce h' n' x (live_replay (now div 1000) (set_rate k m w c)))"
    if "tbl_get (pc_replay (live_replay (now div 1000) (set_rate k m w c))) (h', n') = None" for k m w x
    using live [of k m w] that by (auto simp: nonce_spent_def set_nonce_def tbl_get_put)
  show ?thesis
    unfolding wp_snd [symmetric] admit_method_def wp_simps Let_def
    using assms(2) by (auto simp: rate live set split: sum.splits option.splits)
qed

lemma request_spent:
  assumes "core_inv c" "nonce_spent h n e c"
  shows "nonce_spent h n e (snd (request ops C fs h' r n' now bs c))"
proof -
  let ?d = "c\<lparr>pc_last_now_unix_ms := now\<rparr>"
  let ?P = "\<lambda>_. nonce_spent h n e"
  have tail: "wp (issue_action ops C h' r n' facts m params u x) ?P ?P d" if "nonce_spent h n e d"
    for facts m params u x d
    using that quiet_keeps(4) [of d ops C h' r n' facts m params u x]
    by (auto simp: wp_snd keeps_def quiet_def nonce_spent_def)
  have admit: "wp (admit_method h' n' facts rq now) (\<lambda>a. wp (case a of (m, x) \<Rightarrow>
        sbind (sget pc_wallet_locked) (\<lambda>locked.
          if locked \<and> m \<noteq> PM_WalletGetStatus \<and> m \<noteq> PM_WalletGetCapabilities then sfail PE_WalletLocked
          else issue_action ops C h' r n' facts m (rq_params rq) (now div 1000) x)) ?P ?P) ?P ?d"
    if "\<not> now < pc_last_now_unix_ms c" for facts rq
  proof -
    have "wp (admit_method h' n' facts rq now) ?P ?P ?d"
      using that nonce_spent_time [OF assms(2), of now] assms(1)
      by (simp add: wp_snd admit_method_spent core_inv_def)
    then show ?thesis
      by (rule wp_mono) (auto simp: wp_simps tail split: prod.splits)
  qed
  have "wp (request ops C fs h' r n' now bs) ?P ?P c"
    unfolding request_def
    apply (simp only: wp_sbind wp_accept_time wp_basic wp_authority)
    using assms(2) nonce_spent_time [OF assms(2), of now] admit
    by (auto split: sum.splits option.splits)
  then show ?thesis by (simp add: wp_snd)
qed

lemma page_op_spent:
  assumes "core_inv c" "nonce_spent h n e c" "is_page_op op"
  shows "nonce_spent h n e (run_op ops C fs op c)"
  using assms(3)
proof (cases op)
  case (OpRequest h' r n' now bs)
  then show ?thesis using request_spent [OF assms(1,2)] by simp
qed (simp_all add: approve_def reject_def permission_snapshot_of_def grant_scoped_permissions_inner_def
    revoke_permissions_def,
    (rule spent_after_time [OF assms(2)], intro keeps_intros quiet_keeps;
       simp add: quiet_def forget_scope_def)+)

lemma page_ops_spent:
  assumes "core_inv c" "nonce_spent h n e c" "list_all is_page_op l"
  shows "nonce_spent h n e (run_ops ops C fs l c)"
  using assms unfolding run_ops_def
  by (induction l arbitrary: c) (simp_all add: page_op_spent run_op_inv)

section \<open>Approvals are consumed\<close>

fun is_request :: "core_op \<Rightarrow> bool" where
  "is_request (OpRequest _ _ _ _ _) = True"
| "is_request _ = False"

lemma tbl_get_retain_None: "tbl_get t k = None \<Longrightarrow> tbl_get (tbl_retain f t) k = None"
  by (induction t) (auto simp: tbl_retain_def split: if_splits)

lemma prune_no_pending:
  "tbl_get (pc_pending c) i = None \<Longrightarrow> tbl_get (pc_pending (fold remove_authority hs c)) i = None"
  by (induction hs arbitrary: c)
     (simp_all add: remove_authority_def forget_handle_def tbl_get_retain_None)

lemma no_pending_keeps:
  "keeps (\<lambda>c. tbl_get (pc_pending c) i = None) (accept_time now)"
  "keeps (\<lambda>c. tbl_get (pc_pending c) i = None) (authority h r now)"
  "keeps (\<lambda>c. tbl_get (pc_pending c) i = None) (generation_or_zero ops sc)"
  "keeps (\<lambda>c. tbl_get (pc_pending c) i = None) (check_permission ops sc facts m g now x)"
  unfolding accept_time_def generation_or_zero_def check_permission_def authority_def
  by (intro keeps_intros; simp)+

lemma run_op_no_pending:
  assumes "\<not> is_request op" "tbl_get (pc_pending c) i = None"
  shows "tbl_get (pc_pending (run_op ops C fs op c)) i = None"
proof -
  have keepsI: "keeps (\<lambda>c. tbl_get (pc_pending c) i = None) m \<Longrightarrow> tbl_get (pc_pending (snd (m c))) i = None" for m
    using assms(2) by (simp add: keeps_def)
  show ?thesis
    using assms(1)
    by (cases op)
       (simp_all add: register_authority_def replace_authority_def revoke_authority_def approve_def reject_def
        permission_snapshot_of_def grant_scoped_permissions_inner_def revoke_permissions_def set_wallet_state_def
        assms(2),
       (rule keepsI, intro keeps_intros no_pending_keeps;
         simp add: forget_scope_def forget_handle_def remove_authority_def prune_expired_authorities_def
           prune_no_pending tbl_get_retain_None tbl_get_del)+)
qed

lemma run_ops_no_pending:
  assumes "list_all (\<lambda>op. \<not> is_request op) l" "tbl_get (pc_pending c) i = None"
  shows "tbl_get (pc_pending (run_ops ops C fs l c)) i = None"
  using assms unfolding run_ops_def by (induction l arbitrary: c) (simp_all add: run_op_no_pending)

section \<open>Clients of the state store contract\<close>

fun is_revocation :: "core_op \<Rightarrow> bool" where
  "is_revocation (OpRevokePermissions _ _ _) = True"
| "is_revocation _ = False"

lemma state_keeps:
  "keeps (\<lambda>c. pc_state c = s) (accept_time now)" "keeps (\<lambda>c. pc_state c = s) (authority h r now)"
  "keeps (\<lambda>c. pc_state c = s) (generation_or_zero ops sc)"
  "keeps (\<lambda>c. pc_state c = s) (check_permission ops sc facts m g now x)"
  "keeps (\<lambda>c. pc_state c = s) (enforce_rate h m now)" "keeps (\<lambda>c. pc_state c = s) (consume_nonce h n now e)"
  unfolding accept_time_def generation_or_zero_def check_permission_def authority_def enforce_rate_def
    consume_nonce_def Let_def
  by (intro keeps_intros; simp)+

lemma prune_state: "pc_state (fold remove_authority hs c) = pc_state c"
  by (induction hs arbitrary: c) (simp_all add: remove_authority_def forget_handle_def)

lemma request_state: "keeps (\<lambda>c. pc_state c = s) (request ops C fs h r n now bs)"
  unfolding request_def admit_method_def issue_action_def
  by (intro keeps_intros state_keeps; simp)

lemma run_op_state:
  assumes "\<not> is_grant op" "\<not> is_revocation op"
  shows "pc_state (run_op ops C fs op c) = pc_state c"
proof -
  have keepsI: "keeps (\<lambda>d. pc_state d = pc_state c) m \<Longrightarrow> pc_state (snd (m c)) = pc_state c" for m
    by (simp add: keeps_def)
  show ?thesis
    using assms
    by (cases op)
       (simp_all add: register_authority_def replace_authority_def revoke_authority_def approve_def reject_def
        permission_snapshot_of_def set_wallet_state_def,
       (rule keepsI, intro keeps_intros state_keeps request_state;
         simp add: forget_handle_def remove_authority_def prune_expired_authorities_def prune_state)+)
qed

lemma revoke_permissions_wp:
  "wp (revoke_permissions ops C h r now)
     (\<lambda>n d. \<exists>a e. tbl_get (pc_authorities c) h = Some a \<and>
        po_revoke ops (pc_state c) (permission_scope C (ra_facts a)) e n (now div 1000) = Inr (pc_state d))
     (\<lambda>_ d. pc_state d = pc_state c) c"
  unfolding revoke_permissions_def wp_simps Let_def
  by (auto simp: forget_scope_def split: sum.splits option.splits)

definition granted_record ::
  "host_authority_registration \<Rightarrow> u64 \<Rightarrow> permission_capability list \<Rightarrow> account_id list \<Rightarrow> bytes list \<Rightarrow> u64 \<Rightarrow>
   u64 option \<Rightarrow> permission_record" where
  "granted_record facts g caps accts names now_unix x =
     \<lparr>pm_origin = ha_origin facts, pm_namespace = ha_namespace facts, pm_generation = g,
      pm_capabilities = caps, pm_approved_accounts = accts, pm_approved_names = names,
      pm_created_at_unix = now_unix, pm_expires_at_unix = x\<rparr>"

lemma granted_identity_valid:
  assumes "\<not> grant_is_invalid facts caps accts names now x" "0 < g"
  shows "validate_permission_identity (Some (granted_record facts g caps accts names now x)) facts now =
    Inr (Some (granted_record facts g caps accts names now x))"
  using assms
  by (auto simp: granted_record_def grant_is_invalid_def validate_permission_identity_def Let_def
      split: option.splits)

lemma grant_wp:
  "wp (grant_scoped_permissions_inner ops C h r e caps accts names now x)
     (\<lambda>p d. \<exists>a g s'. tbl_get (pc_authorities c) h = Some a \<and> ra_revision a = r \<and> 0 < r \<and>
        now < ha_valid_until_unix_ms (ra_facts a) \<and> pc_last_now_unix_ms c \<le> now \<and>
        \<not> grant_is_invalid (ra_facts a) caps accts names (now div 1000) x \<and>
        (po_generation ops (pc_state c) (permission_scope C (ra_facts a)) = Inr (Some g) \<or>
         po_generation ops (pc_state c) (permission_scope C (ra_facts a)) = Inr None \<and> g = 0) \<and>
        (\<forall>g'. e = Some g' \<longrightarrow> g' = g) \<and>
        p = granted_record (ra_facts a) (g + 1) caps accts names (now div 1000) x \<and>
        po_save ops (pc_state c) (permission_scope C (ra_facts a)) p = Inr s' \<and>
        d = forget_scope (ra_facts a) (c\<lparr>pc_last_now_unix_ms := now, pc_state := s'\<rparr>))
     (\<lambda>_ _. True) c"
  unfolding grant_scoped_permissions_inner_def wp_simps Let_def
  by (auto simp: granted_record_def not_le not_less split: sum.splits option.splits)

lemma snapshot_eq:
  assumes "pc_last_now_unix_ms d = now" "tbl_get (pc_authorities d) h = Some a" "0 < r" "ra_revision a = r"
    "now < ha_valid_until_unix_ms (ra_facts a)"
    "po_permission ops (pc_state d) (permission_scope C (ra_facts a)) = Inr (Some p)"
    "po_generation ops (pc_state d) (permission_scope C (ra_facts a)) = Inr (Some (pm_generation p))"
    "validate_permission_identity (Some p) (ra_facts a) (now div 1000) = Inr (Some p)"
  shows "permission_snapshot_of ops C h r now d =
    (Inr \<lparr>ps_generation = pm_generation p, ps_record = Some p\<rparr>, d)"
  using assms
  by (simp add: permission_snapshot_of_def accept_time_def authority_def generation_or_zero_def Let_def sbind_def
      leD not_le)

context provider_state_store
begin

lemma run_op_no_permission:
  assumes "invar (pc_state c)" "\<forall>r. po_permission ops (pc_state c) sc \<noteq> Inr (Some r)" "\<not> is_grant op"
  shows "invar (pc_state (run_op ops C fs op c)) \<and>
    (\<forall>r. po_permission ops (pc_state (run_op ops C fs op c)) sc \<noteq> Inr (Some r))"
proof (cases "is_revocation op")
  case True
  then obtain h r now where op: "op = OpRevokePermissions h r now" by (cases op) auto
  let ?P = "\<lambda>d. invar (pc_state d) \<and> (\<forall>r. po_permission ops (pc_state d) sc \<noteq> Inr (Some r))"
  have "wp (revoke_permissions ops C h r now) (\<lambda>_. ?P) (\<lambda>_. ?P) c"
  proof (rule wp_mono [OF revoke_permissions_wp])
    fix n d
    assume "\<exists>a e. tbl_get (pc_authorities c) h = Some a \<and>
        po_revoke ops (pc_state c) (permission_scope C (ra_facts a)) e n (now div 1000) = Inr (pc_state d)"
    then obtain sc' e where rv: "po_revoke ops (pc_state c) sc' e n (now div 1000) = Inr (pc_state d)"
      by blast
    have "po_permission ops (pc_state d) sc \<noteq> Inr (Some p)" for p
      using revoke_permission [OF assms(1) rv] revoke_frame [OF assms(1) rv, of sc] assms(2)
      by (cases "sc = sc'") auto
    with revoke_inv [OF assms(1) rv] show "?P d" by simp
  qed (use assms in simp)
  then show ?thesis by (simp add: op wp_snd)
next
  case False
  with run_op_state [OF assms(3) False, of ops C fs c] assms show ?thesis by simp
qed

lemma run_ops_no_permission:
  assumes "invar (pc_state c)" "\<forall>r. po_permission ops (pc_state c) sc \<noteq> Inr (Some r)"
    "list_all (\<lambda>op. \<not> is_grant op) l"
  shows "\<forall>r. po_permission ops (pc_state (run_ops ops C fs l c)) sc \<noteq> Inr (Some r)"
  using assms unfolding run_ops_def
proof (induction l arbitrary: c)
  case (Cons op l)
  then show ?case using run_op_no_permission [of c sc op C fs] by simp
qed simp

lemma revoked_scope_is_refused:
  assumes c: "core_inv c" "invar (pc_state c)"
    and rv: "revoke_permissions ops C h r now c = (Inr n, c1)"
    and a: "tbl_get (pc_authorities c) h = Some a"
    and l: "list_all (\<lambda>op. \<not> is_grant op) l"
    and d: "d = run_ops ops C fs l c1"
    and a': "tbl_get (pc_authorities d) h' = Some a'"
      "permission_scope C (ra_facts a') = permission_scope C (ra_facts a)"
    and rq: "request ops C fs h' r' nonce now' bs d = (Inr x, d')"
  shows "method_permission (ac_method (action_call x)) = None"
proof -
  let ?sc = "permission_scope C (ra_facts a)"
  from wpD [OF revoke_permissions_wp rv] a obtain e where
    e: "po_revoke ops (pc_state c) ?sc e n (now div 1000) = Inr (pc_state c1)" by auto
  have "\<forall>r. po_permission ops (pc_state d) ?sc \<noteq> Inr (Some r)"
    unfolding d using revoke_permission [OF c(2) e]
    by (intro run_ops_no_permission revoke_inv [OF c(2) e] l) simp
  moreover have "core_inv d"
    using run_op_inv [OF c(1), of ops C fs "OpRevokePermissions h r now"] rv by (simp add: d run_ops_inv)
  then have "request_granted ops C d h' r' nonce now' x d'"
    using wpD [OF request_wp rq] by blast
  ultimately show ?thesis
    using a' by (auto simp: request_granted_def permitted_def split: option.splits)
qed

lemma granted_record_is_read_back:
  assumes "invar (pc_state c)"
    "grant_scoped_permissions_inner ops C h r e caps accts names now x c = (Inr p, d)"
  shows "permission_snapshot_of ops C h r now d =
      (Inr \<lparr>ps_generation = pm_generation p, ps_record = Some p\<rparr>, d)"
    and "pm_capabilities p = caps \<and> pm_approved_accounts p = accts \<and> pm_approved_names p = names"
proof -
  from wpD [OF grant_wp assms(2)] obtain a g s' where
    a: "tbl_get (pc_authorities c) h = Some a" "ra_revision a = r" "0 < r"
      "now < ha_valid_until_unix_ms (ra_facts a)"
    and i: "\<not> grant_is_invalid (ra_facts a) caps accts names (now div 1000) x"
    and p: "p = granted_record (ra_facts a) (g + 1) caps accts names (now div 1000) x"
    and s': "po_save ops (pc_state c) (permission_scope C (ra_facts a)) p = Inr s'"
    and d: "d = forget_scope (ra_facts a) (c\<lparr>pc_last_now_unix_ms := now, pc_state := s'\<rparr>)"
    by blast
  from save_permission [OF assms(1) s'] granted_identity_valid [OF i, of "g + 1"] a
  show "permission_snapshot_of ops C h r now d =
      (Inr \<lparr>ps_generation = pm_generation p, ps_record = Some p\<rparr>, d)"
    by (intro snapshot_eq) (simp_all add: d p forget_scope_def)
  show "pm_capabilities p = caps \<and> pm_approved_accounts p = accts \<and> pm_approved_names p = names"
    by (simp add: p granted_record_def)
qed

end

end
