(* ===== verification/Sample_Data.thy ===== *)
theory Sample_Data
  imports Provider_Sequences
begin

text \<open>
  Concrete values at which the hypotheses of the theorems hold: an instance of the \<open>crypto\<close>
  record that meets \<open>crypto_law\<close>, a codec for one value that meets \<open>codec_law\<close>, a registered
  authority, a core with a pending approval, and a store with a permission row. They stand for no
  code of the repository.
\<close>

definition demo_crypto :: crypto where
  "demo_crypto = \<lparr>
     seal = (\<lambda>k n a m. Some (m @ replicate 16 0)),
     unseal = (\<lambda>k n a c. if length c < 16 then None else Some (take (length c - 16) c)),
     fill_random = (\<lambda>l i. Some (replicate 24 7)),
     hmac_sha256 = (\<lambda>k m. replicate 32 (if m = [] then 0 else last m)),
     sha256 = (\<lambda>m. replicate 32 (word_of_nat (length m)))\<rparr>"

lemma demo_crypto_law: "crypto_law demo_crypto"
  by (auto simp: crypto_law_def demo_crypto_def TAG_BYTES_def NONCE_BYTES_def)

definition one_codec :: "'a \<Rightarrow> 'a codec" where
  "one_codec v = \<lparr>js_encode = (\<lambda>x. if x = v then Some [1] else None),
     js_decode = (\<lambda>b. if b = [1] then Some v else None)\<rparr>"

lemma one_codec_law: "codec_law (one_codec v)"
  by (auto simp: codec_law_def one_codec_def)

definition demo_facts :: host_authority_registration where
  "demo_facts = \<lparr>ha_origin = byte_str ''https://a'', ha_namespace = NsHns, ha_runtime_session = [1],
     ha_runtime_generation = 1, ha_policy_generation = 1, ha_navigation_generation = 1,
     ha_decision_fingerprint = [2], ha_valid_until_unix_ms = 10000000\<rparr>"

definition demo_rq :: provider_request where
  "demo_rq = \<lparr>rq_method = ''hns_requestAccounts'', rq_params = J_Null\<rparr>"

definition demo_core :: "memory_provider_state provider_core" where
  "demo_core = run_ops memory_ops demo_crypto (\<lambda>_. Some demo_rq) [OpRegister [9] demo_facts 1000]
     (provider_core_new \<lparr>mp_permissions = [], mp_generations = []\<rparr> [5] False)"

lemmas core_eval = request_def accept_time_def authority_def admit_method_def issue_action_def
  enforce_rate_def consume_nonce_def generation_or_zero_def check_permission_def Let_def sbind_def
  register_authority_def host_authority_validate_def prune_expired_authorities_def run_ops_def
  provider_core_new_def provider_request_decode_def provider_method_parse_def wire_name_def
  PROVIDER_METHOD_WIRE_NAMES_def ALL_METHODS_def method_permission_def method_approval_def rate_limit_def
  requires_hns_namespace_def validate_module_params_def tbl_retain_def RATE_WINDOW_SECONDS_def
  APPROVAL_LIFETIME_SECONDS_def MAX_REPLAY_NONCES_def MAX_CORE_PENDING_APPROVALS_def
  MAX_REGISTERED_AUTHORITIES_def MAX_PROVIDER_REQUEST_BYTES_def MAX_METHOD_BYTES_def
  saturating_sub_def checked_add_w_def

lemma demo_core_eq: "demo_core = \<lparr>pc_state = \<lparr>mp_permissions = [], mp_generations = []\<rparr>,
   pc_authorities = [([9], \<lparr>ra_facts = demo_facts, ra_revision = 1\<rparr>)], pc_wallet_session = [5],
   pc_wallet_locked = False, pc_last_now_unix_ms = 1000, pc_pending = [], pc_replay = [], pc_rate = []\<rparr>"
  by (simp add: demo_core_def core_eval demo_facts_def)

lemma demo_request: "\<exists>p c'. request memory_ops demo_crypto (\<lambda>_. Some demo_rq) [9] 1 77 2000 [1] demo_core =
    (Inr (ApprovalRequired p), c') \<and> pc_pending c' = [(ca_id p, p)] \<and>
    ca_expires_at_unix p = 92 \<and> ca_call p = \<lparr>ac_origin = byte_str ''https://a'', ac_namespace = NsHns,
      ac_method = PM_HnsRequestAccounts, ac_params = J_Null, ac_request_nonce = 77\<rparr>"
  by (simp add: demo_core_eq core_eval demo_facts_def demo_rq_def)

definition demo_pending :: "memory_provider_state provider_core" where
  "demo_pending = snd (request memory_ops demo_crypto (\<lambda>_. Some demo_rq) [9] 1 77 2000 [1] demo_core)"

definition demo_store :: wallet_store where
  "demo_store = \<lparr>ws_database_id = replicate 16 3, ws_key = Some (replicate 32 4), ws_workflows = [],
     ws_entities = [], ws_secrets = [], ws_permissions = [], ws_approvals = [], ws_replay = []\<rparr>"

definition demo_record :: permission_record where
  "demo_record = granted_record demo_facts 1 [Balance] [] [] 2 None"

definition demo_wallet_core :: "wallet_store provider_core" where
  "demo_wallet_core = run_ops (wallet_ops demo_crypto (one_codec demo_record)) demo_crypto (\<lambda>_. Some demo_rq)
     [OpRegister [9] demo_facts 1000] (provider_core_new demo_store [5] False)"

lemmas store_eval = wallet_ops_def provider_permission_def provider_permission_generation_def
  put_provider_permission_def revoke_provider_permission_def validate_origin_def encode_origin_payload_def decode_origin_payload_def
  open_permission_def seal_permission_def write_permission_def encrypt_record_def decrypt_record_def
  record_aad_def permission_record_id_def origin_lookup_token_def store_limits
  validate_encrypted_record_length_def MAX_PROVIDER_PERMISSIONS_def sql_uint_def

lemma demo_grant: "\<exists>c'. grant_scoped_permissions_inner (wallet_ops demo_crypto (one_codec demo_record)) demo_crypto [9] 1
    None [Balance] [] [] 2000 None demo_wallet_core = (Inr demo_record, c')"
  by (simp add: demo_wallet_core_def demo_store_def demo_record_def grant_scoped_permissions_inner_def core_eval
     store_eval one_codec_def demo_facts_def granted_record_def grant_is_invalid_def permission_scope_def MAX_APPROVED_ACCOUNTS_def MAX_APPROVED_NAMES_def
     hex_lower_def demo_crypto_def byte_str_def HEX_DIGITS_def list_all_iff length_concat sum_list_replicate)

abbreviation demo_ops :: "wallet_store provider_ops" where
  "demo_ops \<equiv> wallet_ops demo_crypto (one_codec demo_record)"

lemmas demo_eval = core_eval store_eval demo_store_def one_codec_def granted_record_def grant_is_invalid_def
  MAX_APPROVED_ACCOUNTS_def MAX_APPROVED_NAMES_def grant_scoped_permissions_inner_def
  revoke_permissions_def forget_scope_def

definition demo_scope :: bytes where
  "demo_scope = permission_scope demo_crypto demo_facts"

lemma demo_scope_valid: "demo_scope \<noteq> []" "length demo_scope = 95" "list_all (\<lambda>b. b < 128) demo_scope"
  by (simp_all add: demo_scope_def permission_scope_def demo_facts_def hex_lower_def demo_crypto_def byte_str_def
      HEX_DIGITS_def list_all_iff length_concat sum_list_replicate)

lemma demo_decrypt:
  "decrypt_record demo_crypto key db kind i (replicate 24 7 @ m @ replicate 16 0) = Inr m"
  if "kind \<noteq> []" "length kind \<le> 64" "i \<noteq> []" "length i \<le> 192" "length m \<le> 1048576"
  using that by (simp add: decrypt_record_def record_aad_def demo_crypto_def validate_encrypted_record_length_def store_limits)

lemma demo_encrypt:
  "encrypt_record demo_crypto key db kind i m = Inr (replicate 24 7 @ m @ replicate 16 0)"
  if "kind \<noteq> []" "length kind \<le> 64" "i \<noteq> []" "length i \<le> 192" "m \<noteq> []" "length m \<le> 1048576"
  using that by (simp add: encrypt_record_def record_aad_def demo_crypto_def store_limits)

lemma demo_payload: "p \<noteq> [] \<Longrightarrow> length p \<le> 1000 \<Longrightarrow>
    encode_origin_payload demo_scope p = Inr (be_bytes 2 95 @ demo_scope @ p)"
  using demo_scope_valid by (simp add: encode_origin_payload_def store_limits del: be_bytes.simps)

lemma demo_unpayload: "p \<noteq> [] \<Longrightarrow> length p \<le> 1000 \<Longrightarrow>
    decode_origin_payload (be_bytes 2 95 @ demo_scope @ p) = Inr (demo_scope, p)"
  using demo_payload by (simp add: decode_origin_payload_iff)

definition demo_token :: bytes where
  "demo_token = origin_lookup_token demo_crypto (replicate 32 4) (replicate 16 3) demo_scope"

lemma demo_token_length: "length demo_token = 32"
  by (simp add: demo_token_def origin_lookup_token_def demo_crypto_def)

definition demo_row :: "bytes \<Rightarrow> u64 \<Rightarrow> bool \<Rightarrow> permission_row" where
  "demo_row p g b = \<lparr>pr_generation = g, pr_record = replicate 24 7 @ (be_bytes 2 95 @ demo_scope @ p) @ replicate 16 0,
     pr_updated = 2, pr_revoked = b\<rparr>"

lemma demo_open: "p \<noteq> [] \<Longrightarrow> length p \<le> 1000 \<Longrightarrow>
    open_permission demo_crypto key s demo_scope demo_token (demo_row p g b) = Inr p"
  unfolding open_permission_def demo_row_def
  by (simp add: demo_decrypt demo_unpayload permission_record_id_def demo_token_length demo_scope_valid del: append_assoc)

definition demo_granted :: "wallet_store provider_core" where
  "demo_granted = demo_wallet_core\<lparr>pc_last_now_unix_ms := 2000,
     pc_state := demo_store\<lparr>ws_permissions := [(demo_token, demo_row [1] 1 False)]\<rparr>\<rparr>"

lemma demo_put: "put_provider_permission demo_crypto demo_store demo_scope 1 [1] 2 =
    Inr (demo_store\<lparr>ws_permissions := [(demo_token, demo_row [1] 1 False)]\<rparr>)"
  using demo_scope_valid
  by (simp add: put_provider_permission_def demo_store_def Let_def seal_permission_def demo_encrypt demo_payload
     permission_record_id_def write_permission_def demo_row_def demo_token_def [symmetric] demo_token_length store_limits
     MAX_PROVIDER_PERMISSIONS_def sql_uint_def del: append_assoc)

lemma demo_revoke: "revoke_provider_permission demo_crypto (demo_store\<lparr>ws_permissions := [(demo_token, demo_row [1] 1 False)]\<rparr>)
     demo_scope 1 2 2 = Inr (demo_store\<lparr>ws_permissions := [(demo_token, demo_row (byte_str ''revoked'') 2 True)]\<rparr>)"
  using demo_scope_valid
  by (simp add: revoke_provider_permission_def demo_store_def Let_def seal_permission_def demo_encrypt demo_payload
     permission_record_id_def write_permission_def demo_token_def [symmetric] demo_token_length store_limits demo_open
     MAX_PROVIDER_PERMISSIONS_def sql_uint_def del: append_assoc)
     (simp add: demo_row_def demo_encrypt demo_payload demo_token_length)

lemma demo_wallet_core_eq: "demo_wallet_core = \<lparr>pc_state = demo_store,
    pc_authorities = [([9], \<lparr>ra_facts = demo_facts, ra_revision = 1\<rparr>)], pc_wallet_session = [5],
    pc_wallet_locked = False, pc_last_now_unix_ms = 1000, pc_pending = [], pc_replay = [], pc_rate = []\<rparr>"
  by (simp add: demo_wallet_core_def core_eval demo_facts_def)

lemma demo_revoked: "revoke_permissions demo_ops demo_crypto [9] 1 2000 demo_granted =
   (Inr 2, demo_granted\<lparr>pc_state := demo_store\<lparr>ws_permissions := [(demo_token, demo_row (byte_str ''revoked'') 2 True)]\<rparr>\<rparr>)"
proof -
  have v: "ha_valid_until_unix_ms demo_facts = 10000000" by (simp add: demo_facts_def)
  have g: "po_generation demo_ops (demo_store\<lparr>ws_permissions := [(demo_token, demo_row [1] 1 False)]\<rparr>)
      (permission_scope demo_crypto demo_facts) = Inr (Some 1)"
    using demo_scope_valid
    by (simp add: wallet_ops_def provider_permission_generation_def demo_scope_def [symmetric] demo_store_def Let_def
        demo_token_def [symmetric] demo_open)
       (simp add: demo_row_def)
  have r: "po_revoke demo_ops (demo_store\<lparr>ws_permissions := [(demo_token, demo_row [1] 1 False)]\<rparr>)
      (permission_scope demo_crypto demo_facts) 1 2 2 = Inr (demo_store\<lparr>ws_permissions := [(demo_token, demo_row (byte_str ''revoked'') 2 True)]\<rparr>)"
    using demo_revoke by (simp add: wallet_ops_def demo_scope_def)
  have r': "po_revoke demo_ops (demo_store\<lparr>ws_permissions := [(demo_token, demo_row [1] (Suc 0) False)]\<rparr>)
      (permission_scope demo_crypto demo_facts) (Suc 0) (Suc (Suc 0)) 2 =
      Inr (demo_store\<lparr>ws_permissions := [(demo_token, demo_row (byte_str ''revoked'') 2 True)]\<rparr>)"
    using r by (metis One_nat_def Suc_1)
  show ?thesis using g r' v
    by (simp add: revoke_permissions_def core_eval demo_granted_def demo_wallet_core_eq forget_scope_def)
qed

definition demo_id :: approval_id where
  "demo_id = core_approval_id demo_crypto [9] 1 [5] 77 PM_HnsRequestAccounts NsHns (ha_origin demo_facts)"

definition demo_call :: approved_call where
  "demo_call = \<lparr>ac_origin = ha_origin demo_facts, ac_namespace = NsHns, ac_method = PM_HnsRequestAccounts,
     ac_params = J_Null, ac_request_nonce = 77\<rparr>"

lemma demo_pending_eq: "demo_pending = demo_core\<lparr>pc_last_now_unix_ms := 2000,
     pc_rate := [(([9], PM_HnsRequestAccounts), \<lparr>rw_starts_at_unix = 2, rw_count = 1\<rparr>)],
     pc_replay := [(([9], 77), 92)],
     pc_pending := [(demo_id, \<lparr>ca_id = demo_id, ca_kind = AK_Permission, ca_call = demo_call,
       ca_authority_handle = [9], ca_authority_revision = 1, ca_wallet_session = [5],
       ca_permission_generation = 0, ca_expires_at_unix = 92\<rparr>)]\<rparr>"
  by (simp add: demo_pending_def demo_core_eq core_eval demo_rq_def demo_id_def demo_call_def)
     (simp add: demo_facts_def)

lemma demo_approve: "fst (approve memory_ops demo_crypto [9] 1 demo_id 3000 demo_pending) = Inr demo_call"
  by (simp add: approve_def core_eval demo_pending_eq demo_core_eq approval_is_stale_def demo_call_def)
     (simp add: demo_facts_def)

definition demo_locked :: "memory_provider_state provider_core" where
  "demo_locked = run_ops memory_ops demo_crypto (\<lambda>_. Some demo_rq)
     [OpRegister [9] demo_facts 1000, OpRequest [9] 1 77 2000 [1], OpSetWallet [5] True]
     (provider_core_new \<lparr>mp_permissions = [], mp_generations = []\<rparr> [5] False)"

lemma demo_store_inv: "wallet_perm_inv demo_crypto (one_codec r) demo_store"
  by (auto simp: wallet_perm_inv_def demo_crypto_law one_codec_law wallet_ops_permission_Ok
      provider_permission_def demo_store_def Let_def split: option.splits)

lemma demo_wallet_state: "pc_state demo_wallet_core = demo_store"
  by (simp add: demo_wallet_core_def core_eval demo_facts_def)

definition demo_revoked_core :: "wallet_store provider_core" where
  "demo_revoked_core = demo_granted\<lparr>pc_state :=
     demo_store\<lparr>ws_permissions := [(demo_token, demo_row (byte_str ''revoked'') 2 True)]\<rparr>\<rparr>"

lemma demo_granted_inv: "core_inv demo_granted"
  by (simp add: demo_granted_def demo_wallet_core_eq core_inv_def tbl_wf_def MAX_REGISTERED_AUTHORITIES_def)

lemma demo_granted_state_inv: "wallet_perm_inv demo_crypto (one_codec demo_record) (pc_state demo_granted)"
proof -
  have "po_save demo_ops demo_store demo_scope demo_record = Inr (pc_state demo_granted)"
    using demo_put by (simp add: wallet_ops_def one_codec_def demo_granted_def)
       (simp add: demo_record_def granted_record_def)
  from wallet_state.save_inv [OF demo_store_inv this] show ?thesis .
qed

lemma demo_revoked_generation:
  "po_generation demo_ops (pc_state demo_revoked_core) (permission_scope demo_crypto demo_facts) = Inr (Some 2)"
  using demo_scope_valid
  by (simp add: wallet_ops_def provider_permission_generation_def demo_scope_def [symmetric] demo_store_def Let_def
      demo_token_def [symmetric] demo_open demo_revoked_core_def)
     (simp add: demo_row_def)

lemma demo_revoked_request:
  "\<exists>x d'. request demo_ops demo_crypto (\<lambda>_. Some demo_rq) [9] 1 77 2000 [1] demo_revoked_core = (Inr x, d')"
proof -
  have v: "ha_valid_until_unix_ms demo_facts = 10000000" "ha_namespace demo_facts = NsHns"
    by (simp_all add: demo_facts_def)
  show ?thesis
    using v demo_revoked_generation
    by (simp add: demo_revoked_core_def demo_granted_def demo_wallet_core_eq core_eval demo_rq_def)
qed

end
