(* ===== verification/Provider_Properties.thy ===== *)
theory Provider_Properties
  imports Sample_Data
begin

text \<open>
  The properties of the provider core and of its permission rows in the wallet store.
\<close>

section \<open>Requests and approvals\<close>

text \<open>C1. A request that a page gets past the core, in any state the core can reach, was sent
  through a registered, unexpired authority at its current revision; its origin and namespace are
  the authority's, a Handshake-only method comes from the Handshake namespace, the method's
  capability (if it needs one) is in a stored, unexpired permission of exactly that origin,
  namespace and generation, a locked wallet answers only status and capabilities, a method that
  needs approval is never executed but only made pending, and the nonce was unused and is now
  spent for ninety seconds.\<close>

theorem request_is_authorized:
  assumes "c = run_ops ops C fs l (provider_core_new state session locked)"
    and "request ops C fs h r nonce now bs c = (Inr x, c')"
  shows "request_granted ops C c h r nonce now x c'"
  using wpD [OF request_wp assms(2)] run_ops_inv [OF core_inv_new, of ops C fs l state session locked] assms(1)
  by simp

theorem request_is_authorized_witness:
  "\<exists>x c'. request memory_ops demo_crypto (\<lambda>_. Some demo_rq) [9] 1 77 2000 [1] demo_core = (Inr x, c') \<and>
     request_granted memory_ops demo_crypto demo_core [9] 1 77 2000 x c'"
  using demo_request request_is_authorized [OF demo_core_def] by metis

text \<open>C16. Whatever operations led to the current state, a locked wallet approves nothing: no
  approval is pending while the wallet is locked, and \<open>approve\<close> fails for every identifier.\<close>

theorem locked_wallet_approves_nothing:
  assumes "c = run_ops ops C fs l (provider_core_new state session locked)" and "pc_wallet_locked c"
  shows "pc_pending c = [] \<and> (\<exists>e. fst (approve ops C h r i now c) = Inl e)"
proof -
  have none: "pc_pending c = []"
    using run_ops_inv [OF core_inv_new, of ops C fs l state session locked] assms by (simp add: core_inv_def)
  show ?thesis
  proof (cases "approve ops C h r i now c")
    case (Pair res d)
    show ?thesis
    proof (cases res)
      case (Inr call)
      with wpD [OF approve_wp, of ops C h r i now c call d] Pair none show ?thesis
        by (auto simp: approve_granted_def)
    qed (simp add: Pair none)
  qed
qed

theorem locked_wallet_approves_nothing_witness:
  "pc_wallet_locked demo_locked \<and> pc_pending demo_locked = [] \<and>
   (\<exists>e. fst (approve memory_ops demo_crypto [9] 1 [1] 3000 demo_locked) = Inl e)"
proof -
  have "pc_wallet_locked demo_locked" by (simp add: demo_locked_def run_ops_def set_wallet_state_def)
  with locked_wallet_approves_nothing [OF demo_locked_def this] show ?thesis by simp
qed

text \<open>C8. An approval that succeeds names a pending approval made for this handle at this authority
  revision in the current wallet session, not yet expired, whose origin and namespace are the
  authority's, and the permission it needs is held at the same generation as when it was
  requested.\<close>

theorem approve_is_authorized:
  assumes "approve ops C h r i now c = (Inr call, c')"
  shows "approve_granted ops C c h r i now call c'"
  using wpD [OF approve_wp assms] .


theorem approve_is_authorized_witness:
  "\<exists>c'. approve memory_ops demo_crypto [9] 1 demo_id 3000 demo_pending = (Inr demo_call, c') \<and>
     approve_granted memory_ops demo_crypto demo_pending [9] 1 demo_id 3000 demo_call c'"
  using demo_approve approve_is_authorized by (metis prod.collapse)

text \<open>C15. An approval is consumed by the call that succeeds: after it, and after any further
  operations that are not requests, approving the same identifier fails, under every handle,
  revision and time.\<close>

theorem approval_is_single_use:
  assumes "approve ops C h r i now c = (Inr call, c')" and "list_all (\<lambda>op. \<not> is_request op) l"
  shows "\<exists>e. fst (approve ops C h' r' i now' (run_ops ops C fs l c')) = Inl e"
proof -
  have "tbl_get (pc_pending c') i = None"
    using wpD [OF approve_wp assms(1)] by (auto simp: approve_granted_def tbl_get_del)
  from run_ops_no_pending [OF assms(2) this] have none: "tbl_get (pc_pending (run_ops ops C fs l c')) i = None" .
  show ?thesis
  proof (cases "approve ops C h' r' i now' (run_ops ops C fs l c')")
    case (Pair res d)
    show ?thesis
    proof (cases res)
      case (Inr x)
      with wpD [OF approve_wp, of ops C h' r' i now' _ x d] Pair none show ?thesis
        by (fastforce simp: approve_granted_def)
    qed (simp add: Pair)
  qed
qed

theorem approval_is_single_use_witness:
  "\<exists>c'. approve memory_ops demo_crypto [9] 1 demo_id 3000 demo_pending = (Inr demo_call, c') \<and>
     (\<exists>e. fst (approve memory_ops demo_crypto [9] 1 demo_id 3000 (run_ops memory_ops demo_crypto (\<lambda>_. Some demo_rq)
        [OpReject [9] 1 [1] 3000] c')) = Inl e)"
proof -
  from demo_approve obtain c' where c': "approve memory_ops demo_crypto [9] 1 demo_id 3000 demo_pending = (Inr demo_call, c')"
    by (metis prod.collapse)
  from approval_is_single_use [OF c', of "[OpReject [9] 1 [1] 3000]"] c' show ?thesis by auto
qed

text \<open>C9. A nonce works once: after a request with a nonce has been let through, and after any
  further page-driven operations (requests, approvals, rejections, grants, revocations and reads),
  a request with the same handle and nonce fails until ninety seconds have passed.\<close>

theorem nonce_is_not_replayed:
  assumes "c = run_ops ops C fs l0 (provider_core_new state session locked)"
    and "request ops C fs h r nonce now bs c = (Inr x, c')"
    and "list_all is_page_op l"
    and "now' div 1000 < (now + 90000) div 1000"
  shows "\<exists>e. fst (request ops C fs h r' nonce now' bs' (run_ops ops C fs l c')) = Inl e"
proof -
  let ?d = "run_ops ops C fs l c'"
  have "core_inv c" using run_ops_inv [OF core_inv_new] assms(1) by simp
  from wpD [OF request_wp [OF this] assms(2)] have inv: "core_inv c'"
    and get: "tbl_get (pc_replay c') (h, nonce) = Some ((now + 90000) div 1000)"
    by (auto simp: request_granted_def)
  have spent: "nonce_spent h nonce ((now + 90000) div 1000) ?d"
    by (rule page_ops_spent [OF inv _ assms(3)]) (simp add: nonce_spent_def get)
  show ?thesis
  proof (cases "request ops C fs h r' nonce now' bs' ?d")
    case (Pair res d)
    show ?thesis
    proof (cases res)
      case (Inr y)
      from wpD [OF request_wp [OF run_ops_inv [OF inv]] Pair [unfolded Inr]]
      have t: "pc_last_now_unix_ms ?d \<le> now'"
        and f: "\<forall>e. tbl_get (pc_replay ?d) (h, nonce) = Some e \<longrightarrow> e \<le> now' div 1000"
        by (auto simp: request_granted_def)
      have "pc_last_now_unix_ms ?d div 1000 \<le> now' div 1000" using t by (rule div_le_mono)
      with spent f assms(4) show ?thesis by (auto simp: nonce_spent_def)
    qed (simp add: Pair)
  qed
qed

theorem nonce_is_not_replayed_witness:
  "\<exists>x c'. request memory_ops demo_crypto (\<lambda>_. Some demo_rq) [9] 1 77 2000 [1] demo_core = (Inr x, c') \<and>
     (\<exists>e. fst (request memory_ops demo_crypto (\<lambda>_. Some demo_rq) [9] 1 77 50000 [2]
        (run_ops memory_ops demo_crypto (\<lambda>_. Some demo_rq) [OpReject [9] 1 [1] 3000] c')) = Inl e)"
proof -
  from demo_request obtain x c' where
    r: "request memory_ops demo_crypto (\<lambda>_. Some demo_rq) [9] 1 77 2000 [1] demo_core = (Inr x, c')" by blast
  from nonce_is_not_replayed [OF demo_core_def r, of "[OpReject [9] 1 [1] 3000]" 50000] r show ?thesis by auto
qed

text \<open>C18. The core's memory is bounded: in every reachable state at most 256 authorities are
  registered, at most 128 approvals pending, at most 4096 nonces remembered, no rate window has
  counted more requests than its method's limit, and every pending approval belongs to a
  registered authority at its current revision with the same origin and namespace.\<close>

theorem core_is_bounded:
  assumes "c = run_ops ops C fs l (provider_core_new state session locked)"
  shows "length (pc_authorities c) \<le> 256 \<and> length (pc_pending c) \<le> 128 \<and> length (pc_replay c) \<le> 4096 \<and>
    (\<forall>h m w. tbl_get (pc_rate c) (h, m) = Some w \<longrightarrow> rw_count w \<le> rate_limit m) \<and>
    (\<forall>i p. tbl_get (pc_pending c) i = Some p \<longrightarrow> approval_bound c i p)"
  using run_ops_inv [OF core_inv_new, of ops C fs l state session locked] assms
  by (simp add: core_inv_def MAX_REGISTERED_AUTHORITIES_def MAX_CORE_PENDING_APPROVALS_def MAX_REPLAY_NONCES_def)

theorem core_is_bounded_witness:
  "approval_bound demo_pending demo_id \<lparr>ca_id = demo_id, ca_kind = AK_Permission, ca_call = demo_call,
     ca_authority_handle = [9], ca_authority_revision = 1, ca_wallet_session = [5],
     ca_permission_generation = 0, ca_expires_at_unix = 92\<rparr>"
proof -
  have "demo_pending = run_ops memory_ops demo_crypto (\<lambda>_. Some demo_rq)
      [OpRegister [9] demo_facts 1000, OpRequest [9] 1 77 2000 [1]]
      (provider_core_new \<lparr>mp_permissions = [], mp_generations = []\<rparr> [5] False)"
    by (simp add: demo_pending_def demo_core_def run_ops_def)
  from core_is_bounded [OF this] show ?thesis by (simp add: demo_pending_eq)
qed

section \<open>Method names\<close>







section \<open>Over the wallet store\<close>

text \<open>C17. Over the encrypted wallet store, a granted permission is the one read back: after a grant
  succeeds, a snapshot at the same time returns the new generation and exactly the granted record,
  whatever keys, nonces and JSON encoding are used.\<close>

theorem wallet_grant_is_read_back:
  assumes "wallet_perm_inv C J (pc_state c)"
    and "grant_scoped_permissions_inner (wallet_ops C J) C h r e caps accts names now x c = (Inr p, d)"
  shows "permission_snapshot_of (wallet_ops C J) C h r now d =
      (Inr \<lparr>ps_generation = pm_generation p, ps_record = Some p\<rparr>, d) \<and>
    pm_capabilities p = caps \<and> pm_approved_accounts p = accts \<and> pm_approved_names p = names"
  using wallet_state.granted_record_is_read_back [OF assms] by simp

theorem wallet_grant_is_read_back_witness:
  "\<exists>d. grant_scoped_permissions_inner (wallet_ops demo_crypto (one_codec demo_record)) demo_crypto [9] 1
     None [Balance] [] [] 2000 None demo_wallet_core = (Inr demo_record, d) \<and>
     permission_snapshot_of (wallet_ops demo_crypto (one_codec demo_record)) demo_crypto [9] 1 2000 d =
       (Inr \<lparr>ps_generation = 1, ps_record = Some demo_record\<rparr>, d)"
proof -
  from demo_grant obtain d where d: "grant_scoped_permissions_inner (wallet_ops demo_crypto (one_codec demo_record))
      demo_crypto [9] 1 None [Balance] [] [] 2000 None demo_wallet_core = (Inr demo_record, d)" by blast
  have "wallet_perm_inv demo_crypto (one_codec demo_record) (pc_state demo_wallet_core)"
    by (simp add: demo_wallet_state demo_store_inv)
  from wallet_grant_is_read_back [OF this d] d show ?thesis
    by (simp add: demo_record_def granted_record_def)
qed
text \<open>C6. Over the encrypted wallet store, revocation takes effect at once and lasts: after
  \<open>revoke_permissions\<close> succeeds for a scope, and after any further operations other than grants, a
  request that gets past the core from an authority of that scope is for a method that needs no
  permission.\<close>

theorem wallet_revocation_holds:
  assumes "core_inv c" and "wallet_perm_inv C J (pc_state c)"
    and "revoke_permissions (wallet_ops C J) C h r now c = (Inr n, c1)"
    and "tbl_get (pc_authorities c) h = Some a"
    and "list_all (\<lambda>op. \<not> is_grant op) l"
    and "d = run_ops (wallet_ops C J) C fs l c1"
    and "tbl_get (pc_authorities d) h' = Some a'"
    and "permission_scope C (ra_facts a') = permission_scope C (ra_facts a)"
    and "request (wallet_ops C J) C fs h' r' nonce now' bs d = (Inr x, d')"
  shows "method_permission (ac_method (action_call x)) = None"
  by (rule wallet_state.revoked_scope_is_refused [OF assms])

theorem wallet_revocation_holds_witness:
  "\<exists>c1 x d'. revoke_permissions demo_ops demo_crypto [9] 1 2000 demo_granted = (Inr 2, c1) \<and>
     request demo_ops demo_crypto (\<lambda>_. Some demo_rq) [9] 1 77 2000 [1] c1 = (Inr x, d') \<and>
     method_permission (ac_method (action_call x)) = None"
proof -
  from demo_revoked_request obtain x d' where rq: "request demo_ops demo_crypto (\<lambda>_. Some demo_rq) [9] 1 77 2000 [1]
      demo_revoked_core = (Inr x, d')" by blast
  have "method_permission (ac_method (action_call x)) = None"
    by (rule wallet_revocation_holds [OF demo_granted_inv demo_granted_state_inv demo_revoked, where l = "[]" and
          a = "\<lparr>ra_facts = demo_facts, ra_revision = 1\<rparr>" and a' = "\<lparr>ra_facts = demo_facts, ra_revision = 1\<rparr>"])
       (use rq in \<open>simp_all add: run_ops_def demo_granted_def demo_wallet_core_eq demo_revoked_core_def\<close>)
  then show ?thesis using rq demo_revoked by (auto simp: demo_revoked_core_def)
qed

end
