(* ===== verification/Store_Leases.thy ===== *)
theory Store_Leases
  imports Wallet_Store
begin

text \<open>
  The rest of the typed interface of the encrypted store (hns-wallet-store/src/lib.rs): read snapshots,
  untrusted metadata projections and leases of a complete prefix set with the batches that consume them,
  the batches that advance a wallet account together with other records, and the workflow listings. A
  snapshot is a deferred SQLite transaction, so every read through it sees one state of the store. The
  limit of a row loop is what is left of the caller's limit.
\<close>

section \<open>Prefix projections\<close>

record stored_entity_metadata =
  md_kind :: entity_kind
  md_id :: bytes
  md_revision :: u64
  md_updated_at_unix :: u64

record prefix_set_lease =
  pl_database_id :: bytes
  pl_kind :: entity_kind
  pl_prefix :: bytes
  pl_limit :: nat
  pl_metadata :: "stored_entity_metadata list"
  pl_encrypted_value_fingerprints :: "bytes list"

definition starts_with :: "bytes \<Rightarrow> bytes \<Rightarrow> bool" where
  "starts_with i pre \<longleftrightarrow> take (length pre) i = pre"

definition prefix_query ::
  "wallet_store \<Rightarrow> entity_kind \<Rightarrow> bytes \<Rightarrow> nat \<Rightarrow> ((entity_kind \<times> bytes) \<times> entity_row) list" where
  "prefix_query s kind pre query_limit = take query_limit (sort_key (snd \<circ> fst)
     (filter (\<lambda>((k, i), _). k = kind \<and> take (length pre) i = pre) (ws_entities s)))"

definition row_metadata :: "entity_kind \<Rightarrow> bytes \<Rightarrow> entity_row \<Rightarrow> stored_entity_metadata" where
  "row_metadata kind i row =
     \<lparr>md_kind = kind, md_id = i, md_revision = er_revision row, md_updated_at_unix = er_updated row\<rparr>"

fun metadata_rows ::
  "entity_kind \<Rightarrow> nat \<Rightarrow> ((entity_kind \<times> bytes) \<times> entity_row) list \<Rightarrow>
   (store_error, stored_entity_metadata list) result" where
  "metadata_rows kind limit [] = Ok []"
| "metadata_rows kind limit (((_, i), row) # rows) =
     (if limit = 0 then Err SE_ListCapacity
      else rbind (validate_id i) (\<lambda>_.
           rbind (metadata_rows kind (limit - 1) rows) (\<lambda>rest. Ok (row_metadata kind i row # rest))))"

definition check_prefix_query :: "bytes \<Rightarrow> nat \<Rightarrow> (store_error, unit) result" where
  "check_prefix_query pre limit =
     rbind (validate_id pre) (\<lambda>_.
       if limit = 0 \<or> MAX_ENTITY_LIST_RESULTS < limit then Err SE_InvalidListLimit else Ok ())"

definition list_untrusted_entity_metadata_by_id_prefix_from_connection ::
  "wallet_store \<Rightarrow> entity_kind \<Rightarrow> bytes \<Rightarrow> nat \<Rightarrow> (store_error, stored_entity_metadata list) result" where
  "list_untrusted_entity_metadata_by_id_prefix_from_connection s kind pre limit =
     rbind (check_prefix_query pre limit) (\<lambda>_. metadata_rows kind limit (prefix_query s kind pre (limit + 1)))"

definition list_untrusted_entity_metadata_by_id_prefix ::
  "wallet_store \<Rightarrow> entity_kind \<Rightarrow> bytes \<Rightarrow> nat \<Rightarrow> (store_error, stored_entity_metadata list) result" where
  "list_untrusted_entity_metadata_by_id_prefix s kind pre limit =
     rbind (check_prefix_query pre limit) (\<lambda>_. rbind (store_key s) (\<lambda>_.
       list_untrusted_entity_metadata_by_id_prefix_from_connection s kind pre limit))"

fun lease_rows ::
  "crypto \<Rightarrow> entity_kind \<Rightarrow> nat \<Rightarrow> ((entity_kind \<times> bytes) \<times> entity_row) list \<Rightarrow>
   (store_error, stored_entity_metadata list \<times> bytes list) result" where
  "lease_rows C kind limit [] = Ok ([], [])"
| "lease_rows C kind limit (((_, i), row) # rows) =
     (if limit = 0 then Err SE_ListCapacity
      else if length i = 0 \<or> MAX_RECORD_ID_BYTES < length i then Err SE_InvalidRecordId
      else rbind (validate_encrypted_record_length (length (er_value row))) (\<lambda>_.
           rbind (validate_id i) (\<lambda>_.
           rbind (lease_rows C kind (limit - 1) rows) (\<lambda>(metadata, fingerprints).
             Ok (row_metadata kind i row # metadata, sha256 C (er_value row) # fingerprints)))))"

definition load_entity_prefix_set_lease_projection ::
  "crypto \<Rightarrow> wallet_store \<Rightarrow> entity_kind \<Rightarrow> bytes \<Rightarrow> nat \<Rightarrow>
   (store_error, stored_entity_metadata list \<times> bytes list) result" where
  "load_entity_prefix_set_lease_projection C s kind pre limit =
     rbind (check_prefix_query pre limit) (\<lambda>_. lease_rows C kind limit (prefix_query s kind pre (limit + 1)))"

section \<open>Snapshots and leases\<close>

definition try_with_entity_read_snapshot ::
  "(store_error \<Rightarrow> 'e) \<Rightarrow> wallet_store \<Rightarrow> (wallet_store \<Rightarrow> ('e, 'a) result) \<Rightarrow> ('e, 'a) result" where
  "try_with_entity_read_snapshot conv s operation =
     (case ws_key s of None \<Rightarrow> Err (conv SE_Locked) | Some _ \<Rightarrow> operation s)"

definition entity_prefix_set_lease ::
  "crypto \<Rightarrow> wallet_store \<Rightarrow> entity_kind \<Rightarrow> bytes \<Rightarrow> nat \<Rightarrow> (store_error, prefix_set_lease) result" where
  "entity_prefix_set_lease C snapshot kind pre limit =
     rbind (load_entity_prefix_set_lease_projection C snapshot kind pre limit) (\<lambda>(metadata, fingerprints).
       Ok \<lparr>pl_database_id = ws_database_id snapshot, pl_kind = kind, pl_prefix = pre, pl_limit = limit,
         pl_metadata = metadata, pl_encrypted_value_fingerprints = fingerprints\<rparr>)"

definition validate_entity_prefix_set_lease_shape ::
  "bytes \<Rightarrow> prefix_set_lease \<Rightarrow> (store_error, unit) result" where
  "validate_entity_prefix_set_lease_shape database_id lease =
     (if pl_database_id lease \<noteq> database_id \<or> pl_limit lease = 0 \<or> MAX_ENTITY_LIST_RESULTS < pl_limit lease \<or>
         pl_limit lease < length (pl_metadata lease) \<or>
         length (pl_encrypted_value_fingerprints lease) \<noteq> length (pl_metadata lease) \<or>
         \<not> is_ok (validate_id (pl_prefix lease)) \<or>
         list_ex (\<lambda>entry. md_kind entry \<noteq> pl_kind lease \<or> \<not> starts_with (md_id entry) (pl_prefix lease)) (pl_metadata lease) \<or>
         list_ex (\<lambda>(entry, next). md_id next \<le> md_id entry) (zip (pl_metadata lease) (tl (pl_metadata lease)))
      then Err SE_InvalidEntityPrefixLease else Ok ())"

definition assert_entity_prefix_set_lease ::
  "crypto \<Rightarrow> wallet_store \<Rightarrow> prefix_set_lease \<Rightarrow> (store_error, unit) result" where
  "assert_entity_prefix_set_lease C s lease =
     (case load_entity_prefix_set_lease_projection C s (pl_kind lease) (pl_prefix lease) (pl_limit lease) of
        Inr (metadata, fingerprints) \<Rightarrow>
          if metadata = pl_metadata lease \<and> fingerprints = pl_encrypted_value_fingerprints lease then Ok ()
          else Err SE_StaleEntitySet
      | Inl e \<Rightarrow> Err (if e = SE_ListCapacity then SE_StaleEntitySet else e))"

definition refresh_entity_prefix_set_lease ::
  "crypto \<Rightarrow> wallet_store \<Rightarrow> prefix_set_lease \<Rightarrow> (store_error, prefix_set_lease) result" where
  "refresh_entity_prefix_set_lease C snapshot lease =
     rbind (validate_entity_prefix_set_lease_shape (ws_database_id snapshot) lease) (\<lambda>_.
     rbind (assert_entity_prefix_set_lease C snapshot lease) (\<lambda>_. Ok lease))"

definition validate_entity_prefix_set_lease ::
  "bytes \<Rightarrow> entity_kind \<Rightarrow> 'e entity_batch_save list \<Rightarrow> entity_batch_delete list \<Rightarrow>
   entity_revision_assertion list \<Rightarrow> prefix_set_lease \<Rightarrow> (store_error, unit) result" where
  "validate_entity_prefix_set_lease database_id kind saves deletes assertions lease =
     rbind (validate_entity_prefix_set_lease_shape database_id lease) (\<lambda>_.
       if pl_kind lease \<noteq> kind \<or> list_ex (\<lambda>x. \<not> starts_with (bs_id x) (pl_prefix lease)) saves \<or>
          list_ex (\<lambda>x. \<not> starts_with (bd_id x) (pl_prefix lease)) deletes \<or>
          list_ex (\<lambda>x. \<not> starts_with (ea_id x) (pl_prefix lease)) assertions
       then Err SE_InvalidEntityPrefixLease else Ok ())"

definition apply_entity_batch_with_assertions_and_prefix_lease_guard_inner ::
  "crypto \<Rightarrow> 'e codec \<Rightarrow> wallet_store \<Rightarrow> entity_kind \<Rightarrow> 'e entity_batch_save list \<Rightarrow>
   entity_batch_delete list \<Rightarrow> entity_revision_assertion list \<Rightarrow> prefix_set_lease \<Rightarrow>
   prefix_set_lease option \<Rightarrow> (store_error, wallet_store) result" where
  "apply_entity_batch_with_assertions_and_prefix_lease_guard_inner C J s kind saves deletes assertions
     prefix_lease guard_prefix_lease =
     rbind (prepare_entity_batch J saves deletes) (\<lambda>prepared.
     rbind (validate_entity_revision_assertions saves deletes assertions) (\<lambda>_.
     rbind (validate_entity_prefix_set_lease (ws_database_id s) kind saves deletes assertions prefix_lease) (\<lambda>_.
     rbind (case guard_prefix_lease of None \<Rightarrow> Ok ()
            | Some guard \<Rightarrow> validate_entity_prefix_set_lease_shape (ws_database_id s) guard) (\<lambda>_.
     rbind (store_key s) (\<lambda>key.
     rbind (assert_entity_prefix_set_lease C s prefix_lease) (\<lambda>_.
     rbind (case guard_prefix_lease of None \<Rightarrow> Ok () | Some guard \<Rightarrow> assert_entity_prefix_set_lease C s guard) (\<lambda>_.
     rbind (authenticate_entity_batch C key s kind prepared deletes) (\<lambda>encrypted_saves.
     rbind (authenticate_entity_revision_assertions C key s kind assertions) (\<lambda>_.
       write_entity_batch s kind encrypted_saves deletes)))))))))"

definition apply_entity_batch_with_assertions_and_prefix_lease ::
  "crypto \<Rightarrow> 'e codec \<Rightarrow> wallet_store \<Rightarrow> entity_kind \<Rightarrow> 'e entity_batch_save list \<Rightarrow>
   entity_batch_delete list \<Rightarrow> entity_revision_assertion list \<Rightarrow> prefix_set_lease \<Rightarrow>
   (store_error, wallet_store) result" where
  "apply_entity_batch_with_assertions_and_prefix_lease C J s kind saves deletes assertions prefix_lease =
     apply_entity_batch_with_assertions_and_prefix_lease_guard_inner C J s kind saves deletes assertions prefix_lease None"

definition apply_entity_batch_with_assertions_and_prefix_lease_guard ::
  "crypto \<Rightarrow> 'e codec \<Rightarrow> wallet_store \<Rightarrow> entity_kind \<Rightarrow> 'e entity_batch_save list \<Rightarrow>
   entity_batch_delete list \<Rightarrow> entity_revision_assertion list \<Rightarrow> prefix_set_lease \<Rightarrow>
   prefix_set_lease \<Rightarrow> (store_error, wallet_store) result" where
  "apply_entity_batch_with_assertions_and_prefix_lease_guard C J s kind saves deletes assertions prefix_lease
     guard_prefix_lease =
     apply_entity_batch_with_assertions_and_prefix_lease_guard_inner C J s kind saves deletes assertions prefix_lease
       (Some guard_prefix_lease)"

section \<open>Batches with a wallet account\<close>

definition save_workflow_with_account_and_entity_batch ::
  "crypto \<Rightarrow> 'w codec \<Rightarrow> 'a codec \<Rightarrow> 'e codec \<Rightarrow> wallet_store \<Rightarrow> workflow_id \<Rightarrow> workflow_kind \<Rightarrow> u64 \<Rightarrow> 'w \<Rightarrow>
   bool \<Rightarrow> u64 \<Rightarrow> 'a entity_batch_save \<Rightarrow> entity_kind \<Rightarrow> 'e entity_batch_save list \<Rightarrow> entity_batch_delete list \<Rightarrow>
   (store_error, (u64 \<times> u64) \<times> wallet_store) result" where
  "save_workflow_with_account_and_entity_batch C JW JA JE s i kind expected_revision v broadcast updated_at_unix
     account_save entity_kind saves deletes =
     (if MAX_ENTITY_BATCH_OPERATIONS < 1 + length saves + length deletes then Err SE_BatchCapacity
      else rbind (encode_state JW v) (\<lambda>encoded.
        rbind (prepare_entity_batch JA [account_save] []) (\<lambda>prepared_account.
        rbind (prepare_entity_batch JE saves deletes) (\<lambda>prepared_entities.
        if entity_kind = EK_WalletAccount \<and> batch_touches saves deletes (bs_id account_save)
        then Err SE_DuplicateBatchEntity
        else rbind (store_key s) (\<lambda>key.
          rbind (authenticated_workflow_revision C key s i kind) (\<lambda>actual.
          rbind (assert_revision expected_revision actual) (\<lambda>_.
          rbind (authenticate_entity_batch C key s EK_WalletAccount prepared_account []) (\<lambda>authenticated_account.
          rbind (authenticate_entity_batch C key s entity_kind prepared_entities deletes) (\<lambda>authenticated_entities.
          rbind (ok_or (checked_add_u64 actual 1) SE_RevisionOverflow) (\<lambda>next.
          rbind (case authenticated_account of [] \<Rightarrow> Err SE_CorruptMetadata
                 | (_, revision, _, _) # _ \<Rightarrow> Ok revision) (\<lambda>account_next.
          rbind (seal_workflow C key s i kind next encoded broadcast updated_at_unix) (\<lambda>encrypted_workflow.
          rbind (write_entity_batch s EK_WalletAccount authenticated_account []) (\<lambda>s1.
          rbind (write_entity_batch s1 entity_kind authenticated_entities deletes) (\<lambda>s2.
          rbind (write_workflow s2 i kind next encrypted_workflow broadcast updated_at_unix) (\<lambda>s3.
            Ok ((next, account_next), s3))))))))))))))))"

definition apply_account_and_entity_batch ::
  "crypto \<Rightarrow> 'a codec \<Rightarrow> 'e codec \<Rightarrow> wallet_store \<Rightarrow> 'a entity_batch_save \<Rightarrow> entity_kind \<Rightarrow>
   'e entity_batch_save list \<Rightarrow> entity_batch_delete list \<Rightarrow> (store_error, u64 \<times> wallet_store) result" where
  "apply_account_and_entity_batch C JA JE s account_save entity_kind saves deletes =
     (if entity_kind = EK_WalletAccount then Err SE_DuplicateBatchEntity
      else if MAX_ENTITY_BATCH_OPERATIONS < 1 + length saves + length deletes then Err SE_BatchCapacity
      else rbind (prepare_entity_batch JA [account_save] []) (\<lambda>prepared_account.
        rbind (prepare_entity_batch JE saves deletes) (\<lambda>prepared_entities.
        rbind (store_key s) (\<lambda>key.
        rbind (authenticate_entity_batch C key s EK_WalletAccount prepared_account []) (\<lambda>authenticated_account.
        rbind (authenticate_entity_batch C key s entity_kind prepared_entities deletes) (\<lambda>authenticated_entities.
        rbind (case authenticated_account of [] \<Rightarrow> Err SE_CorruptMetadata
               | (_, revision, _, _) # _ \<Rightarrow> Ok revision) (\<lambda>account_next.
        rbind (write_entity_batch s EK_WalletAccount authenticated_account []) (\<lambda>s1.
        rbind (write_entity_batch s1 entity_kind authenticated_entities deletes) (\<lambda>s2.
          Ok (account_next, s2))))))))))"

section \<open>Workflow listings\<close>

definition workflow_query ::
  "wallet_store \<Rightarrow> workflow_kind \<Rightarrow> nat \<Rightarrow> (workflow_id \<times> workflow_row) list" where
  "workflow_query s kind query_limit =
     take query_limit (sort_key fst (filter (\<lambda>(_, row). wr_kind row = workflow_kind_label kind) (ws_workflows s)))"

definition listed_workflow_id :: "bytes \<Rightarrow> (store_error, workflow_id) result" where
  "listed_workflow_id i = (if length i \<noteq> 16 then Err SE_CorruptMetadata else Ok i)"

definition open_listed_workflow ::
  "crypto \<Rightarrow> 'a codec \<Rightarrow> bytes \<Rightarrow> wallet_store \<Rightarrow> workflow_kind \<Rightarrow> workflow_id \<times> workflow_row \<Rightarrow>
   (store_error, 'a stored_workflow) result" where
  "open_listed_workflow C J key s kind entry =
     (let (i, row) = entry in
      if wr_version row \<noteq> 1 then Err SE_LegacyEncryptionPending
      else rbind (listed_workflow_id i) (\<lambda>i.
           rbind (revisioned_aad_id i (wr_revision row) (wr_updated row) (Some (wr_broadcast row))) (\<lambda>aad_id.
           rbind (decrypt_record C key (ws_database_id s) (workflow_label kind) aad_id (wr_state row)) (\<lambda>clear.
           rbind (ok_or (js_decode J clear) SE_Json) (\<lambda>v.
             Ok \<lparr>sw_id = i, sw_kind = kind, sw_revision = wr_revision row, sw_state = v,
               sw_irreversible_broadcast_prepared = wr_broadcast row, sw_updated_at_unix = wr_updated row\<rparr>)))))"

definition list_workflows ::
  "crypto \<Rightarrow> 'a codec \<Rightarrow> wallet_store \<Rightarrow> workflow_kind \<Rightarrow> nat \<Rightarrow> (store_error, 'a stored_workflow list) result" where
  "list_workflows C J s kind limit =
     (if limit = 0 \<or> MAX_ENTITY_LIST_RESULTS < limit then Err SE_InvalidListLimit
      else rbind (store_key s) (\<lambda>key.
        collect_results (map (open_listed_workflow C J key s kind) (workflow_query s kind limit))))"

definition list_workflows_complete ::
  "crypto \<Rightarrow> 'a codec \<Rightarrow> wallet_store \<Rightarrow> workflow_kind \<Rightarrow> nat \<Rightarrow> (store_error, 'a stored_workflow list) result" where
  "list_workflows_complete C J s kind limit =
     (if limit = 0 \<or> MAX_ENTITY_LIST_RESULTS < limit then Err SE_InvalidListLimit
      else rbind (store_key s) (\<lambda>key.
        let rows = workflow_query s kind (limit + 1) in
        if limit < length rows then Err SE_ListCapacity
        else collect_results (map (open_listed_workflow C J key s kind) rows)))"

definition list_workflow_ids_complete ::
  "wallet_store \<Rightarrow> workflow_kind \<Rightarrow> nat \<Rightarrow> (store_error, workflow_id list) result" where
  "list_workflow_ids_complete s kind limit =
     (if limit = 0 \<or> MAX_ENTITY_LIST_RESULTS < limit then Err SE_InvalidListLimit
      else rbind (store_key s) (\<lambda>_.
        rbind (collect_results (map (listed_workflow_id \<circ> fst) (workflow_query s kind (limit + 1)))) (\<lambda>ids.
          if limit < length ids then Err SE_ListCapacity else Ok ids)))"

end
