(* ===== verification/Lease_Laws.thy ===== *)
theory Lease_Laws
  imports Store_Laws Store_Leases
begin

text \<open>
  Facts about leased batches and batches with a wallet account: the effect of each is that of plain
  batches in sequence, and a lease that is still valid pins the rows of its prefix.
\<close>

section \<open>Effects\<close>

lemma leased_batch_Ok:
  assumes "apply_entity_batch_with_assertions_and_prefix_lease_guard_inner C J s kind saves deletes as lease guard = Inr s'"
  shows "apply_entity_batch C J s kind saves deletes = Inr s'" "assert_entity_prefix_set_lease C s lease = Inr ()"
    "validate_entity_prefix_set_lease (ws_database_id s) kind saves deletes as lease = Inr ()"
    "guard = Some g \<Longrightarrow> assert_entity_prefix_set_lease C s g = Inr ()"
    "guard = Some g \<Longrightarrow> validate_entity_prefix_set_lease_shape (ws_database_id s) g = Inr ()"
  using assms
  by (auto simp: apply_entity_batch_with_assertions_and_prefix_lease_guard_inner_def apply_entity_batch_def
      apply_entity_batch_in_transaction_def)

lemma entity_revision_or_zero_cong:
  assumes "ws_database_id t = ws_database_id s" "tbl_get (ws_entities t) (kind, i) = tbl_get (ws_entities s) (kind, i)"
  shows "entity_revision_or_zero C key t kind i = entity_revision_or_zero C key s kind i"
  unfolding entity_revision_or_zero_def authenticated_entity_revision_def assms ..

lemma seal_entity_cong: "ws_database_id t = ws_database_id s \<Longrightarrow> seal_entity C key t = seal_entity C key s"
  by (intro ext) (simp add: seal_entity_def)

lemma authenticate_saves_cong:
  assumes db: "ws_database_id t = ws_database_id s"
    and "\<forall>x \<in> set saves. tbl_get (ws_entities t) (kind, fst x) = tbl_get (ws_entities s) (kind, fst x)"
  shows "authenticate_saves C key t kind saves = authenticate_saves C key s kind saves"
  using assms(2)
proof (induction saves)
  case (Cons a saves)
  obtain i r m u where a: "a = (i, r, m, u)" by (metis prod_cases4)
  show ?case using Cons entity_revision_or_zero_cong [OF db, of kind i] by (simp add: a seal_entity_cong [OF db])
qed simp

lemma authenticate_deletes_cong:
  assumes db: "ws_database_id t = ws_database_id s"
    and "\<forall>d \<in> set ds. tbl_get (ws_entities t) (kind, bd_id d) = tbl_get (ws_entities s) (kind, bd_id d)"
  shows "authenticate_deletes C key t (map (Pair kind) ds) = authenticate_deletes C key s (map (Pair kind) ds)"
  using assms(2) by (induction ds) (simp_all add: entity_revision_or_zero_cong [OF db])

lemma authenticate_after_batch:
  assumes eff: "batch_effect C J key kind [account] [] s s1" and p: "prepare_entity_batch JE saves deletes = Inr ps"
    and apart: "ek = kind \<longrightarrow> \<not> batch_touches saves deletes (bs_id account)"
  shows "authenticate_entity_batch C k s1 ek ps deletes = authenticate_entity_batch C k s ek ps deletes"
proof -
  have db: "ws_database_id s1 = ws_database_id s" by (rule batch_effect_frame(4) [OF eff])
  have same: "tbl_get (ws_entities s1) (ek, i) = tbl_get (ws_entities s) (ek, i)" if "batch_touches saves deletes i" for i
  proof -
    have "\<not> (ek = kind \<and> batch_touches [account] [] i)" using apart that by (auto simp: batch_touches_def)
    then show ?thesis using eff unfolding batch_effect_def by blast
  qed
  obtain ids where "prepare_saves JE [] saves = Inr (ids, ps)" using p by (auto simp: prepare_entity_batch_def split: if_splits)
  from prepare_saves_Ok [OF this] have "list_all2 (\<lambda>save x. fst x = bs_id save) saves ps"
    by (auto elim!: list_all2_mono)
  then have "map fst ps = map bs_id saves" by (induction rule: list_all2_induct) auto
  then have ids: "fst ` set ps = bs_id ` set saves" by (metis list.set_map)
  have "\<forall>x \<in> set ps. tbl_get (ws_entities s1) (ek, fst x) = tbl_get (ws_entities s) (ek, fst x)"
  proof
    fix x assume "x \<in> set ps"
    with ids have "fst x \<in> bs_id ` set saves" by (metis imageI)
    then show "tbl_get (ws_entities s1) (ek, fst x) = tbl_get (ws_entities s) (ek, fst x)"
      by (intro same) (auto simp: batch_touches_iff)
  qed
  moreover have "\<forall>d \<in> set deletes. tbl_get (ws_entities s1) (ek, bd_id d) = tbl_get (ws_entities s) (ek, bd_id d)"
    using same by (auto simp: batch_touches_iff)
  ultimately show ?thesis
    by (simp add: authenticate_entity_batch_def authenticate_saves_cong [OF db] authenticate_deletes_cong [OF db])
qed

lemma apply_account_and_entity_batch_Ok:
  assumes "apply_account_and_entity_batch C JA JE s account ek saves deletes = Inr (n, s')"
  obtains key s1 where "store_key s = Inr key" "batch_effect C JA key EK_WalletAccount [account] [] s s1"
    "batch_effect C JE key ek saves deletes s1 s'" "ek \<noteq> EK_WalletAccount"
proof -
  from assms obtain pa pe key aa ae s1 where ek: "ek \<noteq> EK_WalletAccount"
    and pa: "prepare_entity_batch JA [account] [] = Inr pa" and pe: "prepare_entity_batch JE saves deletes = Inr pe"
    and k: "store_key s = Inr key" and aa: "authenticate_entity_batch C key s EK_WalletAccount pa [] = Inr aa"
    and ae: "authenticate_entity_batch C key s ek pe deletes = Inr ae"
    and w: "write_entity_batch s EK_WalletAccount aa [] = Inr s1" "write_entity_batch s1 ek ae deletes = Inr s'"
    by (auto simp: apply_account_and_entity_batch_def split: if_splits)
  have e1: "batch_effect C JA key EK_WalletAccount [account] [] s s1"
    by (rule apply_batch_effect [OF pa]) (simp add: apply_entity_batch_in_transaction_def aa w)
  have "batch_effect C JE key ek saves deletes s1 s'"
    by (rule apply_batch_effect [OF pe])
       (simp add: apply_entity_batch_in_transaction_def authenticate_after_batch [OF e1 pe] ek ae w)
  with that k e1 ek show thesis by blast
qed

lemma save_workflow_with_account_Ok:
  assumes "save_workflow_with_account_and_entity_batch C JW JA JE s i kind r v b u account ek saves deletes = Inr ((n, a), s')"
  obtains key m s1 s2 where "store_key s = Inr key" "js_encode JW v = Some m"
    "authenticated_workflow_revision C key s i kind = Inr r" "batch_effect C JA key EK_WalletAccount [account] [] s s1"
    "batch_effect C JE key ek saves deletes s1 s2" "advance_workflow C key s2 i kind r m b u = Inr (n, s')"
proof -
  from assms obtain m pa pe key aa ae s1 s2 nx ew where enc: "js_encode JW v = Some m"
    and apart: "ek = EK_WalletAccount \<longrightarrow> \<not> batch_touches saves deletes (bs_id account)"
    and pa: "prepare_entity_batch JA [account] [] = Inr pa" and pe: "prepare_entity_batch JE saves deletes = Inr pe"
    and k: "store_key s = Inr key" and rev: "authenticated_workflow_revision C key s i kind = Inr r"
    and aa: "authenticate_entity_batch C key s EK_WalletAccount pa [] = Inr aa"
    and ae: "authenticate_entity_batch C key s ek pe deletes = Inr ae"
    and w: "write_entity_batch s EK_WalletAccount aa [] = Inr s1" "write_entity_batch s1 ek ae deletes = Inr s2"
    and nx: "checked_add_u64 r 1 = Some nx" "seal_workflow C key s i kind nx m b u = Inr ew"
      "write_workflow s2 i kind nx ew b u = Inr s'" "n = nx"
    by (auto simp: save_workflow_with_account_and_entity_batch_def encode_state_Ok split: if_splits)
  have e1: "batch_effect C JA key EK_WalletAccount [account] [] s s1"
    by (rule apply_batch_effect [OF pa]) (simp add: apply_entity_batch_in_transaction_def aa w)
  have e2: "batch_effect C JE key ek saves deletes s1 s2"
    by (rule apply_batch_effect [OF pe])
       (simp add: apply_entity_batch_in_transaction_def authenticate_after_batch [OF e1 pe apart] ae w)
  have "ws_database_id s2 = ws_database_id s" by (simp add: batch_effect_frame [OF e1] batch_effect_frame [OF e2])
  then have "advance_workflow C key s2 i kind r m b u = Inr (n, s')"
    using nx by (simp add: advance_workflow_def seal_workflow_def)
  with that k enc rev e1 e2 show thesis by blast
qed

lemma apply_account_and_entity_batch_inv:
  assumes "crypto_law C" "store_inv C key s" "apply_account_and_entity_batch C JA JE s account ek saves deletes = Inr (n, s')"
  shows "store_inv C key s'"
  using assms(3)
  by (elim apply_account_and_entity_batch_Ok)
     (metis assms(1,2) store_inv_key batch_effect_inv)

lemma save_workflow_with_account_inv:
  assumes law: "crypto_law C" and inv: "store_inv C key s"
    and "save_workflow_with_account_and_entity_batch C JW JA JE s i kind r v b u account ek saves deletes = Inr ((n, a), s')"
  shows "store_inv C key s'"
  using assms(3)
proof (rule save_workflow_with_account_Ok)
  fix k m s1 s2
  assume k: "store_key s = Inr k" and w: "authenticated_workflow_revision C k s i kind = Inr r"
    and e: "batch_effect C JA k EK_WalletAccount [account] [] s s1" "batch_effect C JE k ek saves deletes s1 s2"
    and adv: "advance_workflow C k s2 i kind r m b u = Inr (n, s')"
  have kk: "k = key" using store_inv_key [OF inv k] .
  show ?thesis
    using advance_workflow_inv [OF law batch_effect_inv [OF law batch_effect_inv [OF law inv]] adv [unfolded kk]] e kk
      authenticated_workflow_kind [OF w] by (metis batch_effect_frame(1))
qed

section \<open>Leases\<close>

lemma lease_rows_Ok:
  "lease_rows C kind limit rows = Inr (ms, fs) \<Longrightarrow> length rows \<le> limit \<and>
     ms = map (\<lambda>x. row_metadata kind (snd (fst x)) (snd x)) rows \<and> fs = map (\<lambda>x. sha256 C (er_value (snd x))) rows"
  by (induction C kind limit rows arbitrary: ms fs rule: lease_rows.induct) (fastforce split: if_splits)+

lemma projection_Ok:
  assumes "load_entity_prefix_set_lease_projection C s kind pre limit = Inr (ms, fs)"
  shows "length (prefix_query s kind pre (limit + 1)) \<le> limit"
    "ms = map (\<lambda>x. row_metadata kind (snd (fst x)) (snd x)) (prefix_query s kind pre (limit + 1))"
    "fs = map (\<lambda>x. sha256 C (er_value (snd x))) (prefix_query s kind pre (limit + 1))"
  using lease_rows_Ok assms by (auto simp: load_entity_prefix_set_lease_projection_def)

lemma prefix_query_rows:
  "set (prefix_query s kind pre n) \<subseteq> {x \<in> set (ws_entities s). fst (fst x) = kind \<and> starts_with (snd (fst x)) pre}"
  unfolding prefix_query_def starts_with_def by (auto dest!: in_set_takeD)

lemma prefix_query_full:
  assumes "length (prefix_query s kind pre (limit + 1)) \<le> limit"
  shows "set (prefix_query s kind pre (limit + 1)) = {x \<in> set (ws_entities s). fst (fst x) = kind \<and> starts_with (snd (fst x)) pre}"
  using assms unfolding prefix_query_def starts_with_def by (auto simp: min_def split: if_splits)

definition no_collision :: "crypto \<Rightarrow> wallet_store \<Rightarrow> wallet_store \<Rightarrow> bool" where
  "no_collision C s t \<longleftrightarrow> (\<forall>x \<in> set (ws_entities s). \<forall>y \<in> set (ws_entities t).
     sha256 C (er_value (snd x)) = sha256 C (er_value (snd y)) \<longrightarrow> er_value (snd x) = er_value (snd y))"

lemma lease_pins:
  assumes lease: "entity_prefix_set_lease C s kind pre limit = Inr lease"
    and ok: "assert_entity_prefix_set_lease C t lease = Inr ()" and nc: "no_collision C s t"
  shows "prefix_query t kind pre (limit + 1) = prefix_query s kind pre (limit + 1)"
    "length (prefix_query s kind pre (limit + 1)) \<le> limit"
proof -
  let ?q = "\<lambda>s. prefix_query s kind pre (limit + 1)" and ?m = "\<lambda>x. row_metadata kind (snd (fst x)) (snd x)"
    and ?h = "\<lambda>x. sha256 C (er_value (snd x))"
  from lease obtain ms fs where p: "load_entity_prefix_set_lease_projection C s kind pre limit = Inr (ms, fs)"
    and l: "pl_kind lease = kind" "pl_prefix lease = pre" "pl_limit lease = limit" "pl_metadata lease = ms"
      "pl_encrypted_value_fingerprints lease = fs"
    by (auto simp: entity_prefix_set_lease_def)
  from ok l have p': "load_entity_prefix_set_lease_projection C t kind pre limit = Inr (ms, fs)"
    by (auto simp: assert_entity_prefix_set_lease_def split: sum.splits if_splits)
  note P = projection_Ok [OF p] and P' = projection_Ok [OF p']
  show "length (?q s) \<le> limit" by (rule P)
  define qs qt where q: "qs = ?q s" "qt = ?q t"
  have eq: "map ?m qt = map ?m qs" "map ?h qt = map ?h qs" using P P' by (simp_all add: q)
  have "qt = qs"
  proof (rule nth_equalityI)
    show len: "length qt = length qs" using arg_cong [OF eq(1), of length] by simp
    fix i assume i: "i < length qt"
    obtain k j row k' j' row' where x: "qt ! i = ((k, j), row)" "qs ! i = ((k', j'), row')" by (metis surj_pair)
    have mem: "((k, j), row) \<in> set (ws_entities t)" "((k', j'), row') \<in> set (ws_entities s)" "k = kind" "k' = kind"
      using i len x nth_mem [of i qt] nth_mem [of i qs] prefix_query_rows [of t kind pre "limit + 1"]
        prefix_query_rows [of s kind pre "limit + 1"] unfolding q by auto
    have "?m (qt ! i) = ?m (qs ! i)" "?h (qt ! i) = ?h (qs ! i)"
      using arg_cong [OF eq(1), of "\<lambda>xs. xs ! i"] arg_cong [OF eq(2), of "\<lambda>xs. xs ! i"] i len by simp_all
    then have "j = j'" "er_revision row = er_revision row'" "er_updated row = er_updated row'"
      "sha256 C (er_value row) = sha256 C (er_value row')" by (simp_all add: x row_metadata_def)
    moreover have "er_value row = er_value row'" using calculation(4) mem(1,2) nc unfolding no_collision_def by fastforce
    ultimately show "qt ! i = qs ! i" using mem(3,4) x by (cases row; cases row') simp
  qed
  then show "?q t = ?q s" by (simp only: q)
qed

lemma list_by_prefix_query:
  "list_entities_by_id_prefix C J s kind pre limit =
     rbind (check_prefix_query pre limit) (\<lambda>_. rbind (store_key s) (\<lambda>key.
       if limit < length (prefix_query s kind pre (limit + 1)) then Err SE_ListCapacity
       else open_listed C J key s kind (prefix_query s kind pre (limit + 1))))"
  unfolding list_entities_by_id_prefix_def check_prefix_query_def prefix_query_def Let_def rbind_assoc
  by (auto simp: rbind_assoc intro!: arg_cong2 [of _ _ _ _ rbind] ext)

lemma open_listed_cong: "ws_database_id t = ws_database_id s \<Longrightarrow> open_listed C J key t = open_listed C J key s"
  by (intro ext) (simp add: open_listed_def open_entity_def)

lemma pinned_listing:
  assumes "prefix_query t kind pre (limit + 1) = prefix_query s kind pre (limit + 1)" "ws_database_id t = ws_database_id s"
    "ws_key t = ws_key s"
  shows "list_entities_by_id_prefix C J t kind pre limit = list_entities_by_id_prefix C J s kind pre limit"
  unfolding list_by_prefix_query assms(1) open_listed_cong [OF assms(2)] assms(3) by (rule refl)

lemma assert_lease_metadata:
  assumes "assert_entity_prefix_set_lease C s lease = Inr ()"
  shows "set (pl_metadata lease) = (\<lambda>x. row_metadata (pl_kind lease) (snd (fst x)) (snd x)) `
    {x \<in> set (ws_entities s). fst (fst x) = pl_kind lease \<and> starts_with (snd (fst x)) (pl_prefix lease)}"
proof -
  obtain fs where p: "load_entity_prefix_set_lease_projection C s (pl_kind lease) (pl_prefix lease) (pl_limit lease) =
      Inr (pl_metadata lease, fs)"
    using assms by (auto simp: assert_entity_prefix_set_lease_def split: sum.splits if_splits)
  show ?thesis
    using projection_Ok(2) [OF p] prefix_query_full [OF projection_Ok(1) [OF p]] by (metis list.set_map)
qed

lemma leased_row:
  assumes "assert_entity_prefix_set_lease C s lease = Inr ()" "tbl_wf (ws_entities s)" "starts_with i (pl_prefix lease)"
  shows "(\<exists>u. \<lparr>md_kind = pl_kind lease, md_id = i, md_revision = n, md_updated_at_unix = u\<rparr> \<in> set (pl_metadata lease)) \<longleftrightarrow>
    (\<exists>row. tbl_get (ws_entities s) (pl_kind lease, i) = Some row \<and> er_revision row = n)"
proof -
  have get: "tbl_get (ws_entities s) x = Some row \<longleftrightarrow> (x, row) \<in> set (ws_entities s)" for x row
    using assms(2) by (simp add: tbl_wf_def)
  show ?thesis unfolding assert_lease_metadata [OF assms(1)] get using assms(3)
    by (force simp: row_metadata_def image_iff)
qed

lemma lease_spent:
  assumes wf: "tbl_wf (ws_entities s)" "tbl_wf (ws_entities s')"
    and ok: "assert_entity_prefix_set_lease C s lease = Inr ()" "validate_entity_prefix_set_lease db kind saves deletes as lease = Inr ()"
    and eff: "batch_effect C J key kind saves deletes s s'" and work: "saves \<noteq> [] \<or> deletes \<noteq> []"
  shows "\<not> is_ok (assert_entity_prefix_set_lease C s' lease)"
proof
  assume "is_ok (assert_entity_prefix_set_lease C s' lease)"
  then have ok': "assert_entity_prefix_set_lease C s' lease = Inr ()" by (auto simp: is_ok_iff)
  have sc: "pl_kind lease = kind" "\<forall>x \<in> set saves. starts_with (bs_id x) (pl_prefix lease)"
    "\<forall>x \<in> set deletes. starts_with (bd_id x) (pl_prefix lease)"
    using ok(2) by (auto simp: validate_entity_prefix_set_lease_def list_ex_iff split: if_splits)
  have same: "(\<exists>row. tbl_get (ws_entities s) (kind, i) = Some row \<and> er_revision row = n) \<longleftrightarrow>
      (\<exists>row. tbl_get (ws_entities s') (kind, i) = Some row \<and> er_revision row = n)" if "starts_with i (pl_prefix lease)" for i n
    using leased_row [OF ok(1) wf(1) that] leased_row [OF ok' wf(2) that] sc(1) by simp
  show False
  proof (cases saves)
    case (Cons x xs)
    then have x: "x \<in> set saves" by simp
    obtain e where "tbl_get (ws_entities s') (kind, bs_id x) = Some \<lparr>er_revision = bs_expected_revision x + 1, er_value = e,
        er_updated = bs_updated_at_unix x\<rparr>" "entity_rev s kind (bs_id x) = bs_expected_revision x"
      using eff x unfolding batch_effect_def by blast
    then show False using same [of "bs_id x" "bs_expected_revision x + 1"] sc(2) x by (auto simp: entity_rev_def)
  next
    case Nil
    with work obtain d where d: "d \<in> set deletes" by (cases deletes) auto
    then have "entity_rev s kind (bd_id d) = bd_expected_revision d" "0 < bd_expected_revision d"
      "tbl_get (ws_entities s') (kind, bd_id d) = None" using eff unfolding batch_effect_def by blast+
    then show False using same [of "bd_id d" "bd_expected_revision d"] sc(3) d
      by (auto simp: entity_rev_def split: option.splits)
  qed
qed

end
