(* ===== verification/Store_Steps.thy ===== *)
theory Store_Steps
  imports Sample_Data Lease_Laws
begin

text \<open>
  Every operation of the wallet store that changes its state is one rule of the relation
  \<open>store_step\<close>; values are byte strings under an arbitrary codec. The theory has the inversion
  lemmas of the provider-row operations and shows what every step, and so every sequence of steps,
  keeps: the invariant \<open>store_inv\<close>, the rows of recovery seeds, and the entities of the kinds that
  are protected from deletion.
\<close>

section \<open>Steps of the store\<close>

inductive store_step :: "crypto \<Rightarrow> wallet_store \<Rightarrow> wallet_store \<Rightarrow> bool" for C :: crypto where
  step_put_secret: "put_secret C s i kind m u = Inr s' \<Longrightarrow> store_step C s s'"
| step_delete_secret: "delete_secret s i = Inr (b, s') \<Longrightarrow> store_step C s s'"
| step_initialize: "initialize_recovery_seed_and_wallet_account C (J :: bytes codec) s sid seed aid v u = Inr (n, s')
    \<Longrightarrow> store_step C s s'"
| step_save_entity: "save_entity C (J :: bytes codec) s ek i r v u = Inr (n, s') \<Longrightarrow> store_step C s s'"
| step_delete_entity: "delete_entity C s ek i r = Inr (b, s') \<Longrightarrow> store_step C s s'"
| step_delete_entities: "delete_entities C s ds = Inr s' \<Longrightarrow> store_step C s s'"
| step_batch: "apply_entity_batch C (J :: bytes codec) s ek saves deletes = Inr s' \<Longrightarrow> store_step C s s'"
| step_batch_assertions: "apply_entity_batch_with_assertions C (J :: bytes codec) s ek saves deletes as = Inr s'
    \<Longrightarrow> store_step C s s'"
| step_batch_consumed: "apply_entity_batch_with_workflow_guard_and_consumed_entity C (J :: bytes codec) s ek saves
    deletes wg ck c u = Inr s' \<Longrightarrow> store_step C s s'"
| step_batch_lease: "apply_entity_batch_with_assertions_and_prefix_lease C (J :: bytes codec) s ek saves deletes as l
    = Inr s' \<Longrightarrow> store_step C s s'"
| step_batch_lease_guard: "apply_entity_batch_with_assertions_and_prefix_lease_guard C (J :: bytes codec) s ek saves
    deletes as l g = Inr s' \<Longrightarrow> store_step C s s'"
| step_account_batch: "apply_account_and_entity_batch C (JA :: bytes codec) (J :: bytes codec) s account ek saves deletes
    = Inr (n, s') \<Longrightarrow> store_step C s s'"
| step_workflow_account: "save_workflow_with_account_and_entity_batch C (JW :: bytes codec) (JA :: bytes codec)
    (J :: bytes codec) s i wk r v b u account ek saves deletes = Inr (na, s') \<Longrightarrow> store_step C s s'"
| step_save_workflow: "save_workflow C (J :: bytes codec) s i wk r v b u = Inr (n, s') \<Longrightarrow> store_step C s s'"
| step_workflow_batch: "save_workflow_with_entity_batch C (JW :: bytes codec) (J :: bytes codec) s i wk r v b u ek
    saves deletes = Inr (n, s') \<Longrightarrow> store_step C s s'"
| step_workflow_guards: "save_workflow_with_entity_batch_and_guards C (JW :: bytes codec) (J :: bytes codec) s i wk r
    v b u ek saves deletes wg gk eg consume = Inr (n, s') \<Longrightarrow> store_step C s s'"
| step_consume_approval: "consume_approval_and_save_workflow_with_entity_batch C (JW :: bytes codec)
    (J :: bytes codec) s pa now i wk r v b ek saves deletes = Inr (x, s') \<Longrightarrow> store_step C s s'"
| step_put_permission: "put_provider_permission C s sc g json u = Inr s' \<Longrightarrow> store_step C s s'"
| step_revoke_permission: "revoke_provider_permission C s sc g n u = Inr s' \<Longrightarrow> store_step C s s'"
| step_put_approval: "put_pending_approval C s i sc json now e = Inr s' \<Longrightarrow> store_step C s s'"
| step_take_approval: "take_pending_approval C s i now = Inr (x, s') \<Longrightarrow> store_step C s s'"
| step_nonce: "consume_replay_nonce C s sc n now e = Inr s' \<Longrightarrow> store_step C s s'"
| step_lock: "store_step C s (lock s)"

definition same_records :: "wallet_store \<Rightarrow> wallet_store \<Rightarrow> bool" where
  "same_records s s' \<longleftrightarrow> ws_database_id s' = ws_database_id s \<and> ws_key s' = ws_key s \<and>
     ws_workflows s' = ws_workflows s \<and> ws_entities s' = ws_entities s \<and> ws_secrets s' = ws_secrets s"

lemma same_records_inv: "same_records s s' \<Longrightarrow> store_inv C key s \<Longrightarrow> store_inv C key s'"
  by (simp add: same_records_def store_inv_def)

lemma put_permission_records: "put_provider_permission C s sc g json u = Inr s' \<Longrightarrow> same_records s s'"
  by (erule put_provider_permission_Ok) (simp add: same_records_def)

lemma revoke_permission_records: "revoke_provider_permission C s sc g n u = Inr s' \<Longrightarrow> same_records s s'"
  by (erule revoke_provider_permission_Ok) (simp add: same_records_def)

lemma prune_approvals_Ok: "prune_expired_approvals C key s now = Inr s' \<Longrightarrow>
   s' = s\<lparr>ws_approvals := tbl_retain (\<lambda>_ row. now < ar_expires row) (ws_approvals s)\<rparr>"
  unfolding prune_expired_approvals_def by (auto split: if_splits)

lemma prune_replay_Ok: "prune_expired_replay C key s now = Inr s' \<Longrightarrow>
   s' = s\<lparr>ws_replay := tbl_retain (\<lambda>_ row. now < rr_expires row) (ws_replay s)\<rparr>"
  unfolding prune_expired_replay_def by (auto split: if_splits)

lemma put_pending_approval_Ok:
  assumes "put_pending_approval C s i sc json now e = Inr s'"
  obtains key clear m where "store_key s = Inr key" "now < e" "e - now \<le> MAX_APPROVAL_LIFETIME_SECONDS"
    "encode_origin_payload sc json = Inr clear"
    "encrypt_record C key (ws_database_id s) ''pending_approval''
       (approval_record_id i (origin_lookup_token C key (ws_database_id s) sc) e) clear = Inr m"
    "tbl_get (tbl_retain (\<lambda>_ row. now < ar_expires row) (ws_approvals s)) i = None"
    "s' = s\<lparr>ws_approvals := tbl_put i \<lparr>ar_origin_token = origin_lookup_token C key (ws_database_id s) sc,
        ar_record = m, ar_expires = e\<rparr> (tbl_retain (\<lambda>_ row. now < ar_expires row) (ws_approvals s))\<rparr>"
  using assms unfolding put_pending_approval_def Let_def rbind_eq_Inr if_Inl_eq_Inr sum.inject
  by (elim exE conjE) (drule prune_approvals_Ok, simp add: not_le not_less)

lemma put_approval_records: "put_pending_approval C s i sc json now e = Inr s' \<Longrightarrow> same_records s s'"
  by (erule put_pending_approval_Ok) (simp add: same_records_def)

lemma take_pending_approval_Ok:
  assumes "take_pending_approval C s i now = Inr (x, s')"
  obtains (absent) key where "store_key s = Inr key" "authenticated_pending_approval C key s i = Inr None"
      "x = None" "s' = s"
    | (taken) key a where "store_key s = Inr key" "authenticated_pending_approval C key s i = Inr (Some a)"
      "x = (if now < pa_expires_at_unix a then Some a else None)" "s' = remove_approval s i"
proof -
  from assms obtain key f where k: "store_key s = Inr key" and f: "authenticated_pending_approval C key s i = Inr f"
    and r: "(case f of None \<Rightarrow> (None, s) | Some a \<Rightarrow> if pa_expires_at_unix a \<le> now then (None, remove_approval s i)
               else (Some a, remove_approval s i)) = (x, s')"
    unfolding take_pending_approval_def rbind_eq_Inr sum.inject by blast
  show thesis
  proof (cases f)
    case None
    with r have "x = None" "s' = s" by auto
    with absent [OF k] f None show ?thesis by simp
  next
    case (Some a)
    have "x = (if now < pa_expires_at_unix a then Some a else None)" "s' = remove_approval s i"
      using r [unfolded Some] by (auto split: if_splits)
    with taken [OF k] f Some show ?thesis by simp
  qed
qed

lemma take_approval_records: "take_pending_approval C s i now = Inr (x, s') \<Longrightarrow> same_records s s'"
  by (erule take_pending_approval_Ok) (simp_all add: same_records_def remove_approval_def)

lemma consume_replay_nonce_Ok:
  assumes "consume_replay_nonce C s sc n now e = Inr s'"
  obtains key m where "store_key s = Inr key" "now < e" "0 < n"
    "encrypt_record C key (ws_database_id s) ''replay_origin''
       (replay_record_id (origin_lookup_token C key (ws_database_id s) sc) n e) sc = Inr m"
    "tbl_get (tbl_retain (\<lambda>_ row. now < rr_expires row) (ws_replay s))
      (origin_lookup_token C key (ws_database_id s) sc, n) = None"
    "s' = s\<lparr>ws_replay := tbl_put (origin_lookup_token C key (ws_database_id s) sc, n)
      \<lparr>rr_origin = m, rr_expires = e\<rparr> (tbl_retain (\<lambda>_ row. now < rr_expires row) (ws_replay s))\<rparr>"
  using assms unfolding consume_replay_nonce_def Let_def rbind_eq_Inr if_Inl_eq_Inr sum.inject
  by (elim exE conjE) (drule prune_replay_Ok, simp add: not_le split: option.splits)

lemma nonce_records: "consume_replay_nonce C s sc n now e = Inr s' \<Longrightarrow> same_records s s'"
  by (erule consume_replay_nonce_Ok) (simp add: same_records_def)

section \<open>Invariant and frames of every step\<close>

lemma consume_approval_Ok:
  assumes "consume_approval_and_save_workflow_with_entity_batch C JW JE s pa now i wk r v b ek saves deletes
      = Inr (x, s')"
  obtains (refused) "x = None" "s' = s \<or> s' = remove_approval s (pa_id pa)"
    | (consumed) key m ps a s1 n where "store_key s = Inr key" "js_encode JW v = Some m"
      "prepare_entity_batch JE saves deletes = Inr ps"
      "authenticated_pending_approval C key s (pa_id pa) = Inr (Some a)" "now < pa_expires_at_unix a"
      "pa_origin a = pa_origin pa" "pa_expires_at_unix a = pa_expires_at_unix pa"
      "pa_request_json a = pa_request_json pa"
      "authenticated_workflow_revision C key s i wk = Inr r"
      "apply_entity_batch_in_transaction C key s ek ps deletes = Inr s1"
      "advance_workflow C key (remove_approval s1 (pa_id pa)) i wk r m b now = Inr (n, s')" "x = Some n"
proof -
  from assms obtain m ps key f where m: "js_encode JW v = Some m" and ps: "prepare_entity_batch JE saves deletes = Inr ps"
    and k: "store_key s = Inr key" and f: "authenticated_pending_approval C key s (pa_id pa) = Inr f"
    and rest: "(case f of None \<Rightarrow> Inr (None, s)
     | Some current \<Rightarrow>
         if pa_expires_at_unix current \<le> now then Inr (None, remove_approval s (pa_id pa))
         else if pa_origin current \<noteq> pa_origin pa \<or> pa_expires_at_unix current \<noteq> pa_expires_at_unix pa \<or>
                 pa_request_json current \<noteq> pa_request_json pa
         then Inr (None, s)
         else rbind (authenticated_workflow_revision C key s i wk) (\<lambda>actual.
              rbind (assert_revision r actual) (\<lambda>_.
              rbind (authenticate_entity_batch C key s ek ps deletes) (\<lambda>encrypted_entities.
              rbind (ok_or (checked_add_u64 actual 1) SE_RevisionOverflow) (\<lambda>next.
              rbind (seal_workflow C key s i wk next m b now) (\<lambda>encrypted_workflow.
              rbind (write_entity_batch s ek encrypted_entities deletes) (\<lambda>s1.
              rbind (write_workflow (remove_approval s1 (pa_id pa)) i wk next
                       encrypted_workflow b now) (\<lambda>s2.
                Inr (Some next, s2))))))))) = Inr (x, s')"
    unfolding consume_approval_and_save_workflow_with_entity_batch_def rbind_eq_Inr encode_state_Ok by blast
  show thesis
  proof (cases f)
    case None
    with rest have "x = None" "s' = s" by auto
    with refused show ?thesis by blast
  next
    case (Some a)
    note rest' = rest [unfolded Some option.case]
    show ?thesis
    proof (cases "pa_expires_at_unix a \<le> now \<or> pa_origin a \<noteq> pa_origin pa \<or>
        pa_expires_at_unix a \<noteq> pa_expires_at_unix pa \<or> pa_request_json a \<noteq> pa_request_json pa")
      case True
      with rest' have "x = None \<and> (s' = s \<or> s' = remove_approval s (pa_id pa))" by (auto split: if_splits)
      with refused show ?thesis by blast
    next
      case False
      with rest' obtain es nx ew s1 s2 where w: "authenticated_workflow_revision C key s i wk = Inr r"
        and es: "authenticate_entity_batch C key s ek ps deletes = Inr es"
        and nx: "checked_add_u64 r 1 = Some nx" and ew: "seal_workflow C key s i wk nx m b now = Inr ew"
        and s1: "write_entity_batch s ek es deletes = Inr s1"
        and s2: "write_workflow (remove_approval s1 (pa_id pa)) i wk nx ew b now = Inr s2"
        and x: "x = Some nx" "s' = s2"
        by auto
      have "ws_database_id s1 = ws_database_id s" using write_batch_get(1) [OF s1] by (metis wallet_store.select_convs(1) wallet_store.surjective wallet_store.update_convs(4))
      then have "advance_workflow C key (remove_approval s1 (pa_id pa)) i wk r m b now = Inr (nx, s')"
        using nx ew s2 x by (simp add: advance_workflow_def seal_workflow_def remove_approval_def)
      moreover have "apply_entity_batch_in_transaction C key s ek ps deletes = Inr s1"
        using es s1 by (simp add: apply_entity_batch_in_transaction_def)
      ultimately show ?thesis using consumed [OF k m ps f [unfolded Some]] False w x by auto
    qed
  qed
qed

lemma remove_approval_records: "same_records s (remove_approval s i)"
  by (simp add: same_records_def remove_approval_def)

lemma consume_approval_inv:
  assumes law: "crypto_law C" and inv: "store_inv C key s"
    and "consume_approval_and_save_workflow_with_entity_batch C JW JE s pa now i wk r v b ek saves deletes
      = Inr (x, s')"
  shows "store_inv C key s'"
  using assms(3)
proof (cases rule: consume_approval_Ok)
  case refused
  then show ?thesis using inv same_records_inv [OF remove_approval_records inv] by blast
next
  case (consumed k m ps a s1 n)
  have kk: "k = key" using store_inv_key [OF inv consumed(1)] .
  have eff: "batch_effect C JE key ek saves deletes s s1"
    using apply_batch_effect [OF consumed(3,10)] kk by simp
  have "store_inv C key (remove_approval s1 (pa_id pa))"
    using same_records_inv [OF remove_approval_records batch_effect_inv [OF law inv eff]] .
  then show ?thesis
    using advance_workflow_inv [OF law _ consumed(11) [unfolded kk]] authenticated_workflow_kind [OF consumed(9)]
      batch_effect_frame(1) [OF eff] by (auto simp: remove_approval_def)
qed

lemma leased_batch_plain:
  "apply_entity_batch_with_assertions_and_prefix_lease C J s ek saves deletes as l = Inr s' \<Longrightarrow>
     apply_entity_batch C J s ek saves deletes = Inr s'"
  "apply_entity_batch_with_assertions_and_prefix_lease_guard C J s ek saves deletes as l g = Inr s' \<Longrightarrow>
     apply_entity_batch C J s ek saves deletes = Inr s'"
  unfolding apply_entity_batch_with_assertions_and_prefix_lease_def
    apply_entity_batch_with_assertions_and_prefix_lease_guard_def by (blast dest: leased_batch_Ok(1))+

lemma workflow_account_inv:
  assumes "crypto_law C" "store_inv C key s"
    "save_workflow_with_account_and_entity_batch C JW JA JE s i kind r v b u account ek saves deletes = Inr (na, s')"
  shows "store_inv C key s'"
  using assms(3) by (cases na) (simp, rule save_workflow_with_account_inv [OF assms(1,2)])

lemma store_step_inv:
  assumes law: "crypto_law C" and inv: "store_inv C key s" and "store_step C s s'"
  shows "store_inv C key s'"
  using assms(3)
  by (cases rule: store_step.cases)
     (blast intro: put_secret_inv [OF law inv] delete_secret_inv [OF inv] initialize_inv [OF law inv]
        save_entity_inv [OF law inv] delete_entity_inv [OF inv] delete_entities_inv [OF inv]
        apply_entity_batch_inv [OF law inv] apply_entity_batch_inv [OF law inv apply_entity_batch_with_assertions_Ok]
        apply_entity_batch_inv [OF law inv leased_batch_plain(1)] apply_entity_batch_inv [OF law inv leased_batch_plain(2)]
        apply_account_and_entity_batch_inv [OF law inv] workflow_account_inv [OF law inv]
        apply_entity_batch_with_workflow_guard_and_consumed_entity_inv [OF law inv] save_workflow_inv [OF law inv]
        save_workflow_with_entity_batch_inv [OF law inv] save_workflow_with_entity_batch_and_guards_inv [OF law inv]
        consume_approval_inv [OF law inv] lock_inv [OF inv]
        same_records_inv [OF put_permission_records inv] same_records_inv [OF revoke_permission_records inv]
        same_records_inv [OF put_approval_records inv] same_records_inv [OF take_approval_records inv]
        same_records_inv [OF nonce_records inv])+

lemma secret_kind_label_inj: "secret_kind_label a = secret_kind_label b \<Longrightarrow> a = b"
  by (cases a; cases b) simp_all

definition seed_kept :: "wallet_store \<Rightarrow> wallet_store \<Rightarrow> bool" where
  "seed_kept s s' \<longleftrightarrow> ws_database_id s' = ws_database_id s \<and>
     (\<forall>i row. tbl_get (ws_secrets s) i = Some row \<longrightarrow>
        sr_kind row = secret_kind_label RecoverySeed \<longrightarrow> tbl_get (ws_secrets s') i = Some row)"

definition same_secrets :: "wallet_store \<Rightarrow> wallet_store \<Rightarrow> bool" where
  "same_secrets s s' \<longleftrightarrow> ws_database_id s' = ws_database_id s \<and> ws_secrets s' = ws_secrets s"

lemma same_secrets_trans: "same_secrets s t \<Longrightarrow> same_secrets t u \<Longrightarrow> same_secrets s u"
  by (simp add: same_secrets_def)

lemma seed_kept_same: "same_secrets s s' \<Longrightarrow> seed_kept s s'"
  by (simp add: seed_kept_def same_secrets_def)

lemma same_records_secrets: "same_records s s' \<Longrightarrow> same_secrets s s'"
  by (simp add: same_records_def same_secrets_def)

lemma seed_kept_trans: "seed_kept s t \<Longrightarrow> seed_kept t u \<Longrightarrow> seed_kept s u"
  by (simp add: seed_kept_def)

lemma batch_secrets: "batch_effect C J key kind saves deletes s s' \<Longrightarrow> same_secrets s s'"
  unfolding batch_effect_def by (elim conjE, erule ssubst) (simp add: same_secrets_def)

lemma put_secret_seed:
  assumes "put_secret C s i kind m u = Inr s'"
  shows "seed_kept s s'"
proof (cases "tbl_get (ws_secrets s) i")
  case None
  with put_secret_Ok [OF assms] show ?thesis by (auto simp: seed_kept_def tbl_get_put)
next
  case (Some row)
  show ?thesis
  proof (cases "kind = RecoverySeed")
    case True
    then have "s' = s" using assms Some by (auto simp: put_secret_def Let_def if_Inl_eq_Inr split: if_splits)
    then show ?thesis by (simp add: seed_kept_def)
  next
    case False
    then have "sr_kind row = secret_kind_label kind" using assms Some
      by (auto simp: put_secret_def Let_def if_Inl_eq_Inr split: if_splits)
    with False have "sr_kind row \<noteq> secret_kind_label RecoverySeed" using secret_kind_label_inj by metis
    with put_secret_Ok [OF assms] Some show ?thesis by (auto simp: seed_kept_def tbl_get_put)
  qed
qed

lemma delete_secret_seed: "delete_secret s i = Inr (b, s') \<Longrightarrow> seed_kept s s'"
  by (auto simp: delete_secret_def seed_kept_def tbl_get_del if_Inl_eq_Inr split: option.splits if_splits)

lemma initialize_seed:
  "initialize_recovery_seed_and_wallet_account C J s sid seed aid v u = Inr (n, s') \<Longrightarrow> seed_kept s s'"
  by (erule initialize_Ok) (auto simp: seed_kept_def write_entity_Ok tbl_get_put)

lemma save_entity_secrets: "save_entity C J s kind i r v u = Inr (n, s') \<Longrightarrow> same_secrets s s'"
  by (erule save_entity_Ok) (simp add: same_secrets_def)

lemma delete_entity_Ok:
  "delete_entity C s kind i r = Inr (b, s') \<Longrightarrow>
   \<not> deletion_protected kind \<and> (s' = s \<or> s' = remove_entity s kind i)"
  unfolding delete_entity_def rbind_eq_Inr if_Inl_eq_Inr by (elim exE conjE) (auto split: option.splits)

lemma delete_entity_secrets: "delete_entity C s kind i r = Inr (b, s') \<Longrightarrow> same_secrets s s'"
  by (drule delete_entity_Ok) (auto simp: remove_entity_def same_secrets_def)

lemma delete_entities_secrets: "delete_entities C s ds = Inr s' \<Longrightarrow> same_secrets s s'"
  using fold_remove_entity [of fst "bd_id \<circ> snd" ds s]
  by (auto simp: delete_entities_def if_Inl_eq_Inr case_prod_unfold same_secrets_def split: if_splits)

lemma apply_batch_effect_store:
  assumes "apply_entity_batch C J s kind saves deletes = Inr s'"
  obtains key where "store_key s = Inr key" "batch_effect C J key kind saves deletes s s'"
  using assms apply_batch_effect unfolding apply_entity_batch_def rbind_eq_Inr by blast

lemma consume_secrets: "consume_authenticated_entity_revision C key s kind a u = Inr s' \<Longrightarrow> same_secrets s s'"
  by (erule consume_Ok) (auto simp: write_entity_Ok same_secrets_def)

lemma advance_secrets: "advance_workflow C key s i kind a m b u = Inr (n, s') \<Longrightarrow>
    same_secrets s s' \<and> ws_entities s' = ws_entities s"
  by (auto simp: advance_workflow_def write_workflow_def same_secrets_def Let_def split: option.splits)

lemma save_workflow_secrets: "save_workflow C J s i kind r v b u = Inr (n, s') \<Longrightarrow>
    same_secrets s s' \<and> ws_entities s' = ws_entities s"
  by (erule save_workflow_Ok) (blast dest: advance_secrets)

lemma step_seed: "store_step C s s' \<Longrightarrow> seed_kept s s'"
proof (induction rule: store_step.induct)
  case (step_batch_consumed J s ek saves deletes wg ck c u s')
  then show ?case
    by (elim apply_entity_batch_with_workflow_guard_and_consumed_entity_Ok)
       (intro seed_kept_same, metis consume_secrets batch_secrets apply_batch_effect same_secrets_trans)
next
  case (step_workflow_batch JW J s i wk r v b u ek saves deletes n s')
  then show ?case
    by (elim save_workflow_with_entity_batch_Ok)
       (intro seed_kept_same, metis advance_secrets batch_secrets same_secrets_trans)
next
  case (step_workflow_guards JW J s i wk r v b u ek saves deletes wg gk eg consume n s')
  then show ?case
    by (elim save_workflow_with_entity_batch_and_guards_Ok)
       (intro seed_kept_same, metis advance_secrets batch_secrets apply_batch_effect consume_secrets sum.inject(2) same_secrets_trans)
next
  case (step_consume_approval JW J s pa now i wk r v b ek saves deletes x s')
  then show ?case
  proof (cases rule: consume_approval_Ok)
    case (consumed key m ps a s1 n)
    have "same_secrets s s1" using batch_secrets [OF apply_batch_effect [OF consumed(3,10)]] .
    with advance_secrets [OF consumed(11)] show ?thesis
      by (intro seed_kept_same) (simp add: remove_approval_def same_secrets_def)
  qed (auto simp: remove_approval_def same_secrets_def intro: seed_kept_same)
next
  case (step_batch_lease J s ek saves deletes as l s')
  then show ?case
    by (elim leased_batch_plain(1) [THEN apply_batch_effect_store]) (intro seed_kept_same batch_secrets)
next
  case (step_batch_lease_guard J s ek saves deletes as l g s')
  then show ?case
    by (elim leased_batch_plain(2) [THEN apply_batch_effect_store]) (intro seed_kept_same batch_secrets)
next
  case (step_account_batch JA J s account ek saves deletes n s')
  then show ?case
    by (elim apply_account_and_entity_batch_Ok) (intro seed_kept_same, metis batch_secrets same_secrets_trans)
next
  case (step_workflow_account JW JA J s i wk r v b u account ek saves deletes na s')
  then show ?case
    by (cases na, simp, elim save_workflow_with_account_Ok)
       (intro seed_kept_same, metis batch_secrets same_secrets_trans advance_secrets)
next
  case (step_batch J s ek saves deletes s')
  then show ?case by (elim apply_batch_effect_store) (intro seed_kept_same batch_secrets)
next
  case (step_batch_assertions J s ek saves deletes as s')
  then show ?case
    by (elim apply_entity_batch_with_assertions_Ok [THEN apply_batch_effect_store])
       (intro seed_kept_same batch_secrets)
next
  case (step_put_secret s i kind m u s')
  then show ?case by (rule put_secret_seed)
next
  case (step_delete_secret s i b s')
  then show ?case by (rule delete_secret_seed)
next
  case (step_initialize J s sid seed aid v u n s')
  then show ?case by (rule initialize_seed)
next
  case (step_save_workflow J s i wk r v b u n s')
  then show ?case using save_workflow_secrets seed_kept_same by metis
next
  case (step_lock s)
  then show ?case by (intro seed_kept_same) (simp add: lock_def same_secrets_def)
qed (blast intro: seed_kept_same same_records_secrets save_entity_secrets delete_entity_secrets
      delete_entities_secrets put_permission_records revoke_permission_records put_approval_records
      take_approval_records nonce_records)+

section \<open>Protected entities\<close>

definition protected_kept :: "wallet_store \<Rightarrow> wallet_store \<Rightarrow> bool" where
  "protected_kept s s' \<longleftrightarrow> (\<forall>k i. deletion_protected k \<longrightarrow> entity_rev s k i \<le> entity_rev s' k i)"

lemma protected_kept_same: "ws_entities s' = ws_entities s \<Longrightarrow> protected_kept s s'"
  by (simp add: protected_kept_def entity_rev_def)

lemma same_records_protected: "same_records s s' \<Longrightarrow> protected_kept s s'"
  by (simp add: same_records_def protected_kept_same)

lemma protected_kept_trans: "protected_kept s t \<Longrightarrow> protected_kept t u \<Longrightarrow> protected_kept s u"
  unfolding protected_kept_def by (meson order_trans)

lemma batch_protected:
  assumes "batch_effect C J key kind saves deletes s s'"
  shows "protected_kept s s'"
  unfolding protected_kept_def
proof (intro allI impI)
  fix k i assume prot: "deletion_protected k"
  show "entity_rev s k i \<le> entity_rev s' k i"
  proof (cases "k = kind \<and> batch_touches saves deletes i")
    case True
    with assms prot obtain save where "save \<in> set saves" "i = bs_id save"
      by (auto simp: batch_effect_def batch_touches_iff)
    with assms True show ?thesis by (force simp: batch_effect_def entity_rev_def)
  next
    case False
    with assms show ?thesis unfolding batch_effect_def entity_rev_def by (metis order_refl)
  qed
qed

lemma consume_protected:
  "consume_authenticated_entity_revision C key s kind a u = Inr s' \<Longrightarrow> protected_kept s s'"
  by (erule consume_Ok) (auto simp: write_entity_Ok protected_kept_def entity_rev_def tbl_get_put)

lemma save_entity_protected: "save_entity C J s kind i r v u = Inr (n, s') \<Longrightarrow> protected_kept s s'"
  by (erule save_entity_Ok) (auto simp: protected_kept_def entity_rev_def tbl_get_put)

lemma delete_entity_protected: "delete_entity C s kind i r = Inr (b, s') \<Longrightarrow> protected_kept s s'"
  by (drule delete_entity_Ok) (auto simp: remove_entity_def protected_kept_def entity_rev_def tbl_get_del)

lemma check_entity_deletes_Ok:
  "check_entity_deletes seen ds = Inr u \<Longrightarrow> \<forall>(k, d)\<in>set ds. \<not> deletion_protected k"
  by (induction seen ds rule: check_entity_deletes.induct) (auto simp: if_Inl_eq_Inr split: if_splits)

lemma delete_entities_protected:
  assumes "delete_entities C s ds = Inr s'"
  shows "protected_kept s s'"
proof -
  from assms have p: "\<forall>(k, d)\<in>set ds. \<not> deletion_protected k"
    and s': "s' = fold (\<lambda>(kind, d) t. remove_entity t kind (bd_id d)) ds s"
    by (auto simp: delete_entities_def if_Inl_eq_Inr split: if_splits dest!: check_entity_deletes_Ok)
  from s' have "ws_entities s' = fold (\<lambda>d. tbl_del (fst d, bd_id (snd d))) ds (ws_entities s)"
    using fold_remove_entity [of fst "\<lambda>x. bd_id (snd x)" ds s] by (simp add: case_prod_unfold)
  then have "tbl_get (ws_entities s') (k, i) = tbl_get (ws_entities s) (k, i)" if "deletion_protected k" for k i
    using that p by (auto simp: tbl_get_fold_del)
  then show ?thesis by (simp add: protected_kept_def entity_rev_def)
qed

lemma initialize_protected:
  "initialize_recovery_seed_and_wallet_account C J s sid seed aid v u = Inr (n, s') \<Longrightarrow> protected_kept s s'"
  by (erule initialize_Ok)
     (auto simp: protected_kept_def entity_rev_def write_entity_Ok tbl_get_put deletion_protected_def)

lemma step_protected: "store_step C s s' \<Longrightarrow> protected_kept s s'"
proof (induction rule: store_step.induct)
  case (step_batch_consumed J s ek saves deletes wg ck c u s')
  then show ?case
    by (elim apply_entity_batch_with_workflow_guard_and_consumed_entity_Ok)
       (metis protected_kept_trans batch_protected apply_batch_effect consume_protected)
next
  case (step_workflow_batch JW J s i wk r v b u ek saves deletes n s')
  then show ?case
    by (elim save_workflow_with_entity_batch_Ok)
       (metis protected_kept_trans batch_protected advance_secrets protected_kept_same)
next
  case (step_workflow_guards JW J s i wk r v b u ek saves deletes wg gk eg consume n s')
  then show ?case
  proof (rule save_workflow_with_entity_batch_and_guards_Ok)
    fix m ps key s1 s2
    assume "prepare_entity_batch J saves deletes = Inr ps" "apply_entity_batch_in_transaction C key s ek ps deletes = Inr s1"
      and c: "(if consume then consume_authenticated_entity_revision C key s1 gk eg u else Inr s1) = Inr s2"
      and adv: "advance_workflow C key s2 i wk r m b u = Inr (n, s')"
    then have "protected_kept s s1" by (intro batch_protected [OF apply_batch_effect])
    moreover have "protected_kept s1 s2" using c by (auto intro: consume_protected protected_kept_same split: if_splits)
    moreover have "protected_kept s2 s'" using advance_secrets [OF adv] by (simp add: protected_kept_same)
    ultimately show ?thesis by (blast intro: protected_kept_trans)
  qed
next
  case (step_consume_approval JW J s pa now i wk r v b ek saves deletes x s')
  then show ?case
  proof (cases rule: consume_approval_Ok)
    case (consumed key m ps a s1 n)
    have "protected_kept s s1" using batch_protected [OF apply_batch_effect [OF consumed(3,10)]] .
    moreover have "protected_kept s1 s'" using advance_secrets [OF consumed(11)]
      by (intro protected_kept_same) (simp add: remove_approval_def)
    ultimately show ?thesis by (rule protected_kept_trans)
  qed (auto simp: remove_approval_def intro: protected_kept_same)
next
  case (step_batch_lease J s ek saves deletes as l s')
  then show ?case by (elim leased_batch_plain(1) [THEN apply_batch_effect_store]) (rule batch_protected)
next
  case (step_batch_lease_guard J s ek saves deletes as l g s')
  then show ?case by (elim leased_batch_plain(2) [THEN apply_batch_effect_store]) (rule batch_protected)
next
  case (step_account_batch JA J s account ek saves deletes n s')
  then show ?case by (elim apply_account_and_entity_batch_Ok) (metis batch_protected protected_kept_trans)
next
  case (step_workflow_account JW JA J s i wk r v b u account ek saves deletes na s')
  then show ?case
    by (cases na, simp, elim save_workflow_with_account_Ok)
       (metis batch_protected protected_kept_trans advance_secrets protected_kept_same)
next
  case (step_batch J s ek saves deletes s')
  then show ?case by (elim apply_batch_effect_store) (rule batch_protected)
next
  case (step_batch_assertions J s ek saves deletes as s')
  then show ?case by (elim apply_entity_batch_with_assertions_Ok [THEN apply_batch_effect_store]) (rule batch_protected)
next
  case (step_put_secret s i kind m u s')
  then show ?case by (auto dest!: put_secret_Ok intro: protected_kept_same)
next
  case (step_delete_secret s i b s')
  then show ?case by (intro protected_kept_same) (auto simp: delete_secret_def if_Inl_eq_Inr split: option.splits if_splits)
next
  case (step_initialize J s sid seed aid v u n s')
  then show ?case by (rule initialize_protected)
next
  case (step_save_entity J s ek i r v u n s')
  then show ?case by (rule save_entity_protected)
next
  case (step_delete_entity s ek i r b s')
  then show ?case by (rule delete_entity_protected)
next
  case (step_delete_entities s ds s')
  then show ?case by (rule delete_entities_protected)
next
  case (step_save_workflow J s i wk r v b u n s')
  then show ?case by (auto dest!: save_workflow_secrets intro: protected_kept_same)
next
  case (step_lock s)
  then show ?case by (intro protected_kept_same) (simp add: lock_def)
qed (blast intro: same_records_protected put_permission_records revoke_permission_records put_approval_records
      take_approval_records nonce_records)+

section \<open>Sequences of steps\<close>

lemma steps_inv:
  assumes "crypto_law C" "(store_step C)\<^sup>*\<^sup>* s t" "store_inv C key s"
  shows "store_inv C key t"
  using assms(2,3) by (induction rule: rtranclp_induct) (auto intro: store_step_inv [OF assms(1)])

lemma steps_seed: "(store_step C)\<^sup>*\<^sup>* s t \<Longrightarrow> seed_kept s t"
proof (induction rule: rtranclp_induct)
  case base
  show ?case by (simp add: seed_kept_def)
next
  case (step t u)
  then show ?case by (blast intro: seed_kept_trans step_seed)
qed

lemma steps_protected: "(store_step C)\<^sup>*\<^sup>* s t \<Longrightarrow> protected_kept s t"
proof (induction rule: rtranclp_induct)
  case base
  show ?case by (simp add: protected_kept_def)
next
  case (step t u)
  then show ?case by (blast intro: protected_kept_trans step_protected)
qed

end
