(* ===== verification/Lease_Properties.thy ===== *)
theory Lease_Properties
  imports Store_Properties Lease_Laws
begin

text \<open>
  The property of prefix leases (hns-wallet-store/src/lib.rs, EntityPrefixSetLease): a decision taken on a
  snapshot of a prefix is committed only on the same rows, and at most once.
\<close>

lemma lease_fields:
  assumes "entity_prefix_set_lease C s kind pre limit = Inr lease"
  shows "pl_database_id lease = ws_database_id s" "pl_kind lease = kind" "pl_prefix lease = pre" "pl_limit lease = limit"
  using assms by (auto simp: entity_prefix_set_lease_def)

lemma lease_pins_listing:
  assumes lease: "entity_prefix_set_lease C s kind pre limit = Inr lease" and nc: "no_collision C s t" "ws_key t = ws_key s"
    and ok: "assert_entity_prefix_set_lease C t lease = Inr ()" "validate_entity_prefix_set_lease_shape (ws_database_id t) lease = Inr ()"
  shows "list_entities_by_id_prefix C J t kind pre limit = list_entities_by_id_prefix C J s kind pre limit"
proof (rule pinned_listing)
  show "prefix_query t kind pre (limit + 1) = prefix_query s kind pre (limit + 1)" by (rule lease_pins [OF lease ok(1) nc(1)])
  show "ws_database_id t = ws_database_id s"
    using ok(2) lease_fields(1) [OF lease] by (auto simp: validate_entity_prefix_set_lease_shape_def split: if_splits)
qed (rule nc(2))

lemma leased_scope:
  assumes "validate_entity_prefix_set_lease db kind saves deletes as lease = Inr ()"
  shows "validate_entity_prefix_set_lease_shape db lease = Inr ()" "pl_kind lease = kind"
    "batch_touches saves deletes i \<Longrightarrow> starts_with i (pl_prefix lease)"
  using assms by (auto simp: validate_entity_prefix_set_lease_def batch_touches_def list_ex_iff split: if_splits)

text \<open>C14. A prefix lease makes a decision and its batch one step: when a batch commits under a lease taken on an
  earlier snapshot, listing the prefix of the lease, and of the guard lease if there is one, gives what it gave on the
  snapshot the lease was taken on, whatever other writers did in between. The batch writes nothing outside the
  prefix. A batch that wrote anything uses the lease up: no batch commits under it in the resulting store. Equal
  SHA-256 digests of stored ciphertexts are assumed to mean equal ciphertexts.\<close>

theorem lease_is_serialisable:
  assumes inv: "crypto_law C" "store_inv C key t"
    and lease: "entity_prefix_set_lease C s kind pre limit = Inr lease" "no_collision C s t" "ws_key t = ws_key s"
    and guard: "guard = Some g \<Longrightarrow> entity_prefix_set_lease C sg gkind gpre glimit = Inr g \<and> no_collision C sg t \<and> ws_key t = ws_key sg"
    and commit: "apply_entity_batch_with_assertions_and_prefix_lease_guard_inner C J t kind' saves deletes as lease guard = Inr t'"
  shows "list_entities_by_id_prefix C J t kind pre limit = list_entities_by_id_prefix C J s kind pre limit \<and>
    (guard = Some g \<longrightarrow>
       list_entities_by_id_prefix C J t gkind gpre glimit = list_entities_by_id_prefix C J sg gkind gpre glimit) \<and>
    kind' = kind \<and>
    (\<forall>k i. k \<noteq> kind \<or> \<not> starts_with i pre \<longrightarrow> tbl_get (ws_entities t') (k, i) = tbl_get (ws_entities t) (k, i)) \<and>
    (saves \<noteq> [] \<or> deletes \<noteq> [] \<longrightarrow> (\<forall>saves2 deletes2 as2 guard2.
       \<not> is_ok (apply_entity_batch_with_assertions_and_prefix_lease_guard_inner C J t' kind saves2 deletes2 as2 lease guard2)))"
proof -
  note ok = leased_batch_Ok(1-3) [OF commit] and gok = leased_batch_Ok(4,5) [OF commit]
  note sc = leased_scope [OF ok(3)] and lf = lease_fields [OF lease(1)]
  have kk: "kind' = kind" using sc(2) lf(2) by simp
  obtain k where eff: "batch_effect C J k kind' saves deletes t t'" by (rule apply_batch_effect_store [OF ok(1)])
  have wf: "tbl_wf (ws_entities t)" using inv(2) by (simp add: store_inv_def)
  then have wf': "tbl_wf (ws_entities t')" using eff by (simp add: batch_effect_def)
  have "\<not> is_ok (apply_entity_batch_with_assertions_and_prefix_lease_guard_inner C J t' kind saves2 deletes2 as2 lease guard2)"
    if "saves \<noteq> [] \<or> deletes \<noteq> []" for saves2 deletes2 as2 guard2
    using lease_spent [OF wf wf' ok(2,3) eff that] by (auto simp: is_ok_iff dest: leased_batch_Ok(2))
  moreover have "tbl_get (ws_entities t') (k, i) = tbl_get (ws_entities t) (k, i)" if "k \<noteq> kind \<or> \<not> starts_with i pre" for k i
  proof -
    have "\<not> (k = kind' \<and> batch_touches saves deletes i)" using that sc(3) kk lf(3) by auto
    then show ?thesis using eff unfolding batch_effect_def by blast
  qed
  moreover have "list_entities_by_id_prefix C J t gkind gpre glimit = list_entities_by_id_prefix C J sg gkind gpre glimit"
    if "guard = Some g" using guard [OF that] gok [OF that] by (blast intro: lease_pins_listing)
  ultimately show ?thesis using lease_pins_listing [OF lease ok(2) sc(1)] kk by simp
qed

definition sample_grown :: wallet_store where
  "sample_grown = sample_entities\<lparr>ws_entities := ws_entities sample_entities @ [((EK_SwapSession, [2]), \<lparr>er_revision = 1,
     er_value = replicate 24 7 @ [1] @ replicate 16 0, er_updated = 5\<rparr>)]\<rparr>"

lemma demo_sha256: "sha256 demo_crypto m = replicate 32 (word_of_nat (length m))"
  by (simp add: demo_crypto_def)

lemmas lease_eval = demo_sha256 load_entity_prefix_set_lease_projection_def check_prefix_query_def prefix_query_def row_metadata_def
  starts_with_def MAX_ENTITY_LIST_RESULTS_def MAX_RECORD_ID_BYTES_def validate_encrypted_record_length_def store_limits

definition sample_lease :: prefix_set_lease where
  "sample_lease = \<lparr>pl_database_id = ws_database_id sample_entities, pl_kind = EK_SwapSession, pl_prefix = [1], pl_limit = 10,
     pl_metadata = [\<lparr>md_kind = EK_SwapSession, md_id = [1], md_revision = 1, md_updated_at_unix = 5\<rparr>],
     pl_encrypted_value_fingerprints = [replicate 32 41]\<rparr>"

definition sample_guard_lease :: prefix_set_lease where
  "sample_guard_lease = \<lparr>pl_database_id = ws_database_id sample_entities, pl_kind = EK_WalletAccount, pl_prefix = [3], pl_limit = 10,
     pl_metadata = [], pl_encrypted_value_fingerprints = []\<rparr>"

lemma sample_lease: "entity_prefix_set_lease demo_crypto sample_entities EK_SwapSession [1] 10 = Inr sample_lease"
  by (simp add: entity_prefix_set_lease_def sample_lease_def lease_eval entity_eval sample_entities_def)

lemma sample_guard_lease: "entity_prefix_set_lease demo_crypto sample_entities EK_WalletAccount [3] 10 = Inr sample_guard_lease"
  by (simp add: entity_prefix_set_lease_def sample_guard_lease_def lease_eval entity_eval sample_entities_def)

lemma sample_grown_sound: "store_inv demo_crypto (replicate 32 4) sample_grown"
  by (auto simp: store_inv_def sample_grown_def sample_entities_def demo_store_def tbl_wf_def entity_opens_def is_ok_def
      entity_label_def store_limits revisioned_aad_id_def validate_id_def demo_decrypt_one split: if_splits)

lemma sample_no_collision: "no_collision demo_crypto sample_entities sample_grown"
  by (simp add: no_collision_def sample_grown_def sample_entities_def)

lemma sample_leased_batch: "\<exists>t. apply_entity_batch_with_assertions_and_prefix_lease_guard_inner demo_crypto sample_codec sample_grown
    EK_SwapSession [sample_save [1, 2] 0] [] [] sample_lease (Some sample_guard_lease) = Inr t"
  by (simp add: apply_entity_batch_with_assertions_and_prefix_lease_guard_inner_def sample_lease_def sample_guard_lease_def
      lease_eval batch_eval sample_save_def sample_grown_def sample_entities_def validate_entity_prefix_set_lease_def
      validate_entity_prefix_set_lease_shape_def assert_entity_prefix_set_lease_def is_ok_def
      validate_entity_revision_assertions_def)

theorem lease_is_serialisable_witness:
  "\<exists>t. apply_entity_batch_with_assertions_and_prefix_lease_guard_inner demo_crypto sample_codec sample_grown EK_SwapSession
      [sample_save [1, 2] 0] [] [] sample_lease (Some sample_guard_lease) = Inr t \<and>
    list_entities_by_id_prefix demo_crypto sample_codec sample_grown EK_SwapSession [1] 10 =
      list_entities_by_id_prefix demo_crypto sample_codec sample_entities EK_SwapSession [1] 10 \<and>
    \<not> is_ok (apply_entity_batch_with_assertions_and_prefix_lease_guard_inner demo_crypto sample_codec t EK_SwapSession
      [sample_save [1, 3] 0] [] [] sample_lease None)"
proof -
  obtain t where t: "apply_entity_batch_with_assertions_and_prefix_lease_guard_inner demo_crypto sample_codec sample_grown
    EK_SwapSession [sample_save [1, 2] 0] [] [] sample_lease (Some sample_guard_lease) = Inr t" using sample_leased_batch by blast
  have "ws_key sample_grown = ws_key sample_entities" by (simp add: sample_grown_def)
  with lease_is_serialisable [OF demo_crypto_law sample_grown_sound sample_lease sample_no_collision _ _ t,
      of sample_guard_lease sample_entities EK_WalletAccount "[3]" 10] t sample_guard_lease sample_no_collision
  show ?thesis by blast
qed

end
