(* ===== verification/Swap_Session.thy ===== *)
theory Swap_Session
  imports Wallet_Store
begin

text \<open>
  The state machine of one atomic swap (\<open>SwapSession\<close> of hns-wallet-market/src/lib.rs): the session
  record, the evidence that drives it, \<open>transition\<close>, and \<open>apply\<close>, which persists the next state in
  a journal before the caller sees it. The match of \<open>transition\<close> is one function per kind of
  evidence, with the arms for that evidence in their order; the code after the match is
  \<open>finish_transition\<close>. A journal is a step over its own state, so what a failed save leaves behind
  is explicit; the in-memory journal is here, the one over the wallet store in \<open>Swap_Execution\<close>.
  Failure reasons are byte strings, as their length limit is in bytes.
\<close>

section \<open>Errors, quotes and timeouts\<close>

datatype market_error =
    ME_InvalidQuote | ME_InvalidShakescapeDirectOfferPolicy | ME_InvalidShakescapeDirectOffer
  | ME_ShakescapeDirectOfferConflict | ME_CorruptShakescapeDirectOfferBoard
  | ME_ShakescapeDirectOfferCapacity | ME_UnknownShakescapeDirectOffer
  | ME_InvalidShakescapeDirectSwapPolicy | ME_InvalidShakescapeDirectSwap
  | ME_UnknownShakescapeDirectSwap | ME_ShakescapeDirectSwapConflict | ME_ShakescapeDirectSwapCapacity
  | ME_CorruptShakescapeDirectSwap | ME_CorruptShakescapeDirectSwapDetail string
  | ME_InvalidShakescapePeerMessage | ME_InvalidPair | ME_UnsafeTimeouts | ME_InvalidTransition
  | ME_InvalidEvidence | ME_PeerHintNotEvidence | ME_Invariant | ME_StaleRevision | ME_Persistence
  | ME_StoreFailure store_error | ME_DivisionByZero

fun market_error_from_store :: "store_error \<Rightarrow> market_error" where
  "market_error_from_store (SE_StaleRevision _ _) = ME_StaleRevision"
| "market_error_from_store e = ME_StoreFailure e"

definition PREFUNDING_DEADLINE_FAILURE :: bytes where
  "PREFUNDING_DEADLINE_FAILURE = byte_str ''funding deadline expired before first-chain authorization''"

definition PREFUNDING_BITCOIN_ABSENCE_FAILURE :: bytes where
  "PREFUNDING_BITCOIN_ABSENCE_FAILURE =
     byte_str ''funding deadline expired with verified absence of a Bitcoin lock''"

record verified_quote =
  vq_terms_id :: object_hash
  vq_offered :: amount
  vq_received :: amount
  vq_valid_until_unix :: u64

definition quote_validate :: "verified_quote \<Rightarrow> u64 \<Rightarrow> (market_error, unit) result" where
  "quote_validate q now_unix =
     (if am_asset (vq_offered q) = am_asset (vq_received q) \<or> am_base_units (vq_offered q) = 0 \<or>
         am_base_units (vq_received q) = 0 \<or> vq_valid_until_unix q \<le> now_unix
      then Err ME_InvalidQuote else Ok ())"

record timeout_plan =
  tp_first_chain_refund_at :: u64
  tp_second_chain_refund_at :: u64
  tp_minimum_safety_margin :: u64

definition timeouts_validate :: "timeout_plan \<Rightarrow> u64 \<Rightarrow> (market_error, unit) result" where
  "timeouts_validate t now =
     (if tp_second_chain_refund_at t \<le> now \<or>
         tp_first_chain_refund_at t \<le> tp_second_chain_refund_at t \<or>
         (case checked_add_u64 (tp_second_chain_refund_at t) (tp_minimum_safety_margin t) of
            None \<Rightarrow> True
          | Some minimum \<Rightarrow> tp_first_chain_refund_at t < minimum)
      then Err ME_UnsafeTimeouts else Ok ())"

section \<open>Sessions\<close>

record second_funding_authorization =
  sf_id :: object_hash
  sf_module :: module_id
  sf_first_funding :: object_hash
  sf_first_funding_observation_generation :: u64
  sf_expires_at_unix :: u64

datatype swap_state =
    OfferPublished | OfferAcceptanceReceived | OfferReserved | TermsFrozen | RefundsPrepared
  | FirstFundingPending | FirstFunded | SecondFundingPending | BothFunded | FirstRedeemed
  | SecretObserved | SecondRedeemed | Completed | RefundEligible | RefundBroadcast | Refunded | Failed

record swap_session =
  ss_id :: session_id
  ss_revision :: u64
  ss_state :: swap_state
  ss_first_module :: module_id
  ss_second_module :: module_id
  ss_offered :: amount
  ss_received :: amount
  ss_terms_id :: object_hash
  ss_hashlock :: object_hash
  ss_accepted_shakescape_terms :: "bytes option"
  ss_timeouts :: timeout_plan
  ss_first_funding :: "object_hash option"
  ss_first_funding_revoked :: bool
  ss_first_funding_observation_generation :: u64
  ss_first_funding_confirmed_generation :: "u64 option"
  ss_second_funding_authorization :: "second_funding_authorization option"
  ss_second_funding :: "object_hash option"
  ss_first_redemption :: "object_hash option"
  ss_second_redemption :: "object_hash option"
  ss_refund :: "object_hash option"
  ss_first_refund :: "object_hash option"
  ss_second_refund :: "object_hash option"
  ss_last_verified_at_unix :: u64
  ss_failure_reason :: "bytes option"

definition swap_session_new ::
  "session_id \<Rightarrow> module_id \<Rightarrow> module_id \<Rightarrow> verified_quote \<Rightarrow> object_hash \<Rightarrow> timeout_plan \<Rightarrow> u64 \<Rightarrow>
   (market_error, swap_session) result" where
  "swap_session_new i first_module second_module q hashlock timeouts now_unix =
     rbind (quote_validate q now_unix) (\<lambda>_.
     rbind (timeouts_validate timeouts now_unix) (\<lambda>_.
       if first_module = second_module \<or>
          \<not> (asset first_module = am_asset (vq_offered q) \<or> asset first_module = am_asset (vq_received q)) \<or>
          \<not> (asset second_module = am_asset (vq_offered q) \<or> asset second_module = am_asset (vq_received q))
       then Err ME_InvalidPair
       else Ok \<lparr>ss_id = i, ss_revision = 0, ss_state = OfferPublished, ss_first_module = first_module,
         ss_second_module = second_module, ss_offered = vq_offered q, ss_received = vq_received q,
         ss_terms_id = vq_terms_id q, ss_hashlock = hashlock, ss_accepted_shakescape_terms = None,
         ss_timeouts = timeouts, ss_first_funding = None, ss_first_funding_revoked = False,
         ss_first_funding_observation_generation = 0, ss_first_funding_confirmed_generation = None,
         ss_second_funding_authorization = None, ss_second_funding = None, ss_first_redemption = None,
         ss_second_redemption = None, ss_refund = None, ss_first_refund = None, ss_second_refund = None,
         ss_last_verified_at_unix = now_unix, ss_failure_reason = None\<rparr>))"

definition refund_for_module :: "swap_session \<Rightarrow> module_id \<Rightarrow> object_hash option" where
  "refund_for_module s m =
     (if m = ss_first_module s then ss_first_refund s
      else if m = ss_second_module s then ss_second_refund s else None)"

definition first_funding_is_current :: "swap_session \<Rightarrow> bool" where
  "first_funding_is_current s \<longleftrightarrow> ss_first_funding s \<noteq> None \<and> \<not> ss_first_funding_revoked s \<and>
     (ss_first_funding_observation_generation s = 0 \<or>
      ss_first_funding_confirmed_generation s = Some (ss_first_funding_observation_generation s))"

definition can_refund_module :: "swap_session \<Rightarrow> module_id \<Rightarrow> bool" where
  "can_refund_module s m =
     (if m = ss_first_module s
      then first_funding_is_current s \<and> ss_first_refund s = None \<and> ss_second_redemption s = None
      else if m = ss_second_module s
      then ss_second_funding s \<noteq> None \<and> ss_second_refund s = None \<and> ss_first_redemption s = None
      else False)"

definition can_record_refund_for_module :: "swap_session \<Rightarrow> module_id \<Rightarrow> bool" where
  "can_record_refund_for_module s m =
     (if m = ss_first_module s
      then ss_first_funding s \<noteq> None \<and> ss_first_refund s = None \<and> ss_second_redemption s = None
      else if m = ss_second_module s
      then ss_second_funding s \<noteq> None \<and> ss_second_refund s = None \<and> ss_first_redemption s = None
      else False)"

definition module_is_funded :: "swap_session \<Rightarrow> module_id \<Rightarrow> bool" where
  "module_is_funded s m =
     (if m = ss_first_module s then ss_first_funding s \<noteq> None
      else if m = ss_second_module s then ss_second_funding s \<noteq> None else False)"

definition funded_module_is_settled :: "swap_session \<Rightarrow> module_id \<Rightarrow> bool" where
  "funded_module_is_settled s m =
     (if m = ss_first_module s
      then ss_first_funding s \<noteq> None \<and> (ss_first_refund s \<noteq> None \<or> ss_second_redemption s \<noteq> None)
      else if m = ss_second_module s
      then ss_second_funding s \<noteq> None \<and> (ss_second_refund s \<noteq> None \<or> ss_first_redemption s \<noteq> None)
      else False)"

definition has_confirmed_refund :: "swap_session \<Rightarrow> bool" where
  "has_confirmed_refund s \<longleftrightarrow> ss_first_refund s \<noteq> None \<or> ss_second_refund s \<noteq> None"

definition all_funded_legs_settled :: "swap_session \<Rightarrow> bool" where
  "all_funded_legs_settled s \<longleftrightarrow>
     (ss_first_funding s \<noteq> None \<or> ss_second_funding s \<noteq> None) \<and>
     (ss_first_funding s = None \<or> ss_first_refund s \<noteq> None \<or> ss_second_redemption s \<noteq> None) \<and>
     (ss_second_funding s = None \<or> ss_second_refund s \<noteq> None \<or> ss_first_redemption s \<noteq> None)"

section \<open>Evidence and transitions\<close>

datatype verified_evidence =
    OfferAcceptanceValidated
  | OfferReservedEvidence
  | TermsApproved object_hash
  | RefundsValidated
  | FundingReady
  | FirstFundingObservationStarted module_id u64
  | FirstFundingConfirmed object_hash
  | FirstFundingConfirmedAtGeneration object_hash module_id u64
  | FirstFundingInvalidated object_hash
  | SecondFundingReady
  | SecondFundingAuthorizationIssued second_funding_authorization
  | SecondFundingConfirmed object_hash
  | FirstRedemptionConfirmed object_hash
  | SecretExtracted object_hash
  | SecondRedemptionConfirmed object_hash
  | CompletionValidated
  | RefundEligibilityValidated
  | RefundBroadcastEvidence object_hash
  | RefundConfirmed object_hash
  | ChainRefundConfirmed module_id object_hash
  | TerminalFailure bytes

datatype peer_hint = FundingClaimed | RedeemedClaimed | RefundedClaimed

definition observe_peer_hint :: "swap_session \<Rightarrow> peer_hint \<Rightarrow> (market_error, unit) result" where
  "observe_peer_hint s hint = Err ME_PeerHintNotEvidence"

definition failed_before_funding :: "swap_session \<Rightarrow> bool" where
  "failed_before_funding s \<longleftrightarrow>
     ss_failure_reason s = Some PREFUNDING_DEADLINE_FAILURE \<or>
     ss_failure_reason s = Some PREFUNDING_BITCOIN_ABSENCE_FAILURE"

definition observable_states :: "swap_state set" where
  "observable_states = {FirstFundingPending, FirstFunded, SecondFundingPending, BothFunded, FirstRedeemed,
     SecretObserved, RefundEligible, RefundBroadcast, Refunded, Failed}"

definition refreshable_states :: "swap_state set" where
  "refreshable_states = {FirstFunded, SecondFundingPending, BothFunded, FirstRedeemed, SecretObserved,
     RefundEligible, RefundBroadcast, Refunded, Failed}"

definition on_observation_started ::
  "swap_session \<Rightarrow> module_id \<Rightarrow> u64 \<Rightarrow> (market_error, swap_session \<times> swap_state) result" where
  "on_observation_started s m generation =
     (if ss_state s \<in> observable_states \<and> ss_first_module s = m \<and>
         (ss_state s = FirstFundingPending \<or> ss_first_funding s \<noteq> None \<or>
          (ss_state s = Failed \<and> ss_second_funding s = None \<and> failed_before_funding s)) \<and>
         ss_second_redemption s = None \<and> ss_first_refund s = None \<and>
         checked_add_u64 (ss_first_funding_observation_generation s) 1 = Some generation
      then Ok (s\<lparr>ss_first_funding_observation_generation := generation,
                 ss_first_funding_confirmed_generation := None,
                 ss_second_funding_authorization := None\<rparr>, ss_state s)
      else Err ME_InvalidTransition)"

definition record_first_funding :: "swap_session \<Rightarrow> object_hash \<Rightarrow> u64 option \<Rightarrow> swap_session" where
  "record_first_funding s evidence confirmed =
     s\<lparr>ss_first_funding := Some evidence, ss_first_funding_revoked := False,
       ss_first_funding_confirmed_generation := confirmed, ss_second_funding_authorization := None\<rparr>"

definition reopened :: "swap_state \<Rightarrow> swap_state" where
  "reopened st = (if st = Refunded \<or> st = Failed then RefundEligible else st)"

definition on_first_funding ::
  "swap_session \<Rightarrow> object_hash \<Rightarrow> (market_error, swap_session \<times> swap_state) result" where
  "on_first_funding s evidence =
     (if ss_state s = FirstFundingPending
      then Ok (record_first_funding s evidence None, FirstFunded)
      else if ss_state s = Failed \<and> ss_first_funding s = None \<and> ss_second_funding s = None \<and>
              failed_before_funding s
      then Ok ((record_first_funding s evidence None)\<lparr>ss_failure_reason := None\<rparr>, FirstFunded)
      else if ss_state s \<in> refreshable_states \<and> ss_first_funding s \<noteq> None \<and>
              \<not> ss_first_funding_revoked s \<and> ss_second_funding s = None
      then Ok (record_first_funding s evidence None, reopened (ss_state s))
      else Err ME_InvalidTransition)"

definition on_first_funding_at_generation ::
  "swap_session \<Rightarrow> object_hash \<Rightarrow> module_id \<Rightarrow> u64 \<Rightarrow> (market_error, swap_session \<times> swap_state) result" where
  "on_first_funding_at_generation s evidence m generation =
     (if ss_state s = FirstFundingPending \<and> ss_first_module s = m \<and>
         ss_first_funding_observation_generation s = generation \<and>
         ss_first_refund s = None \<and> ss_second_redemption s = None
      then Ok (record_first_funding s evidence (Some generation), FirstFunded)
      else if ss_state s = Failed \<and> ss_first_module s = m \<and>
              ss_first_funding_observation_generation s = generation \<and>
              ss_first_funding s = None \<and> ss_second_funding s = None \<and> failed_before_funding s
      then Ok ((record_first_funding s evidence (Some generation))\<lparr>ss_failure_reason := None\<rparr>, FirstFunded)
      else if ss_state s \<in> refreshable_states \<and> ss_first_module s = m \<and>
              ss_first_funding_observation_generation s = generation \<and>
              ss_first_refund s = None \<and> ss_second_redemption s = None
      then Ok (record_first_funding s evidence (Some generation), reopened (ss_state s))
      else Err ME_InvalidTransition)"

definition on_first_funding_invalidated ::
  "swap_session \<Rightarrow> object_hash \<Rightarrow> (market_error, swap_session \<times> swap_state) result" where
  "on_first_funding_invalidated s evidence =
     (if ss_state s = FirstFunded \<and> ss_first_funding s = Some evidence \<and> ss_second_funding s = None
      then Ok (s\<lparr>ss_first_funding := None, ss_first_funding_revoked := False,
                 ss_first_funding_confirmed_generation := None,
                 ss_second_funding_authorization := None\<rparr>, FirstFundingPending)
      else if ss_state s \<in> refreshable_states - {FirstFunded} \<and> ss_first_funding s = Some evidence \<and>
              ss_second_redemption s = None \<and> ss_first_refund s = None
      then Ok (s\<lparr>ss_first_funding_revoked := True, ss_first_funding_confirmed_generation := None,
                 ss_second_funding_authorization := None\<rparr>,
               if ss_state s = Refunded then RefundEligible else ss_state s)
      else Err ME_InvalidTransition)"

definition on_authorization_issued ::
  "swap_session \<Rightarrow> second_funding_authorization \<Rightarrow> u64 \<Rightarrow> (market_error, swap_session \<times> swap_state) result" where
  "on_authorization_issued s a now_unix =
     (if ss_state s = SecondFundingPending \<and> ss_first_funding s = Some (sf_first_funding a) \<and>
         \<not> ss_first_funding_revoked s \<and> ss_second_funding s = None \<and> ss_second_module s = sf_module a \<and>
         ss_first_funding_observation_generation s = sf_first_funding_observation_generation a \<and>
         ss_first_funding_confirmed_generation s = Some (sf_first_funding_observation_generation a) \<and>
         \<not> all_zero (sf_id a) \<and> now_unix < sf_expires_at_unix a
      then Ok (s\<lparr>ss_second_funding_authorization := Some a\<rparr>, SecondFundingPending)
      else Err ME_InvalidTransition)"

definition on_chain_refund ::
  "swap_session \<Rightarrow> module_id \<Rightarrow> object_hash \<Rightarrow> (market_error, swap_session \<times> swap_state) result" where
  "on_chain_refund s m evidence =
     (if ss_state s \<in> refreshable_states \<and> can_record_refund_for_module s m
      then let s' = (if m = ss_first_module s then s\<lparr>ss_first_refund := Some evidence\<rparr>
                     else s\<lparr>ss_second_refund := Some evidence\<rparr>)\<lparr>ss_refund := Some evidence\<rparr>
           in Ok (s', if all_funded_legs_settled s' then Refunded else RefundEligible)
      else Err ME_InvalidTransition)"

definition on_terminal_failure ::
  "swap_session \<Rightarrow> bytes \<Rightarrow> (market_error, swap_session \<times> swap_state) result" where
  "on_terminal_failure s reason =
     (if ss_state s \<noteq> Completed \<and> ss_state s \<noteq> Refunded
      then if reason = [] \<or> 256 < length reason then Err ME_InvalidEvidence
           else Ok (s\<lparr>ss_failure_reason := Some reason\<rparr>, Failed)
      else Err ME_InvalidTransition)"

definition move_from :: "swap_state \<Rightarrow> swap_state \<Rightarrow> swap_session \<Rightarrow> (market_error, swap_session \<times> swap_state) result" where
  "move_from source target s = (if ss_state s = source then Ok (s, target) else Err ME_InvalidTransition)"

fun next_state ::
  "swap_session \<Rightarrow> verified_evidence \<Rightarrow> u64 \<Rightarrow> (market_error, swap_session \<times> swap_state) result" where
  "next_state s OfferAcceptanceValidated _ = move_from OfferPublished OfferAcceptanceReceived s"
| "next_state s OfferReservedEvidence _ = move_from OfferAcceptanceReceived OfferReserved s"
| "next_state s (TermsApproved terms_id) _ =
     (if terms_id = ss_terms_id s then move_from OfferReserved TermsFrozen s else Err ME_InvalidTransition)"
| "next_state s RefundsValidated _ = move_from TermsFrozen RefundsPrepared s"
| "next_state s FundingReady _ = move_from RefundsPrepared FirstFundingPending s"
| "next_state s (FirstFundingObservationStarted m generation) _ = on_observation_started s m generation"
| "next_state s (FirstFundingConfirmed evidence) _ = on_first_funding s evidence"
| "next_state s (FirstFundingConfirmedAtGeneration evidence m generation) _ =
     on_first_funding_at_generation s evidence m generation"
| "next_state s (FirstFundingInvalidated evidence) _ = on_first_funding_invalidated s evidence"
| "next_state s SecondFundingReady _ = move_from FirstFunded SecondFundingPending s"
| "next_state s (SecondFundingAuthorizationIssued a) now_unix = on_authorization_issued s a now_unix"
| "next_state s (SecondFundingConfirmed evidence) _ =
     move_from SecondFundingPending BothFunded (s\<lparr>ss_second_funding := Some evidence\<rparr>)"
| "next_state s (FirstRedemptionConfirmed evidence) _ =
     (if (ss_state s = BothFunded \<or> ss_state s = RefundEligible) \<and> ss_second_funding s \<noteq> None \<and>
         ss_second_refund s = None \<and> ss_first_redemption s = None
      then Ok (s\<lparr>ss_first_redemption := Some evidence\<rparr>, FirstRedeemed) else Err ME_InvalidTransition)"
| "next_state s (SecretExtracted hashlock) _ =
     (if hashlock = ss_hashlock s
      then move_from FirstRedeemed (if all_funded_legs_settled s then Refunded else SecretObserved) s
      else Err ME_InvalidTransition)"
| "next_state s (SecondRedemptionConfirmed evidence) _ =
     move_from SecretObserved SecondRedeemed (s\<lparr>ss_second_redemption := Some evidence\<rparr>)"
| "next_state s CompletionValidated _ = move_from SecondRedeemed Completed s"
| "next_state s RefundEligibilityValidated _ =
     (if (ss_state s = FirstFunded \<or> ss_state s = SecondFundingPending) \<and> ss_first_funding s \<noteq> None \<and>
         ss_second_funding s = None
      then Ok (s, RefundEligible) else Err ME_InvalidTransition)"
| "next_state s (RefundBroadcastEvidence evidence) _ =
     move_from RefundEligible RefundBroadcast (s\<lparr>ss_refund := Some evidence\<rparr>)"
| "next_state s (RefundConfirmed evidence) _ =
     (if ss_state s = RefundBroadcast \<and> ss_refund s = Some evidence \<and> ss_first_funding s \<noteq> None \<and>
         ss_second_funding s = None
      then Ok (s\<lparr>ss_first_refund := Some evidence\<rparr>, Refunded) else Err ME_InvalidTransition)"
| "next_state s (ChainRefundConfirmed m evidence) _ = on_chain_refund s m evidence"
| "next_state s (TerminalFailure reason) _ = on_terminal_failure s reason"

definition finish_transition :: "swap_session \<Rightarrow> swap_state \<Rightarrow> u64 \<Rightarrow> swap_session" where
  "finish_transition s next now_unix =
     s\<lparr>ss_second_funding_authorization :=
         (if next \<noteq> SecondFundingPending then None else ss_second_funding_authorization s),
       ss_state := next, ss_last_verified_at_unix := now_unix\<rparr>"

definition transition :: "swap_session \<Rightarrow> verified_evidence \<Rightarrow> u64 \<Rightarrow> (market_error, swap_session) result" where
  "transition s evidence now_unix =
     rbind (next_state s evidence now_unix) (\<lambda>(s', next). Ok (finish_transition s' next now_unix))"

section \<open>Journals\<close>

type_synonym 'j journal_save = "swap_session \<Rightarrow> u64 \<Rightarrow> ('j, market_error, unit) step"

definition apply_evidence ::
  "'j journal_save \<Rightarrow> swap_session \<Rightarrow> verified_evidence \<Rightarrow> u64 \<Rightarrow> ('j, market_error, swap_session) step" where
  "apply_evidence save s evidence now_unix =
     sbind (lift_result (transition s evidence now_unix)) (\<lambda>next.
     sbind (lift_result (ok_or (checked_add_u64 (ss_revision s) 1) ME_Invariant)) (\<lambda>next_revision.
     let next' = next\<lparr>ss_revision := next_revision\<rparr>
     in sbind (save next' (ss_revision s)) (\<lambda>_. sreturn next')))"

definition memory_journal_save :: "swap_session list journal_save" where
  "memory_journal_save s expected_revision saved =
     (if ss_revision s \<noteq> expected_revision + 1 then (Err ME_StaleRevision, saved)
      else (Ok (), saved @ [s]))"

end
