(* ===== verification/Swap_Laws.thy ===== *)
theory Swap_Laws
  imports Swap_Session
begin

text \<open>
  Laws of the swap state machine: the invariant of a session (what each state says of the funding, the
  redemptions and the refunds of the two legs; that no leg is both redeemed and refunded; that a
  second-funding authorization stands only on a currently proven first lock), and that every arm of
  \<open>transition\<close> keeps it. An arm is handled through \<open>kept_by\<close>, the invariant of the pair the arm
  returns, so that the code after the match is treated once.
\<close>

section \<open>The invariant of sessions\<close>

abbreviation legs_clear :: "swap_session \<Rightarrow> bool" where
  "legs_clear s \<equiv> ss_first_redemption s = None \<and> ss_second_redemption s = None \<and>
     ss_first_refund s = None \<and> ss_second_refund s = None"

fun state_inv :: "swap_state \<Rightarrow> swap_session \<Rightarrow> bool" where
  "state_inv FirstFunded s = (ss_first_funding s \<noteq> None \<and> ss_second_funding s = None \<and> legs_clear s)"
| "state_inv SecondFundingPending s = (ss_first_funding s \<noteq> None \<and> ss_second_funding s = None \<and> legs_clear s)"
| "state_inv BothFunded s = (ss_first_funding s \<noteq> None \<and> ss_second_funding s \<noteq> None \<and> legs_clear s)"
| "state_inv FirstRedeemed s = (ss_first_redemption s \<noteq> None \<and> ss_second_redemption s = None)"
| "state_inv SecretObserved s = (ss_first_redemption s \<noteq> None \<and> ss_second_redemption s = None \<and> ss_first_refund s = None)"
| "state_inv SecondRedeemed s = (ss_second_redemption s \<noteq> None)"
| "state_inv Completed s = (ss_second_redemption s \<noteq> None)"
| "state_inv RefundEligible s = (ss_first_funding s \<noteq> None \<and> ss_second_redemption s = None)"
| "state_inv RefundBroadcast s = (ss_first_funding s \<noteq> None \<and> ss_second_redemption s = None)"
| "state_inv Refunded s = (ss_first_funding s \<noteq> None \<and> ss_second_redemption s = None \<and> all_funded_legs_settled s)"
| "state_inv Failed s = True"
| "state_inv _ s = (ss_first_funding s = None \<and> ss_second_funding s = None \<and> legs_clear s)"

definition legs_inv :: "swap_session \<Rightarrow> bool" where
  "legs_inv s \<longleftrightarrow>
     (ss_second_funding s \<noteq> None \<longrightarrow> ss_first_funding s \<noteq> None) \<and>
     (ss_first_redemption s \<noteq> None \<longrightarrow> ss_second_funding s \<noteq> None) \<and>
     (ss_second_redemption s \<noteq> None \<longrightarrow> ss_first_redemption s \<noteq> None) \<and>
     (ss_first_refund s \<noteq> None \<longrightarrow> ss_first_funding s \<noteq> None) \<and>
     (ss_second_refund s \<noteq> None \<longrightarrow> ss_second_funding s \<noteq> None) \<and>
     \<not> (ss_first_refund s \<noteq> None \<and> ss_second_redemption s \<noteq> None) \<and>
     \<not> (ss_second_refund s \<noteq> None \<and> ss_first_redemption s \<noteq> None)"

definition authorization_inv :: "swap_session \<Rightarrow> bool" where
  "authorization_inv s \<longleftrightarrow>
     (case ss_second_funding_authorization s of None \<Rightarrow> True | Some a \<Rightarrow>
        ss_state s = SecondFundingPending \<and> ss_first_funding s = Some (sf_first_funding a) \<and>
        \<not> ss_first_funding_revoked s \<and> ss_second_funding s = None \<and> ss_second_module s = sf_module a \<and>
        ss_first_funding_observation_generation s = sf_first_funding_observation_generation a \<and>
        ss_first_funding_confirmed_generation s = Some (sf_first_funding_observation_generation a) \<and>
        \<not> all_zero (sf_id a))"

definition proof_inv :: "swap_session \<Rightarrow> bool" where
  "proof_inv s \<longleftrightarrow>
     (ss_first_funding_revoked s \<longrightarrow> ss_first_funding s \<noteq> None) \<and>
     (\<forall>g. ss_first_funding_confirmed_generation s = Some g \<longrightarrow>
        g = ss_first_funding_observation_generation s \<and> ss_first_funding s \<noteq> None \<and> \<not> ss_first_funding_revoked s)"

definition swap_inv :: "swap_session \<Rightarrow> bool" where
  "swap_inv s \<longleftrightarrow> ss_first_module s \<noteq> ss_second_module s \<and> state_inv (ss_state s) s \<and> legs_inv s \<and>
     proof_inv s \<and> authorization_inv s"

lemma swap_session_new_inv: "swap_session_new i m1 m2 q h t now = Inr s \<Longrightarrow> swap_inv s"
  by (auto simp: swap_session_new_def swap_inv_def legs_inv_def proof_inv_def authorization_inv_def)

lemma finish_simps [simp]:
  "ss_state (finish_transition s n now) = n"
  "ss_second_funding_authorization (finish_transition s n now) =
     (if n \<noteq> SecondFundingPending then None else ss_second_funding_authorization s)"
  "ss_first_funding (finish_transition s n now) = ss_first_funding s"
  "ss_second_funding (finish_transition s n now) = ss_second_funding s"
  "ss_first_redemption (finish_transition s n now) = ss_first_redemption s"
  "ss_second_redemption (finish_transition s n now) = ss_second_redemption s"
  "ss_first_refund (finish_transition s n now) = ss_first_refund s"
  "ss_second_refund (finish_transition s n now) = ss_second_refund s"
  "ss_first_funding_revoked (finish_transition s n now) = ss_first_funding_revoked s"
  "ss_first_funding_observation_generation (finish_transition s n now) = ss_first_funding_observation_generation s"
  "ss_first_funding_confirmed_generation (finish_transition s n now) = ss_first_funding_confirmed_generation s"
  "ss_first_module (finish_transition s n now) = ss_first_module s"
  "ss_second_module (finish_transition s n now) = ss_second_module s"
  "all_funded_legs_settled (finish_transition s n now) = all_funded_legs_settled s"
  by (simp_all add: finish_transition_def all_funded_legs_settled_def)

lemma state_inv_finish [simp]: "state_inv st (finish_transition s n now) = state_inv st s"
  by (cases st) simp_all

lemma legs_inv_finish [simp]: "legs_inv (finish_transition s n now) = legs_inv s"
  by (simp add: legs_inv_def)

lemma proof_inv_finish [simp]: "proof_inv (finish_transition s n now) = proof_inv s"
  by (simp add: proof_inv_def)

definition kept_by :: "(swap_session \<times> swap_state) \<Rightarrow> bool" where
  "kept_by r = (case r of (s', n) \<Rightarrow> ss_first_module s' \<noteq> ss_second_module s' \<and> state_inv n s' \<and> legs_inv s' \<and>
     proof_inv s' \<and> authorization_inv (finish_transition s' n 0))"

lemma finish_inv: "kept_by (s', n) \<Longrightarrow> swap_inv (finish_transition s' n now)"
  by (auto simp: kept_by_def swap_inv_def authorization_inv_def split: option.splits if_splits)

lemmas inv_parts = swap_inv_def kept_by_def legs_inv_def proof_inv_def authorization_inv_def

lemma move_from_Ok: "move_from a b s = Inr r \<longleftrightarrow> ss_state s = a \<and> r = (s, b)"
  by (auto simp: move_from_def)

lemma if_Ok_eq: "((if b then Inr x else Inl e) = Inr r) \<longleftrightarrow> b \<and> r = x"
  by auto

lemma keptI:
  assumes "ss_first_module s \<noteq> ss_second_module s" "state_inv n s" "legs_inv s" "proof_inv s"
    "n \<noteq> SecondFundingPending \<or> ss_second_funding_authorization s = None"
  shows "kept_by (s, n)"
  using assms by (auto simp: kept_by_def authorization_inv_def)

lemma swap_invD:
  assumes "swap_inv s"
  shows "ss_first_module s \<noteq> ss_second_module s" "state_inv (ss_state s) s" "legs_inv s" "proof_inv s"
    "ss_state s \<noteq> SecondFundingPending \<Longrightarrow> ss_second_funding_authorization s = None"
  using assms by (auto simp: swap_inv_def authorization_inv_def split: option.splits)

lemma state_inv_observed:
  "state_inv st (s\<lparr>ss_first_funding_observation_generation := g, ss_first_funding_confirmed_generation := c,
     ss_second_funding_authorization := a\<rparr>) = state_inv st s"
  "state_inv st (s\<lparr>ss_first_funding_revoked := r, ss_first_funding_confirmed_generation := c,
     ss_second_funding_authorization := a\<rparr>) = state_inv st s"
  by (cases st; simp add: all_funded_legs_settled_def)+

lemma observation_started_kept:
  assumes inv: "swap_inv s" and "on_observation_started s m g = Inr r"
  shows "kept_by r"
proof -
  from assms(2) have g: "ss_state s \<in> observable_states"
    and r: "r = (s\<lparr>ss_first_funding_observation_generation := g, ss_first_funding_confirmed_generation := None,
                 ss_second_funding_authorization := None\<rparr>, ss_state s)"
    unfolding on_observation_started_def if_Ok_eq by blast+
  note d = swap_invD [OF inv]
  show ?thesis unfolding r
    by (rule keptI) (use d(1-4) in \<open>simp_all add: state_inv_observed legs_inv_def proof_inv_def\<close>)
qed

lemma recorded_legs: "legs_inv s \<Longrightarrow> legs_inv (record_first_funding s e c)"
  by (simp add: legs_inv_def record_first_funding_def)

lemma recorded_proof: "c = None \<or> c = Some (ss_first_funding_observation_generation s) \<Longrightarrow> proof_inv (record_first_funding s e c)"
  by (auto simp: proof_inv_def record_first_funding_def)

lemma recorded_modules:
  "ss_first_module (record_first_funding s e c) = ss_first_module s"
  "ss_second_module (record_first_funding s e c) = ss_second_module s"
  "ss_second_funding_authorization (record_first_funding s e c) = None"
  by (simp_all add: record_first_funding_def)

lemma refreshed_kept:
  assumes inv: "swap_inv s" and st: "ss_state s \<in> refreshable_states"
    and c: "c = None \<or> c = Some (ss_first_funding_observation_generation s)"
    and g: "ss_second_funding s = None \<or> ss_second_redemption s = None"
  shows "kept_by (record_first_funding s e c, reopened (ss_state s))"
proof (rule keptI)
  note d = swap_invD [OF inv]
  have "ss_second_redemption s = None" using g d(3) by (auto simp: legs_inv_def)
  with d(2) st show "state_inv (reopened (ss_state s)) (record_first_funding s e c)"
    by (cases "ss_state s") (simp_all add: record_first_funding_def reopened_def refreshable_states_def)
qed (use swap_invD [OF inv] c in \<open>simp_all add: recorded_legs recorded_proof recorded_modules\<close>)

lemma first_funded_kept:
  assumes inv: "swap_inv s" and c: "c = None \<or> c = Some (ss_first_funding_observation_generation s)"
    and g: "ss_state s = FirstFundingPending \<or> ss_state s = Failed \<and> ss_first_funding s = None \<and> ss_second_funding s = None"
  shows "kept_by (record_first_funding s e c, FirstFunded)"
proof (rule keptI)
  note d = swap_invD [OF inv]
  have "ss_second_funding s = None \<and> legs_clear s" using g d(2,3) by (auto simp: legs_inv_def)
  then show "state_inv FirstFunded (record_first_funding s e c)" by (simp add: record_first_funding_def)
qed (use swap_invD [OF inv] c in \<open>simp_all add: recorded_legs recorded_proof recorded_modules\<close>)

lemma kept_reason: "kept_by (s\<lparr>ss_failure_reason := x\<rparr>, FirstFunded) = kept_by (s, FirstFunded)"
  by (simp add: inv_parts)

lemma first_funding_kept: "swap_inv s \<Longrightarrow> on_first_funding s e = Inr r \<Longrightarrow> kept_by r"
  unfolding on_first_funding_def
  by (auto split: if_splits intro!: refreshed_kept first_funded_kept simp: kept_reason simp del: not_None_eq)

lemma first_funding_at_generation_kept: "swap_inv s \<Longrightarrow> on_first_funding_at_generation s e m g = Inr r \<Longrightarrow> kept_by r"
  unfolding on_first_funding_at_generation_def
  by (auto split: if_splits intro!: refreshed_kept first_funded_kept simp: kept_reason simp del: not_None_eq)

lemma first_funding_invalidated_kept:
  assumes inv: "swap_inv s" and i: "on_first_funding_invalidated s e = Inr r"
  shows "kept_by r"
proof (cases "ss_state s = FirstFunded")
  case True
  with i have r: "r = (s\<lparr>ss_first_funding := None, ss_first_funding_revoked := False,
      ss_first_funding_confirmed_generation := None, ss_second_funding_authorization := None\<rparr>, FirstFundingPending)"
    by (auto simp: on_first_funding_invalidated_def split: if_splits)
  show ?thesis unfolding r
    by (rule keptI) (use swap_invD [OF inv] True in \<open>simp_all add: legs_inv_def proof_inv_def\<close>)
next
  case False
  with i have g: "ss_first_funding s \<noteq> None" "ss_second_redemption s = None" "ss_first_refund s = None"
    and r: "r = (s\<lparr>ss_first_funding_revoked := True, ss_first_funding_confirmed_generation := None,
                 ss_second_funding_authorization := None\<rparr>,
               if ss_state s = Refunded then RefundEligible else ss_state s)"
    unfolding on_first_funding_invalidated_def by (auto split: if_splits)
  have "state_inv (if ss_state s = Refunded then RefundEligible else ss_state s) s"
    using swap_invD(2) [OF inv] g by auto
  then show ?thesis unfolding r
    by (intro keptI) (use swap_invD [OF inv] g in \<open>simp_all add: state_inv_observed legs_inv_def proof_inv_def\<close>)
qed

lemma authorization_issued_kept:
  assumes inv: "swap_inv s" and a: "on_authorization_issued s a now = Inr r"
  shows "kept_by r"
  using a swap_invD [OF inv] unfolding on_authorization_issued_def if_Ok_eq
  by (elim conjE) (simp add: kept_by_def legs_inv_def proof_inv_def authorization_inv_def)

lemma chain_refund_kept:
  assumes inv: "swap_inv s" and c: "on_chain_refund s m e = Inr r"
  shows "kept_by r"
proof -
  let ?s = "(if m = ss_first_module s then s\<lparr>ss_first_refund := Some e\<rparr>
             else s\<lparr>ss_second_refund := Some e\<rparr>)\<lparr>ss_refund := Some e\<rparr>"
  from c have g: "can_record_refund_for_module s m"
    and r: "r = (?s, if all_funded_legs_settled ?s then Refunded else RefundEligible)"
    unfolding on_chain_refund_def Let_def if_Ok_eq by blast+
  have l: "legs_inv s" using swap_invD [OF inv] by blast
  from g have g': "m = ss_first_module s \<and> ss_first_funding s \<noteq> None \<and> ss_first_refund s = None \<and> ss_second_redemption s = None \<or>
      m \<noteq> ss_first_module s \<and> ss_second_funding s \<noteq> None \<and> ss_second_refund s = None \<and> ss_first_redemption s = None"
    by (auto simp: can_record_refund_for_module_def split: if_splits)
  then have f: "ss_first_funding s \<noteq> None" "ss_second_redemption s = None" and l': "legs_inv ?s"
    using l by (auto simp: legs_inv_def)
  show ?thesis unfolding r
    by (rule keptI) (use swap_invD [OF inv] f l' in \<open>simp_all add: proof_inv_def\<close>)
qed

lemma terminal_failure_kept:
  assumes inv: "swap_inv s" and c: "on_terminal_failure s e = Inr r"
  shows "kept_by r"
proof -
  from c have r: "r = (s\<lparr>ss_failure_reason := Some e\<rparr>, Failed)" by (auto simp: on_terminal_failure_def split: if_splits)
  show ?thesis unfolding r by (rule keptI) (use swap_invD [OF inv] in \<open>simp_all add: legs_inv_def proof_inv_def\<close>)
qed

lemma next_state_kept:
  assumes inv: "swap_inv s" and n: "next_state s e now = Inr r"
  shows "kept_by r"
proof (cases e)
  case (FirstFundingObservationStarted m g)
  with assms show ?thesis by (auto intro: observation_started_kept)
next
  case (FirstFundingConfirmed x)
  with assms show ?thesis by (auto intro: first_funding_kept)
next
  case (FirstFundingConfirmedAtGeneration x m g)
  with assms show ?thesis by (auto intro: first_funding_at_generation_kept)
next
  case (FirstFundingInvalidated x)
  with assms show ?thesis by (auto intro: first_funding_invalidated_kept)
next
  case (SecondFundingAuthorizationIssued a)
  with assms show ?thesis by (auto intro: authorization_issued_kept)
next
  case (ChainRefundConfirmed m x)
  with assms show ?thesis by (auto intro: chain_refund_kept)
next
  case (TerminalFailure x)
  with assms show ?thesis by (auto intro: terminal_failure_kept)
qed (use n swap_invD [OF inv] in \<open>auto simp: move_from_Ok if_Ok_eq legs_inv_def proof_inv_def all_funded_legs_settled_def
        simp del: not_None_eq split: if_splits intro!: keptI\<close>)

lemma transition_Ok:
  assumes "transition s e now = Inr s'"
  obtains t n where "next_state s e now = Inr (t, n)" "s' = finish_transition t n now"
  using assms by (auto simp: transition_def)

lemma transition_inv: "swap_inv s \<Longrightarrow> transition s e now = Inr s' \<Longrightarrow> swap_inv s'"
  by (erule transition_Ok) (auto dest: next_state_kept intro: finish_inv)

end
