(* ===== verification/Swap_Runs.thy ===== *)
theory Swap_Runs
  imports Swap_Laws
begin

text \<open>
  Runs of the swap state machine. A step is one accepted piece of evidence together with the revision
  \<open>apply\<close> gives it; a session starts as \<open>SwapSession::new\<close> makes it, or at the frozen terms of an
  accepted agreement. The lemmas say what a step keeps (identity, terms, timeouts, settled legs) and what
  it never undoes (the observation generation).
\<close>

section \<open>Steps and starts\<close>

inductive swap_step :: "swap_session \<Rightarrow> swap_session \<Rightarrow> bool" where
  applied: "transition s e now = Inr t \<Longrightarrow> checked_add_u64 (ss_revision s) 1 = Some r \<Longrightarrow>
     swap_step s (t\<lparr>ss_revision := r\<rparr>)"

inductive_cases swap_stepE: "swap_step s t"

inductive session_start :: "swap_session \<Rightarrow> bool" where
  new: "swap_session_new i m1 m2 q h tp now = Inr s \<Longrightarrow> session_start s"
| accepted: "swap_session_new i m1 m2 q h tp now = Inr s \<Longrightarrow>
     session_start (s\<lparr>ss_state := TermsFrozen, ss_revision := 1, ss_accepted_shakescape_terms := Some terms,
       ss_last_verified_at_unix := later\<rparr>)"

lemma swap_inv_frame [simp]:
  "swap_inv (s\<lparr>ss_revision := r\<rparr>) = swap_inv s"
proof -
  have "state_inv st (s\<lparr>ss_revision := r\<rparr>) = state_inv st s" for st
    by (cases st) (simp_all add: all_funded_legs_settled_def)
  then show ?thesis by (simp add: inv_parts split: option.split)
qed

lemma new_session_fields:
  assumes "swap_session_new i m1 m2 q h tp now = Inr s"
  shows "ss_state s = OfferPublished" "ss_revision s = 0" "ss_timeouts s = tp" "timeouts_validate tp now = Inr ()"
    "quote_validate q now = Inr ()" "ss_first_module s \<noteq> ss_second_module s" "ss_first_funding s = None"
    "ss_second_funding s = None" "legs_clear s" "ss_first_funding_revoked s = False"
    "ss_first_funding_confirmed_generation s = None" "ss_second_funding_authorization s = None"
    "ss_first_funding_observation_generation s = 0" "ss_refund s = None"
  using assms by (auto simp: swap_session_new_def split: if_splits)

lemma session_start_inv: "session_start s \<Longrightarrow> swap_inv s"
  by (erule session_start.cases)
    (auto simp: swap_session_new_inv swap_inv_def legs_inv_def proof_inv_def authorization_inv_def
      new_session_fields)

lemma swap_step_inv: "swap_step s t \<Longrightarrow> swap_inv s \<Longrightarrow> swap_inv t"
  by (erule swap_stepE) (simp add: transition_inv)

lemma swap_steps_inv: "swap_step\<^sup>*\<^sup>* s t \<Longrightarrow> swap_inv s \<Longrightarrow> swap_inv t"
  by (induction rule: rtranclp_induct) (auto intro: swap_step_inv)

lemma reachable_inv: "session_start s \<Longrightarrow> swap_step\<^sup>*\<^sup>* s t \<Longrightarrow> swap_inv t"
  by (blast intro: swap_steps_inv session_start_inv)

section \<open>What a step keeps\<close>

definition frozen_terms :: "swap_session \<Rightarrow> _" where
  "frozen_terms s = (ss_id s, ss_first_module s, ss_second_module s, ss_offered s, ss_received s,
     ss_terms_id s, ss_hashlock s, ss_accepted_shakescape_terms s, ss_timeouts s)"

lemma next_state_frame:
  assumes "next_state s e now = Inr (t, n)"
  shows "frozen_terms t = frozen_terms s \<and> ss_revision t = ss_revision s \<and>
    ss_first_funding_observation_generation s \<le> ss_first_funding_observation_generation t"
  using assms
  by (cases e) (auto simp: frozen_terms_def move_from_Ok if_Ok_eq on_observation_started_def on_first_funding_def
      on_first_funding_at_generation_def on_first_funding_invalidated_def on_authorization_issued_def
      on_chain_refund_def on_terminal_failure_def record_first_funding_def Let_def
      split: if_splits)

lemma frozen_terms_finish [simp]:
  "frozen_terms (finish_transition s n now) = frozen_terms s"
  "ss_revision (finish_transition s n now) = ss_revision s"
  "frozen_terms (s\<lparr>ss_revision := r\<rparr>) = frozen_terms s"
  by (simp_all add: frozen_terms_def finish_transition_def)

lemma transition_frame:
  assumes "transition s e now = Inr t"
  shows "frozen_terms t = frozen_terms s" "ss_revision t = ss_revision s"
    "ss_first_funding_observation_generation s \<le> ss_first_funding_observation_generation t"
  using assms by (auto elim!: transition_Ok dest!: next_state_frame)

lemma swap_step_frame:
  assumes "swap_step s t"
  shows "frozen_terms t = frozen_terms s" "ss_revision t = ss_revision s + 1"
    "ss_first_funding_observation_generation s \<le> ss_first_funding_observation_generation t"
  using assms by (auto elim!: swap_stepE simp: transition_frame split: if_splits)

lemma swap_steps_frame:
  assumes "swap_step\<^sup>*\<^sup>* s t"
  shows "frozen_terms t = frozen_terms s \<and> ss_revision s \<le> ss_revision t \<and>
    ss_first_funding_observation_generation s \<le> ss_first_funding_observation_generation t"
  using assms
proof (induction rule: rtranclp_induct)
  case (step y z)
  from swap_step_frame [OF step(2)] step(3) show ?case by simp
qed simp

text \<open>
  What a leg has been paid with is never taken back: a redemption, or the refund of the second leg, is
  written once; a settled leg stays settled.
\<close>

definition settlement_kept :: "swap_session \<Rightarrow> swap_session \<Rightarrow> bool" where
  "settlement_kept s t \<longleftrightarrow>
     (ss_first_redemption s \<noteq> None \<longrightarrow> ss_first_redemption t = ss_first_redemption s) \<and>
     (ss_second_redemption s \<noteq> None \<longrightarrow> ss_second_redemption t = ss_second_redemption s) \<and>
     (ss_second_refund s \<noteq> None \<longrightarrow> ss_second_refund t = ss_second_refund s) \<and>
     (ss_first_refund s \<noteq> None \<longrightarrow> ss_first_refund t \<noteq> None) \<and>
     (ss_second_funding s \<noteq> None \<longrightarrow> ss_second_funding t = ss_second_funding s)"

lemma settlement_kept_refl [simp]: "settlement_kept s s"
  by (simp add: settlement_kept_def)

lemma next_state_settlement:
  assumes inv: "swap_inv s" and n: "next_state s e now = Inr (t, n)"
  shows "settlement_kept s t"
proof -
  have st: "state_inv (ss_state s) s" by (rule swap_invD [OF inv])
  show ?thesis
    using n st
    by (cases e) (auto simp: settlement_kept_def move_from_Ok if_Ok_eq on_observation_started_def on_first_funding_def
      on_first_funding_at_generation_def on_first_funding_invalidated_def on_authorization_issued_def
      on_chain_refund_def on_terminal_failure_def record_first_funding_def can_record_refund_for_module_def Let_def
      simp del: not_None_eq split: if_splits)
qed

lemma swap_step_settlement:
  assumes "swap_inv s" "swap_step s t"
  shows "settlement_kept s t"
proof -
  from assms(2) obtain e now u r where u: "transition s e now = Inr u" "t = u\<lparr>ss_revision := r\<rparr>"
    by (auto elim!: swap_stepE)
  from u(1) obtain v n where v: "next_state s e now = Inr (v, n)" "u = finish_transition v n now" by (rule transition_Ok)
  from next_state_settlement [OF assms(1) v(1)] show ?thesis by (simp add: u(2) v(2) settlement_kept_def)
qed

lemma settlement_kept_trans: "settlement_kept s t \<Longrightarrow> settlement_kept t u \<Longrightarrow> settlement_kept s u"
  unfolding settlement_kept_def by (elim conjE, intro conjI impI) (simp_all del: not_None_eq)

lemma swap_steps_settlement: "swap_step\<^sup>*\<^sup>* s t \<Longrightarrow> swap_inv s \<Longrightarrow> settlement_kept s t"
proof (induction rule: rtranclp_induct)
  case (step y z)
  then show ?case by (blast intro: settlement_kept_trans swap_step_settlement swap_steps_inv)
qed simp

lemma settled_kept:
  assumes "swap_step\<^sup>*\<^sup>* s t" "swap_inv s" "funded_module_is_settled s m"
  shows "funded_module_is_settled t m"
proof -
  have k: "settlement_kept s t" and i: "legs_inv t" and f: "frozen_terms t = frozen_terms s"
    using assms swap_steps_settlement swap_steps_inv swap_invD(3) swap_steps_frame by blast+
  from f have "ss_first_module t = ss_first_module s" "ss_second_module t = ss_second_module s"
    by (auto simp: frozen_terms_def)
  moreover have "ss_first_refund t \<noteq> None \<or> ss_second_redemption t \<noteq> None \<Longrightarrow> ss_first_funding t \<noteq> None"
    "ss_second_refund t \<noteq> None \<or> ss_first_redemption t \<noteq> None \<Longrightarrow> ss_second_funding t \<noteq> None"
    using i unfolding legs_inv_def by blast+
  moreover have "ss_first_refund s \<noteq> None \<or> ss_second_redemption s \<noteq> None \<Longrightarrow> ss_first_refund t \<noteq> None \<or> ss_second_redemption t \<noteq> None"
    "ss_second_refund s \<noteq> None \<or> ss_first_redemption s \<noteq> None \<Longrightarrow> ss_second_refund t \<noteq> None \<or> ss_first_redemption t \<noteq> None"
    using k unfolding settlement_kept_def by metis+
  ultimately show ?thesis using assms(3)
    unfolding funded_module_is_settled_def by (simp del: not_None_eq split: if_splits)
qed

end
