(* ===== verification/Swap_Journal.thy ===== *)
theory Swap_Journal
  imports Swap_Runs
begin

text \<open>
  The contract between a session and its journal (the \<open>SwapJournal\<close> trait of
  hns-wallet-market/src/lib.rs), and \<open>apply_all\<close>, the loop that applies the evidence of one chain
  observation. A journal that writes a session at its expected revision, and that a refused write leaves
  as it was, always holds a session that the state machine reached: an interruption between two pieces
  of evidence loses nothing and invents nothing.
\<close>

fun apply_all ::
  "'j journal_save \<Rightarrow> swap_session \<Rightarrow> verified_evidence list \<Rightarrow> u64 \<Rightarrow> ('j, market_error, swap_session) step" where
  "apply_all save s [] now_unix = sreturn s"
| "apply_all save s (e # es) now_unix =
     sbind (apply_evidence save s e now_unix) (\<lambda>t. apply_all save t es now_unix)"

lemma apply_evidence_Ok:
  "apply_evidence save s e now j = (Inr t, j') \<longleftrightarrow>
     (\<exists>u. transition s e now = Inr u \<and> ss_revision s + 1 < 2 ^ 64 \<and>
        t = u\<lparr>ss_revision := ss_revision s + 1\<rparr> \<and> save t (ss_revision s) j = (Inr (), j'))"
  by (auto simp: apply_evidence_def sbind_Inr Let_def)

lemma apply_evidence_Err:
  assumes "apply_evidence save s e now j = (Inl err, j')"
  obtains (refused) "j' = j"
  | (unsaved) u where "save (u\<lparr>ss_revision := ss_revision s + 1\<rparr>) (ss_revision s) j = (Inl err, j')"
  using assms by (auto simp: apply_evidence_def sbind_Inl Let_def)

lemma apply_evidence_step: "apply_evidence save s e now j = (Inr t, j') \<Longrightarrow> swap_step s t"
  by (auto simp: apply_evidence_Ok intro!: swap_step.applied)

lemma apply_all_steps: "apply_all save s es now j = (Inr t, j') \<Longrightarrow> swap_step\<^sup>*\<^sup>* s t"
  by (induction es arbitrary: s j)
    (auto simp: sbind_Inr dest: apply_evidence_step intro: converse_rtranclp_into_rtranclp)

locale swap_journal =
  fixes invar :: "'j \<Rightarrow> bool" and save :: "'j journal_save" and current :: "'j \<Rightarrow> swap_session option"
  assumes save_Ok: "invar j \<Longrightarrow> ss_revision s = r + 1 \<Longrightarrow> save s r j = (Inr (), j') \<Longrightarrow>
      invar j' \<and> current j' = Some s"
    and save_Err: "invar j \<Longrightarrow> ss_revision s = r + 1 \<Longrightarrow> save s r j = (Inl e, j') \<Longrightarrow>
      invar j' \<and> current j' = current j"
begin

lemma apply_current:
  assumes "invar j" "apply_evidence save s e now j = (Inr t, j')"
  shows "invar j' \<and> current j' = Some t"
  using assms save_Ok unfolding apply_evidence_Ok by force

lemma apply_failed:
  assumes "invar j" "apply_evidence save s e now j = (Inl err, j')"
  shows "invar j' \<and> current j' = current j"
  using assms(2)
proof (cases rule: apply_evidence_Err)
  case (unsaved u)
  then show ?thesis using save_Err [OF assms(1)] by force
qed (use assms(1) in simp)

lemma journal_follows:
  assumes "invar j" "current j = Some s" "apply_all save s es now j = (r, j')"
  shows "invar j' \<and> (\<exists>t. swap_step\<^sup>*\<^sup>* s t \<and> current j' = Some t \<and>
    (case r of Inl _ \<Rightarrow> ss_revision t < ss_revision s + length es
     | Inr u \<Rightarrow> u = t \<and> ss_revision t = ss_revision s + length es))"
  using assms
proof (induction es arbitrary: s j)
  case (Cons e es)
  obtain r1 j1 where a: "apply_evidence save s e now j = (r1, j1)" by fastforce
  show ?case
  proof (cases r1)
    case (Inl err)
    with Cons.prems(3) a have "r = Inl err" "j' = j1" by (simp_all add: sbind_def)
    with apply_failed [OF Cons.prems(1)] a Inl Cons.prems(2) show ?thesis by auto
  next
    case (Inr t)
    with a have at: "apply_evidence save s e now j = (Inr t, j1)" by simp
    note st = apply_evidence_step [OF at]
    from Cons.prems(3) at have rest: "apply_all save t es now j1 = (r, j')" by (simp add: sbind_def)
    from Cons.IH [OF _ _ rest] apply_current [OF Cons.prems(1) at] obtain u where u: "invar j'"
      "swap_step\<^sup>*\<^sup>* t u" "current j' = Some u"
      "case r of Inl _ \<Rightarrow> ss_revision u < ss_revision t + length es
       | Inr v \<Rightarrow> v = u \<and> ss_revision u = ss_revision t + length es" by auto
    have "swap_step\<^sup>*\<^sup>* s u" using st u(2) by (rule converse_rtranclp_into_rtranclp)
    with u(1,3,4) swap_step_frame(2) [OF st] show ?thesis by (auto split: sum.splits)
  qed
qed (auto split: sum.splits)

end

text \<open>The journal that keeps every saved session in memory.\<close>

definition memory_current :: "swap_session list \<Rightarrow> swap_session option" where
  "memory_current saved = (if saved = [] then None else Some (last saved))"

interpretation memory_journal: swap_journal "\<lambda>_. True" memory_journal_save memory_current
  by unfold_locales (auto simp: memory_journal_save_def memory_current_def split: if_splits)

end
