(* ===== verification/Swap_Properties.thy ===== *)
theory Swap_Properties
  imports Swap_Journal
begin

text \<open>
  Properties of one swap session over every sequence of evidence: neither leg is paid out twice, a
  completed swap has exchanged both legs, the authority to fund the second chain stands on a current
  proof of the first lock, locked funds stay recoverable, and stale observations are refused.
\<close>

section \<open>A sample session\<close>

definition sample_quote :: verified_quote where
  "sample_quote = \<lparr>vq_terms_id = [5], vq_offered = \<lparr>am_asset = Btc, am_base_units = 7\<rparr>,
     vq_received = \<lparr>am_asset = Hns, am_base_units = 9\<rparr>, vq_valid_until_unix = 50\<rparr>"

definition sample_swap :: swap_session where
  "sample_swap = \<lparr>ss_id = [1], ss_revision = 1, ss_state = TermsFrozen, ss_first_module = Bitcoin,
     ss_second_module = Handshake, ss_offered = \<lparr>am_asset = Btc, am_base_units = 7\<rparr>,
     ss_received = \<lparr>am_asset = Hns, am_base_units = 9\<rparr>, ss_terms_id = [5], ss_hashlock = [6],
     ss_accepted_shakescape_terms = Some [9],
     ss_timeouts = \<lparr>tp_first_chain_refund_at = 100, tp_second_chain_refund_at = 50, tp_minimum_safety_margin = 50\<rparr>,
     ss_first_funding = None, ss_first_funding_revoked = False,
     ss_first_funding_observation_generation = 0, ss_first_funding_confirmed_generation = None,
     ss_second_funding_authorization = None, ss_second_funding = None, ss_first_redemption = None,
     ss_second_redemption = None, ss_refund = None, ss_first_refund = None, ss_second_refund = None,
     ss_last_verified_at_unix = 10, ss_failure_reason = None\<rparr>"

lemma sample_swap_start: "session_start sample_swap"
proof -
  let ?t = "\<lparr>tp_first_chain_refund_at = 100, tp_second_chain_refund_at = 50, tp_minimum_safety_margin = 50\<rparr>"
  obtain s where s: "swap_session_new [1] Bitcoin Handshake sample_quote [6] ?t 10 = Inr s"
    by (simp add: swap_session_new_def quote_validate_def timeouts_validate_def sample_quote_def checked_add_w_def)
  then have e: "sample_swap = s\<lparr>ss_state := TermsFrozen, ss_revision := 1, ss_accepted_shakescape_terms := Some [9],
       ss_last_verified_at_unix := 10\<rparr>"
    by (auto simp: swap_session_new_def quote_validate_def timeouts_validate_def sample_quote_def
        checked_add_w_def sample_swap_def)
  show ?thesis unfolding e by (rule session_start.accepted [OF s])
qed

text \<open>The evidence of an undisturbed swap whose first chain is observed at generation 1.\<close>

definition settle_path :: "swap_session \<Rightarrow> object_hash \<Rightarrow> object_hash \<Rightarrow> object_hash \<Rightarrow> object_hash \<Rightarrow> verified_evidence list" where
  "settle_path s f1 f2 r1 r2 = [RefundsValidated, FundingReady, FirstFundingObservationStarted (ss_first_module s) 1,
     FirstFundingConfirmedAtGeneration f1 (ss_first_module s) 1, SecondFundingReady, SecondFundingConfirmed f2,
     FirstRedemptionConfirmed r1, SecretExtracted (ss_hashlock s), SecondRedemptionConfirmed r2, CompletionValidated]"

lemmas run_simps = apply_evidence_def memory_journal_save_def sbind_def transition_def finish_transition_def
  move_from_def on_observation_started_def
  on_first_funding_at_generation_def on_authorization_issued_def on_chain_refund_def on_first_funding_def
  on_terminal_failure_def on_first_funding_invalidated_def
  observable_states_def refreshable_states_def record_first_funding_def all_funded_legs_settled_def
  can_record_refund_for_module_def reopened_def Let_def checked_add_w_def

abbreviation sample_path :: "verified_evidence list" where
  "sample_path \<equiv> settle_path sample_swap [21] [22] [23] [24]"

definition sample_authorization :: second_funding_authorization where
  "sample_authorization = \<lparr>sf_id = [7], sf_module = Handshake, sf_first_funding = [21],
     sf_first_funding_observation_generation = 1, sf_expires_at_unix = 40\<rparr>"

definition swap_authorized :: swap_session where
  "swap_authorized = sample_swap\<lparr>ss_revision := 7, ss_state := SecondFundingPending, ss_first_funding := Some [21],
     ss_first_funding_observation_generation := 1, ss_first_funding_confirmed_generation := Some 1,
     ss_second_funding_authorization := Some sample_authorization, ss_last_verified_at_unix := 12\<rparr>"

definition swap_redeemed :: swap_session where
  "swap_redeemed = sample_swap\<lparr>ss_revision := 8, ss_state := FirstRedeemed, ss_first_funding := Some [21],
     ss_first_funding_observation_generation := 1, ss_first_funding_confirmed_generation := Some 1,
     ss_second_funding := Some [22], ss_first_redemption := Some [23], ss_last_verified_at_unix := 12\<rparr>"

definition swap_completed :: swap_session where
  "swap_completed = sample_swap\<lparr>ss_revision := 11, ss_state := Completed, ss_first_funding := Some [21],
     ss_first_funding_observation_generation := 1, ss_first_funding_confirmed_generation := Some 1,
     ss_second_funding := Some [22], ss_first_redemption := Some [23], ss_second_redemption := Some [24],
     ss_last_verified_at_unix := 12\<rparr>"

definition run_on :: "swap_session \<Rightarrow> verified_evidence list \<Rightarrow> (market_error, swap_session) result" where
  "run_on s es = fst (apply_all memory_journal_save s es 12 [])"

lemma run_on_steps: "run_on s es = Inr t \<Longrightarrow> swap_step\<^sup>*\<^sup>* s t"
  unfolding run_on_def by (metis apply_all_steps prod.collapse)

lemma authorized_steps: "swap_step\<^sup>*\<^sup>* sample_swap swap_authorized"
  by (rule run_on_steps [of _ "take 5 sample_path @ [SecondFundingAuthorizationIssued sample_authorization]"])
    (simp add: run_on_def settle_path_def sample_swap_def swap_authorized_def sample_authorization_def run_simps all_zero_def)

lemma redeemed_steps: "swap_step\<^sup>*\<^sup>* sample_swap swap_redeemed"
  by (rule run_on_steps [of _ "take 7 sample_path"])
    (simp add: run_on_def settle_path_def sample_swap_def swap_redeemed_def run_simps)

lemma completed_steps: "swap_step\<^sup>*\<^sup>* swap_redeemed swap_completed"
  by (rule run_on_steps [of _ "drop 7 sample_path"])
    (simp add: run_on_def settle_path_def sample_swap_def swap_redeemed_def swap_completed_def run_simps)

section \<open>Settlement\<close>

text \<open>C3. No leg of a swap is paid out twice. Whatever evidence a session has seen since it started, the
  lock on the first chain is never both refunded and redeemed, and neither is the lock on the second
  chain; a redemption that has been recorded is never replaced, and a leg that is settled stays settled
  through any further evidence.
\<close>

theorem swap_pays_each_leg_once:
  assumes "session_start s0" "swap_step\<^sup>*\<^sup>* s0 s" "swap_step\<^sup>*\<^sup>* s t"
  shows "\<not> (ss_first_refund s \<noteq> None \<and> ss_second_redemption s \<noteq> None) \<and>
    \<not> (ss_second_refund s \<noteq> None \<and> ss_first_redemption s \<noteq> None) \<and>
    (\<forall>e. ss_first_redemption s = Some e \<longrightarrow> ss_first_redemption t = Some e) \<and>
    (\<forall>e. ss_second_redemption s = Some e \<longrightarrow> ss_second_redemption t = Some e) \<and>
    (\<forall>m. funded_module_is_settled s m \<longrightarrow> funded_module_is_settled t m)"
proof -
  have i: "swap_inv s" by (rule reachable_inv [OF assms(1,2)])
  have k: "settlement_kept s t" by (rule swap_steps_settlement [OF assms(3) i])
  show ?thesis
  proof (intro conjI allI impI)
    show "\<not> (ss_first_refund s \<noteq> None \<and> ss_second_redemption s \<noteq> None)"
      "\<not> (ss_second_refund s \<noteq> None \<and> ss_first_redemption s \<noteq> None)"
      using swap_invD(3) [OF i] unfolding legs_inv_def by blast+
  qed (use k settled_kept [OF assms(3) i] in \<open>simp_all add: settlement_kept_def\<close>)
qed

theorem swap_pays_each_leg_once_witness:
  "ss_first_redemption swap_completed = Some [23] \<and> funded_module_is_settled swap_completed Handshake"
proof -
  have "ss_first_redemption swap_redeemed = Some [23]" "funded_module_is_settled swap_redeemed Handshake"
    by (simp_all add: swap_redeemed_def funded_module_is_settled_def sample_swap_def)
  with swap_pays_each_leg_once [OF sample_swap_start redeemed_steps completed_steps] show ?thesis by blast
qed

text \<open>C31. A swap ends fairly. A session that reached \<open>Completed\<close> has both legs funded and both legs redeemed, no
  refund was taken, and nothing is accepted afterwards; one that reached \<open>Refunded\<close> has every funded leg
  settled, the first leg by its refund.
\<close>

theorem swap_ends_fairly:
  assumes "session_start s0" "swap_step\<^sup>*\<^sup>* s0 s"
  shows "(ss_state s = Completed \<longrightarrow>
      module_is_funded s (ss_first_module s) \<and> module_is_funded s (ss_second_module s) \<and>
      ss_first_redemption s \<noteq> None \<and> ss_second_redemption s \<noteq> None \<and> \<not> has_confirmed_refund s \<and>
      (\<forall>e now. transition s e now = Err ME_InvalidTransition)) \<and>
    (ss_state s = Refunded \<longrightarrow> all_funded_legs_settled s \<and> ss_first_refund s \<noteq> None)"
proof -
  have i: "swap_inv s" by (rule reachable_inv [OF assms])
  note d = swap_invD [OF i]
  have final: "transition s e now = Err ME_InvalidTransition" if "ss_state s = Completed" for e now
    using that by (cases e) (simp_all add: run_simps)
  have c: "ss_state s = Completed \<Longrightarrow> ss_second_redemption s \<noteq> None"
    and r: "ss_state s = Refunded \<Longrightarrow> ss_first_funding s \<noteq> None \<and> ss_second_redemption s = None \<and> all_funded_legs_settled s"
    using d(2) by auto
  have l: "ss_second_redemption s \<noteq> None \<Longrightarrow> ss_first_redemption s \<noteq> None \<and> ss_second_funding s \<noteq> None \<and>
      ss_first_funding s \<noteq> None \<and> ss_first_refund s = None \<and> ss_second_refund s = None"
    using d(3) unfolding legs_inv_def by blast
  show ?thesis
  proof (intro conjI impI)
    assume "ss_state s = Refunded"
    from r [OF this] show "ss_first_refund s \<noteq> None" "all_funded_legs_settled s"
      by (auto simp: all_funded_legs_settled_def)
  qed (use c l d(1) final in \<open>simp_all add: module_is_funded_def has_confirmed_refund_def del: not_None_eq\<close>)
qed

theorem swap_ends_fairly_witness:
  "ss_state swap_completed = Completed \<and> ss_first_redemption swap_completed \<noteq> None \<and>
   transition swap_completed (TerminalFailure [1]) 12 = Err ME_InvalidTransition"
  using swap_ends_fairly [OF sample_swap_start rtranclp_trans [OF redeemed_steps completed_steps]]
  by (simp add: swap_completed_def)

text \<open>C10. Locked funds stay recoverable. In every session reached, whatever failed or was revoked, a leg that
  is funded and not settled can still be settled: a confirmed refund of its lock is accepted, and the leg
  is settled afterwards.
\<close>

theorem locked_funds_are_recoverable:
  assumes "session_start s0" "swap_step\<^sup>*\<^sup>* s0 s" "module_is_funded s m" "\<not> funded_module_is_settled s m"
  shows "\<exists>t. transition s (ChainRefundConfirmed m e) now = Ok t \<and> funded_module_is_settled t m \<and>
    refund_for_module t m = Some e"
proof -
  have i: "swap_inv s" by (rule reachable_inv [OF assms(1,2)])
  note d = swap_invD [OF i]
  have can: "can_record_refund_for_module s m"
    using assms(3,4) d(1)
    by (auto simp: can_record_refund_for_module_def module_is_funded_def funded_module_is_settled_def split: if_splits)
  have f: "ss_first_funding s \<noteq> None" "ss_second_redemption s = None"
    using can d(3) by (auto simp: can_record_refund_for_module_def legs_inv_def split: if_splits)
  then have "ss_state s \<in> refreshable_states"
    using d(2) by (cases "ss_state s") (simp_all add: refreshable_states_def)
  with can d(1) show ?thesis
    by (auto simp: transition_def on_chain_refund_def Let_def funded_module_is_settled_def refund_for_module_def
        can_record_refund_for_module_def finish_transition_def split: if_splits)
qed

definition swap_failed :: swap_session where
  "swap_failed = sample_swap\<lparr>ss_revision := 9, ss_state := Failed, ss_first_funding := Some [21],
     ss_first_funding_observation_generation := 1, ss_first_funding_confirmed_generation := None,
     ss_first_funding_revoked := True, ss_second_funding := Some [22], ss_failure_reason := Some [1],
     ss_last_verified_at_unix := 12\<rparr>"

lemma failed_steps: "swap_step\<^sup>*\<^sup>* sample_swap swap_failed"
  by (rule run_on_steps [of _ "take 6 sample_path @ [TerminalFailure [1], FirstFundingInvalidated [21]]"])
    (simp add: run_on_def settle_path_def sample_swap_def swap_failed_def run_simps)

theorem locked_funds_are_recoverable_witness:
  "\<exists>t. transition swap_failed (ChainRefundConfirmed Handshake [31]) 60 = Ok t \<and>
     funded_module_is_settled t Handshake \<and> refund_for_module t Handshake = Some [31]"
  by (rule locked_funds_are_recoverable [OF sample_swap_start failed_steps])
    (simp_all add: swap_failed_def sample_swap_def module_is_funded_def funded_module_is_settled_def)

lemma new_session_timeouts:
  assumes "swap_session_new i m1 m2 q h tp now = Inr s"
  shows "tp_second_chain_refund_at (ss_timeouts s) < tp_first_chain_refund_at (ss_timeouts s) \<and>
    tp_second_chain_refund_at (ss_timeouts s) + tp_minimum_safety_margin (ss_timeouts s)
      \<le> tp_first_chain_refund_at (ss_timeouts s)"
  using new_session_fields(3,4) [OF assms] by (auto simp: timeouts_validate_def split: if_splits option.splits)

section \<open>Authority, terms and observations\<close>

text \<open>C7. The authority to fund the second chain stands on a current proof of the first lock. In every session
  reached, a second-funding authorization names the second module, a nonzero identifier and exactly the
  first lock that the latest observation generation confirmed, while nothing is funded on the second chain
  yet; and it does not outlive the next accepted evidence: only issuing one leaves one, before its expiry.
\<close>

theorem funding_authority_is_current:
  assumes "session_start s0" "swap_step\<^sup>*\<^sup>* s0 s"
  shows "(\<forall>a. ss_second_funding_authorization s = Some a \<longrightarrow>
      ss_state s = SecondFundingPending \<and> first_funding_is_current s \<and> ss_second_funding s = None \<and>
      sf_module a = ss_second_module s \<and> ss_first_funding s = Some (sf_first_funding a) \<and>
      ss_first_funding_confirmed_generation s = Some (sf_first_funding_observation_generation a) \<and>
      \<not> all_zero (sf_id a)) \<and>
    (\<forall>e now t a. transition s e now = Ok t \<and> ss_second_funding_authorization t = Some a \<longrightarrow>
      e = SecondFundingAuthorizationIssued a \<and> now < sf_expires_at_unix a)"
proof -
  have i: "swap_inv s" by (rule reachable_inv [OF assms])
  have a: "authorization_inv s" using i by (simp add: swap_inv_def)
  have fresh: "e = SecondFundingAuthorizationIssued x \<and> now < sf_expires_at_unix x"
    if tr: "transition s e now = Inr t" and x: "ss_second_funding_authorization t = Some x" for e now t x
  proof -
    from tr obtain u n where u: "next_state s e now = Inr (u, n)" "t = finish_transition u n now" by (rule transition_Ok)
    from x u(2) have n: "n = SecondFundingPending" "ss_second_funding_authorization u = Some x" by (auto split: if_splits)
    note none = swap_invD(5) [OF i]
    show ?thesis using u(1) n none
      by (cases e) (auto simp: move_from_Ok if_Ok_eq on_observation_started_def on_first_funding_def
          on_first_funding_at_generation_def on_first_funding_invalidated_def on_authorization_issued_def
          on_chain_refund_def on_terminal_failure_def record_first_funding_def Let_def split: if_splits)
  qed
  show ?thesis using a fresh
    by (auto simp: authorization_inv_def first_funding_is_current_def simp del: not_None_eq)
qed

theorem funding_authority_is_current_witness:
  "first_funding_is_current swap_authorized \<and> sf_module sample_authorization = ss_second_module swap_authorized"
proof -
  have "ss_second_funding_authorization swap_authorized = Some sample_authorization" by (simp add: swap_authorized_def)
  with funding_authority_is_current [OF sample_swap_start authorized_steps] show ?thesis by blast
qed

text \<open>C32. The terms of a swap are frozen. No evidence changes a session's identity, modules, amounts, terms
  identifier, hashlock, accepted agreement or timeouts; the refund of the first chain stays later than the
  refund of the second by at least the safety margin, and revisions only grow.
\<close>

theorem session_terms_are_frozen:
  assumes "session_start s0" "swap_step\<^sup>*\<^sup>* s0 s"
  shows "ss_id s = ss_id s0 \<and> ss_first_module s = ss_first_module s0 \<and> ss_second_module s = ss_second_module s0 \<and>
    ss_offered s = ss_offered s0 \<and> ss_received s = ss_received s0 \<and> ss_terms_id s = ss_terms_id s0 \<and>
    ss_hashlock s = ss_hashlock s0 \<and> ss_accepted_shakescape_terms s = ss_accepted_shakescape_terms s0 \<and>
    ss_timeouts s = ss_timeouts s0 \<and> ss_revision s0 \<le> ss_revision s \<and>
    tp_second_chain_refund_at (ss_timeouts s) < tp_first_chain_refund_at (ss_timeouts s) \<and>
    tp_second_chain_refund_at (ss_timeouts s) + tp_minimum_safety_margin (ss_timeouts s)
      \<le> tp_first_chain_refund_at (ss_timeouts s)"
proof -
  have t: "tp_second_chain_refund_at (ss_timeouts s0) < tp_first_chain_refund_at (ss_timeouts s0) \<and>
      tp_second_chain_refund_at (ss_timeouts s0) + tp_minimum_safety_margin (ss_timeouts s0)
        \<le> tp_first_chain_refund_at (ss_timeouts s0)"
    using assms(1) by (cases rule: session_start.cases) (auto dest: new_session_timeouts)
  from swap_steps_frame [OF assms(2)] t show ?thesis by (auto simp: frozen_terms_def)
qed

theorem session_terms_are_frozen_witness:
  "ss_hashlock swap_completed = [6] \<and> tp_second_chain_refund_at (ss_timeouts swap_completed) = 50"
  using session_terms_are_frozen [OF sample_swap_start rtranclp_trans [OF redeemed_steps completed_steps]]
  by (simp add: sample_swap_def)

text \<open>C33. A stale observation of the first chain is refused. Starting an observation allocates a generation
  larger than every earlier one; whatever evidence follows, a confirmation or an authorization that was
  made for an older generation is refused.
\<close>

theorem stale_observation_is_refused:
  assumes "transition s (FirstFundingObservationStarted m g) now = Ok t" "swap_step\<^sup>*\<^sup>* t u" "old < g"
  shows "ss_first_funding_observation_generation s < g \<and>
    transition u (FirstFundingConfirmedAtGeneration e m' old) later = Err ME_InvalidTransition \<and>
    (sf_first_funding_observation_generation a = old \<longrightarrow>
      transition u (SecondFundingAuthorizationIssued a) later = Err ME_InvalidTransition)"
proof -
  have g: "g = Suc (ss_first_funding_observation_generation s)" "ss_first_funding_observation_generation t = g"
    using assms(1) by (auto simp: transition_def on_observation_started_def finish_transition_def split: if_splits)
  with swap_steps_frame [OF assms(2)] assms(3) have "ss_first_funding_observation_generation u \<noteq> old" by simp
  with g show ?thesis
    by (auto simp: transition_def on_first_funding_at_generation_def on_authorization_issued_def)
qed

definition swap_observed :: "u64 \<Rightarrow> swap_session" where
  "swap_observed g = sample_swap\<lparr>ss_state := FirstFundingPending, ss_first_funding_observation_generation := g\<rparr>"

theorem stale_observation_is_refused_witness:
  "transition (swap_observed 2) (FirstFundingConfirmedAtGeneration [21] Bitcoin 1) 12 = Err ME_InvalidTransition"
proof -
  have "transition (swap_observed 1) (FirstFundingObservationStarted Bitcoin 2) 10 = Inr (swap_observed 2)"
    by (simp add: swap_observed_def sample_swap_def run_simps)
  from stale_observation_is_refused [OF this rtranclp.rtrancl_refl, of 1] show ?thesis by simp
qed

text \<open>C34. A swap can complete. From the frozen terms of any session, the evidence of an undisturbed swap is
  accepted piece by piece and journalled, one revision each: the session ends \<open>Completed\<close> and the journal's
  last record is that session.
\<close>

theorem swap_can_complete:
  assumes "session_start s" "ss_state s = TermsFrozen"
  shows "\<exists>t saved. apply_all memory_journal_save s (settle_path s f1 f2 r1 r2) now [] = (Ok t, saved) \<and>
    ss_state t = Completed \<and> ss_first_redemption t = Some r1 \<and> ss_second_redemption t = Some r2 \<and>
    map ss_revision saved = [2..<12] \<and> memory_current saved = Some t"
proof -
  have f: "ss_revision s = 1" "ss_first_funding s = None" "ss_second_funding s = None" "legs_clear s"
    "ss_first_funding_observation_generation s = 0"
    using assms by (auto elim!: session_start.cases simp: new_session_fields)
  show ?thesis using f assms(2)
    by (simp add: settle_path_def run_simps memory_current_def upt_rec)
qed

theorem swap_can_complete_witness:
  "\<exists>t saved. apply_all memory_journal_save sample_swap sample_path 12 [] = (Ok t, saved) \<and>
    ss_state t = Completed \<and> ss_first_redemption t = Some [23] \<and> ss_second_redemption t = Some [24] \<and>
    map ss_revision saved = [2..<12] \<and> memory_current saved = Some t"
  by (rule swap_can_complete [OF sample_swap_start]) (simp add: sample_swap_def)

section \<open>Where the machine departs from its documentation\<close>

text \<open>C36. The comment on \<open>PREFUNDING_DEADLINE_FAILURE\<close> says that a failed session stays terminal unless it failed at
  the funding deadline. A session that failed for any other reason, with nothing funded, is nevertheless
  reopened by a confirmation at its open observation generation, and keeps its failure reason.
\<close>

theorem arbitrary_failure_is_reopened:
  assumes "ss_state s = Failed" "\<not> failed_before_funding s" "ss_first_funding s = None"
    "ss_first_refund s = None" "ss_second_redemption s = None"
  shows "\<exists>t. transition s (FirstFundingConfirmedAtGeneration e (ss_first_module s)
      (ss_first_funding_observation_generation s)) now = Ok t \<and>
    ss_state t = RefundEligible \<and> ss_failure_reason t = ss_failure_reason s"
  using assms by (simp add: run_simps)

theorem arbitrary_failure_is_reopened_witness:
  "\<exists>t. transition (sample_swap\<lparr>ss_state := Failed, ss_failure_reason := Some [1],
       ss_first_funding_observation_generation := 1\<rparr>) (FirstFundingConfirmedAtGeneration [21] Bitcoin 1) 12 = Ok t \<and>
     ss_state t = RefundEligible \<and> ss_failure_reason t = Some [1]"
  using arbitrary_failure_is_reopened [of "sample_swap\<lparr>ss_state := Failed, ss_failure_reason := Some [1],
       ss_first_funding_observation_generation := 1\<rparr>" "[21]" 12]
  by (simp add: sample_swap_def failed_before_funding_def PREFUNDING_DEADLINE_FAILURE_def
      PREFUNDING_BITCOIN_ABSENCE_FAILURE_def byte_str_def)



end
