(* ===== verification/Market_Protocol.thy ===== *)
theory Market_Protocol
  imports Swap_Session
begin

text \<open>
  The code the market component calls and that is not in the repository: the signed objects and the
  verification of the hns-marketplace-protocol crate, the hex crate, and of the bitcoin crate the script
  builder, the key parser, the transaction decoder, the transaction hash and the reading of a consensus
  lock time. A signed object is a record
  of the fields the sources read; its other fields (signatures, protocol version) are one byte string, so
  that equality of objects is equality of everything signed. The operations are the fields of
  \<open>protocol\<close>, a parameter of every definition that uses them. \<open>protocol_law\<close> states what the market
  code relies on: decoding inverts the canonical encoding of an object and of the hexadecimal text, and
  the chain of an asset is the chain it is issued on; a consensus lock time below 500,000,000 is a block
  height and any other a Unix time.
\<close>

section \<open>Signed objects\<close>

datatype asset_id = AssetHNS | AssetBTC | AssetOther nat

datatype chain_id = ChainHandshake | ChainBitcoin | ChainOther nat

datatype deadline_kind = UnixTime | OtherDeadline nat

record settlement_deadline =
  sd_kind :: deadline_kind
  sd_value :: u64

datatype swap_asset_side = SideOffered | SideReceived

type_synonym network_binding = bytes
type_synonym public_key = bytes

record signed_object_header =
  hd_network :: network_binding
  hd_signer_public_key :: public_key
  hd_sequence :: u64
  hd_created_at :: u64
  hd_expires_at :: u64

record direct_offer =
  of_header :: signed_object_header
  of_offer_id :: bytes
  of_swap_session_id :: bytes
  of_offer_setter_settlement_public_key :: public_key
  of_offered_asset :: asset_id
  of_offered_amount :: u128
  of_received_asset :: asset_id
  of_received_amount :: u128
  of_rest :: bytes

record direct_offer_cancellation =
  oc_header :: signed_object_header
  oc_offer_id :: bytes
  oc_rest :: bytes

record direct_offer_acceptance =
  oa_header :: signed_object_header
  oa_offer_id :: bytes
  oa_swap_session_id :: bytes
  oa_rest :: bytes

record swap_session_hello =
  he_header :: signed_object_header
  he_swap_session_id :: bytes
  he_direct_offer_id :: bytes
  he_offered_asset :: asset_id
  he_offered_amount :: u128
  he_received_asset :: asset_id
  he_received_amount :: u128
  he_first_funding_chain :: chain_id
  he_offered_minimum_confirmations :: u32
  he_received_minimum_confirmations :: u32
  he_offered_refund_deadline :: settlement_deadline
  he_received_refund_deadline :: settlement_deadline
  he_hashlock :: bytes
  he_offered_lock_commitment :: bytes
  he_received_lock_commitment :: bytes
  he_maker_settlement_public_key :: public_key
  he_taker_settlement_public_key :: public_key
  he_taker_signature :: bytes
  he_rest :: bytes

record swap_session_proposal =
  sp_terms :: swap_session_hello
  sp_rest :: bytes

record swap_funding_status =
  fs_header :: signed_object_header
  fs_swap_session_id :: bytes
  fs_chain :: chain_id
  fs_rest :: bytes

record swap_spend_status =
  rs_header :: signed_object_header
  rs_swap_session_id :: bytes
  rs_rest :: bytes

record swap_watch_ready =
  wr_header :: signed_object_header
  wr_swap_session_id :: bytes
  wr_chain :: chain_id
  wr_rest :: bytes

datatype cross_chain_message =
    MsgDirectOffer direct_offer
  | MsgCancelDirectOffer direct_offer_cancellation
  | MsgAcceptDirectOffer direct_offer_acceptance
  | MsgSwapSessionProposal swap_session_proposal
  | MsgSwapSessionHello swap_session_hello
  | MsgSwapFundingStatus swap_funding_status
  | MsgSwapRedeemStatus swap_spend_status
  | MsgSwapRefundStatus swap_spend_status
  | MsgSwapWatchReady swap_watch_ready
  | MsgOther bytes

datatype marketplace_error = MarketplaceExpired | MarketplaceOther nat

record hns_htlc =
  hh_value :: u64
  hh_hashlock :: bytes
  hh_refund_locktime :: u32

section \<open>Bitcoin scripts and transactions\<close>

datatype script_item =
    OP_IF | OP_SHA256 | PushSlice bytes | OP_EQUALVERIFY | PushKey public_key | OP_CHECKSIG | OP_ELSE
  | PushInt nat | OP_CLTV | OP_DROP | OP_ENDIF

datatype lock_time = Blocks u32 | Seconds u32

datatype tx_sequence = SequenceMax | EnableLocktimeNoRbf | SequenceOther nat

record bitcoin_tx_in =
  ti_txid :: transaction_hash
  ti_vout :: u32
  ti_script_sig :: bytes
  ti_sequence :: tx_sequence
  ti_witness :: "bytes list"

record bitcoin_tx_out =
  to_value :: u64
  to_script_pubkey :: bytes

record bitcoin_transaction =
  tx_version :: nat
  tx_lock_time :: lock_time
  tx_input :: "bitcoin_tx_in list"
  tx_output :: "bitcoin_tx_out list"

section \<open>The parameter\<close>

record protocol =
  mp_decode_envelope :: "bytes \<Rightarrow> (u64 \<times> cross_chain_message) option"
  mp_encode_envelope :: "u64 \<Rightarrow> cross_chain_message \<Rightarrow> bytes option"
  mp_offer :: "direct_offer codec"
  mp_cancellation :: "direct_offer_cancellation codec"
  mp_acceptance :: "direct_offer_acceptance codec"
  mp_proposal :: "swap_session_proposal codec"
  mp_hello :: "swap_session_hello codec"
  mp_funding_status :: "swap_funding_status codec"
  mp_watch_ready :: "swap_watch_ready codec"
  mp_verify_offer_at :: "direct_offer \<Rightarrow> network_binding \<Rightarrow> u64 \<Rightarrow> bool"
  mp_verify_cancellation :: "direct_offer_cancellation \<Rightarrow> direct_offer \<Rightarrow> network_binding \<Rightarrow> u64 \<Rightarrow> bool"
  mp_verify_acceptance :: "direct_offer_acceptance \<Rightarrow> direct_offer \<Rightarrow> network_binding \<Rightarrow> u64 \<Rightarrow> bool"
  mp_verify_proposal_at :: "swap_session_proposal \<Rightarrow> network_binding \<Rightarrow> u64 \<Rightarrow> (marketplace_error, unit) result"
  mp_verify_proposal :: "swap_session_proposal \<Rightarrow> direct_offer \<Rightarrow> direct_offer_acceptance \<Rightarrow> network_binding \<Rightarrow>
     u64 \<Rightarrow> (marketplace_error, unit) result"
  mp_verify_hello :: "swap_session_hello \<Rightarrow> direct_offer \<Rightarrow> direct_offer_acceptance \<Rightarrow> network_binding \<Rightarrow>
     u64 \<Rightarrow> (marketplace_error, unit) result"
  mp_verify_agreement :: "swap_session_hello \<Rightarrow> network_binding \<Rightarrow> bool"
  mp_verify_new_funding_at :: "swap_session_hello \<Rightarrow> network_binding \<Rightarrow> u64 \<Rightarrow> bool"
  mp_verify_funding_status :: "swap_funding_status \<Rightarrow> swap_session_hello \<Rightarrow> network_binding \<Rightarrow> u64 \<Rightarrow>
     (marketplace_error, unit) result"
  mp_verify_redeem_status :: "swap_spend_status \<Rightarrow> swap_session_hello \<Rightarrow> network_binding \<Rightarrow> u64 \<Rightarrow>
     (marketplace_error, unit) result"
  mp_verify_refund_status :: "swap_spend_status \<Rightarrow> swap_session_hello \<Rightarrow> network_binding \<Rightarrow> u64 \<Rightarrow>
     (marketplace_error, unit) result"
  mp_verify_watch_ready :: "swap_watch_ready \<Rightarrow> swap_session_hello \<Rightarrow> network_binding \<Rightarrow> u64 \<Rightarrow>
     (marketplace_error, unit) result"
  mp_validate_for_hns_btc :: "network_binding \<Rightarrow> bool"
  mp_encode_network :: "network_binding \<Rightarrow> bytes option"
  mp_asset_chain :: "asset_id \<Rightarrow> chain_id"
  mp_chain_rank :: "chain_id \<Rightarrow> nat"
  mp_hns_refund_time :: "settlement_deadline \<Rightarrow> u64 option"
  mp_build_hns_htlc :: "swap_session_hello \<Rightarrow> swap_asset_side \<Rightarrow> public_key \<Rightarrow> public_key \<Rightarrow> (hns_htlc \<times> bytes) option"
  mp_max_inventory_entries :: nat
  mp_hex_encode :: "bytes \<Rightarrow> string"
  mp_hex_decode :: "string \<Rightarrow> bytes option"
  mp_public_key_from_slice :: "bytes \<Rightarrow> public_key option"
  mp_script_bytes :: "script_item list \<Rightarrow> bytes"
  mp_p2wsh :: "bytes \<Rightarrow> bytes"
  mp_deserialize_transaction :: "bytes \<Rightarrow> bitcoin_transaction option"
  mp_compute_txid :: "bitcoin_transaction \<Rightarrow> transaction_hash"
  mp_lock_time_from_consensus :: "u32 \<Rightarrow> lock_time"
  mp_height_from_consensus :: "u32 \<Rightarrow> u32 option"

definition protocol_law :: "protocol \<Rightarrow> bool" where
  "protocol_law P \<longleftrightarrow> codec_law (mp_offer P) \<and> codec_law (mp_cancellation P) \<and> codec_law (mp_acceptance P) \<and>
     codec_law (mp_proposal P) \<and> codec_law (mp_hello P) \<and> codec_law (mp_funding_status P) \<and>
     codec_law (mp_watch_ready P) \<and> (\<forall>b. mp_hex_decode P (mp_hex_encode P b) = Some b) \<and>
     mp_asset_chain P AssetHNS = ChainHandshake \<and> mp_asset_chain P AssetBTC = ChainBitcoin \<and>
     (\<forall>n. mp_lock_time_from_consensus P n = (if n < 500000000 then Blocks n else Seconds n))"

end
