(* ===== verification/Bitcoin_Htlc.thy ===== *)
theory Bitcoin_Htlc
  imports Market_Protocol
begin

text \<open>
  The Bitcoin side of a swap (hns-wallet-bitcoin-kyoto/src/lib.rs): the P2WSH hash-time-locked contract,
  its reconstruction from signed terms and the commitment to it, verification of a funding transaction,
  and the unsigned redeem or refund spend. A public key is the byte string \<open>to_bytes\<close> gives; a script is
  the list of items pushed on the script builder, whose serialisation is a parameter.
\<close>

section \<open>The contract\<close>

definition MIN_HTLC_DUST_SATS :: u64 where "MIN_HTLC_DUST_SATS = 330"
definition BITCOIN_TIMESTAMP_LOCKTIME_THRESHOLD :: u64 where "BITCOIN_TIMESTAMP_LOCKTIME_THRESHOLD = 500000000"
definition MAX_HTLC_SCRIPT_BYTES :: nat where "MAX_HTLC_SCRIPT_BYTES = 256"
definition MAX_BITCOIN_TRANSACTION_BYTES :: nat where "MAX_BITCOIN_TRANSACTION_BYTES = 400000"
definition SHAKESCAPE_BITCOIN_HTLC_COMMITMENT_DOMAIN :: bytes where
  "SHAKESCAPE_BITCOIN_HTLC_COMMITMENT_DOMAIN = byte_str ''hns-wallet-rs/shakescape-bitcoin-htlc/v1''"

datatype bitcoin_wallet_error =
    BW_MissingRecoverySeed | BW_InvalidRecoverySeed | BW_KeyDerivation
  | BW_InvalidSwapKeyReference | BW_Wallet string | BW_Store store_error | BW_InvalidAmount | BW_InvalidFee
  | BW_FeeLimit | BW_SigningIncomplete | BW_TransactionTooLarge | BW_InvalidHtlc | BW_InvalidChainLockContext
  | BW_Dust | BW_MissingPreimage | BW_InvalidPreimage | BW_TimelockNotReached | BW_InvalidEvidence
  | BW_InvalidObservedSpendShape | BW_InvalidObservedSpendOutpoint | BW_InvalidObservedSpendWitnessShape
  | BW_InvalidObservedSpendBranchSelector | BW_InvalidObservedSpendWitnessScript
  | BW_InvalidObservedSpendRefundLocktime | BW_InvalidObservedSpendSignatureEncoding
  | BW_InvalidObservedSpendSignature | BW_InvalidSwapBlockEvidence
  | BW_InvalidSwapSpendEvidence transaction_hash bitcoin_wallet_error bitcoin_wallet_error
  | BW_AmbiguousEvidence | BW_NetworkMismatch | BW_InvalidCheckpoint | BW_InvalidSwapWatch | BW_SwapWatchConflict
  | BW_SwapWatchCapacity | BW_CorruptSwapWatch

record bitcoin_htlc =
  bh_hashlock :: bytes
  bh_receiver_public_key :: public_key
  bh_refund_public_key :: public_key
  bh_refund_locktime :: u32
  bh_witness_script :: bytes
  bh_script_pubkey :: bytes

definition htlc_witness_items :: "bytes \<Rightarrow> public_key \<Rightarrow> public_key \<Rightarrow> u32 \<Rightarrow> script_item list" where
  "htlc_witness_items hashlock receiver_public_key refund_public_key refund_locktime =
     [OP_IF, OP_SHA256, PushSlice hashlock, OP_EQUALVERIFY, PushKey receiver_public_key, OP_CHECKSIG,
      OP_ELSE, PushInt refund_locktime, OP_CLTV, OP_DROP, PushKey refund_public_key, OP_CHECKSIG, OP_ENDIF]"

definition bitcoin_htlc_new ::
  "protocol \<Rightarrow> bytes \<Rightarrow> public_key \<Rightarrow> public_key \<Rightarrow> u32 \<Rightarrow> (bitcoin_wallet_error, bitcoin_htlc) result" where
  "bitcoin_htlc_new P hashlock receiver_public_key refund_public_key refund_locktime =
     (if all_zero hashlock \<or> refund_locktime = 0 then Err BW_InvalidHtlc
      else let witness_script = mp_script_bytes P
             (htlc_witness_items hashlock receiver_public_key refund_public_key refund_locktime)
      in if MAX_HTLC_SCRIPT_BYTES < length witness_script then Err BW_InvalidHtlc
         else Ok \<lparr>bh_hashlock = hashlock, bh_receiver_public_key = receiver_public_key,
           bh_refund_public_key = refund_public_key, bh_refund_locktime = refund_locktime,
           bh_witness_script = witness_script, bh_script_pubkey = mp_p2wsh P witness_script\<rparr>)"

definition bitcoin_htlc_validate :: "protocol \<Rightarrow> bitcoin_htlc \<Rightarrow> (bitcoin_wallet_error, unit) result" where
  "bitcoin_htlc_validate P htlc =
     rbind (ok_or (mp_public_key_from_slice P (bh_receiver_public_key htlc)) BW_InvalidHtlc) (\<lambda>receiver.
     rbind (ok_or (mp_public_key_from_slice P (bh_refund_public_key htlc)) BW_InvalidHtlc) (\<lambda>refund.
     rbind (bitcoin_htlc_new P (bh_hashlock htlc) receiver refund (bh_refund_locktime htlc)) (\<lambda>expected.
       if expected \<noteq> htlc then Err BW_InvalidHtlc else Ok ())))"

section \<open>The contract of signed terms\<close>

record bitcoin_htlc_binding =
  bb_htlc :: bitcoin_htlc
  bb_commitment :: object_hash
  bb_value_sats :: u64

definition le_bytes :: "nat \<Rightarrow> nat \<Rightarrow> bytes" where "le_bytes n v = rev (be_bytes n v)"

definition shakescape_bitcoin_htlc_commitment ::
  "crypto \<Rightarrow> protocol \<Rightarrow> network_binding \<Rightarrow> bitcoin_htlc \<Rightarrow> u64 \<Rightarrow> (bitcoin_wallet_error, object_hash) result" where
  "shakescape_bitcoin_htlc_commitment C P network htlc value_sats =
     (if \<not> mp_validate_for_hns_btc P network then Err BW_InvalidHtlc
      else rbind (bitcoin_htlc_validate P htlc) (\<lambda>_.
        if value_sats < MIN_HTLC_DUST_SATS then Err BW_InvalidAmount
        else rbind (ok_or (mp_encode_network P network) BW_InvalidHtlc) (\<lambda>encoded.
          if 2 ^ 16 \<le> length (bh_witness_script htlc) then Err BW_InvalidHtlc
          else Ok (sha256 C (SHAKESCAPE_BITCOIN_HTLC_COMMITMENT_DOMAIN @ encoded @ le_bytes 8 value_sats @
                 le_bytes 2 (length (bh_witness_script htlc)) @ bh_witness_script htlc)))))"

definition verify_shakescape_bitcoin_htlc_commitment ::
  "crypto \<Rightarrow> protocol \<Rightarrow> object_hash \<Rightarrow> network_binding \<Rightarrow> bitcoin_htlc \<Rightarrow> u64 \<Rightarrow> (bitcoin_wallet_error, unit) result" where
  "verify_shakescape_bitcoin_htlc_commitment C P expected network htlc value_sats =
     rbind (shakescape_bitcoin_htlc_commitment C P network htlc value_sats) (\<lambda>computed.
       if computed \<noteq> expected then Err BW_InvalidEvidence else Ok ())"

definition build_shakescape_bitcoin_htlc ::
  "crypto \<Rightarrow> protocol \<Rightarrow> swap_session_hello \<Rightarrow> swap_asset_side \<Rightarrow> (bitcoin_wallet_error, bitcoin_htlc_binding) result" where
  "build_shakescape_bitcoin_htlc C P hello side =
     (let (asset, amount, deadline, receiver_bytes, refund_bytes) = (case side of
         SideOffered \<Rightarrow> (he_offered_asset hello, he_offered_amount hello, sd_value (he_offered_refund_deadline hello),
           he_taker_settlement_public_key hello, he_maker_settlement_public_key hello)
       | SideReceived \<Rightarrow> (he_received_asset hello, he_received_amount hello, sd_value (he_received_refund_deadline hello),
           he_maker_settlement_public_key hello, he_taker_settlement_public_key hello))
      in if asset \<noteq> AssetBTC then Err BW_InvalidHtlc
         else if 2 ^ 64 \<le> amount then Err BW_InvalidAmount
         else if 2 ^ 32 \<le> deadline then Err BW_InvalidHtlc
         else if deadline < BITCOIN_TIMESTAMP_LOCKTIME_THRESHOLD then Err BW_InvalidHtlc
         else rbind (ok_or (mp_public_key_from_slice P receiver_bytes) BW_InvalidHtlc) (\<lambda>receiver.
              rbind (ok_or (mp_public_key_from_slice P refund_bytes) BW_InvalidHtlc) (\<lambda>refund.
              rbind (bitcoin_htlc_new P (he_hashlock hello) receiver refund deadline) (\<lambda>htlc.
              rbind (shakescape_bitcoin_htlc_commitment C P (hd_network (he_header hello)) htlc amount) (\<lambda>commitment.
                Ok \<lparr>bb_htlc = htlc, bb_commitment = commitment, bb_value_sats = amount\<rparr>)))))"

section \<open>Funding\<close>

record verified_bitcoin_lock =
  bl_funding_txid :: transaction_hash
  bl_output_index :: u32
  bl_value_sats :: u64
  bl_confirmation_count :: u32
  bl_htlc :: bitcoin_htlc

definition matching_outputs :: "bitcoin_transaction \<Rightarrow> u64 \<Rightarrow> bytes \<Rightarrow> nat list" where
  "matching_outputs transaction expected_value_sats expected_script =
     map fst (filter (\<lambda>(_, output). to_value output = expected_value_sats \<and>
       to_script_pubkey output = expected_script) (enumerate 0 (tx_output transaction)))"

definition verify_htlc_funding ::
  "protocol \<Rightarrow> bytes \<Rightarrow> bitcoin_htlc \<Rightarrow> u64 \<Rightarrow> u32 \<Rightarrow> u32 \<Rightarrow> (bitcoin_wallet_error, verified_bitcoin_lock) result" where
  "verify_htlc_funding P raw_transaction htlc expected_value_sats confirmation_count minimum_confirmations =
     (if raw_transaction = [] \<or> MAX_BITCOIN_TRANSACTION_BYTES < length raw_transaction
      then Err BW_TransactionTooLarge
      else if expected_value_sats < MIN_HTLC_DUST_SATS \<or> confirmation_count < minimum_confirmations
      then Err BW_InvalidEvidence
      else rbind (bitcoin_htlc_validate P htlc) (\<lambda>_.
        rbind (ok_or (mp_deserialize_transaction P raw_transaction) BW_InvalidEvidence) (\<lambda>transaction.
        case matching_outputs transaction expected_value_sats (bh_script_pubkey htlc) of
          [] \<Rightarrow> Err BW_InvalidEvidence
        | _ # _ # _ \<Rightarrow> Err BW_AmbiguousEvidence
        | [output_index] \<Rightarrow>
            if 2 ^ 32 \<le> output_index then Err BW_InvalidEvidence
            else Ok \<lparr>bl_funding_txid = mp_compute_txid P transaction, bl_output_index = output_index,
              bl_value_sats = expected_value_sats, bl_confirmation_count = confirmation_count,
              bl_htlc = htlc\<rparr>)))"

section \<open>Spending\<close>

datatype htlc_spend_branch = Redeem | Refund

record bitcoin_chain_lock_context =
  cc_next_block_height :: u32
  cc_median_time_past :: u32

definition chain_lock_context_validate ::
  "protocol \<Rightarrow> bitcoin_chain_lock_context \<Rightarrow> (bitcoin_wallet_error, unit) result" where
  "chain_lock_context_validate P c =
     rbind (ok_or (mp_height_from_consensus P (cc_next_block_height c)) BW_InvalidChainLockContext) (\<lambda>_. Ok ())"

fun lock_permits :: "bitcoin_chain_lock_context \<Rightarrow> lock_time \<Rightarrow> bool" where
  "lock_permits c (Blocks required) = (required < cc_next_block_height c)"
| "lock_permits c (Seconds required) = (required < cc_median_time_past c)"

definition prepare_htlc_spend_template ::
  "crypto \<Rightarrow> protocol \<Rightarrow> verified_bitcoin_lock \<Rightarrow> bytes \<Rightarrow> u64 \<Rightarrow> htlc_spend_branch \<Rightarrow> bytes option \<Rightarrow>
   bitcoin_chain_lock_context option \<Rightarrow> (bitcoin_wallet_error, bitcoin_transaction) result" where
  "prepare_htlc_spend_template C P lk destination fee_sats branch preimage chain_context =
     rbind (bitcoin_htlc_validate P (bl_htlc lk)) (\<lambda>_.
       if fee_sats = 0 \<or> bl_value_sats lk \<le> fee_sats then Err BW_InvalidFee
       else let output_value = bl_value_sats lk - fee_sats in
         if output_value < MIN_HTLC_DUST_SATS then Err BW_Dust
         else rbind (case branch of
           Redeem \<Rightarrow> rbind (ok_or preimage BW_MissingPreimage) (\<lambda>secret.
             if sha256 C secret \<noteq> bh_hashlock (bl_htlc lk) then Err BW_InvalidPreimage
             else Ok (Blocks 0, SequenceMax, [[], secret, [1], bh_witness_script (bl_htlc lk)]))
         | Refund \<Rightarrow>
             (let lock_time = mp_lock_time_from_consensus P (bh_refund_locktime (bl_htlc lk)) in
              if preimage \<noteq> None \<or> (case chain_context of None \<Rightarrow> False | Some c \<Rightarrow> \<not> lock_permits c lock_time)
              then Err BW_TimelockNotReached
              else Ok (lock_time, EnableLocktimeNoRbf, [[], [], bh_witness_script (bl_htlc lk)])))
         (\<lambda>(lock_time, sequence, witness_items).
           Ok \<lparr>tx_version = 2, tx_lock_time = lock_time,
             tx_input = [\<lparr>ti_txid = bl_funding_txid lk, ti_vout = bl_output_index lk, ti_script_sig = [],
               ti_sequence = sequence, ti_witness = witness_items\<rparr>],
             tx_output = [\<lparr>to_value = output_value, to_script_pubkey = destination\<rparr>]\<rparr>))"

definition prepare_htlc_spend ::
  "crypto \<Rightarrow> protocol \<Rightarrow> verified_bitcoin_lock \<Rightarrow> bytes \<Rightarrow> u64 \<Rightarrow> htlc_spend_branch \<Rightarrow> bytes option \<Rightarrow>
   bitcoin_chain_lock_context \<Rightarrow> (bitcoin_wallet_error, bitcoin_transaction) result" where
  "prepare_htlc_spend C P lk destination fee_sats branch preimage chain_context =
     rbind (chain_lock_context_validate P chain_context) (\<lambda>_.
       prepare_htlc_spend_template C P lk destination fee_sats branch preimage (Some chain_context))"

end
