(* ===== verification/Bitcoin_Spend.thy ===== *)
theory Bitcoin_Spend
  imports Bitcoin_Htlc
begin

text \<open>
  Signed spends of a Bitcoin hash-time-locked output (hns-wallet-bitcoin-kyoto/src/lib.rs): signing of the
  prepared redeem or refund, the refinement of the fee to the size of the signed transaction,
  re-authentication before a broadcast, with and without inputs of the wallet that sponsor the fee, and
  authentication of a spend seen in a block. The serialisation, the signature hash and the ECDSA
  operations of the bitcoin and secp256k1 crates are the parameter \<open>bitcoin_lib\<close>; \<open>bitcoin_law\<close> states what
  the code relies on: decoding inverts serialisation, the segregated-witness signature hash does not
  depend on witnesses, and decoding inverts the DER encoding of a signature. A record whose fields do not
  fit the wire format is not a transaction; it has the empty serialisation.
\<close>

section \<open>The bitcoin library\<close>

datatype sighash_type = SighashAll | SighashOther nat

type_synonym ecdsa_signature = bytes

record bitcoin_lib =
  bk_serialize :: "bitcoin_transaction \<Rightarrow> bytes"
  bk_wtxid :: "bitcoin_transaction \<Rightarrow> bytes"
  bk_vsize :: "bitcoin_transaction \<Rightarrow> nat"
  bk_sighash_to_u32 :: "sighash_type \<Rightarrow> u32"
  bk_sighash_from_standard :: "u32 \<Rightarrow> sighash_type option"
  bk_p2wsh_signature_hash :: "bitcoin_transaction \<Rightarrow> nat \<Rightarrow> bytes \<Rightarrow> u64 \<Rightarrow> sighash_type \<Rightarrow> bytes option"
  bk_from_compact :: "bytes \<Rightarrow> ecdsa_signature option"
  bk_normalize_s :: "ecdsa_signature \<Rightarrow> ecdsa_signature"
  bk_serialize_der :: "ecdsa_signature \<Rightarrow> bytes"
  bk_from_der :: "bytes \<Rightarrow> ecdsa_signature option"
  bk_verify_ecdsa :: "bytes \<Rightarrow> ecdsa_signature \<Rightarrow> public_key \<Rightarrow> bool"

definition strip_witnesses :: "bitcoin_transaction \<Rightarrow> bitcoin_transaction" where
  "strip_witnesses t = t\<lparr>tx_input := map (\<lambda>i. i\<lparr>ti_witness := []\<rparr>) (tx_input t)\<rparr>"

definition bitcoin_law :: "protocol \<Rightarrow> bitcoin_lib \<Rightarrow> bool" where
  "bitcoin_law P B \<longleftrightarrow>
     (\<forall>t. bk_serialize B t \<noteq> [] \<longrightarrow> mp_deserialize_transaction P (bk_serialize B t) = Some t) \<and>
     (\<forall>t t'. strip_witnesses t = strip_witnesses t' \<longrightarrow> bk_p2wsh_signature_hash B t = bk_p2wsh_signature_hash B t') \<and>
     (\<forall>x. bk_from_der B (bk_serialize_der B x) = Some x \<and> bk_serialize_der B x \<noteq> []) \<and>
     bk_sighash_to_u32 B SighashAll < 256 \<and>
     bk_sighash_from_standard B (bk_sighash_to_u32 B SighashAll) = Some SighashAll"

section \<open>Signing\<close>

record settlement_signer =
  sg_compressed_public_key :: bytes
  sg_sign_digest :: "bytes \<Rightarrow> bytes option"

fun expected_witness_items :: "htlc_spend_branch \<Rightarrow> nat" where
  "expected_witness_items Redeem = 4"
| "expected_witness_items Refund = 3"

fun branch_public_key :: "htlc_spend_branch \<Rightarrow> bitcoin_htlc \<Rightarrow> public_key" where
  "branch_public_key Redeem htlc = bh_receiver_public_key htlc"
| "branch_public_key Refund htlc = bh_refund_public_key htlc"

definition with_first_witness :: "bitcoin_transaction \<Rightarrow> bytes list \<Rightarrow> bitcoin_transaction" where
  "with_first_witness transaction witness =
     transaction\<lparr>tx_input := (hd (tx_input transaction))\<lparr>ti_witness := witness\<rparr> # tl (tx_input transaction)\<rparr>"

definition finalize_signed_htlc_spend ::
  "bitcoin_lib \<Rightarrow> bitcoin_transaction \<Rightarrow> htlc_spend_branch \<Rightarrow> bytes \<Rightarrow> bytes \<Rightarrow> public_key \<Rightarrow>
   (bitcoin_wallet_error, bytes) result" where
  "finalize_signed_htlc_spend B transaction branch sighash signature public_key =
     rbind (ok_or (bk_from_compact B signature) BW_SigningIncomplete) (\<lambda>signature.
       if bk_normalize_s B signature \<noteq> signature then Err BW_SigningIncomplete
       else if \<not> bk_verify_ecdsa B sighash signature public_key then Err BW_InvalidEvidence
       else if 256 \<le> bk_sighash_to_u32 B SighashAll then Err BW_InvalidEvidence
       else let signature_bytes = bk_serialize_der B signature @ [word_of_nat (bk_sighash_to_u32 B SighashAll)];
                witness = ti_witness (hd (tx_input transaction))
            in if length witness \<noteq> expected_witness_items branch \<or> witness ! 0 \<noteq> [] then Err BW_InvalidEvidence
               else let raw_transaction =
                   bk_serialize B (with_first_witness transaction (witness[0 := signature_bytes]))
                 in if MAX_BITCOIN_TRANSACTION_BYTES < length raw_transaction then Err BW_TransactionTooLarge
                    else Ok raw_transaction)"

definition sign_bitcoin_htlc_spend_template_with_settlement_signer ::
  "crypto \<Rightarrow> protocol \<Rightarrow> bitcoin_lib \<Rightarrow> verified_bitcoin_lock \<Rightarrow> bytes \<Rightarrow> u64 \<Rightarrow> htlc_spend_branch \<Rightarrow>
   bytes option \<Rightarrow> bitcoin_chain_lock_context option \<Rightarrow> settlement_signer \<Rightarrow> (bitcoin_wallet_error, bytes) result" where
  "sign_bitcoin_htlc_spend_template_with_settlement_signer C P B lk destination fee_sats branch preimage
     chain_context signer =
     rbind (bitcoin_htlc_validate P (bl_htlc lk)) (\<lambda>_.
     if branch = Refund \<and> chain_context = None then Err BW_InvalidChainLockContext
     else rbind (case chain_context of None \<Rightarrow> Ok () | Some context \<Rightarrow> chain_lock_context_validate P context) (\<lambda>_.
       rbind (ok_or (mp_public_key_from_slice P (sg_compressed_public_key signer)) BW_InvalidSwapKeyReference) (\<lambda>public_key.
       if public_key \<noteq> branch_public_key branch (bl_htlc lk) then Err BW_InvalidSwapKeyReference
       else rbind (prepare_htlc_spend_template C P lk destination fee_sats branch preimage chain_context) (\<lambda>transaction.
         rbind (ok_or (bk_p2wsh_signature_hash B transaction 0 (bh_witness_script (bl_htlc lk)) (bl_value_sats lk) SighashAll)
           BW_InvalidEvidence) (\<lambda>sighash.
         rbind (ok_or (sg_sign_digest signer sighash) BW_SigningIncomplete) (\<lambda>signature.
           finalize_signed_htlc_spend B transaction branch sighash signature public_key))))))"

record bitcoin_htlc_spend_request =
  rq_destination :: bytes
  rq_fee_sats :: u64
  rq_branch :: htlc_spend_branch
  rq_preimage :: "bytes option"
  rq_chain_context :: bitcoin_chain_lock_context

definition sign_bitcoin_htlc_spend_with_settlement_signer ::
  "crypto \<Rightarrow> protocol \<Rightarrow> bitcoin_lib \<Rightarrow> verified_bitcoin_lock \<Rightarrow> bitcoin_htlc_spend_request \<Rightarrow> settlement_signer \<Rightarrow>
   (bitcoin_wallet_error, bytes) result" where
  "sign_bitcoin_htlc_spend_with_settlement_signer C P B lk request signer =
     sign_bitcoin_htlc_spend_template_with_settlement_signer C P B lk (rq_destination request) (rq_fee_sats request)
       (rq_branch request) (rq_preimage request) (Some (rq_chain_context request)) signer"

fun refine_fee ::
  "nat \<Rightarrow> (u64 \<Rightarrow> (bitcoin_wallet_error, bytes) result) \<Rightarrow> protocol \<Rightarrow> bitcoin_lib \<Rightarrow> u64 \<Rightarrow> u64 \<Rightarrow> u64 \<Rightarrow>
   (bitcoin_wallet_error, bytes) result" where
  "refine_fee 0 sign P B fee_rate_sat_vb maximum_fee_sats fee_sats = Err BW_InvalidFee"
| "refine_fee (Suc rounds) sign P B fee_rate_sat_vb maximum_fee_sats fee_sats =
     rbind (sign fee_sats) (\<lambda>raw.
     rbind (ok_or (mp_deserialize_transaction P raw) BW_InvalidEvidence) (\<lambda>transaction.
     if 2 ^ 64 \<le> bk_vsize B transaction \<or> 2 ^ 64 \<le> fee_rate_sat_vb * bk_vsize B transaction then Err BW_InvalidFee
     else let required_fee = fee_rate_sat_vb * bk_vsize B transaction in
       if maximum_fee_sats < required_fee then Err BW_FeeLimit
       else if required_fee \<le> fee_sats then Ok raw
       else refine_fee rounds sign P B fee_rate_sat_vb maximum_fee_sats required_fee))"

definition sign_bitcoin_htlc_spend_at_fee_rate_template_with_settlement_signer ::
  "crypto \<Rightarrow> protocol \<Rightarrow> bitcoin_lib \<Rightarrow> verified_bitcoin_lock \<Rightarrow> bytes \<Rightarrow> htlc_spend_branch \<Rightarrow> bytes option \<Rightarrow>
   bitcoin_chain_lock_context option \<Rightarrow> u64 \<Rightarrow> u64 \<Rightarrow> settlement_signer \<Rightarrow> (bitcoin_wallet_error, bytes) result" where
  "sign_bitcoin_htlc_spend_at_fee_rate_template_with_settlement_signer C P B lk destination branch preimage
     chain_context fee_rate_sat_vb maximum_fee_sats signer =
     (if fee_rate_sat_vb = 0 \<or> maximum_fee_sats = 0 then Err BW_InvalidFee
      else refine_fee 8 (\<lambda>fee_sats. sign_bitcoin_htlc_spend_template_with_settlement_signer C P B lk destination
        fee_sats branch preimage chain_context signer) P B fee_rate_sat_vb maximum_fee_sats 1)"

definition sign_bitcoin_htlc_spend_at_fee_rate_with_settlement_signer ::
  "crypto \<Rightarrow> protocol \<Rightarrow> bitcoin_lib \<Rightarrow> verified_bitcoin_lock \<Rightarrow> bytes \<Rightarrow> htlc_spend_branch \<Rightarrow> bytes option \<Rightarrow>
   bitcoin_chain_lock_context \<Rightarrow> u64 \<Rightarrow> u64 \<Rightarrow> settlement_signer \<Rightarrow> (bitcoin_wallet_error, bytes) result" where
  "sign_bitcoin_htlc_spend_at_fee_rate_with_settlement_signer C P B lk destination branch preimage chain_context
     fee_rate_sat_vb maximum_fee_sats signer =
     sign_bitcoin_htlc_spend_at_fee_rate_template_with_settlement_signer C P B lk destination branch preimage
       (Some chain_context) fee_rate_sat_vb maximum_fee_sats signer"

definition sign_bitcoin_htlc_redeem_at_fee_rate_with_settlement_signer ::
  "crypto \<Rightarrow> protocol \<Rightarrow> bitcoin_lib \<Rightarrow> verified_bitcoin_lock \<Rightarrow> bytes \<Rightarrow> bytes \<Rightarrow> u64 \<Rightarrow> u64 \<Rightarrow> settlement_signer \<Rightarrow>
   (bitcoin_wallet_error, bytes) result" where
  "sign_bitcoin_htlc_redeem_at_fee_rate_with_settlement_signer C P B lk destination preimage fee_rate_sat_vb
     maximum_fee_sats signer =
     sign_bitcoin_htlc_spend_at_fee_rate_template_with_settlement_signer C P B lk destination Redeem (Some preimage)
       None fee_rate_sat_vb maximum_fee_sats signer"

section \<open>Verification before a broadcast\<close>

record verified_bitcoin_htlc_spend =
  vs_txid :: transaction_hash
  vs_wtxid :: bytes
  vs_fee_sats :: u64
  vs_branch :: htlc_spend_branch
  vs_revealed_preimage :: "bytes option"

definition spends_lock :: "verified_bitcoin_lock \<Rightarrow> bitcoin_tx_in \<Rightarrow> bool" where
  "spends_lock lk input \<longleftrightarrow> ti_txid input = bl_funding_txid lk \<and> ti_vout input = bl_output_index lk"

definition witness_preimage :: "crypto \<Rightarrow> bitcoin_htlc \<Rightarrow> bytes \<Rightarrow> (bitcoin_wallet_error, bytes option) result" where
  "witness_preimage C htlc item =
     (if length item \<noteq> 32 then Err BW_InvalidPreimage
      else if sha256 C item \<noteq> bh_hashlock htlc then Err BW_InvalidPreimage else Ok (Some item))"

definition verify_signed_bitcoin_htlc_spend ::
  "crypto \<Rightarrow> protocol \<Rightarrow> bitcoin_lib \<Rightarrow> bytes \<Rightarrow> verified_bitcoin_lock \<Rightarrow> htlc_spend_branch \<Rightarrow>
   (bitcoin_wallet_error, verified_bitcoin_htlc_spend) result" where
  "verify_signed_bitcoin_htlc_spend C P B raw_transaction lk branch =
     (if raw_transaction = [] \<or> MAX_BITCOIN_TRANSACTION_BYTES < length raw_transaction then Err BW_TransactionTooLarge
      else rbind (bitcoin_htlc_validate P (bl_htlc lk)) (\<lambda>_.
        rbind (ok_or (mp_deserialize_transaction P raw_transaction) BW_InvalidEvidence) (\<lambda>transaction.
        if bk_serialize B transaction \<noteq> raw_transaction \<or> length (tx_input transaction) \<noteq> 1 \<or>
           length (tx_output transaction) \<noteq> 1 then Err BW_InvalidEvidence
        else let input = tx_input transaction ! 0; output = tx_output transaction ! 0; witness = ti_witness input;
                 script = bh_witness_script (bl_htlc lk) in
          if \<not> spends_lock lk input then Err BW_InvalidEvidence
          else if bl_value_sats lk \<le> to_value output then Err BW_InvalidFee
          else let fee_sats = bl_value_sats lk - to_value output in
            rbind (case branch of
                Redeem \<Rightarrow>
                  if length witness \<noteq> 4 \<or> witness ! 2 \<noteq> [1] \<or> witness ! 3 \<noteq> script then Err BW_InvalidEvidence
                  else witness_preimage C (bl_htlc lk) (witness ! 1)
              | Refund \<Rightarrow>
                  if length witness \<noteq> 3 \<or> witness ! 1 \<noteq> [] \<or> witness ! 2 \<noteq> script then Err BW_InvalidEvidence
                  else Ok None) (\<lambda>preimage.
            rbind (prepare_htlc_spend_template C P lk (to_script_pubkey output) fee_sats branch preimage None) (\<lambda>expected.
            if length (witness ! 0) \<le> 1 then Err BW_InvalidEvidence
            else if unat (last (witness ! 0)) \<noteq> bk_sighash_to_u32 B SighashAll then Err BW_InvalidEvidence
            else rbind (ok_or (bk_from_der B (butlast (witness ! 0))) BW_InvalidEvidence) (\<lambda>signature.
              if bk_normalize_s B signature \<noteq> signature then Err BW_InvalidEvidence
              else rbind (ok_or (mp_public_key_from_slice P (branch_public_key branch (bl_htlc lk))) BW_InvalidEvidence) (\<lambda>public_key.
                rbind (ok_or (bk_p2wsh_signature_hash B transaction 0 script (bl_value_sats lk) SighashAll) BW_InvalidEvidence) (\<lambda>sighash.
                if \<not> bk_verify_ecdsa B sighash signature public_key then Err BW_InvalidEvidence
                else if with_first_witness expected witness \<noteq> transaction then Err BW_InvalidEvidence
                else Ok \<lparr>vs_txid = mp_compute_txid P transaction, vs_wtxid = bk_wtxid B transaction,
                  vs_fee_sats = fee_sats, vs_branch = branch, vs_revealed_preimage = preimage\<rparr>))))))))"

record descriptor_wallet =
  dw_get_utxo :: "transaction_hash \<times> u32 \<Rightarrow> bool"
  dw_is_mine :: "bytes \<Rightarrow> bool"
  dw_calculate_fee :: "bitcoin_transaction \<Rightarrow> string + u64"

definition matching_inputs :: "verified_bitcoin_lock \<Rightarrow> bitcoin_transaction \<Rightarrow> (nat \<times> bitcoin_tx_in) list" where
  "matching_inputs lk transaction = filter (\<lambda>(_, input). spends_lock lk input) (enumerate 0 (tx_input transaction))"

definition verify_signed_bitcoin_htlc_spend_with_wallet ::
  "crypto \<Rightarrow> protocol \<Rightarrow> bitcoin_lib \<Rightarrow> descriptor_wallet \<Rightarrow> bytes \<Rightarrow> verified_bitcoin_lock \<Rightarrow> htlc_spend_branch \<Rightarrow>
   (bitcoin_wallet_error, verified_bitcoin_htlc_spend) result" where
  "verify_signed_bitcoin_htlc_spend_with_wallet C P B wallet raw_transaction lk branch =
     (case verify_signed_bitcoin_htlc_spend C P B raw_transaction lk branch of
        Inr verified \<Rightarrow> Ok verified
      | Inl _ \<Rightarrow>
        if branch \<noteq> Redeem \<or> raw_transaction = [] \<or> MAX_BITCOIN_TRANSACTION_BYTES < length raw_transaction
        then Err BW_InvalidEvidence
        else rbind (bitcoin_htlc_validate P (bl_htlc lk)) (\<lambda>_.
        rbind (ok_or (mp_deserialize_transaction P raw_transaction) BW_InvalidEvidence) (\<lambda>transaction.
        if bk_serialize B transaction \<noteq> raw_transaction \<or> tx_version transaction \<noteq> 2 \<or>
           tx_lock_time transaction \<noteq> Blocks 0 \<or> length (tx_input transaction) < 2 \<or> tx_output transaction = []
        then Err BW_InvalidEvidence
        else case matching_inputs lk transaction of
          [] \<Rightarrow> Err BW_InvalidEvidence
        | (htlc_index, htlc_input) # others \<Rightarrow>
          if others \<noteq> [] \<or> ti_sequence htlc_input \<noteq> SequenceMax then Err BW_InvalidEvidence
          else if list_ex (\<lambda>(index, input). index \<noteq> htlc_index \<and>
                (\<not> dw_get_utxo wallet (ti_txid input, ti_vout input) \<or> ti_witness input = []))
              (enumerate 0 (tx_input transaction)) then Err BW_InvalidEvidence
          else if list_ex (\<lambda>output. \<not> dw_is_mine wallet (to_script_pubkey output)) (tx_output transaction) \<or>
              length (filter (\<lambda>output. to_value output = bl_value_sats lk) (tx_output transaction)) \<noteq> 1
            then Err BW_InvalidEvidence
          else let witness = ti_witness htlc_input; script = bh_witness_script (bl_htlc lk) in
            if length witness \<noteq> 4 \<or> witness ! 2 \<noteq> [1] \<or> witness ! 3 \<noteq> script then Err BW_InvalidEvidence
            else rbind (witness_preimage C (bl_htlc lk) (witness ! 1)) (\<lambda>preimage.
              if witness ! 0 = [] \<or> last (witness ! 0) \<noteq> word_of_nat (bk_sighash_to_u32 B SighashAll)
              then Err BW_InvalidEvidence
              else rbind (ok_or (bk_from_der B (butlast (witness ! 0))) BW_InvalidEvidence) (\<lambda>signature.
              if bk_normalize_s B signature \<noteq> signature then Err BW_InvalidEvidence
              else rbind (ok_or (mp_public_key_from_slice P (bh_receiver_public_key (bl_htlc lk))) BW_InvalidEvidence) (\<lambda>public_key.
                rbind (ok_or (bk_p2wsh_signature_hash B transaction htlc_index script (bl_value_sats lk) SighashAll)
                  BW_InvalidEvidence) (\<lambda>sighash.
                if \<not> bk_verify_ecdsa B sighash signature public_key then Err BW_InvalidEvidence
                else rbind (map_err BW_Wallet (dw_calculate_fee wallet transaction)) (\<lambda>fee_sats.
                  if fee_sats = 0 then Err BW_InvalidFee
                  else Ok \<lparr>vs_txid = mp_compute_txid P transaction, vs_wtxid = bk_wtxid B transaction,
                    vs_fee_sats = fee_sats, vs_branch = branch, vs_revealed_preimage = preimage\<rparr>))))))))"

section \<open>Spends seen in a block\<close>

fun lock_time_to_consensus :: "lock_time \<Rightarrow> u32" where
  "lock_time_to_consensus (Blocks n) = n"
| "lock_time_to_consensus (Seconds n) = n"

definition observed_redeem_witness :: "crypto \<Rightarrow> bitcoin_htlc \<Rightarrow> bytes list \<Rightarrow> (bitcoin_wallet_error, bytes option) result" where
  "observed_redeem_witness C htlc witness =
     (if length witness \<noteq> 4 then Err BW_InvalidObservedSpendWitnessShape
      else if witness ! 2 \<noteq> [1] then Err BW_InvalidObservedSpendBranchSelector
      else if witness ! 3 \<noteq> bh_witness_script htlc then Err BW_InvalidObservedSpendWitnessScript
      else witness_preimage C htlc (witness ! 1))"

definition observed_refund_witness ::
  "bitcoin_htlc \<Rightarrow> bitcoin_transaction \<Rightarrow> bitcoin_tx_in \<Rightarrow> (bitcoin_wallet_error, bytes option) result" where
  "observed_refund_witness htlc transaction htlc_input =
     (let witness = ti_witness htlc_input; n = lock_time_to_consensus (tx_lock_time transaction) in
      if n < bh_refund_locktime htlc \<or> n < BITCOIN_TIMESTAMP_LOCKTIME_THRESHOLD \<or> ti_sequence htlc_input = SequenceMax
      then Err BW_InvalidObservedSpendRefundLocktime
      else if length witness \<noteq> 3 then Err BW_InvalidObservedSpendWitnessShape
      else if witness ! 1 \<noteq> [] then Err BW_InvalidObservedSpendBranchSelector
      else if witness ! 2 \<noteq> bh_witness_script htlc then Err BW_InvalidObservedSpendWitnessScript
      else Ok None)"

record verified_bitcoin_htlc_chain_spend =
  cs_txid :: transaction_hash
  cs_wtxid :: bytes
  cs_branch :: htlc_spend_branch
  cs_revealed_preimage :: "bytes option"

definition verify_observed_bitcoin_htlc_spend ::
  "crypto \<Rightarrow> protocol \<Rightarrow> bitcoin_lib \<Rightarrow> bytes \<Rightarrow> verified_bitcoin_lock \<Rightarrow> htlc_spend_branch \<Rightarrow>
   (bitcoin_wallet_error, verified_bitcoin_htlc_chain_spend) result" where
  "verify_observed_bitcoin_htlc_spend C P B raw_transaction lk branch =
     (if raw_transaction = [] \<or> MAX_BITCOIN_TRANSACTION_BYTES < length raw_transaction then Err BW_TransactionTooLarge
      else rbind (bitcoin_htlc_validate P (bl_htlc lk)) (\<lambda>_.
        rbind (ok_or (mp_deserialize_transaction P raw_transaction) BW_InvalidObservedSpendShape) (\<lambda>transaction.
        if bk_serialize B transaction \<noteq> raw_transaction \<or> tx_input transaction = [] \<or> tx_output transaction = []
        then Err BW_InvalidObservedSpendShape
        else case matching_inputs lk transaction of
          [] \<Rightarrow> Err BW_InvalidObservedSpendOutpoint
        | _ # _ # _ \<Rightarrow> Err BW_InvalidObservedSpendOutpoint
        | [(htlc_index, htlc_input)] \<Rightarrow>
          let witness = ti_witness htlc_input in
          rbind (case branch of Redeem \<Rightarrow> observed_redeem_witness C (bl_htlc lk) witness
            | Refund \<Rightarrow> observed_refund_witness (bl_htlc lk) transaction htlc_input) (\<lambda>preimage.
          if length (witness ! 0) \<le> 1 then Err BW_InvalidObservedSpendSignatureEncoding
          else rbind (ok_or (bk_sighash_from_standard B (unat (last (witness ! 0))))
              BW_InvalidObservedSpendSignatureEncoding) (\<lambda>sighash_type.
            rbind (ok_or (bk_from_der B (butlast (witness ! 0))) BW_InvalidObservedSpendSignatureEncoding) (\<lambda>signature.
            if bk_normalize_s B signature \<noteq> signature then Err BW_InvalidObservedSpendSignatureEncoding
            else rbind (ok_or (mp_public_key_from_slice P (branch_public_key branch (bl_htlc lk)))
                BW_InvalidObservedSpendSignatureEncoding) (\<lambda>public_key.
              rbind (ok_or (bk_p2wsh_signature_hash B transaction htlc_index (bh_witness_script (bl_htlc lk))
                  (bl_value_sats lk) sighash_type) BW_InvalidObservedSpendSignatureEncoding) (\<lambda>sighash.
              if \<not> bk_verify_ecdsa B sighash signature public_key then Err BW_InvalidObservedSpendSignature
              else Ok \<lparr>cs_txid = mp_compute_txid P transaction, cs_wtxid = bk_wtxid B transaction,
                cs_branch = branch, cs_revealed_preimage = preimage\<rparr>))))))))"

definition observe_preimage ::
  "crypto \<Rightarrow> protocol \<Rightarrow> bytes \<Rightarrow> verified_bitcoin_lock \<Rightarrow> (bitcoin_wallet_error, bytes option) result" where
  "observe_preimage C P raw_spending_transaction lk =
     (if raw_spending_transaction = [] \<or> MAX_BITCOIN_TRANSACTION_BYTES < length raw_spending_transaction
      then Err BW_TransactionTooLarge
      else rbind (ok_or (mp_deserialize_transaction P raw_spending_transaction) BW_InvalidEvidence) (\<lambda>transaction.
        case filter (spends_lock lk) (tx_input transaction) of
          [] \<Rightarrow> Err BW_InvalidEvidence
        | input # others \<Rightarrow>
            if others \<noteq> [] \<or> ti_witness input = [] \<or> last (ti_witness input) \<noteq> bh_witness_script (bl_htlc lk)
            then Err BW_InvalidEvidence
            else Ok (find (\<lambda>item. length item = 32 \<and> sha256 C item = bh_hashlock (bl_htlc lk)) (ti_witness input))))"

definition htlc_commitment :: "crypto \<Rightarrow> bitcoin_htlc \<Rightarrow> object_hash" where
  "htlc_commitment C htlc = sha256 C (byte_str ''hns-wallet-bitcoin-htlc/v1'' @ bh_witness_script htlc)"

end
