(* ===== verification/Swap_Terms.thy ===== *)
theory Swap_Terms
  imports Bitcoin_Spend
begin

text \<open>
  What signed terms mean for an execution (hns-wallet-market/src/lib.rs): which side is on which chain, the
  canonical lock of each side and its commitment, effective refund times and the safety margins between
  them, the session an accepted agreement starts, and the checks and evidence identifiers of locally
  verified funding and spends.
\<close>

section \<open>Constants\<close>

definition MAX_CONCURRENT_SWAP_SESSIONS :: nat where "MAX_CONCURRENT_SWAP_SESSIONS = 16"
definition MIN_EFFECTIVE_REFUND_SAFETY_MARGIN_SECONDS :: u64 where
  "MIN_EFFECTIVE_REFUND_SAFETY_MARGIN_SECONDS = 60 * 60"
definition MIN_SECOND_CHAIN_REDEMPTION_WINDOW_SECONDS :: u64 where
  "MIN_SECOND_CHAIN_REDEMPTION_WINDOW_SECONDS = 60 * 60"
definition SHAKESCAPE_BITCOIN_MINIMUM_CONFIRMATIONS :: u32 where "SHAKESCAPE_BITCOIN_MINIMUM_CONFIRMATIONS = 1"
definition SHAKESCAPE_HNS_MINIMUM_CONFIRMATIONS :: u32 where "SHAKESCAPE_HNS_MINIMUM_CONFIRMATIONS = 2"
definition SHAKESCAPE_MAX_SETTLEMENT_HORIZON_SECONDS :: u64 where
  "SHAKESCAPE_MAX_SETTLEMENT_HORIZON_SECONDS = 7 * 24 * 60 * 60"

lemmas margin_defs = MIN_EFFECTIVE_REFUND_SAFETY_MARGIN_SECONDS_def
  MIN_SECOND_CHAIN_REDEMPTION_WINDOW_SECONDS_def SHAKESCAPE_BITCOIN_MINIMUM_CONFIRMATIONS_def
  SHAKESCAPE_HNS_MINIMUM_CONFIRMATIONS_def SHAKESCAPE_MAX_SETTLEMENT_HORIZON_SECONDS_def

section \<open>Sides and chains\<close>

definition hns_side :: "swap_session_hello \<Rightarrow> (market_error, swap_asset_side) result" where
  "hns_side hello =
     (if he_offered_asset hello = AssetHNS then Ok SideOffered
      else if he_received_asset hello = AssetHNS then Ok SideReceived else Err ME_InvalidPair)"

definition bitcoin_side :: "swap_session_hello \<Rightarrow> (market_error, swap_asset_side) result" where
  "bitcoin_side hello =
     (if he_offered_asset hello = AssetBTC then Ok SideOffered
      else if he_received_asset hello = AssetBTC then Ok SideReceived else Err ME_InvalidPair)"

fun confirmation_minimum :: "swap_session_hello \<Rightarrow> swap_asset_side \<Rightarrow> u32" where
  "confirmation_minimum hello SideOffered = he_offered_minimum_confirmations hello"
| "confirmation_minimum hello SideReceived = he_received_minimum_confirmations hello"

fun wallet_asset_for_protocol_asset :: "asset_id \<Rightarrow> (market_error, wallet_asset) result" where
  "wallet_asset_for_protocol_asset AssetHNS = Ok Hns"
| "wallet_asset_for_protocol_asset AssetBTC = Ok Btc"
| "wallet_asset_for_protocol_asset _ = Err ME_InvalidPair"

fun module_for_chain :: "chain_id \<Rightarrow> (market_error, module_id) result" where
  "module_for_chain ChainHandshake = Ok Handshake"
| "module_for_chain ChainBitcoin = Ok Bitcoin"
| "module_for_chain _ = Err ME_InvalidPair"

fun other_chain :: "chain_id \<Rightarrow> (market_error, chain_id) result" where
  "other_chain ChainHandshake = Ok ChainBitcoin"
| "other_chain ChainBitcoin = Ok ChainHandshake"
| "other_chain _ = Err ME_InvalidPair"

section \<open>Canonical locks\<close>

definition build_hns_lock ::
  "protocol \<Rightarrow> swap_session_hello \<Rightarrow> swap_asset_side \<Rightarrow> (market_error, hns_htlc \<times> bytes) result" where
  "build_hns_lock P hello side =
     ok_or (mp_build_hns_htlc P hello side
       (case side of SideOffered \<Rightarrow> he_taker_settlement_public_key hello
        | SideReceived \<Rightarrow> he_maker_settlement_public_key hello)
       (case side of SideOffered \<Rightarrow> he_maker_settlement_public_key hello
        | SideReceived \<Rightarrow> he_taker_settlement_public_key hello)) ME_InvalidShakescapeDirectSwap"

definition canonical_hns_descriptor ::
  "protocol \<Rightarrow> swap_session_hello \<Rightarrow> swap_asset_side \<Rightarrow> (market_error, hns_htlc) result" where
  "canonical_hns_descriptor P hello side = rbind (build_hns_lock P hello side) (\<lambda>(descriptor, _). Ok descriptor)"

definition verify_canonical_shakescape_lock_commitment ::
  "crypto \<Rightarrow> protocol \<Rightarrow> swap_session_hello \<Rightarrow> swap_asset_side \<Rightarrow> (market_error, unit) result" where
  "verify_canonical_shakescape_lock_commitment C P hello side =
     (let (asset, commitment) = (case side of
         SideOffered \<Rightarrow> (he_offered_asset hello, he_offered_lock_commitment hello)
       | SideReceived \<Rightarrow> (he_received_asset hello, he_received_lock_commitment hello))
      in rbind (case asset of
           AssetHNS \<Rightarrow> rbind (build_hns_lock P hello side) (\<lambda>(_, descriptor_hash). Ok descriptor_hash)
         | AssetBTC \<Rightarrow> map_err (\<lambda>_. ME_InvalidShakescapeDirectSwap)
             (rbind (build_shakescape_bitcoin_htlc C P hello side) (\<lambda>b. Ok (bb_commitment b)))
         | AssetOther _ \<Rightarrow> Err ME_InvalidPair)
         (\<lambda>computed. if computed \<noteq> commitment then Err ME_InvalidShakescapeDirectSwap else Ok ()))"

definition verify_canonical_shakescape_lock_commitments ::
  "crypto \<Rightarrow> protocol \<Rightarrow> swap_session_hello \<Rightarrow> (market_error, unit) result" where
  "verify_canonical_shakescape_lock_commitments C P hello =
     rbind (verify_canonical_shakescape_lock_commitment C P hello SideOffered) (\<lambda>_.
       verify_canonical_shakescape_lock_commitment C P hello SideReceived)"

section \<open>Refund times\<close>

definition shakescape_effective_refund_at ::
  "protocol \<Rightarrow> asset_id \<Rightarrow> settlement_deadline \<Rightarrow> (market_error, u64) result" where
  "shakescape_effective_refund_at P asset_id deadline =
     (if sd_kind deadline \<noteq> UnixTime then Err ME_UnsafeTimeouts
      else case asset_id of
        AssetHNS \<Rightarrow> ok_or (mp_hns_refund_time P deadline) ME_UnsafeTimeouts
      | AssetBTC \<Rightarrow> Ok (sd_value deadline)
      | AssetOther _ \<Rightarrow> Err ME_InvalidPair)"

fun expected_confirmations :: "asset_id \<Rightarrow> (market_error, u32) result" where
  "expected_confirmations AssetBTC = Ok SHAKESCAPE_BITCOIN_MINIMUM_CONFIRMATIONS"
| "expected_confirmations AssetHNS = Ok SHAKESCAPE_HNS_MINIMUM_CONFIRMATIONS"
| "expected_confirmations _ = Err ME_InvalidPair"

definition validate_shakescape_effective_refund_safety ::
  "protocol \<Rightarrow> swap_session_hello \<Rightarrow> (market_error, unit) result" where
  "validate_shakescape_effective_refund_safety P hello =
     (if he_first_funding_chain hello \<noteq> mp_asset_chain P (he_offered_asset hello) then Err ME_InvalidPair
      else rbind (expected_confirmations (he_offered_asset hello)) (\<lambda>offered_confirmations.
        if he_offered_minimum_confirmations hello \<noteq> offered_confirmations then Err ME_UnsafeTimeouts
        else rbind (expected_confirmations (he_received_asset hello)) (\<lambda>received_confirmations.
        if he_received_minimum_confirmations hello \<noteq> received_confirmations then Err ME_UnsafeTimeouts
        else rbind (shakescape_effective_refund_at P (he_offered_asset hello) (he_offered_refund_deadline hello)) (\<lambda>first_refund.
          rbind (shakescape_effective_refund_at P (he_received_asset hello) (he_received_refund_deadline hello)) (\<lambda>second_refund.
          rbind (ok_or (checked_add_u64 (hd_created_at (he_header hello)) SHAKESCAPE_MAX_SETTLEMENT_HORIZON_SECONDS)
            ME_UnsafeTimeouts) (\<lambda>maximum_refund.
          rbind (ok_or (checked_add_u64 (hd_expires_at (he_header hello)) MIN_SECOND_CHAIN_REDEMPTION_WINDOW_SECONDS)
            ME_UnsafeTimeouts) (\<lambda>minimum_second_refund.
          if maximum_refund < first_refund \<or> maximum_refund < second_refund \<or>
             second_refund < minimum_second_refund \<or> first_refund < second_refund \<or>
             first_refund - second_refund < MIN_EFFECTIVE_REFUND_SAFETY_MARGIN_SECONDS
          then Err ME_UnsafeTimeouts else Ok ())))))))"

section \<open>The session of an accepted agreement\<close>

definition swap_session_from_accepted_hello ::
  "protocol \<Rightarrow> swap_session_hello \<Rightarrow> u64 \<Rightarrow> (market_error, swap_session) result" where
  "swap_session_from_accepted_hello P hello now_unix =
     (if he_offered_asset hello \<noteq> AssetHNS \<and> he_offered_asset hello \<noteq> AssetBTC \<or>
         he_received_asset hello \<noteq> AssetHNS \<and> he_received_asset hello \<noteq> AssetBTC \<or>
         he_offered_asset hello = he_received_asset hello \<or>
         sd_kind (he_offered_refund_deadline hello) \<noteq> UnixTime \<or>
         sd_kind (he_received_refund_deadline hello) \<noteq> UnixTime
      then Err ME_InvalidPair
      else rbind (wallet_asset_for_protocol_asset (he_offered_asset hello)) (\<lambda>offered_asset.
        rbind (wallet_asset_for_protocol_asset (he_received_asset hello)) (\<lambda>received_asset.
        rbind (module_for_chain (he_first_funding_chain hello)) (\<lambda>first_module.
        rbind (rbind (other_chain (he_first_funding_chain hello)) module_for_chain) (\<lambda>second_module.
        rbind (if he_first_funding_chain hello = mp_asset_chain P (he_offered_asset hello)
               then Ok (sd_value (he_offered_refund_deadline hello), sd_value (he_received_refund_deadline hello))
               else if he_first_funding_chain hello = mp_asset_chain P (he_received_asset hello)
               then Ok (sd_value (he_received_refund_deadline hello), sd_value (he_offered_refund_deadline hello))
               else Err ME_InvalidPair) (\<lambda>(first_refund_at, second_refund_at).
        if first_refund_at < second_refund_at then Err ME_UnsafeTimeouts
        else rbind (swap_session_new (he_swap_session_id hello) first_module second_module
            \<lparr>vq_terms_id = he_direct_offer_id hello,
             vq_offered = \<lparr>am_asset = offered_asset, am_base_units = he_offered_amount hello\<rparr>,
             vq_received = \<lparr>am_asset = received_asset, am_base_units = he_received_amount hello\<rparr>,
             vq_valid_until_unix = sd_value (he_received_refund_deadline hello)\<rparr>
            (he_hashlock hello)
            \<lparr>tp_first_chain_refund_at = first_refund_at, tp_second_chain_refund_at = second_refund_at,
             tp_minimum_safety_margin = first_refund_at - second_refund_at\<rparr>
            now_unix) (\<lambda>session. Ok (session\<lparr>ss_state := TermsFrozen, ss_revision := 1\<rparr>))))))))"

section \<open>Locally verified evidence\<close>

record verified_lock =
  vl_module :: module_id
  vl_session_id :: session_id
  vl_funding_id :: transaction_hash
  vl_amount :: amount
  vl_hashlock :: object_hash
  vl_absolute_timelock :: u64
  vl_confirmation_count :: u32
  vl_evidence_hash :: object_hash

datatype locally_verified_swap_funding = FundingHns verified_lock | FundingBitcoin verified_bitcoin_lock

fun funding_module :: "locally_verified_swap_funding \<Rightarrow> module_id" where
  "funding_module (FundingHns _) = Handshake"
| "funding_module (FundingBitcoin _) = Bitcoin"

datatype verified_native_htlc_spend =
    NativeRedeem transaction_hash u32 bytes
  | NativeRefund transaction_hash u32

record verified_bitcoin_htlc_spend_observation =
  so_spend :: verified_bitcoin_htlc_chain_spend
  so_confirmation_count :: u32

datatype locally_verified_swap_spend =
    SpendHns verified_native_htlc_spend
  | SpendBitcoin verified_bitcoin_htlc_spend_observation

fun spend_module :: "locally_verified_swap_spend \<Rightarrow> module_id" where
  "spend_module (SpendHns _) = Handshake"
| "spend_module (SpendBitcoin _) = Bitcoin"

fun redeem_preimage :: "locally_verified_swap_spend \<Rightarrow> (market_error, bytes) result" where
  "redeem_preimage (SpendHns (NativeRedeem _ _ preimage)) = Ok preimage"
| "redeem_preimage (SpendHns (NativeRefund _ _)) = Err ME_InvalidEvidence"
| "redeem_preimage (SpendBitcoin observation) =
     (case (cs_branch (so_spend observation), cs_revealed_preimage (so_spend observation)) of
        (Redeem, Some preimage) \<Rightarrow> Ok preimage
      | _ \<Rightarrow> Err ME_InvalidEvidence)"

fun is_refund :: "locally_verified_swap_spend \<Rightarrow> bool" where
  "is_refund (SpendHns (NativeRefund _ _)) = True"
| "is_refund (SpendHns (NativeRedeem _ _ _)) = False"
| "is_refund (SpendBitcoin observation) = (cs_branch (so_spend observation) = Refund)"

fun confirmation_count :: "locally_verified_swap_spend \<Rightarrow> u32" where
  "confirmation_count (SpendHns (NativeRedeem _ n _)) = n"
| "confirmation_count (SpendHns (NativeRefund _ n)) = n"
| "confirmation_count (SpendBitcoin observation) = so_confirmation_count observation"

fun verify_local_funding_against_shakescape_terms ::
  "crypto \<Rightarrow> protocol \<Rightarrow> swap_session_hello \<Rightarrow> locally_verified_swap_funding \<Rightarrow> (market_error, unit) result" where
  "verify_local_funding_against_shakescape_terms C P hello (FundingHns lk) =
     rbind (hns_side hello) (\<lambda>side.
     rbind (canonical_hns_descriptor P hello side) (\<lambda>descriptor.
       if vl_module lk \<noteq> Handshake \<or> vl_session_id lk \<noteq> he_swap_session_id hello \<or>
          am_asset (vl_amount lk) \<noteq> Hns \<or> am_base_units (vl_amount lk) \<noteq> hh_value descriptor \<or>
          vl_hashlock lk \<noteq> hh_hashlock descriptor \<or> vl_absolute_timelock lk \<noteq> hh_refund_locktime descriptor \<or>
          vl_confirmation_count lk < confirmation_minimum hello side
       then Err ME_InvalidEvidence else Ok ()))"
| "verify_local_funding_against_shakescape_terms C P hello (FundingBitcoin lk) =
     rbind (bitcoin_side hello) (\<lambda>side.
     rbind (map_err (\<lambda>_. ME_InvalidShakescapeDirectSwap) (build_shakescape_bitcoin_htlc C P hello side)) (\<lambda>descriptor.
       if bl_value_sats lk \<noteq> bb_value_sats descriptor \<or>
          bl_confirmation_count lk < confirmation_minimum hello side \<or> bl_htlc lk \<noteq> bb_htlc descriptor
       then Err ME_InvalidEvidence else Ok ()))"

fun funding_evidence_id :: "crypto \<Rightarrow> locally_verified_swap_funding \<Rightarrow> object_hash" where
  "funding_evidence_id C (FundingHns lk) = sha256 C (byte_str ''hns-wallet-rs/verified-shakescape-funding/v1'' @
     [0] @ vl_funding_id lk @ vl_evidence_hash lk)"
| "funding_evidence_id C (FundingBitcoin lk) = sha256 C (byte_str ''hns-wallet-rs/verified-shakescape-funding/v1'' @
     [1] @ bl_funding_txid lk @ be_bytes 4 (bl_output_index lk))"

fun spend_evidence_id :: "crypto \<Rightarrow> locally_verified_swap_spend \<Rightarrow> object_hash" where
  "spend_evidence_id C (SpendHns (NativeRedeem transaction _ _)) =
     sha256 C (byte_str ''hns-wallet-rs/verified-shakescape-spend/v1'' @ [0, 0] @ transaction)"
| "spend_evidence_id C (SpendHns (NativeRefund transaction _)) =
     sha256 C (byte_str ''hns-wallet-rs/verified-shakescape-spend/v1'' @ [0, 1] @ transaction)"
| "spend_evidence_id C (SpendBitcoin observation) =
     sha256 C (byte_str ''hns-wallet-rs/verified-shakescape-spend/v1'' @ [1] @ cs_txid (so_spend observation) @
       cs_wtxid (so_spend observation) @ (case cs_branch (so_spend observation) of Redeem \<Rightarrow> [0] | Refund \<Rightarrow> [1]))"

end
