(* ===== verification/Offer_Board.thy ===== *)
theory Offer_Board
  imports Swap_Terms "HOL-Library.Product_Lexorder"
begin

text \<open>
  The board of direct offers (hns-wallet-market/src/direct_board.rs): admission of signed offers and
  cancellations, their encrypted rows, re-authentication of every row that is read, expiry, pruning, the
  inventory and the price levels. Reads are functions of the store; operations that write are steps over
  it, as a method may fail after it wrote. \<open>ME_DivisionByZero\<close> is the panic of dividing by a zero divisor.
\<close>

section \<open>Steps over the store\<close>

definition sread :: "(wallet_store \<Rightarrow> (market_error, 'a) result) \<Rightarrow> (wallet_store, market_error, 'a) step" where
  "sread f s = (f s, s)"

definition in_store :: "(wallet_store \<Rightarrow> (store_error, 'a \<times> wallet_store) result) \<Rightarrow> (wallet_store, market_error, 'a) step" where
  "in_store f s = (case f s of Inl e \<Rightarrow> (Inl (market_error_from_store e), s) | Inr (a, s') \<Rightarrow> (Inr a, s'))"

abbreviation store_read :: "(store_error, 'a) result \<Rightarrow> (market_error, 'a) result" where
  "store_read \<equiv> map_err market_error_from_store"

lemma sread_Ok: "sread f s = (r, t) \<longleftrightarrow> t = s \<and> r = f s"
  by (auto simp: sread_def)

lemma in_store_Ok: "in_store f s = (Inr a, t) \<longleftrightarrow> f s = Inr (a, t)"
  by (auto simp: in_store_def split: sum.splits)

lemma in_store_Err: "in_store f s = (Inl e, t) \<Longrightarrow> t = s"
  by (auto simp: in_store_def split: sum.splits)

section \<open>Time and policy\<close>

definition MAX_SHAKESCAPE_PEER_CLOCK_SKEW_SECONDS :: u64 where "MAX_SHAKESCAPE_PEER_CLOCK_SKEW_SECONDS = 10 * 60"

definition peer_object_validation_time :: "u64 \<Rightarrow> u64 \<Rightarrow> u64 option" where
  "peer_object_validation_time created_at_unix received_at_unix =
     (if created_at_unix \<le> saturating_add_u64 received_at_unix MAX_SHAKESCAPE_PEER_CLOCK_SKEW_SECONDS
      then Some (max received_at_unix created_at_unix) else None)"

definition MAX_DIRECT_PUBLICATION_LIFETIME_SECONDS :: u64 where
  "MAX_DIRECT_PUBLICATION_LIFETIME_SECONDS = 7 * 24 * 60 * 60"

definition bounded_publication_window :: "u64 \<Rightarrow> u64 \<Rightarrow> bool" where
  "bounded_publication_window created_at expires_at \<longleftrightarrow>
     created_at \<le> expires_at \<and> expires_at - created_at \<le> MAX_DIRECT_PUBLICATION_LIFETIME_SECONDS"

definition DIRECT_OFFER_BOARD_SCHEMA_VERSION :: u16 where "DIRECT_OFFER_BOARD_SCHEMA_VERSION = 1"
definition DIRECT_OFFER_BOARD_POLICY_DOMAIN :: bytes where
  "DIRECT_OFFER_BOARD_POLICY_DOMAIN = byte_str ''hns-wallet-direct-offer-board-policy-v1'' @ [0]"
definition DIRECT_OFFER_BOARD_RECORD_PREFIX :: bytes where
  "DIRECT_OFFER_BOARD_RECORD_PREFIX = byte_str ''shakescape-v1-direct-offer'' @ [0]"

record board_policy =
  bp_network :: network_binding
  bp_fingerprint :: object_hash

definition board_policy_new :: "crypto \<Rightarrow> protocol \<Rightarrow> network_binding \<Rightarrow> (market_error, board_policy) result" where
  "board_policy_new C P network =
     (if \<not> mp_validate_for_hns_btc P network then Err ME_InvalidShakescapeDirectOfferPolicy
      else rbind (ok_or (mp_encode_network P network) ME_InvalidShakescapeDirectOfferPolicy) (\<lambda>encoded.
        Ok \<lparr>bp_network = network, bp_fingerprint = sha256 C (DIRECT_OFFER_BOARD_POLICY_DOMAIN @ encoded)\<rparr>))"

section \<open>Rows and records\<close>

record persisted_direct_offer =
  po_schema_version :: u16
  po_policy_fingerprint :: object_hash
  po_offer_id :: object_hash
  po_accepted_at_unix :: u64
  po_offer_hex :: string
  po_cancellation_hex :: "string option"
  po_cancelled_at_unix :: "u64 option"

record offer_record =
  or_store_revision :: u64
  or_accepted_at_unix :: u64
  or_cancelled_at_unix :: "u64 option"
  or_offer :: direct_offer
  or_cancellation :: "direct_offer_cancellation option"

record offer_snapshot =
  os_store_revision :: u64
  os_offer_id :: object_hash
  os_session_id :: session_id
  os_signer_public_key :: public_key
  os_offer_setter_settlement_public_key :: public_key
  os_offered_asset :: asset_id
  os_offered_amount :: u128
  os_received_asset :: asset_id
  os_received_amount :: u128
  os_created_at_unix :: u64
  os_expires_at_unix :: u64
  os_accepted_at_unix :: u64
  os_cancelled_at_unix :: "u64 option"

definition offer_snapshot_of :: "offer_record \<Rightarrow> offer_snapshot" where
  "offer_snapshot_of r =
     \<lparr>os_store_revision = or_store_revision r, os_offer_id = of_offer_id (or_offer r),
      os_session_id = of_swap_session_id (or_offer r),
      os_signer_public_key = hd_signer_public_key (of_header (or_offer r)),
      os_offer_setter_settlement_public_key = of_offer_setter_settlement_public_key (or_offer r),
      os_offered_asset = of_offered_asset (or_offer r), os_offered_amount = of_offered_amount (or_offer r),
      os_received_asset = of_received_asset (or_offer r), os_received_amount = of_received_amount (or_offer r),
      os_created_at_unix = hd_created_at (of_header (or_offer r)),
      os_expires_at_unix = hd_expires_at (of_header (or_offer r)),
      os_accepted_at_unix = or_accepted_at_unix r, os_cancelled_at_unix = or_cancelled_at_unix r\<rparr>"

definition is_active_at :: "offer_record \<Rightarrow> u64 \<Rightarrow> bool" where
  "is_active_at r now_unix \<longleftrightarrow> or_cancellation r = None \<and> hd_created_at (of_header (or_offer r)) \<le> now_unix \<and>
     now_unix < hd_expires_at (of_header (or_offer r))"

datatype offer_admission = OfferInserted offer_snapshot | OfferExisting offer_snapshot

datatype offer_cancellation_admission = CancellationApplied offer_snapshot | CancellationExisting offer_snapshot

definition offer_record_prefix :: "board_policy \<Rightarrow> bytes" where
  "offer_record_prefix policy = DIRECT_OFFER_BOARD_RECORD_PREFIX @ bp_fingerprint policy"

definition offer_record_id :: "board_policy \<Rightarrow> bytes \<Rightarrow> bytes" where
  "offer_record_id policy offer_id = offer_record_prefix policy @ offer_id"

section \<open>Canonical encodings\<close>

definition decode_canonical_envelope ::
  "protocol \<Rightarrow> bytes \<Rightarrow> (market_error, u64 \<times> cross_chain_message) result" where
  "decode_canonical_envelope P envelope_bytes =
     (if envelope_bytes = [] then Err ME_InvalidShakescapePeerMessage
      else rbind (ok_or (mp_decode_envelope P envelope_bytes) ME_InvalidShakescapePeerMessage) (\<lambda>(request_id, message).
        rbind (ok_or (mp_encode_envelope P request_id message) ME_InvalidShakescapePeerMessage) (\<lambda>encoded.
          if encoded \<noteq> envelope_bytes then Err ME_InvalidShakescapePeerMessage
          else Ok (request_id, message))))"

definition offer_encode_hex :: "protocol \<Rightarrow> 'a codec \<Rightarrow> 'a \<Rightarrow> (market_error, string) result" where
  "offer_encode_hex P K v =
     rbind (ok_or (js_encode K v) ME_InvalidShakescapeDirectOffer) (\<lambda>b. Ok (mp_hex_encode P b))"

definition decode_hex_bytes :: "protocol \<Rightarrow> string \<Rightarrow> (market_error, bytes) result" where
  "decode_hex_bytes P encoded =
     rbind (ok_or (mp_hex_decode P encoded) ME_CorruptShakescapeDirectOfferBoard) (\<lambda>b.
       if mp_hex_encode P b \<noteq> encoded then Err ME_CorruptShakescapeDirectOfferBoard else Ok b)"

definition decode_stored_cancellation ::
  "protocol \<Rightarrow> board_policy \<Rightarrow> persisted_direct_offer \<Rightarrow> direct_offer \<Rightarrow> bytes \<Rightarrow>
   (market_error, direct_offer_cancellation) result" where
  "decode_stored_cancellation P policy v offer encoded =
     rbind (ok_or (js_decode (mp_cancellation P) encoded) ME_CorruptShakescapeDirectOfferBoard) (\<lambda>cancellation.
     rbind (ok_or (po_cancelled_at_unix v) ME_CorruptShakescapeDirectOfferBoard) (\<lambda>cancelled_at.
       if cancelled_at < po_accepted_at_unix v \<or>
          (case peer_object_validation_time (hd_created_at (oc_header cancellation)) cancelled_at of
             None \<Rightarrow> True | Some at \<Rightarrow> \<not> mp_verify_cancellation P cancellation offer (bp_network policy) at) \<or>
          js_encode (mp_cancellation P) cancellation \<noteq> Some encoded
       then Err ME_CorruptShakescapeDirectOfferBoard else Ok cancellation))"

definition decode_stored_offer ::
  "protocol \<Rightarrow> board_policy \<Rightarrow> persisted_direct_offer stored_entity \<Rightarrow> (market_error, offer_record) result" where
  "decode_stored_offer P policy stored =
     (let v = se_value stored in
      if po_schema_version v \<noteq> DIRECT_OFFER_BOARD_SCHEMA_VERSION \<or>
         po_policy_fingerprint v \<noteq> bp_fingerprint policy \<or> all_zero (po_offer_id v) \<or>
         se_id stored \<noteq> offer_record_id policy (po_offer_id v) \<or>
         (po_cancellation_hex v \<noteq> None) \<noteq> (po_cancelled_at_unix v \<noteq> None)
      then Err ME_CorruptShakescapeDirectOfferBoard
      else rbind (decode_hex_bytes P (po_offer_hex v)) (\<lambda>offer_bytes.
        rbind (ok_or (js_decode (mp_offer P) offer_bytes) ME_CorruptShakescapeDirectOfferBoard) (\<lambda>offer.
        if of_offer_id offer \<noteq> po_offer_id v \<or>
           (case peer_object_validation_time (hd_created_at (of_header offer)) (po_accepted_at_unix v) of
              None \<Rightarrow> True | Some at \<Rightarrow> \<not> mp_verify_offer_at P offer (bp_network policy) at) \<or>
           js_encode (mp_offer P) offer \<noteq> Some offer_bytes
        then Err ME_CorruptShakescapeDirectOfferBoard
        else rbind (case po_cancellation_hex v of
               None \<Rightarrow> Ok None
             | Some h \<Rightarrow> rbind (decode_hex_bytes P h) (\<lambda>encoded.
                 rbind (decode_stored_cancellation P policy v offer encoded) (\<lambda>c. Ok (Some c)))) (\<lambda>cancellation.
          if se_updated_at_unix stored \<noteq>
             (case po_cancelled_at_unix v of Some at \<Rightarrow> at | None \<Rightarrow> po_accepted_at_unix v)
          then Err ME_CorruptShakescapeDirectOfferBoard
          else Ok \<lparr>or_store_revision = se_revision stored, or_accepted_at_unix = po_accepted_at_unix v,
            or_cancelled_at_unix = po_cancelled_at_unix v, or_offer = offer, or_cancellation = cancellation\<rparr>))))"

section \<open>Reading the board\<close>

definition list_offer_rows ::
  "crypto \<Rightarrow> persisted_direct_offer codec \<Rightarrow> wallet_store \<Rightarrow> board_policy \<Rightarrow> nat \<Rightarrow>
   (market_error, persisted_direct_offer stored_entity list) result" where
  "list_offer_rows C J s policy limit =
     store_read (list_entities_by_id_prefix C J s EK_ShakescapeBoardObject (offer_record_prefix policy) limit)"

definition still_published :: "offer_record \<Rightarrow> u64 \<Rightarrow> bool" where
  "still_published r now_unix \<longleftrightarrow>
     now_unix < hd_expires_at (of_header (or_offer r)) \<and>
     bounded_publication_window (hd_created_at (of_header (or_offer r))) (hd_expires_at (of_header (or_offer r))) \<and>
     (case or_cancellation r of None \<Rightarrow> True | Some c \<Rightarrow>
        now_unix < hd_expires_at (oc_header c) \<and>
        bounded_publication_window (hd_created_at (oc_header c)) (hd_expires_at (oc_header c)))"

definition load_shakescape_direct_offers ::
  "crypto \<Rightarrow> protocol \<Rightarrow> persisted_direct_offer codec \<Rightarrow> wallet_store \<Rightarrow> board_policy \<Rightarrow> u64 \<Rightarrow>
   (market_error, offer_record list) result" where
  "load_shakescape_direct_offers C P J s policy now_unix =
     rbind (list_offer_rows C J s policy (mp_max_inventory_entries P + 1)) (\<lambda>stored.
       if mp_max_inventory_entries P < length stored then Err ME_ShakescapeDirectOfferCapacity
       else rbind (collect_results (map (decode_stored_offer P policy) stored)) (\<lambda>records.
         Ok (sort_key (\<lambda>r. of_offer_id (or_offer r)) (filter (\<lambda>r. still_published r now_unix) records))))"

definition load_shakescape_direct_offer ::
  "crypto \<Rightarrow> protocol \<Rightarrow> persisted_direct_offer codec \<Rightarrow> wallet_store \<Rightarrow> board_policy \<Rightarrow> bytes \<Rightarrow>
   (market_error, offer_record option) result" where
  "load_shakescape_direct_offer C P J s policy offer_id =
     (if all_zero offer_id then Err ME_InvalidShakescapeDirectOffer
      else rbind (store_read (load_entity C J s EK_ShakescapeBoardObject (offer_record_id policy offer_id))) (\<lambda>row.
        case row of None \<Rightarrow> Ok None
        | Some stored \<Rightarrow> rbind (decode_stored_offer P policy stored) (\<lambda>r. Ok (Some r))))"

definition shakescape_direct_offer_inventory ::
  "crypto \<Rightarrow> protocol \<Rightarrow> persisted_direct_offer codec \<Rightarrow> wallet_store \<Rightarrow> board_policy \<Rightarrow> u64 \<Rightarrow>
   (market_error, bytes list) result" where
  "shakescape_direct_offer_inventory C P J s policy now_unix =
     rbind (load_shakescape_direct_offers C P J s policy now_unix) (\<lambda>records.
       let ids = map (\<lambda>r. of_offer_id (or_offer r)) (filter (\<lambda>r. is_active_at r now_unix) records)
       in if mp_max_inventory_entries P < length ids \<or> length (remdups ids) \<noteq> length ids
          then Err ME_CorruptShakescapeDirectOfferBoard else Ok ids)"

definition direct_offer_retirement_delete ::
  "crypto \<Rightarrow> protocol \<Rightarrow> persisted_direct_offer codec \<Rightarrow> wallet_store \<Rightarrow> board_policy \<Rightarrow> bytes \<Rightarrow>
   (market_error, entity_batch_delete) result" where
  "direct_offer_retirement_delete C P J s policy offer_id =
     rbind (load_shakescape_direct_offer C P J s policy offer_id) (\<lambda>found.
     rbind (ok_or found ME_CorruptShakescapeDirectOfferBoard) (\<lambda>r.
       Ok \<lparr>bd_id = offer_record_id policy offer_id, bd_expected_revision = or_store_revision r\<rparr>))"

section \<open>Price levels\<close>

fun gcd_u128 :: "u128 \<Rightarrow> u128 \<Rightarrow> u128" where
  "gcd_u128 left right = (if right = 0 then left else gcd_u128 right (left mod right))"

declare gcd_u128.simps [simp del]

record offer_level =
  lv_offer_setter_sells_hns :: bool
  lv_btc_per_hns_numerator :: u128
  lv_btc_per_hns_denominator :: u128
  lv_total_hns_amount :: u128
  lv_total_btc_amount :: u128
  lv_offer_count :: nat

definition level_of :: "offer_record \<Rightarrow> bool \<times> u128 \<times> u128" where
  "level_of r =
     (if of_offered_asset (or_offer r) = AssetHNS
      then (True, of_offered_amount (or_offer r), of_received_amount (or_offer r))
      else (False, of_received_amount (or_offer r), of_offered_amount (or_offer r)))"

definition add_to_level ::
  "offer_record \<Rightarrow> (bool \<times> u128 \<times> u128, offer_level) tbl \<Rightarrow> (market_error, (bool \<times> u128 \<times> u128, offer_level) tbl) result" where
  "add_to_level r grouped =
     (let (sells_hns, hns, btc) = level_of r; divisor = gcd_u128 btc hns in
      if divisor = 0 then Err ME_DivisionByZero
      else let key = (sells_hns, btc div divisor, hns div divisor);
        entry = (case tbl_get grouped key of Some e \<Rightarrow> e
          | None \<Rightarrow> \<lparr>lv_offer_setter_sells_hns = sells_hns, lv_btc_per_hns_numerator = btc div divisor,
             lv_btc_per_hns_denominator = hns div divisor, lv_total_hns_amount = 0, lv_total_btc_amount = 0,
             lv_offer_count = 0\<rparr>)
      in rbind (ok_or (checked_add_u128 (lv_total_hns_amount entry) hns) ME_Invariant) (\<lambda>total_hns.
         rbind (ok_or (checked_add_u128 (lv_total_btc_amount entry) btc) ME_Invariant) (\<lambda>total_btc.
         rbind (ok_or (checked_add_u64 (lv_offer_count entry) 1) ME_Invariant) (\<lambda>count.
           Ok (tbl_put key (entry\<lparr>lv_total_hns_amount := total_hns, lv_total_btc_amount := total_btc,
             lv_offer_count := count\<rparr>) grouped)))))"

fun group_levels ::
  "u64 \<Rightarrow> offer_record list \<Rightarrow> (bool \<times> u128 \<times> u128, offer_level) tbl \<Rightarrow>
   (market_error, (bool \<times> u128 \<times> u128, offer_level) tbl) result" where
  "group_levels now_unix [] grouped = Ok grouped"
| "group_levels now_unix (r # rs) grouped =
     (if \<not> is_active_at r now_unix then group_levels now_unix rs grouped
      else rbind (add_to_level r grouped) (group_levels now_unix rs))"

definition live_shakescape_direct_offer_levels ::
  "crypto \<Rightarrow> protocol \<Rightarrow> persisted_direct_offer codec \<Rightarrow> wallet_store \<Rightarrow> board_policy \<Rightarrow> u64 \<Rightarrow>
   (market_error, offer_level list) result" where
  "live_shakescape_direct_offer_levels C P J s policy now_unix =
     rbind (load_shakescape_direct_offers C P J s policy now_unix) (\<lambda>records.
     rbind (group_levels now_unix records []) (\<lambda>grouped. Ok (map snd (sort_key fst grouped))))"

section \<open>Writing the board\<close>

definition admit_shakescape_direct_offer ::
  "crypto \<Rightarrow> protocol \<Rightarrow> persisted_direct_offer codec \<Rightarrow> board_policy \<Rightarrow> bytes \<Rightarrow> u64 \<Rightarrow>
   (wallet_store, market_error, offer_admission) step" where
  "admit_shakescape_direct_offer C P J policy envelope_bytes accepted_at_unix =
     sbind (lift_result (decode_canonical_envelope P envelope_bytes)) (\<lambda>(_, message).
     case message of
       MsgDirectOffer offer \<Rightarrow>
         sbind (lift_result (ok_or (peer_object_validation_time (hd_created_at (of_header offer)) accepted_at_unix)
           ME_InvalidShakescapeDirectOffer)) (\<lambda>validation_time.
         if \<not> mp_verify_offer_at P offer (bp_network policy) validation_time \<or>
            \<not> bounded_publication_window (hd_created_at (of_header offer)) (hd_expires_at (of_header offer))
         then sfail ME_InvalidShakescapeDirectOffer
         else sbind (sread (\<lambda>s. load_shakescape_direct_offer C P J s policy (of_offer_id offer))) (\<lambda>existing.
           case existing of
             Some r \<Rightarrow> if or_offer r = offer then sreturn (OfferExisting (offer_snapshot_of r))
                       else sfail ME_ShakescapeDirectOfferConflict
           | None \<Rightarrow>
               sbind (sread (\<lambda>s. list_offer_rows C J s policy (mp_max_inventory_entries P + 1))) (\<lambda>physical.
               if mp_max_inventory_entries P \<le> length physical then sfail ME_ShakescapeDirectOfferCapacity
               else sbind (lift_result (offer_encode_hex P (mp_offer P) offer)) (\<lambda>offer_hex.
                 sbind (in_store (\<lambda>s. save_entity C J s EK_ShakescapeBoardObject
                     (offer_record_id policy (of_offer_id offer)) 0
                     \<lparr>po_schema_version = DIRECT_OFFER_BOARD_SCHEMA_VERSION,
                      po_policy_fingerprint = bp_fingerprint policy, po_offer_id = of_offer_id offer,
                      po_accepted_at_unix = accepted_at_unix, po_offer_hex = offer_hex,
                      po_cancellation_hex = None, po_cancelled_at_unix = None\<rparr> accepted_at_unix)) (\<lambda>revision.
                 sreturn (OfferInserted (offer_snapshot_of
                   \<lparr>or_store_revision = revision, or_accepted_at_unix = accepted_at_unix,
                    or_cancelled_at_unix = None, or_offer = offer, or_cancellation = None\<rparr>)))))))
     | _ \<Rightarrow> sfail ME_InvalidShakescapeDirectOffer)"

definition admit_shakescape_direct_offer_cancellation ::
  "crypto \<Rightarrow> protocol \<Rightarrow> persisted_direct_offer codec \<Rightarrow> board_policy \<Rightarrow> bytes \<Rightarrow> u64 \<Rightarrow>
   (wallet_store, market_error, offer_cancellation_admission) step" where
  "admit_shakescape_direct_offer_cancellation C P J policy envelope_bytes accepted_at_unix =
     sbind (lift_result (decode_canonical_envelope P envelope_bytes)) (\<lambda>(_, message).
     case message of
       MsgCancelDirectOffer cancellation \<Rightarrow>
         sbind (lift_result (ok_or (peer_object_validation_time (hd_created_at (oc_header cancellation)) accepted_at_unix)
           ME_InvalidShakescapeDirectOffer)) (\<lambda>validation_time.
         sbind (sread (\<lambda>s. load_shakescape_direct_offer C P J s policy (oc_offer_id cancellation))) (\<lambda>found.
         sbind (lift_result (ok_or found ME_UnknownShakescapeDirectOffer)) (\<lambda>r.
         if \<not> mp_verify_cancellation P cancellation (or_offer r) (bp_network policy) validation_time \<or>
            \<not> bounded_publication_window (hd_created_at (oc_header cancellation)) (hd_expires_at (oc_header cancellation))
         then sfail ME_InvalidShakescapeDirectOffer
         else case or_cancellation r of
           Some existing \<Rightarrow> if existing = cancellation then sreturn (CancellationExisting (offer_snapshot_of r))
                            else sfail ME_ShakescapeDirectOfferConflict
         | None \<Rightarrow>
             sbind (lift_result (offer_encode_hex P (mp_offer P) (or_offer r))) (\<lambda>offer_hex.
             sbind (lift_result (offer_encode_hex P (mp_cancellation P) cancellation)) (\<lambda>cancellation_hex.
             sbind (in_store (\<lambda>s. save_entity C J s EK_ShakescapeBoardObject
                 (offer_record_id policy (of_offer_id (or_offer r))) (or_store_revision r)
                 \<lparr>po_schema_version = DIRECT_OFFER_BOARD_SCHEMA_VERSION,
                  po_policy_fingerprint = bp_fingerprint policy, po_offer_id = of_offer_id (or_offer r),
                  po_accepted_at_unix = or_accepted_at_unix r, po_offer_hex = offer_hex,
                  po_cancellation_hex = Some cancellation_hex, po_cancelled_at_unix = Some accepted_at_unix\<rparr>
                 accepted_at_unix)) (\<lambda>next_revision.
             sreturn (CancellationApplied (offer_snapshot_of
               (r\<lparr>or_store_revision := next_revision, or_cancelled_at_unix := Some accepted_at_unix,
                 or_cancellation := Some cancellation\<rparr>))))))))) 
     | _ \<Rightarrow> sfail ME_InvalidShakescapeDirectOffer)"

definition offer_is_retained :: "bytes set \<Rightarrow> u64 \<Rightarrow> offer_record \<Rightarrow> bool" where
  "offer_is_retained protected_offer_ids now_unix r \<longleftrightarrow>
     (let retain_until = (case or_cancellation r of None \<Rightarrow> hd_expires_at (of_header (or_offer r))
            | Some c \<Rightarrow> max (hd_expires_at (oc_header c)) (hd_expires_at (of_header (or_offer r))));
          bounded = (bounded_publication_window (hd_created_at (of_header (or_offer r))) (hd_expires_at (of_header (or_offer r))) \<and>
            (case or_cancellation r of None \<Rightarrow> True | Some c \<Rightarrow>
               bounded_publication_window (hd_created_at (oc_header c)) (hd_expires_at (oc_header c))))
      in (now_unix < retain_until \<and> bounded) \<or> of_offer_id (or_offer r) \<in> protected_offer_ids)"

fun prune_offer_rows ::
  "crypto \<Rightarrow> protocol \<Rightarrow> board_policy \<Rightarrow> bytes set \<Rightarrow> u64 \<Rightarrow> persisted_direct_offer stored_entity list \<Rightarrow> nat \<Rightarrow>
   (wallet_store, market_error, nat) step" where
  "prune_offer_rows C P policy protected_offer_ids now_unix [] removed = sreturn removed"
| "prune_offer_rows C P policy protected_offer_ids now_unix (row # rows) removed =
     sbind (lift_result (decode_stored_offer P policy row)) (\<lambda>r.
       if offer_is_retained protected_offer_ids now_unix r
       then prune_offer_rows C P policy protected_offer_ids now_unix rows removed
       else sbind (in_store (\<lambda>s. delete_entity C s EK_ShakescapeBoardObject (se_id row) (se_revision row))) (\<lambda>deleted.
         if deleted
         then sbind (lift_result (ok_or (checked_add_u64 removed 1) ME_Invariant)) (\<lambda>removed'.
           prune_offer_rows C P policy protected_offer_ids now_unix rows removed')
         else prune_offer_rows C P policy protected_offer_ids now_unix rows removed))"

definition prune_expired_unreferenced_shakescape_direct_offers ::
  "crypto \<Rightarrow> protocol \<Rightarrow> persisted_direct_offer codec \<Rightarrow> board_policy \<Rightarrow> bytes set \<Rightarrow> u64 \<Rightarrow>
   (wallet_store, market_error, nat) step" where
  "prune_expired_unreferenced_shakescape_direct_offers C P J policy protected_offer_ids now_unix =
     (if now_unix = 0 then sfail ME_InvalidShakescapeDirectOffer
      else sbind (sread (\<lambda>s. list_offer_rows C J s policy MAX_ENTITY_LIST_RESULTS)) (\<lambda>stored.
        prune_offer_rows C P policy protected_offer_ids now_unix stored 0))"

end
