(* ===== verification/Swap_Execution.thy ===== *)
theory Swap_Execution
  imports Offer_Board Swap_Journal
begin

text \<open>
  The durable execution of a swap over the wallet store (hns-wallet-market/src/lib.rs): the journal that
  saves a session together with the row of its second-funding authorization, re-authentication of a stored
  session against the agreement it carries, and the operations that turn locally verified chain
  observations into evidence. Serde encodings of sessions and authorizations are the codecs \<open>JW\<close> and
  \<open>JA\<close>. Operations that write are steps over the store.
\<close>

section \<open>Policy and identifiers\<close>

record swap_policy =
  dp_board_policy :: board_policy
  dp_fingerprint :: object_hash

definition SHAKESCAPE_DIRECT_SWAP_POLICY_DOMAIN :: bytes where
  "SHAKESCAPE_DIRECT_SWAP_POLICY_DOMAIN = byte_str ''hns-wallet-shakescape-direct-swap-policy-v1'' @ [0]"

definition swap_policy_new :: "crypto \<Rightarrow> board_policy \<Rightarrow> (market_error, swap_policy) result" where
  "swap_policy_new C policy =
     Ok \<lparr>dp_board_policy = policy,
       dp_fingerprint = sha256 C (SHAKESCAPE_DIRECT_SWAP_POLICY_DOMAIN @ bp_fingerprint policy)\<rparr>"

definition dp_network :: "swap_policy \<Rightarrow> network_binding" where
  "dp_network policy = bp_network (dp_board_policy policy)"

definition SHAKESCAPE_EXECUTION_WORKFLOW_DOMAIN :: bytes where
  "SHAKESCAPE_EXECUTION_WORKFLOW_DOMAIN = byte_str ''hns-wallet-rs/shakescape-execution-workflow/v1''"
definition SHAKESCAPE_OBSERVED_PREIMAGE_DOMAIN :: bytes where
  "SHAKESCAPE_OBSERVED_PREIMAGE_DOMAIN = byte_str ''hns-wallet-rs/shakescape-observed-preimage/v1''"
definition SHAKESCAPE_SECOND_FUNDING_AUTHORIZATION_DOMAIN :: bytes where
  "SHAKESCAPE_SECOND_FUNDING_AUTHORIZATION_DOMAIN =
     byte_str ''hns-wallet-rs/shakescape-second-funding-authorization/v1'' @ [0]"
definition SHAKESCAPE_SECOND_FUNDING_AUTHORIZATION_SCHEMA_VERSION :: u16 where
  "SHAKESCAPE_SECOND_FUNDING_AUTHORIZATION_SCHEMA_VERSION = 1"

definition shakescape_execution_workflow_id :: "crypto \<Rightarrow> session_id \<Rightarrow> workflow_id" where
  "shakescape_execution_workflow_id C sid = take 16 (sha256 C (SHAKESCAPE_EXECUTION_WORKFLOW_DOMAIN @ sid))"

definition second_funding_authorization_entity_id :: "session_id \<Rightarrow> bytes" where
  "second_funding_authorization_entity_id sid = SHAKESCAPE_SECOND_FUNDING_AUTHORIZATION_DOMAIN @ sid"

definition shakescape_observed_preimage_id :: "session_id \<Rightarrow> bytes" where
  "shakescape_observed_preimage_id sid = SHAKESCAPE_OBSERVED_PREIMAGE_DOMAIN @ sid"

section \<open>Stored authorizations\<close>

record persisted_authorization =
  pa_schema_version :: u16
  pa_session_id :: session_id
  pa_execution_workflow_id :: workflow_id
  pa_execution_revision :: u64
  pa_issued_entity_revision :: u64
  pa_authorization :: second_funding_authorization

record broadcast_guard =
  bg_session_id :: session_id
  bg_execution_workflow_id :: workflow_id
  bg_execution_revision :: u64
  bg_authorization_entity_id :: bytes
  bg_authorization_entity_revision :: u64
  bg_authorization :: second_funding_authorization

definition guard_workflow_assertion :: "broadcast_guard \<Rightarrow> workflow_revision_assertion" where
  "guard_workflow_assertion g = \<lparr>wa_id = bg_execution_workflow_id g, wa_kind = WK_AtomicSwap,
     wa_expected_revision = bg_execution_revision g\<rparr>"

definition guard_authorization_assertion :: "broadcast_guard \<Rightarrow> entity_revision_assertion" where
  "guard_authorization_assertion g = \<lparr>ea_id = bg_authorization_entity_id g,
     ea_expected_revision = bg_authorization_entity_revision g\<rparr>"

definition persisted_second_funding_authorization ::
  "crypto \<Rightarrow> swap_session \<Rightarrow> second_funding_authorization \<Rightarrow> u64 \<Rightarrow> persisted_authorization" where
  "persisted_second_funding_authorization C session authorization issued_entity_revision =
     \<lparr>pa_schema_version = SHAKESCAPE_SECOND_FUNDING_AUTHORIZATION_SCHEMA_VERSION, pa_session_id = ss_id session,
      pa_execution_workflow_id = shakescape_execution_workflow_id C (ss_id session),
      pa_execution_revision = ss_revision session, pa_issued_entity_revision = issued_entity_revision,
      pa_authorization = authorization\<rparr>"

definition validate_persisted_second_funding_authorization ::
  "crypto \<Rightarrow> persisted_authorization \<Rightarrow> swap_session \<Rightarrow> (market_error, unit) result" where
  "validate_persisted_second_funding_authorization C r session =
     (if pa_schema_version r \<noteq> SHAKESCAPE_SECOND_FUNDING_AUTHORIZATION_SCHEMA_VERSION \<or>
         pa_session_id r \<noteq> ss_id session \<or>
         pa_execution_workflow_id r \<noteq> shakescape_execution_workflow_id C (ss_id session) \<or>
         pa_execution_revision r \<noteq> ss_revision session \<or> pa_issued_entity_revision r = 0 \<or>
         ss_second_funding_authorization session \<noteq> Some (pa_authorization r) \<or>
         sf_module (pa_authorization r) \<noteq> ss_second_module session
      then Err ME_ShakescapeDirectSwapConflict
      else rbind (ok_or (ss_first_funding session) ME_InvalidTransition) (\<lambda>first_funding.
        if sf_first_funding (pa_authorization r) \<noteq> first_funding \<or>
           sf_first_funding_observation_generation (pa_authorization r) \<noteq>
             ss_first_funding_observation_generation session
        then Err ME_ShakescapeDirectSwapConflict else Ok ()))"

definition validate_previous_second_funding_authorization ::
  "persisted_authorization \<Rightarrow> u64 \<Rightarrow> session_id \<Rightarrow> workflow_id \<Rightarrow> u64 \<Rightarrow> (market_error, unit) result" where
  "validate_previous_second_funding_authorization r stored_entity_revision sid wid expected_execution_revision =
     (if pa_schema_version r \<noteq> SHAKESCAPE_SECOND_FUNDING_AUTHORIZATION_SCHEMA_VERSION \<or>
         pa_session_id r \<noteq> sid \<or> pa_execution_workflow_id r \<noteq> wid \<or> pa_issued_entity_revision r = 0 \<or>
         (stored_entity_revision = pa_issued_entity_revision r \<and>
          pa_execution_revision r \<noteq> expected_execution_revision) \<or>
         (stored_entity_revision = saturating_add_u64 (pa_issued_entity_revision r) 1 \<and>
          expected_execution_revision < pa_execution_revision r) \<or>
         (stored_entity_revision \<noteq> pa_issued_entity_revision r \<and>
          stored_entity_revision \<noteq> saturating_add_u64 (pa_issued_entity_revision r) 1) \<or>
         all_zero (sf_id (pa_authorization r)) \<or> sf_expires_at_unix (pa_authorization r) = 0
      then Err ME_ShakescapeDirectSwapConflict else Ok ())"

section \<open>The journal over the wallet store\<close>

definition irreversible :: "swap_state \<Rightarrow> bool" where
  "irreversible st \<longleftrightarrow> st \<in> {FirstFundingPending, FirstFunded, SecondFundingPending, BothFunded, FirstRedeemed,
     SecretObserved, SecondRedeemed, RefundEligible, RefundBroadcast}"

definition check_saved_revision :: "swap_session \<Rightarrow> u64 \<Rightarrow> (wallet_store, market_error, unit) step" where
  "check_saved_revision session next = (if next \<noteq> ss_revision session then sfail ME_Invariant else sreturn ())"

definition authorization_batch ::
  "crypto \<Rightarrow> swap_session \<Rightarrow> persisted_authorization stored_entity option \<Rightarrow> u64 \<Rightarrow>
   (market_error, persisted_authorization entity_batch_save list \<times> entity_batch_delete list) result" where
  "authorization_batch C session stored_authorization updated_at_unix =
     (let entity_id = second_funding_authorization_entity_id (ss_id session) in
      case ss_second_funding_authorization session of
        Some authorization \<Rightarrow>
          if (case stored_authorization of None \<Rightarrow> False
              | Some stored \<Rightarrow> se_revision stored \<noteq> pa_issued_entity_revision (se_value stored))
          then Err ME_InvalidTransition
          else let expected_entity_revision =
                 (case stored_authorization of None \<Rightarrow> 0 | Some stored \<Rightarrow> se_revision stored)
            in rbind (ok_or (checked_add_u64 expected_entity_revision 1) ME_Invariant) (\<lambda>issued_entity_revision.
              Ok ([\<lparr>bs_id = entity_id, bs_expected_revision = expected_entity_revision,
                bs_value = persisted_second_funding_authorization C session authorization issued_entity_revision,
                bs_updated_at_unix = updated_at_unix\<rparr>], []))
      | None \<Rightarrow>
          (case stored_authorization of
             None \<Rightarrow> Ok ([], [])
           | Some stored \<Rightarrow>
               let consumed = (se_revision stored \<noteq> pa_issued_entity_revision (se_value stored)) in
               if \<not> consumed \<or> ss_second_funding session \<noteq> None
               then Ok ([], [\<lparr>bd_id = entity_id, bd_expected_revision = se_revision stored\<rparr>])
               else Ok ([], [])))"

definition wallet_journal_save ::
  "crypto \<Rightarrow> swap_session codec \<Rightarrow> persisted_authorization codec \<Rightarrow> workflow_id \<Rightarrow> u64 \<Rightarrow> wallet_store journal_save" where
  "wallet_journal_save C JW JA wid updated_at_unix session expected_revision =
     (if ss_accepted_shakescape_terms session = None
      then sbind (in_store (\<lambda>s. save_workflow C JW s wid WK_AtomicSwap expected_revision session
             (irreversible (ss_state session)) updated_at_unix)) (check_saved_revision session)
      else if wid \<noteq> shakescape_execution_workflow_id C (ss_id session) then sfail ME_Invariant
      else sbind (sread (\<lambda>s. store_read (load_entity C JA s EK_SwapFundingAuthorization
             (second_funding_authorization_entity_id (ss_id session))))) (\<lambda>stored_authorization.
        sbind (lift_result (case stored_authorization of None \<Rightarrow> Ok ()
          | Some stored \<Rightarrow> validate_previous_second_funding_authorization (se_value stored) (se_revision stored)
              (ss_id session) wid expected_revision)) (\<lambda>_.
        sbind (lift_result (authorization_batch C session stored_authorization updated_at_unix)) (\<lambda>(saves, deletes).
        sbind (if saves = [] \<and> deletes = []
          then in_store (\<lambda>s. save_workflow C JW s wid WK_AtomicSwap expected_revision session
             (irreversible (ss_state session)) updated_at_unix)
          else in_store (\<lambda>s. save_workflow_with_entity_batch C JW JA s wid WK_AtomicSwap expected_revision session
             (irreversible (ss_state session)) updated_at_unix EK_SwapFundingAuthorization saves deletes))
          (check_saved_revision session)))))"

section \<open>Loading an execution\<close>

definition decode_accepted_terms ::
  "protocol \<Rightarrow> swap_policy \<Rightarrow> session_id \<Rightarrow> bytes \<Rightarrow> (market_error, swap_session_hello) result" where
  "decode_accepted_terms P policy sid terms =
     rbind (ok_or (js_decode (mp_hello P) terms) ME_CorruptShakescapeDirectSwap) (\<lambda>hello.
       if js_encode (mp_hello P) hello \<noteq> Some terms \<or> he_swap_session_id hello \<noteq> sid \<or>
          \<not> mp_verify_agreement P hello (dp_network policy)
       then Err ME_CorruptShakescapeDirectSwap else Ok hello)"

definition validate_shakescape_execution_record ::
  "protocol \<Rightarrow> swap_policy \<Rightarrow> session_id \<Rightarrow> workflow_id \<Rightarrow> swap_session stored_workflow \<Rightarrow> (market_error, unit) result" where
  "validate_shakescape_execution_record P policy sid wid stored =
     (let st = sw_state stored in
      if sw_kind stored \<noteq> WK_AtomicSwap \<or> sw_id stored \<noteq> wid \<or> ss_id st \<noteq> sid \<or>
         sw_revision stored \<noteq> ss_revision st \<or> sw_updated_at_unix stored \<noteq> ss_last_verified_at_unix st \<or>
         (ss_first_funding_revoked st \<and> ss_first_funding st = None) \<or>
         (case ss_first_funding_confirmed_generation st of None \<Rightarrow> False
          | Some generation \<Rightarrow> generation = 0 \<or> generation \<noteq> ss_first_funding_observation_generation st)
      then Err ME_ShakescapeDirectSwapConflict
      else rbind (ok_or (ss_accepted_shakescape_terms st) ME_InvalidShakescapeDirectSwap) (\<lambda>terms.
        rbind (decode_accepted_terms P policy sid terms) (\<lambda>hello.
        if (case ss_second_funding_authorization st of None \<Rightarrow> False
            | Some a \<Rightarrow> ss_state st \<noteq> SecondFundingPending \<or> ss_second_module st \<noteq> sf_module a \<or>
                ss_first_funding st \<noteq> Some (sf_first_funding a) \<or> ss_first_funding_revoked st \<or>
                ss_first_funding_observation_generation st \<noteq> sf_first_funding_observation_generation a \<or>
                ss_first_funding_confirmed_generation st \<noteq> Some (sf_first_funding_observation_generation a) \<or>
                ss_second_funding st \<noteq> None \<or> all_zero (sf_id a) \<or>
                hd_expires_at (he_header hello) < sf_expires_at_unix a)
        then Err ME_ShakescapeDirectSwapConflict else Ok ())))"

definition validate_shakescape_execution ::
  "protocol \<Rightarrow> swap_policy \<Rightarrow> session_id \<Rightarrow> workflow_id \<Rightarrow> swap_session stored_workflow \<Rightarrow> (market_error, swap_session) result" where
  "validate_shakescape_execution P policy sid wid stored =
     rbind (validate_shakescape_execution_record P policy sid wid stored) (\<lambda>_. Ok (sw_state stored))"

definition load_shakescape_execution ::
  "crypto \<Rightarrow> protocol \<Rightarrow> swap_session codec \<Rightarrow> wallet_store \<Rightarrow> swap_policy \<Rightarrow> session_id \<Rightarrow>
   (market_error, swap_session option) result" where
  "load_shakescape_execution C P JW s policy sid =
     (let wid = shakescape_execution_workflow_id C sid in
      rbind (store_read (load_workflow C JW s wid)) (\<lambda>found.
        case found of None \<Rightarrow> Ok None
        | Some stored \<Rightarrow> rbind (validate_shakescape_execution P policy sid wid stored) (\<lambda>x. Ok (Some x))))"

definition load_shakescape_execution_for_local_evidence ::
  "crypto \<Rightarrow> protocol \<Rightarrow> swap_session codec \<Rightarrow> wallet_store \<Rightarrow> swap_policy \<Rightarrow> session_id \<Rightarrow> workflow_id \<Rightarrow>
   (market_error, swap_session stored_workflow) result" where
  "load_shakescape_execution_for_local_evidence C P JW s policy sid wid =
     rbind (store_read (load_workflow C JW s wid)) (\<lambda>found.
     rbind (ok_or found ME_UnknownShakescapeDirectSwap) (\<lambda>stored.
     rbind (validate_shakescape_execution_record P policy sid wid stored) (\<lambda>_. Ok stored)))"

definition load_existing_execution ::
  "crypto \<Rightarrow> protocol \<Rightarrow> swap_session codec \<Rightarrow> swap_policy \<Rightarrow> session_id \<Rightarrow> (wallet_store, market_error, swap_session) step" where
  "load_existing_execution C P JW policy sid =
     sbind (sread (\<lambda>s. load_shakescape_execution C P JW s policy sid)) (\<lambda>found.
       lift_result (ok_or found ME_UnknownShakescapeDirectSwap))"

section \<open>Observing the first chain\<close>

definition begin_shakescape_first_funding_observation ::
  "crypto \<Rightarrow> protocol \<Rightarrow> swap_session codec \<Rightarrow> persisted_authorization codec \<Rightarrow> swap_policy \<Rightarrow> session_id \<Rightarrow>
   module_id \<Rightarrow> u64 \<Rightarrow> (wallet_store, market_error, u64) step" where
  "begin_shakescape_first_funding_observation C P JW JA policy sid m now_unix =
     sbind (load_existing_execution C P JW policy sid) (\<lambda>session.
       if ss_state session \<notin> observable_states \<or> ss_first_module session \<noteq> m \<or>
          (ss_state session \<noteq> FirstFundingPending \<and> ss_first_funding session = None \<and>
           \<not> (ss_state session = Failed \<and> ss_second_funding session = None \<and> failed_before_funding session)) \<or>
          ss_second_redemption session \<noteq> None \<or> ss_first_refund session \<noteq> None
       then sfail ME_InvalidTransition
       else sbind (lift_result (ok_or (checked_add_u64 (ss_first_funding_observation_generation session) 1) ME_Invariant))
         (\<lambda>generation.
         sbind (apply_evidence (wallet_journal_save C JW JA (shakescape_execution_workflow_id C sid) now_unix) session
           (FirstFundingObservationStarted m generation) now_unix) (\<lambda>_. sreturn generation)))"

definition refreshes_unsettled_first_funding ::
  "swap_session \<Rightarrow> module_id \<Rightarrow> object_hash \<Rightarrow> u64 option \<Rightarrow> bool" where
  "refreshes_unsettled_first_funding st m funding_evidence observation_generation \<longleftrightarrow>
     m = ss_first_module st \<and> ss_first_funding st = Some funding_evidence \<and>
     (observation_generation \<noteq> None \<or> ss_second_funding st = None \<or> ss_first_funding_revoked st) \<and>
     ss_state st \<in> refreshable_states"

definition first_funding_evidence :: "object_hash \<Rightarrow> module_id \<Rightarrow> u64 option \<Rightarrow> verified_evidence" where
  "first_funding_evidence evidence m observation_generation =
     (case observation_generation of
        Some generation \<Rightarrow> FirstFundingConfirmedAtGeneration evidence m generation
      | None \<Rightarrow> FirstFundingConfirmed evidence)"

definition funding_evidence_steps ::
  "swap_session \<Rightarrow> module_id \<Rightarrow> object_hash \<Rightarrow> u64 option \<Rightarrow> (market_error, verified_evidence list) result" where
  "funding_evidence_steps st m evidence observation_generation =
     (if ss_state st = FirstFundingPending \<and> m = ss_first_module st
      then Ok [first_funding_evidence evidence m observation_generation]
      else if ss_state st = Failed \<and> m = ss_first_module st \<and> ss_first_funding st = None \<and>
              ss_second_funding st = None \<and> failed_before_funding st
      then Ok [first_funding_evidence evidence m observation_generation]
      else if ss_state st \<in> refreshable_states \<and> m = ss_first_module st \<and>
              (observation_generation \<noteq> None \<or> ss_second_funding st = None \<or> ss_first_funding_revoked st)
      then Ok [first_funding_evidence evidence m observation_generation]
      else if ss_state st = SecondFundingPending \<and> m = ss_second_module st
      then Ok [SecondFundingConfirmed evidence]
      else if ss_state st = FirstFunded \<and> m = ss_second_module st
      then Ok [SecondFundingReady, SecondFundingConfirmed evidence]
      else Err ME_InvalidTransition)"

definition load_execution_with_terms ::
  "crypto \<Rightarrow> protocol \<Rightarrow> swap_session codec \<Rightarrow> wallet_store \<Rightarrow> swap_policy \<Rightarrow> session_id \<Rightarrow>
   (market_error, swap_session \<times> swap_session_hello) result" where
  "load_execution_with_terms C P JW s policy sid =
     rbind (store_read (load_workflow C JW s (shakescape_execution_workflow_id C sid))) (\<lambda>found.
     rbind (ok_or found ME_UnknownShakescapeDirectSwap) (\<lambda>stored.
     if sw_kind stored \<noteq> WK_AtomicSwap \<or> ss_id (sw_state stored) \<noteq> sid then Err ME_ShakescapeDirectSwapConflict
     else rbind (ok_or (ss_accepted_shakescape_terms (sw_state stored)) ME_InvalidShakescapeDirectSwap) (\<lambda>terms.
       rbind (decode_accepted_terms P policy sid terms) (\<lambda>hello. Ok (sw_state stored, hello)))))"

definition apply_locally_verified_shakescape_funding_inner ::
  "crypto \<Rightarrow> protocol \<Rightarrow> swap_session codec \<Rightarrow> persisted_authorization codec \<Rightarrow> swap_policy \<Rightarrow> session_id \<Rightarrow>
   locally_verified_swap_funding \<Rightarrow> u64 option \<Rightarrow> u64 \<Rightarrow> (wallet_store, market_error, swap_session) step" where
  "apply_locally_verified_shakescape_funding_inner C P JW JA policy sid funding observation_generation now_unix =
     sbind (sread (\<lambda>s. load_execution_with_terms C P JW s policy sid)) (\<lambda>(st, hello).
     sbind (lift_result (verify_local_funding_against_shakescape_terms C P hello funding)) (\<lambda>_.
     let m = funding_module funding; evidence = funding_evidence_id C funding in
     if observation_generation = None \<and> m = ss_first_module st \<and> ss_first_funding_observation_generation st \<noteq> 0
     then sfail ME_InvalidTransition
     else if (case observation_generation of None \<Rightarrow> False
              | Some generation \<Rightarrow> m \<noteq> ss_first_module st \<or> ss_first_funding_observation_generation st \<noteq> generation \<or>
                  ss_first_refund st \<noteq> None \<or> ss_second_redemption st \<noteq> None \<or> ss_state st \<notin> observable_states)
     then sfail ME_InvalidTransition
     else if \<not> refreshes_unsettled_first_funding st m evidence observation_generation \<and>
             (m = ss_first_module st \<and> ss_first_funding st = Some evidence \<or>
              m = ss_second_module st \<and> ss_second_funding st = Some evidence)
     then sreturn st
     else sbind (lift_result (funding_evidence_steps st m evidence observation_generation)) (\<lambda>es.
       apply_all (wallet_journal_save C JW JA (shakescape_execution_workflow_id C sid) now_unix) st es now_unix)))"

definition apply_locally_verified_shakescape_funding where
  "apply_locally_verified_shakescape_funding C P JW JA policy sid funding now_unix =
     apply_locally_verified_shakescape_funding_inner C P JW JA policy sid funding None now_unix"

definition apply_locally_verified_shakescape_funding_at_generation where
  "apply_locally_verified_shakescape_funding_at_generation C P JW JA policy sid funding observation_generation now_unix =
     apply_locally_verified_shakescape_funding_inner C P JW JA policy sid funding (Some observation_generation) now_unix"

definition already_invalidated :: "swap_session \<Rightarrow> bool" where
  "already_invalidated session \<longleftrightarrow>
     (ss_state session = FirstFundingPending \<and> ss_first_funding session = None \<and> ss_second_funding session = None) \<or>
     (ss_state session = Failed \<and> ss_first_funding session = None \<and> ss_second_funding session = None \<and>
      failed_before_funding session) \<or>
     (ss_first_funding_revoked session \<and> ss_first_funding session \<noteq> None \<and> ss_first_refund session = None \<and>
      ss_second_redemption session = None)"

definition invalidate_locally_verified_shakescape_first_funding_inner ::
  "crypto \<Rightarrow> protocol \<Rightarrow> swap_session codec \<Rightarrow> persisted_authorization codec \<Rightarrow> swap_policy \<Rightarrow> session_id \<Rightarrow>
   u64 option \<Rightarrow> u64 \<Rightarrow> (wallet_store, market_error, swap_session) step" where
  "invalidate_locally_verified_shakescape_first_funding_inner C P JW JA policy sid observation_generation now_unix =
     sbind (load_existing_execution C P JW policy sid) (\<lambda>session.
       if (case observation_generation of None \<Rightarrow> False
           | Some generation \<Rightarrow> ss_first_funding_observation_generation session \<noteq> generation \<or>
               ss_state session \<notin> observable_states)
       then sfail ME_InvalidTransition
       else if already_invalidated session then sreturn session
       else if ss_state session \<notin> refreshable_states \<or> ss_first_refund session \<noteq> None \<or>
               ss_second_redemption session \<noteq> None
       then sfail ME_InvalidTransition
       else sbind (lift_result (ok_or (ss_first_funding session) ME_InvalidTransition)) (\<lambda>evidence.
         apply_evidence (wallet_journal_save C JW JA (shakescape_execution_workflow_id C sid) now_unix) session
           (FirstFundingInvalidated evidence) now_unix))"

definition invalidate_locally_verified_shakescape_first_funding where
  "invalidate_locally_verified_shakescape_first_funding C P JW JA policy sid now_unix =
     invalidate_locally_verified_shakescape_first_funding_inner C P JW JA policy sid None now_unix"

definition invalidate_locally_verified_shakescape_first_funding_at_generation where
  "invalidate_locally_verified_shakescape_first_funding_at_generation C P JW JA policy sid observation_generation now_unix =
     invalidate_locally_verified_shakescape_first_funding_inner C P JW JA policy sid (Some observation_generation) now_unix"

section \<open>Authorizing the second funding\<close>

definition shakescape_second_funding_broadcast_guard ::
  "crypto \<Rightarrow> protocol \<Rightarrow> swap_session codec \<Rightarrow> persisted_authorization codec \<Rightarrow> wallet_store \<Rightarrow> swap_policy \<Rightarrow>
   session_id \<Rightarrow> module_id \<Rightarrow> object_hash \<Rightarrow> u64 \<Rightarrow> (market_error, broadcast_guard) result" where
  "shakescape_second_funding_broadcast_guard C P JW JA s policy sid m authorization_id now_unix =
     rbind (load_shakescape_execution C P JW s policy sid) (\<lambda>found.
     rbind (ok_or found ME_UnknownShakescapeDirectSwap) (\<lambda>session.
     rbind (store_read (load_entity C JA s EK_SwapFundingAuthorization (second_funding_authorization_entity_id sid))) (\<lambda>row.
     rbind (ok_or row ME_InvalidTransition) (\<lambda>stored.
     rbind (validate_persisted_second_funding_authorization C (se_value stored) session) (\<lambda>_.
     let authorization = pa_authorization (se_value stored) in
     if se_revision stored \<noteq> pa_issued_entity_revision (se_value stored) then Err ME_InvalidTransition
     else if ss_state session \<noteq> SecondFundingPending \<or> \<not> first_funding_is_current session \<or>
             ss_second_funding session \<noteq> None \<or> sf_id authorization \<noteq> authorization_id \<or>
             sf_module authorization \<noteq> m \<or> sf_expires_at_unix authorization \<le> now_unix
     then Err ME_InvalidTransition
     else Ok \<lparr>bg_session_id = sid, bg_execution_workflow_id = pa_execution_workflow_id (se_value stored),
       bg_execution_revision = pa_execution_revision (se_value stored), bg_authorization_entity_id = se_id stored,
       bg_authorization_entity_revision = se_revision stored, bg_authorization = authorization\<rparr>)))))"

definition issue_shakescape_second_funding_authorization ::
  "crypto \<Rightarrow> protocol \<Rightarrow> swap_session codec \<Rightarrow> persisted_authorization codec \<Rightarrow> swap_policy \<Rightarrow> session_id \<Rightarrow>
   module_id \<Rightarrow> object_hash \<Rightarrow> u64 \<Rightarrow> u64 \<Rightarrow> (wallet_store, market_error, swap_session) step" where
  "issue_shakescape_second_funding_authorization C P JW JA policy sid m authorization_id expires_at_unix now_unix =
     sbind (load_existing_execution C P JW policy sid) (\<lambda>session.
       if ss_state session \<noteq> SecondFundingPending \<or> ss_second_module session \<noteq> m \<or>
          ss_first_funding session = None \<or> ss_first_funding_revoked session \<or>
          ss_first_funding_confirmed_generation session \<noteq> Some (ss_first_funding_observation_generation session) \<or>
          ss_second_funding session \<noteq> None \<or> all_zero authorization_id \<or> expires_at_unix \<le> now_unix
       then sfail ME_InvalidTransition
       else sbind (lift_result (ok_or (ss_accepted_shakescape_terms session) ME_InvalidShakescapeDirectSwap)) (\<lambda>terms.
         sbind (lift_result (ok_or (js_decode (mp_hello P) terms) ME_CorruptShakescapeDirectSwap)) (\<lambda>hello.
         if \<not> mp_verify_new_funding_at P hello (dp_network policy) now_unix then sfail ME_InvalidShakescapeDirectSwap
         else sbind (lift_result (validate_shakescape_effective_refund_safety P hello)) (\<lambda>_.
           if hd_expires_at (he_header hello) < expires_at_unix then sfail ME_InvalidTransition
           else sbind (lift_result (ok_or (ss_first_funding session) ME_InvalidTransition)) (\<lambda>first_funding.
             apply_evidence (wallet_journal_save C JW JA (shakescape_execution_workflow_id C sid) now_unix) session
               (SecondFundingAuthorizationIssued \<lparr>sf_id = authorization_id, sf_module = m,
                 sf_first_funding = first_funding,
                 sf_first_funding_observation_generation = ss_first_funding_observation_generation session,
                 sf_expires_at_unix = expires_at_unix\<rparr>) now_unix)))))"

section \<open>Redemptions and refunds\<close>

definition apply_locally_verified_shakescape_first_redemption ::
  "crypto \<Rightarrow> protocol \<Rightarrow> swap_session codec \<Rightarrow> persisted_authorization codec \<Rightarrow> swap_policy \<Rightarrow> session_id \<Rightarrow>
   locally_verified_swap_spend \<Rightarrow> u64 \<Rightarrow> (wallet_store, market_error, swap_session) step" where
  "apply_locally_verified_shakescape_first_redemption C P JW JA policy sid spend now_unix =
     (let wid = shakescape_execution_workflow_id C sid; save = wallet_journal_save C JW JA wid now_unix in
      sbind (sread (\<lambda>s. load_shakescape_execution_for_local_evidence C P JW s policy sid wid)) (\<lambda>stored.
      let st = sw_state stored in
      if spend_module spend \<noteq> ss_second_module st \<or> confirmation_count spend = 0 \<or> ss_second_refund st \<noteq> None
      then sfail ME_InvalidTransition
      else sbind (lift_result (redeem_preimage spend)) (\<lambda>preimage.
        if sha256 C preimage \<noteq> ss_hashlock st then sfail ME_InvalidEvidence
        else let evidence = spend_evidence_id C spend in
        sbind (case ss_first_redemption st of
            Some existing \<Rightarrow> if existing \<noteq> evidence then sfail ME_InvalidEvidence else sreturn ()
          | None \<Rightarrow> if ss_state st \<noteq> BothFunded \<and> ss_state st \<noteq> RefundEligible then sfail ME_InvalidTransition
                    else sreturn ()) (\<lambda>_.
        sbind (sread (\<lambda>s. store_read (get_secret C s (shakescape_observed_preimage_id sid) HtlcPreimage))) (\<lambda>found.
        sbind (case found of
            Some persisted \<Rightarrow> if persisted \<noteq> preimage then sfail ME_InvalidEvidence else sreturn ()
          | None \<Rightarrow> if ss_first_redemption st = None
              then in_store (\<lambda>s. rbind (put_secret C s (shakescape_observed_preimage_id sid) HtlcPreimage preimage now_unix)
                (\<lambda>s'. Ok ((), s')))
              else sfail ME_InvalidEvidence) (\<lambda>_.
        sbind (if ss_first_redemption st = None
               then apply_evidence save st (FirstRedemptionConfirmed evidence) now_unix else sreturn st) (\<lambda>session.
          if ss_state session = FirstRedeemed
          then apply_evidence save session (SecretExtracted (ss_hashlock session)) now_unix
          else sreturn session))))))) "

definition apply_locally_verified_shakescape_second_redemption ::
  "crypto \<Rightarrow> protocol \<Rightarrow> swap_session codec \<Rightarrow> persisted_authorization codec \<Rightarrow> swap_policy \<Rightarrow> session_id \<Rightarrow>
   locally_verified_swap_spend \<Rightarrow> u64 \<Rightarrow> (wallet_store, market_error, swap_session) step" where
  "apply_locally_verified_shakescape_second_redemption C P JW JA policy sid spend now_unix =
     (let wid = shakescape_execution_workflow_id C sid; save = wallet_journal_save C JW JA wid now_unix in
      sbind (sread (\<lambda>s. load_shakescape_execution_for_local_evidence C P JW s policy sid wid)) (\<lambda>stored.
      let st = sw_state stored in
      if spend_module spend \<noteq> ss_first_module st \<or> confirmation_count spend = 0 then sfail ME_InvalidTransition
      else sbind (lift_result (redeem_preimage spend)) (\<lambda>preimage.
        if sha256 C preimage \<noteq> ss_hashlock st then sfail ME_InvalidEvidence
        else sbind (sread (\<lambda>s. store_read (get_secret C s (shakescape_observed_preimage_id sid) HtlcPreimage))) (\<lambda>found.
        if found \<noteq> Some preimage then sfail ME_InvalidEvidence
        else let evidence = spend_evidence_id C spend in
        sbind (case ss_second_redemption st of
            Some existing \<Rightarrow> if existing \<noteq> evidence then sfail ME_InvalidEvidence else sreturn ()
          | None \<Rightarrow> if ss_state st \<noteq> SecretObserved then sfail ME_InvalidTransition else sreturn ()) (\<lambda>_.
        sbind (if ss_second_redemption st = None
               then apply_evidence save st (SecondRedemptionConfirmed evidence) now_unix else sreturn st) (\<lambda>session.
          if ss_state session = SecondRedeemed
          then apply_evidence save session CompletionValidated now_unix
          else sreturn session))))))"

definition apply_locally_verified_shakescape_refund ::
  "crypto \<Rightarrow> protocol \<Rightarrow> swap_session codec \<Rightarrow> persisted_authorization codec \<Rightarrow> swap_policy \<Rightarrow> session_id \<Rightarrow>
   locally_verified_swap_spend \<Rightarrow> u64 \<Rightarrow> (wallet_store, market_error, swap_session) step" where
  "apply_locally_verified_shakescape_refund C P JW JA policy sid spend now_unix =
     (let wid = shakescape_execution_workflow_id C sid in
      sbind (sread (\<lambda>s. load_shakescape_execution_for_local_evidence C P JW s policy sid wid)) (\<lambda>stored.
      let st = sw_state stored; m = spend_module spend; evidence = spend_evidence_id C spend in
      if \<not> is_refund spend \<or> (m \<noteq> ss_first_module st \<and> m \<noteq> ss_second_module st) \<or> confirmation_count spend = 0
      then sfail ME_InvalidEvidence
      else sbind (case refund_for_module st m of
            Some existing \<Rightarrow> if existing \<noteq> evidence then sfail ME_InvalidEvidence else sreturn ()
          | None \<Rightarrow> if \<not> can_record_refund_for_module st m then sfail ME_InvalidTransition else sreturn ()) (\<lambda>_.
        if refund_for_module st m = None
        then apply_evidence (wallet_journal_save C JW JA wid now_unix) st (ChainRefundConfirmed m evidence) now_unix
        else sreturn st)))"

definition load_locally_verified_shakescape_preimage ::
  "crypto \<Rightarrow> wallet_store \<Rightarrow> session_id \<Rightarrow> (market_error, bytes option) result" where
  "load_locally_verified_shakescape_preimage C s sid =
     rbind (store_read (get_secret C s (shakescape_observed_preimage_id sid) HtlcPreimage)) (\<lambda>found.
       case found of None \<Rightarrow> Ok None
       | Some v \<Rightarrow> if length v \<noteq> 32 then Err ME_InvalidEvidence else Ok (Some v))"

end
