(* ===== verification/Session_Board.thy ===== *)
theory Session_Board
  imports Swap_Execution
begin

text \<open>
  The board of direct swap sessions (hns-wallet-market/src/session_board.rs): durable admission of an
  acceptance, a proposal, the countersigned agreement, the watch acknowledgement and peer funding
  locators; re-authentication of every row that is read; the bound on concurrent obligations. Opening and
  listing executions (hns-wallet-market/src/lib.rs) are here because they read this board. The serde
  encodings of rows and offers are the codecs \<open>JS\<close> and \<open>JO\<close>.
\<close>

section \<open>Records\<close>

definition SHAKESCAPE_DIRECT_SWAP_SCHEMA_VERSION :: u16 where "SHAKESCAPE_DIRECT_SWAP_SCHEMA_VERSION = 1"
definition SHAKESCAPE_DIRECT_SWAP_RECORD_PREFIX :: bytes where
  "SHAKESCAPE_DIRECT_SWAP_RECORD_PREFIX = byte_str ''shakescape-v1-direct-swap'' @ [0]"
definition MAX_SHAKESCAPE_DIRECT_SWAPS :: nat where "MAX_SHAKESCAPE_DIRECT_SWAPS = MAX_CONCURRENT_SWAP_SESSIONS"
definition MAX_SHAKESCAPE_DIRECT_SWAP_HISTORY :: nat where "MAX_SHAKESCAPE_DIRECT_SWAP_HISTORY = 240"
definition MAX_SHAKESCAPE_DIRECT_SWAP_RECORDS :: nat where
  "MAX_SHAKESCAPE_DIRECT_SWAP_RECORDS = MAX_SHAKESCAPE_DIRECT_SWAPS + MAX_SHAKESCAPE_DIRECT_SWAP_HISTORY"

datatype swap_stage = StageAcceptanceReceived | StageMakerProposed | StageAccepted

record peer_funding_status_record =
  pf_accepted_at_unix :: u64
  pf_status :: swap_funding_status

record swap_record =
  sr_store_revision :: u64
  sr_acceptance_request_id :: u64
  sr_proposal_request_id :: "u64 option"
  sr_acceptance_received_at_unix :: u64
  sr_proposal_accepted_at_unix :: "u64 option"
  sr_hello_accepted_at_unix :: "u64 option"
  sr_offer :: direct_offer
  sr_acceptance :: direct_offer_acceptance
  sr_proposal :: "swap_session_proposal option"
  sr_hello :: "swap_session_hello option"
  sr_watch_ready_accepted_at_unix :: "u64 option"
  sr_first_chain_watch_ready :: "swap_watch_ready option"
  sr_peer_funding_statuses :: "peer_funding_status_record list"

definition swap_stage_of :: "swap_record \<Rightarrow> swap_stage" where
  "swap_stage_of r = (if sr_hello r \<noteq> None then StageAccepted
     else if sr_proposal r \<noteq> None then StageMakerProposed else StageAcceptanceReceived)"

record swap_snapshot =
  sn_store_revision :: u64
  sn_stage :: swap_stage
  sn_session_id :: session_id
  sn_offer_id :: object_hash
  sn_acceptance_request_id :: u64
  sn_proposal_request_id :: "u64 option"
  sn_offered_asset :: asset_id
  sn_offered_amount :: u128
  sn_received_asset :: asset_id
  sn_received_amount :: u128
  sn_hashlock :: "object_hash option"
  sn_offered_refund_at_unix :: "u64 option"
  sn_received_refund_at_unix :: "u64 option"
  sn_last_accepted_at_unix :: u64

definition accepted_times :: "swap_record \<Rightarrow> u64 list" where
  "accepted_times r = sr_acceptance_received_at_unix r #
     List.map_filter id [sr_proposal_accepted_at_unix r, sr_hello_accepted_at_unix r, sr_watch_ready_accepted_at_unix r]"

definition last_accepted :: "swap_record \<Rightarrow> u64" where
  "last_accepted r = fold max (accepted_times r @ map pf_accepted_at_unix (sr_peer_funding_statuses r)) 0"

definition swap_snapshot_of :: "swap_record \<Rightarrow> swap_snapshot" where
  "swap_snapshot_of r =
     (let terms = (case sr_hello r of Some h \<Rightarrow> Some h | None \<Rightarrow> map_option sp_terms (sr_proposal r)) in
      \<lparr>sn_store_revision = sr_store_revision r, sn_stage = swap_stage_of r,
       sn_session_id = oa_swap_session_id (sr_acceptance r), sn_offer_id = of_offer_id (sr_offer r),
       sn_acceptance_request_id = sr_acceptance_request_id r, sn_proposal_request_id = sr_proposal_request_id r,
       sn_offered_asset = of_offered_asset (sr_offer r), sn_offered_amount = of_offered_amount (sr_offer r),
       sn_received_asset = of_received_asset (sr_offer r), sn_received_amount = of_received_amount (sr_offer r),
       sn_hashlock = map_option he_hashlock terms,
       sn_offered_refund_at_unix = map_option (\<lambda>t. sd_value (he_offered_refund_deadline t)) terms,
       sn_received_refund_at_unix = map_option (\<lambda>t. sd_value (he_received_refund_deadline t)) terms,
       sn_last_accepted_at_unix = last_accepted r\<rparr>)"

datatype swap_admission =
    SwapCreated swap_snapshot | SwapAdvanced swap_snapshot | SwapExisting swap_snapshot

datatype peer_status =
    PeerFunding swap_funding_status | PeerRedeem swap_spend_status | PeerRefund swap_spend_status
  | PeerWatchReady swap_watch_ready

fun peer_status_session_id :: "peer_status \<Rightarrow> session_id" where
  "peer_status_session_id (PeerFunding x) = fs_swap_session_id x"
| "peer_status_session_id (PeerRedeem x) = rs_swap_session_id x"
| "peer_status_session_id (PeerRefund x) = rs_swap_session_id x"
| "peer_status_session_id (PeerWatchReady x) = wr_swap_session_id x"

record persisted_peer_funding_status =
  pp_accepted_at_unix :: u64
  pp_status_hex :: string

record persisted_direct_swap =
  ps_schema_version :: u16
  ps_policy_fingerprint :: object_hash
  ps_session_id :: session_id
  ps_acceptance_request_id :: u64
  ps_proposal_request_id :: "u64 option"
  ps_acceptance_received_at_unix :: u64
  ps_proposal_accepted_at_unix :: "u64 option"
  ps_hello_accepted_at_unix :: "u64 option"
  ps_offer_hex :: string
  ps_acceptance_hex :: string
  ps_proposal_hex :: "string option"
  ps_hello_hex :: "string option"
  ps_watch_ready_accepted_at_unix :: "u64 option"
  ps_first_chain_watch_ready_hex :: "string option"
  ps_peer_funding_statuses :: "persisted_peer_funding_status list"

definition swap_record_prefix :: "swap_policy \<Rightarrow> bytes" where
  "swap_record_prefix policy = SHAKESCAPE_DIRECT_SWAP_RECORD_PREFIX @ dp_fingerprint policy"

definition swap_record_id :: "swap_policy \<Rightarrow> session_id \<Rightarrow> bytes" where
  "swap_record_id policy sid = swap_record_prefix policy @ sid"

section \<open>Encoding and re-authentication\<close>

definition encode_hex :: "protocol \<Rightarrow> 'a codec \<Rightarrow> 'a \<Rightarrow> (market_error, string) result" where
  "encode_hex P K v =
     rbind (ok_or (js_encode K v) ME_InvalidShakescapeDirectSwap) (\<lambda>b. Ok (mp_hex_encode P b))"

definition decode_hex :: "protocol \<Rightarrow> 'a codec \<Rightarrow> string \<Rightarrow> (market_error, 'a) result" where
  "decode_hex P K encoded =
     rbind (ok_or (mp_hex_decode P encoded) ME_CorruptShakescapeDirectSwap) (\<lambda>b.
       if mp_hex_encode P b \<noteq> encoded then Err ME_CorruptShakescapeDirectSwap
       else rbind (ok_or (js_decode K b) ME_CorruptShakescapeDirectSwap) (\<lambda>v.
         if js_encode K v \<noteq> Some b then Err ME_CorruptShakescapeDirectSwap else Ok v))"

definition map_result :: "('a \<Rightarrow> ('e, 'b) result) \<Rightarrow> 'a option \<Rightarrow> ('e, 'b option) result" where
  "map_result f x = (case x of None \<Rightarrow> Ok None | Some v \<Rightarrow> rbind (f v) (\<lambda>w. Ok (Some w)))"

definition encode_persisted ::
  "protocol \<Rightarrow> swap_policy \<Rightarrow> swap_record \<Rightarrow> (market_error, persisted_direct_swap) result" where
  "encode_persisted P policy r =
     rbind (encode_hex P (mp_offer P) (sr_offer r)) (\<lambda>offer_hex.
     rbind (encode_hex P (mp_acceptance P) (sr_acceptance r)) (\<lambda>acceptance_hex.
     rbind (map_result (encode_hex P (mp_proposal P)) (sr_proposal r)) (\<lambda>proposal_hex.
     rbind (map_result (encode_hex P (mp_hello P)) (sr_hello r)) (\<lambda>hello_hex.
     rbind (map_result (encode_hex P (mp_watch_ready P)) (sr_first_chain_watch_ready r)) (\<lambda>watch_ready_hex.
     rbind (collect_results (map (\<lambda>status. rbind (encode_hex P (mp_funding_status P) (pf_status status)) (\<lambda>h.
         Ok \<lparr>pp_accepted_at_unix = pf_accepted_at_unix status, pp_status_hex = h\<rparr>)) (sr_peer_funding_statuses r)))
       (\<lambda>statuses.
       Ok \<lparr>ps_schema_version = SHAKESCAPE_DIRECT_SWAP_SCHEMA_VERSION, ps_policy_fingerprint = dp_fingerprint policy,
         ps_session_id = oa_swap_session_id (sr_acceptance r),
         ps_acceptance_request_id = sr_acceptance_request_id r, ps_proposal_request_id = sr_proposal_request_id r,
         ps_acceptance_received_at_unix = sr_acceptance_received_at_unix r,
         ps_proposal_accepted_at_unix = sr_proposal_accepted_at_unix r,
         ps_hello_accepted_at_unix = sr_hello_accepted_at_unix r, ps_offer_hex = offer_hex,
         ps_acceptance_hex = acceptance_hex, ps_proposal_hex = proposal_hex, ps_hello_hex = hello_hex,
         ps_watch_ready_accepted_at_unix = sr_watch_ready_accepted_at_unix r,
         ps_first_chain_watch_ready_hex = watch_ready_hex, ps_peer_funding_statuses = statuses\<rparr>))))))"

definition timestamps_monotonic :: "swap_record \<Rightarrow> bool" where
  "timestamps_monotonic r \<longleftrightarrow> sorted (accepted_times r)"

abbreviation corrupt :: "string \<Rightarrow> market_error" where
  "corrupt what \<equiv> ME_CorruptShakescapeDirectSwapDetail what"

definition malformed_envelope :: "swap_policy \<Rightarrow> bytes \<Rightarrow> persisted_direct_swap \<Rightarrow> bool" where
  "malformed_envelope policy row_id v \<longleftrightarrow>
     ps_schema_version v \<noteq> SHAKESCAPE_DIRECT_SWAP_SCHEMA_VERSION \<or>
     ps_policy_fingerprint v \<noteq> dp_fingerprint policy \<or> ps_acceptance_request_id v = 0 \<or>
     ps_proposal_request_id v = Some 0 \<or> row_id \<noteq> swap_record_id policy (ps_session_id v) \<or>
     (ps_proposal_accepted_at_unix v \<noteq> None) \<noteq> (ps_proposal_hex v \<noteq> None) \<or>
     (ps_proposal_request_id v \<noteq> None) \<noteq> (ps_proposal_hex v \<noteq> None) \<or>
     (ps_hello_accepted_at_unix v \<noteq> None) \<noteq> (ps_hello_hex v \<noteq> None) \<or>
     (ps_hello_hex v \<noteq> None \<and> ps_proposal_hex v = None) \<or>
     (ps_watch_ready_accepted_at_unix v \<noteq> None) \<noteq> (ps_first_chain_watch_ready_hex v \<noteq> None) \<or>
     (ps_first_chain_watch_ready_hex v \<noteq> None \<and> ps_hello_hex v = None)"

definition verify_or_recover ::
  "(u64 \<Rightarrow> (marketplace_error, unit) result) \<Rightarrow> u64 \<Rightarrow> u64 \<Rightarrow> bool" where
  "verify_or_recover verify at created_at =
     (case verify at of
        Inr _ \<Rightarrow> True
      | Inl MarketplaceExpired \<Rightarrow> is_ok (verify created_at)
      | Inl _ \<Rightarrow> False)"

definition maker_terms :: "swap_session_hello \<Rightarrow> swap_session_hello" where
  "maker_terms hello = hello\<lparr>he_taker_signature := replicate 64 0\<rparr>"

definition authenticate_proposal :: "protocol \<Rightarrow> swap_policy \<Rightarrow> swap_record \<Rightarrow> (market_error, unit) result" where
  "authenticate_proposal P policy r =
     (case (sr_proposal r, sr_proposal_accepted_at_unix r) of
        (Some proposal, Some accepted) \<Rightarrow>
          rbind (ok_or (peer_object_validation_time (hd_created_at (he_header (sp_terms proposal))) accepted)
            (corrupt ''proposal authentication'')) (\<lambda>at.
          if verify_or_recover (mp_verify_proposal P proposal (sr_offer r) (sr_acceptance r) (dp_network policy)) at
               (hd_created_at (he_header (sp_terms proposal)))
          then Ok () else Err (corrupt ''proposal authentication''))
      | _ \<Rightarrow> Ok ())"

definition authenticate_hello :: "protocol \<Rightarrow> swap_policy \<Rightarrow> swap_record \<Rightarrow> (market_error, unit) result" where
  "authenticate_hello P policy r =
     (case (sr_hello r, sr_hello_accepted_at_unix r) of
        (Some hello, Some accepted) \<Rightarrow>
          rbind (ok_or (peer_object_validation_time (hd_created_at (he_header hello)) accepted)
            (corrupt ''hello authentication'')) (\<lambda>at.
          if \<not> verify_or_recover (mp_verify_hello P hello (sr_offer r) (sr_acceptance r) (dp_network policy)) at
               (hd_created_at (he_header hello))
          then Err (corrupt ''hello authentication'')
          else rbind (ok_or (sr_proposal r) (corrupt ''hello without proposal'')) (\<lambda>proposal.
            if sp_terms proposal \<noteq> maker_terms hello then Err (corrupt ''proposal/hello term mismatch'') else Ok ()))
      | _ \<Rightarrow> Ok ())"

definition authenticate_watch_ready :: "protocol \<Rightarrow> swap_policy \<Rightarrow> swap_record \<Rightarrow> (market_error, unit) result" where
  "authenticate_watch_ready P policy r =
     (case (sr_first_chain_watch_ready r, sr_watch_ready_accepted_at_unix r, sr_hello r) of
        (Some ready, Some accepted, Some hello) \<Rightarrow>
          rbind (ok_or (peer_object_validation_time (hd_created_at (wr_header ready)) accepted)
            (corrupt ''watch-ready authentication'')) (\<lambda>at.
          if wr_chain ready \<noteq> he_first_funding_chain hello \<or>
             \<not> verify_or_recover (mp_verify_watch_ready P ready hello (dp_network policy)) at (hd_created_at (wr_header ready))
          then Err (corrupt ''watch-ready authentication'') else Ok ())
      | _ \<Rightarrow> Ok ())"

definition authenticate_peer_funding :: "protocol \<Rightarrow> swap_policy \<Rightarrow> swap_record \<Rightarrow> (market_error, unit) result" where
  "authenticate_peer_funding P policy r =
     (let statuses = sr_peer_funding_statuses r in
      if 2 < length statuses \<or>
         list_ex (\<lambda>(a, b). mp_chain_rank P (fs_chain (pf_status b)) \<le> mp_chain_rank P (fs_chain (pf_status a)))
           (zip statuses (tl statuses)) \<or>
         list_ex (\<lambda>funding. case sr_hello r of None \<Rightarrow> True | Some hello \<Rightarrow>
           (case peer_object_validation_time (hd_created_at (fs_header (pf_status funding))) (pf_accepted_at_unix funding) of
              None \<Rightarrow> True
            | Some at \<Rightarrow> \<not> is_ok (mp_verify_funding_status P (pf_status funding) hello (dp_network policy) at))) statuses
      then Err (corrupt ''peer-funding authentication'') else Ok ())"

definition decode_statuses ::
  "protocol \<Rightarrow> persisted_peer_funding_status list \<Rightarrow> (market_error, peer_funding_status_record list) result" where
  "decode_statuses P statuses =
     collect_results (map (\<lambda>status.
       rbind (map_err (\<lambda>_. corrupt ''canonical peer-funding encoding'') (decode_hex P (mp_funding_status P) (pp_status_hex status)))
         (\<lambda>x. Ok \<lparr>pf_accepted_at_unix = pp_accepted_at_unix status, pf_status = x\<rparr>)) statuses)"

definition decode_swap_row ::
  "protocol \<Rightarrow> swap_policy \<Rightarrow> persisted_direct_swap stored_entity \<Rightarrow> (market_error, swap_record) result" where
  "decode_swap_row P policy stored =
     (let v = se_value stored in
      if malformed_envelope policy (se_id stored) v then Err (corrupt ''record envelope'')
      else rbind (map_err (\<lambda>_. corrupt ''canonical offer encoding'') (decode_hex P (mp_offer P) (ps_offer_hex v))) (\<lambda>offer.
        rbind (map_err (\<lambda>_. corrupt ''canonical acceptance encoding'') (decode_hex P (mp_acceptance P) (ps_acceptance_hex v)))
          (\<lambda>acceptance.
        if oa_swap_session_id acceptance \<noteq> ps_session_id v \<or>
           (case peer_object_validation_time (hd_created_at (oa_header acceptance)) (ps_acceptance_received_at_unix v) of
              None \<Rightarrow> True | Some at \<Rightarrow> \<not> mp_verify_acceptance P acceptance offer (dp_network policy) at)
        then Err (corrupt ''acceptance authentication'')
        else rbind (map_err (\<lambda>_. corrupt ''canonical proposal encoding'')
               (map_result (decode_hex P (mp_proposal P)) (ps_proposal_hex v))) (\<lambda>proposal.
          rbind (map_err (\<lambda>_. corrupt ''canonical hello encoding'')
               (map_result (decode_hex P (mp_hello P)) (ps_hello_hex v))) (\<lambda>hello.
          rbind (map_err (\<lambda>_. corrupt ''canonical watch-ready encoding'')
               (map_result (decode_hex P (mp_watch_ready P)) (ps_first_chain_watch_ready_hex v))) (\<lambda>ready.
          rbind (decode_statuses P (ps_peer_funding_statuses v)) (\<lambda>statuses.
            Ok \<lparr>sr_store_revision = se_revision stored, sr_acceptance_request_id = ps_acceptance_request_id v,
              sr_proposal_request_id = ps_proposal_request_id v,
              sr_acceptance_received_at_unix = ps_acceptance_received_at_unix v,
              sr_proposal_accepted_at_unix = ps_proposal_accepted_at_unix v,
              sr_hello_accepted_at_unix = ps_hello_accepted_at_unix v, sr_offer = offer, sr_acceptance = acceptance,
              sr_proposal = proposal, sr_hello = hello,
              sr_watch_ready_accepted_at_unix = ps_watch_ready_accepted_at_unix v,
              sr_first_chain_watch_ready = ready, sr_peer_funding_statuses = statuses\<rparr>)))))))"

definition decode_stored_swap ::
  "protocol \<Rightarrow> swap_policy \<Rightarrow> persisted_direct_swap stored_entity \<Rightarrow> (market_error, swap_record) result" where
  "decode_stored_swap P policy stored =
     rbind (decode_swap_row P policy stored) (\<lambda>r.
     rbind (authenticate_proposal P policy r) (\<lambda>_.
     rbind (authenticate_hello P policy r) (\<lambda>_.
     rbind (authenticate_watch_ready P policy r) (\<lambda>_.
     rbind (authenticate_peer_funding P policy r) (\<lambda>_.
       if se_updated_at_unix stored \<noteq> sn_last_accepted_at_unix (swap_snapshot_of r) \<or> \<not> timestamps_monotonic r
       then Err (corrupt ''record timestamps'') else Ok r)))))"

section \<open>Reading the board\<close>

definition load_shakescape_direct_swap ::
  "crypto \<Rightarrow> protocol \<Rightarrow> persisted_direct_swap codec \<Rightarrow> wallet_store \<Rightarrow> swap_policy \<Rightarrow> session_id \<Rightarrow>
   (market_error, swap_record option) result" where
  "load_shakescape_direct_swap C P JS s policy sid =
     rbind (store_read (load_entity C JS s EK_SwapSession (swap_record_id policy sid)))
       (map_result (decode_stored_swap P policy))"

definition load_shakescape_direct_swaps ::
  "crypto \<Rightarrow> protocol \<Rightarrow> persisted_direct_swap codec \<Rightarrow> wallet_store \<Rightarrow> swap_policy \<Rightarrow>
   (market_error, swap_record list) result" where
  "load_shakescape_direct_swaps C P JS s policy =
     rbind (store_read (list_entities_by_id_prefix C JS s EK_SwapSession (swap_record_prefix policy)
         (MAX_SHAKESCAPE_DIRECT_SWAP_RECORDS + 1))) (\<lambda>stored.
       if MAX_SHAKESCAPE_DIRECT_SWAP_RECORDS < length stored then Err ME_ShakescapeDirectSwapCapacity
       else collect_results (map (decode_stored_swap P policy) stored))"

definition swap_has_active_obligation ::
  "crypto \<Rightarrow> protocol \<Rightarrow> swap_session codec \<Rightarrow> wallet_store \<Rightarrow> swap_policy \<Rightarrow> swap_record \<Rightarrow> (market_error, bool) result" where
  "swap_has_active_obligation C P JW s policy r =
     (if sr_hello r = None then Ok False
      else rbind (load_shakescape_execution C P JW s policy (oa_swap_session_id (sr_acceptance r))) (\<lambda>found.
        case found of
          None \<Rightarrow> Ok True
        | Some execution \<Rightarrow>
            Ok (\<not> (ss_state execution = Completed \<or>
                   (ss_state execution = Refunded \<and> all_funded_legs_settled execution) \<or>
                   (ss_state execution = Failed \<and> ss_first_funding execution = None \<and>
                    ss_second_funding execution = None)))))"

definition count_active ::
  "crypto \<Rightarrow> protocol \<Rightarrow> swap_session codec \<Rightarrow> wallet_store \<Rightarrow> swap_policy \<Rightarrow> swap_record list \<Rightarrow> (market_error, nat) result" where
  "count_active C P JW s policy retained =
     rbind (collect_results (map (swap_has_active_obligation C P JW s policy) retained)) (\<lambda>active.
       Ok (length (filter id active)))"

definition referenced_direct_offer_ids ::
  "crypto \<Rightarrow> protocol \<Rightarrow> persisted_direct_swap codec \<Rightarrow> wallet_store \<Rightarrow> swap_policy \<Rightarrow> (market_error, bytes set) result" where
  "referenced_direct_offer_ids C P JS s policy =
     rbind (store_read (list_entities_by_id_prefix C JS s EK_SwapSession (swap_record_prefix policy)
         MAX_ENTITY_LIST_RESULTS)) (\<lambda>stored.
     rbind (collect_results (map (decode_stored_swap P policy) stored)) (\<lambda>records.
       Ok (set (map (\<lambda>r. of_offer_id (sr_offer r)) records))))"

section \<open>Admission\<close>

definition save_swap_record ::
  "crypto \<Rightarrow> persisted_direct_swap codec \<Rightarrow> swap_policy \<Rightarrow> session_id \<Rightarrow> u64 \<Rightarrow> persisted_direct_swap \<Rightarrow> u64 \<Rightarrow>
   (wallet_store, market_error, u64) step" where
  "save_swap_record C JS policy sid expected persisted now_unix =
     in_store (\<lambda>s. save_entity C JS s EK_SwapSession (swap_record_id policy sid) expected persisted now_unix)"

definition admit_shakescape_direct_offer_acceptance ::
  "crypto \<Rightarrow> protocol \<Rightarrow> swap_session codec \<Rightarrow> persisted_direct_swap codec \<Rightarrow> persisted_direct_offer codec \<Rightarrow>
   swap_policy \<Rightarrow> bytes \<Rightarrow> u64 \<Rightarrow> (wallet_store, market_error, swap_admission) step" where
  "admit_shakescape_direct_offer_acceptance C P JW JS JO policy envelope_bytes accepted_at_unix =
     sbind (lift_result (decode_canonical_envelope P envelope_bytes)) (\<lambda>(request_id, message).
     case message of
       MsgAcceptDirectOffer acceptance \<Rightarrow>
         sbind (lift_result (ok_or (peer_object_validation_time (hd_created_at (oa_header acceptance)) accepted_at_unix)
           ME_InvalidShakescapeDirectSwap)) (\<lambda>validation_time.
         sbind (sread (\<lambda>s. load_shakescape_direct_offer C P JO s (dp_board_policy policy) (oa_offer_id acceptance))) (\<lambda>found.
         sbind (lift_result (ok_or found ME_UnknownShakescapeDirectOffer)) (\<lambda>offer.
         let sid = oa_swap_session_id acceptance in
         sbind (sread (\<lambda>s. load_shakescape_direct_swap C P JS s policy sid)) (\<lambda>existing.
         case existing of
           Some r \<Rightarrow> if sr_offer r = or_offer offer \<and> sr_acceptance r = acceptance
             then sreturn (SwapExisting (swap_snapshot_of r)) else sfail ME_ShakescapeDirectSwapConflict
         | None \<Rightarrow>
             if \<not> is_active_at offer accepted_at_unix then sfail ME_InvalidShakescapeDirectSwap
             else if \<not> mp_verify_acceptance P acceptance (or_offer offer) (dp_network policy) validation_time
             then sfail ME_InvalidShakescapeDirectSwap
             else sbind (sread (\<lambda>s. load_shakescape_direct_swaps C P JS s policy)) (\<lambda>retained.
               if MAX_SHAKESCAPE_DIRECT_SWAP_RECORDS \<le> length retained then sfail ME_ShakescapeDirectSwapCapacity
               else sbind (sread (\<lambda>s. count_active C P JW s policy retained)) (\<lambda>active.
               if MAX_SHAKESCAPE_DIRECT_SWAPS \<le> active then sfail ME_ShakescapeDirectSwapCapacity
               else sbind (lift_result (encode_hex P (mp_offer P) (or_offer offer))) (\<lambda>offer_hex.
                 sbind (lift_result (encode_hex P (mp_acceptance P) acceptance)) (\<lambda>acceptance_hex.
                 sbind (save_swap_record C JS policy sid 0
                   \<lparr>ps_schema_version = SHAKESCAPE_DIRECT_SWAP_SCHEMA_VERSION,
                    ps_policy_fingerprint = dp_fingerprint policy, ps_session_id = sid,
                    ps_acceptance_request_id = request_id, ps_proposal_request_id = None,
                    ps_acceptance_received_at_unix = accepted_at_unix, ps_proposal_accepted_at_unix = None,
                    ps_hello_accepted_at_unix = None, ps_offer_hex = offer_hex, ps_acceptance_hex = acceptance_hex,
                    ps_proposal_hex = None, ps_hello_hex = None, ps_watch_ready_accepted_at_unix = None,
                    ps_first_chain_watch_ready_hex = None, ps_peer_funding_statuses = []\<rparr> accepted_at_unix) (\<lambda>revision.
                 sreturn (SwapCreated (swap_snapshot_of
                   \<lparr>sr_store_revision = revision, sr_acceptance_request_id = request_id,
                    sr_proposal_request_id = None, sr_acceptance_received_at_unix = accepted_at_unix,
                    sr_proposal_accepted_at_unix = None, sr_hello_accepted_at_unix = None,
                    sr_offer = or_offer offer, sr_acceptance = acceptance, sr_proposal = None, sr_hello = None,
                    sr_watch_ready_accepted_at_unix = None, sr_first_chain_watch_ready = None,
                    sr_peer_funding_statuses = []\<rparr>)))))))))))
     | _ \<Rightarrow> sfail ME_InvalidShakescapeDirectSwap)"

definition expired_maker_only :: "protocol \<Rightarrow> swap_policy \<Rightarrow> swap_record \<Rightarrow> swap_session_proposal \<Rightarrow> u64 \<Rightarrow> bool" where
  "expired_maker_only P policy r existing accepted_at_unix \<longleftrightarrow>
     sr_hello r = None \<and> mp_verify_proposal_at P existing (dp_network policy) accepted_at_unix = Inl MarketplaceExpired"

definition admit_shakescape_direct_swap_proposal ::
  "crypto \<Rightarrow> protocol \<Rightarrow> persisted_direct_swap codec \<Rightarrow> swap_policy \<Rightarrow> bytes \<Rightarrow> u64 \<Rightarrow>
   (wallet_store, market_error, swap_admission) step" where
  "admit_shakescape_direct_swap_proposal C P JS policy envelope_bytes accepted_at_unix =
     sbind (lift_result (decode_canonical_envelope P envelope_bytes)) (\<lambda>(request_id, message).
     case message of
       MsgSwapSessionProposal proposal \<Rightarrow>
         sbind (lift_result (ok_or (peer_object_validation_time (hd_created_at (he_header (sp_terms proposal))) accepted_at_unix)
           ME_InvalidShakescapeDirectSwap)) (\<lambda>validation_time.
         let sid = he_swap_session_id (sp_terms proposal) in
         sbind (sread (\<lambda>s. load_shakescape_direct_swap C P JS s policy sid)) (\<lambda>found.
         sbind (lift_result (ok_or found ME_UnknownShakescapeDirectSwap)) (\<lambda>r.
         if sr_proposal_request_id r = Some request_id \<and> sr_proposal r = Some proposal
         then sreturn (SwapExisting (swap_snapshot_of r))
         else if (case sr_proposal r of None \<Rightarrow> False
                  | Some existing \<Rightarrow> \<not> expired_maker_only P policy r existing accepted_at_unix)
         then sfail ME_ShakescapeDirectSwapConflict
         else if \<not> is_ok (mp_verify_proposal P proposal (sr_offer r) (sr_acceptance r) (dp_network policy) validation_time)
         then sfail ME_InvalidShakescapeDirectSwap
         else sbind (lift_result (encode_persisted P policy r)) (\<lambda>persisted.
           sbind (lift_result (encode_hex P (mp_proposal P) proposal)) (\<lambda>proposal_hex.
           sbind (save_swap_record C JS policy sid (sr_store_revision r)
             (persisted\<lparr>ps_proposal_request_id := Some request_id, ps_proposal_accepted_at_unix := Some accepted_at_unix,
                ps_proposal_hex := Some proposal_hex\<rparr>) accepted_at_unix) (\<lambda>next_revision.
           sreturn (SwapAdvanced (swap_snapshot_of (r\<lparr>sr_store_revision := next_revision,
             sr_proposal_request_id := Some request_id, sr_proposal_accepted_at_unix := Some accepted_at_unix,
             sr_proposal := Some proposal\<rparr>)))))))))
     | _ \<Rightarrow> sfail ME_InvalidShakescapeDirectSwap)"

definition admit_shakescape_direct_swap_hello ::
  "crypto \<Rightarrow> protocol \<Rightarrow> swap_session codec \<Rightarrow> persisted_direct_swap codec \<Rightarrow> swap_policy \<Rightarrow> bytes \<Rightarrow> u64 \<Rightarrow>
   (wallet_store, market_error, swap_admission) step" where
  "admit_shakescape_direct_swap_hello C P JW JS policy envelope_bytes accepted_at_unix =
     sbind (lift_result (decode_canonical_envelope P envelope_bytes)) (\<lambda>(request_id, message).
     case message of
       MsgSwapSessionHello hello \<Rightarrow>
         sbind (lift_result (ok_or (peer_object_validation_time (hd_created_at (he_header hello)) accepted_at_unix)
           ME_InvalidShakescapeDirectSwap)) (\<lambda>validation_time.
         let sid = he_swap_session_id hello in
         sbind (sread (\<lambda>s. load_shakescape_direct_swap C P JS s policy sid)) (\<lambda>found.
         sbind (lift_result (ok_or found ME_UnknownShakescapeDirectSwap)) (\<lambda>r.
         if sr_proposal_request_id r \<noteq> Some request_id then sfail ME_InvalidShakescapeDirectSwap
         else case sr_hello r of
           Some existing \<Rightarrow> if existing = hello then sreturn (SwapExisting (swap_snapshot_of r))
             else sfail ME_ShakescapeDirectSwapConflict
         | None \<Rightarrow>
             sbind (lift_result (ok_or (sr_proposal r) ME_InvalidShakescapeDirectSwap)) (\<lambda>proposal.
             if sp_terms proposal \<noteq> maker_terms hello then sfail ME_ShakescapeDirectSwapConflict
             else if \<not> verify_or_recover (mp_verify_hello P hello (sr_offer r) (sr_acceptance r) (dp_network policy))
                    validation_time (hd_created_at (he_header hello))
             then sfail ME_InvalidShakescapeDirectSwap
             else sbind (sread (\<lambda>s. rbind (load_shakescape_direct_swaps C P JS s policy)
                    (count_active C P JW s policy))) (\<lambda>active_obligations.
               if MAX_SHAKESCAPE_DIRECT_SWAPS \<le> active_obligations then sfail ME_ShakescapeDirectSwapCapacity
               else sbind (lift_result (encode_persisted P policy r)) (\<lambda>persisted.
                 sbind (lift_result (encode_hex P (mp_hello P) hello)) (\<lambda>hello_hex.
                 sbind (save_swap_record C JS policy sid (sr_store_revision r)
                   (persisted\<lparr>ps_hello_accepted_at_unix := Some accepted_at_unix, ps_hello_hex := Some hello_hex\<rparr>)
                   accepted_at_unix) (\<lambda>next_revision.
                 sreturn (SwapAdvanced (swap_snapshot_of (r\<lparr>sr_store_revision := next_revision,
                   sr_hello_accepted_at_unix := Some accepted_at_unix, sr_hello := Some hello\<rparr>)))))))))))
     | _ \<Rightarrow> sfail ME_InvalidShakescapeDirectSwap)"

definition admit_shakescape_direct_swap_watch_ready ::
  "crypto \<Rightarrow> protocol \<Rightarrow> persisted_direct_swap codec \<Rightarrow> swap_policy \<Rightarrow> bytes \<Rightarrow> u64 \<Rightarrow>
   (wallet_store, market_error, swap_admission) step" where
  "admit_shakescape_direct_swap_watch_ready C P JS policy envelope_bytes accepted_at_unix =
     sbind (lift_result (decode_canonical_envelope P envelope_bytes)) (\<lambda>(_, message).
     case message of
       MsgSwapWatchReady ready \<Rightarrow>
         sbind (lift_result (ok_or (peer_object_validation_time (hd_created_at (wr_header ready)) accepted_at_unix)
           ME_InvalidShakescapePeerMessage)) (\<lambda>validation_time.
         let sid = wr_swap_session_id ready in
         sbind (sread (\<lambda>s. load_shakescape_direct_swap C P JS s policy sid)) (\<lambda>found.
         sbind (lift_result (ok_or found ME_UnknownShakescapeDirectSwap)) (\<lambda>r.
         sbind (lift_result (ok_or (sr_hello r) ME_InvalidShakescapeDirectSwap)) (\<lambda>hello.
         if wr_chain ready \<noteq> he_first_funding_chain hello then sfail ME_InvalidShakescapePeerMessage
         else case sr_first_chain_watch_ready r of
           Some existing \<Rightarrow> if existing = ready then sreturn (SwapExisting (swap_snapshot_of r))
             else sfail ME_ShakescapeDirectSwapConflict
         | None \<Rightarrow>
             if \<not> verify_or_recover (mp_verify_watch_ready P ready hello (dp_network policy)) validation_time
                    (hd_created_at (wr_header ready))
             then sfail ME_InvalidShakescapePeerMessage
             else sbind (lift_result (encode_persisted P policy r)) (\<lambda>persisted.
               sbind (lift_result (encode_hex P (mp_watch_ready P) ready)) (\<lambda>ready_hex.
               sbind (save_swap_record C JS policy sid (sr_store_revision r)
                 (persisted\<lparr>ps_watch_ready_accepted_at_unix := Some accepted_at_unix,
                    ps_first_chain_watch_ready_hex := Some ready_hex\<rparr>) accepted_at_unix) (\<lambda>next_revision.
               sreturn (SwapAdvanced (swap_snapshot_of (r\<lparr>sr_store_revision := next_revision,
                 sr_watch_ready_accepted_at_unix := Some accepted_at_unix,
                 sr_first_chain_watch_ready := Some ready\<rparr>))))))))))
     | _ \<Rightarrow> sfail ME_InvalidShakescapePeerMessage)"

fun peer_status_of :: "cross_chain_message \<Rightarrow> peer_status option" where
  "peer_status_of (MsgSwapFundingStatus x) = Some (PeerFunding x)"
| "peer_status_of (MsgSwapRedeemStatus x) = Some (PeerRedeem x)"
| "peer_status_of (MsgSwapRefundStatus x) = Some (PeerRefund x)"
| "peer_status_of (MsgSwapWatchReady x) = Some (PeerWatchReady x)"
| "peer_status_of _ = None"

fun peer_status_created_at :: "peer_status \<Rightarrow> u64" where
  "peer_status_created_at (PeerFunding x) = hd_created_at (fs_header x)"
| "peer_status_created_at (PeerRedeem x) = hd_created_at (rs_header x)"
| "peer_status_created_at (PeerRefund x) = hd_created_at (rs_header x)"
| "peer_status_created_at (PeerWatchReady x) = hd_created_at (wr_header x)"

fun verify_peer_status ::
  "protocol \<Rightarrow> peer_status \<Rightarrow> swap_session_hello \<Rightarrow> network_binding \<Rightarrow> u64 \<Rightarrow> (marketplace_error, unit) result" where
  "verify_peer_status P (PeerFunding x) hello network now_unix = mp_verify_funding_status P x hello network now_unix"
| "verify_peer_status P (PeerRedeem x) hello network now_unix = mp_verify_redeem_status P x hello network now_unix"
| "verify_peer_status P (PeerRefund x) hello network now_unix = mp_verify_refund_status P x hello network now_unix"
| "verify_peer_status P (PeerWatchReady x) hello network now_unix = mp_verify_watch_ready P x hello network now_unix"

definition validate_shakescape_direct_swap_peer_status ::
  "crypto \<Rightarrow> protocol \<Rightarrow> persisted_direct_swap codec \<Rightarrow> wallet_store \<Rightarrow> swap_policy \<Rightarrow> bytes \<Rightarrow> u64 \<Rightarrow>
   (market_error, peer_status) result" where
  "validate_shakescape_direct_swap_peer_status C P JS s policy envelope_bytes now_unix =
     rbind (decode_canonical_envelope P envelope_bytes) (\<lambda>(_, message).
     rbind (ok_or (peer_status_of message) ME_InvalidShakescapePeerMessage) (\<lambda>status.
     rbind (ok_or (peer_object_validation_time (peer_status_created_at status) now_unix)
       ME_InvalidShakescapePeerMessage) (\<lambda>at.
     rbind (load_shakescape_direct_swap C P JS s policy (peer_status_session_id status)) (\<lambda>found.
     rbind (ok_or found ME_UnknownShakescapeDirectSwap) (\<lambda>r.
     rbind (ok_or (sr_hello r) ME_InvalidShakescapeDirectSwap) (\<lambda>hello.
     rbind (map_err (\<lambda>_. ME_InvalidShakescapePeerMessage) (verify_peer_status P status hello (dp_network policy) at)) (\<lambda>_.
       Ok status)))))))"

definition replace_funding_status ::
  "protocol \<Rightarrow> swap_funding_status \<Rightarrow> u64 \<Rightarrow> peer_funding_status_record list \<Rightarrow> peer_funding_status_record list" where
  "replace_funding_status P funding now_unix statuses =
     sort_key (\<lambda>x. mp_chain_rank P (fs_chain (pf_status x)))
       (filter (\<lambda>x. fs_chain (pf_status x) \<noteq> fs_chain funding) statuses @
        [\<lparr>pf_accepted_at_unix = now_unix, pf_status = funding\<rparr>])"

definition admit_shakescape_direct_swap_peer_status ::
  "crypto \<Rightarrow> protocol \<Rightarrow> persisted_direct_swap codec \<Rightarrow> swap_policy \<Rightarrow> bytes \<Rightarrow> u64 \<Rightarrow>
   (wallet_store, market_error, peer_status) step" where
  "admit_shakescape_direct_swap_peer_status C P JS policy envelope_bytes now_unix =
     sbind (sread (\<lambda>s. validate_shakescape_direct_swap_peer_status C P JS s policy envelope_bytes now_unix)) (\<lambda>status.
     case status of
       PeerFunding funding \<Rightarrow>
         let sid = fs_swap_session_id funding in
         sbind (sread (\<lambda>s. load_shakescape_direct_swap C P JS s policy sid)) (\<lambda>found.
         sbind (lift_result (ok_or found ME_UnknownShakescapeDirectSwap)) (\<lambda>r.
         let existing = find (\<lambda>x. fs_chain (pf_status x) = fs_chain funding) (sr_peer_funding_statuses r) in
         if (case existing of None \<Rightarrow> False | Some x \<Rightarrow> pf_status x = funding) then sreturn status
         else if (case existing of None \<Rightarrow> False
                  | Some x \<Rightarrow> hd_sequence (fs_header funding) \<le> hd_sequence (fs_header (pf_status x)))
         then sfail ME_ShakescapeDirectSwapConflict
         else let r' = r\<lparr>sr_peer_funding_statuses := replace_funding_status P funding now_unix (sr_peer_funding_statuses r)\<rparr>
           in if 2 < length (sr_peer_funding_statuses r') then sfail ME_CorruptShakescapeDirectSwap
           else sbind (lift_result (encode_persisted P policy r')) (\<lambda>persisted.
             sbind (save_swap_record C JS policy sid (sr_store_revision r) persisted now_unix) (\<lambda>_. sreturn status))))
     | _ \<Rightarrow> sreturn status)"

section \<open>Opening and listing executions\<close>

definition open_shakescape_execution ::
  "crypto \<Rightarrow> protocol \<Rightarrow> swap_session codec \<Rightarrow> persisted_direct_swap codec \<Rightarrow> swap_policy \<Rightarrow> session_id \<Rightarrow> u64 \<Rightarrow>
   (wallet_store, market_error, swap_session) step" where
  "open_shakescape_execution C P JW JS policy sid now_unix =
     sbind (sread (\<lambda>s. load_shakescape_direct_swap C P JS s policy sid)) (\<lambda>found.
     sbind (lift_result (ok_or found ME_UnknownShakescapeDirectSwap)) (\<lambda>r.
     sbind (lift_result (ok_or (sr_hello r) ME_InvalidShakescapeDirectSwap)) (\<lambda>hello.
     sbind (lift_result (ok_or (sr_hello_accepted_at_unix r) ME_CorruptShakescapeDirectSwap)) (\<lambda>expected_accepted_at.
     if \<not> mp_verify_agreement P hello (dp_network policy) then sfail ME_CorruptShakescapeDirectSwap
     else sbind (lift_result (verify_canonical_shakescape_lock_commitments C P hello)) (\<lambda>_.
       if now_unix < expected_accepted_at then sfail ME_InvalidEvidence
       else sbind (lift_result (ok_or (js_encode (mp_hello P) hello) ME_CorruptShakescapeDirectSwap)) (\<lambda>encoded_terms.
         let wid = shakescape_execution_workflow_id C sid in
         sbind (sread (\<lambda>s. store_read (load_workflow C JW s wid))) (\<lambda>existing.
         case existing of
           Some w \<Rightarrow>
             if sw_kind w \<noteq> WK_AtomicSwap \<or> ss_id (sw_state w) \<noteq> sid \<or>
                ss_accepted_shakescape_terms (sw_state w) \<noteq> Some encoded_terms
             then sfail ME_ShakescapeDirectSwapConflict else sreturn (sw_state w)
         | None \<Rightarrow>
             sbind (sread (\<lambda>s. rbind (load_shakescape_direct_swaps C P JS s policy) (count_active C P JW s policy)))
               (\<lambda>active_obligations.
             if MAX_CONCURRENT_SWAP_SESSIONS < active_obligations then sfail ME_ShakescapeDirectSwapCapacity
             else sbind (lift_result (swap_session_from_accepted_hello P hello expected_accepted_at)) (\<lambda>session.
               let expected = session\<lparr>ss_accepted_shakescape_terms := Some encoded_terms,
                     ss_last_verified_at_unix := now_unix\<rparr>
               in sbind (in_store (\<lambda>s. save_workflow C JW s wid WK_AtomicSwap 0 expected False now_unix)) (\<lambda>saved_revision.
                 if saved_revision \<noteq> ss_revision expected then sfail ME_Invariant else sreturn expected)))))))))) "

datatype guard_purpose =
    CurrentRedeem
  | SecondFundingPurpose object_hash module_id u64

record settlement_broadcast_guard =
  sg_session_id :: session_id
  sg_execution_workflow_id :: workflow_id
  sg_execution_revision :: u64
  sg_entity_id :: bytes
  sg_entity_revision :: u64
  sg_purpose :: guard_purpose

definition settlement_guard_is_valid :: "settlement_broadcast_guard \<Rightarrow> bool" where
  "settlement_guard_is_valid g \<longleftrightarrow>
     \<not> list_all (\<lambda>b. b = 0) (sg_session_id g) \<and> \<not> list_all (\<lambda>b. b = 0) (sg_execution_workflow_id g) \<and>
     sg_execution_revision g \<noteq> 0 \<and> sg_entity_id g \<noteq> [] \<and> sg_entity_revision g \<noteq> 0 \<and>
     (case sg_purpose g of
        CurrentRedeem \<Rightarrow> True
      | SecondFundingPurpose authorization_id m expires_at_unix \<Rightarrow>
          list_ex (\<lambda>b. b \<noteq> 0) authorization_id \<and> m = Handshake \<and> expires_at_unix \<noteq> 0)"

definition settlement_guard_new ::
  "session_id \<Rightarrow> workflow_id \<Rightarrow> u64 \<Rightarrow> bytes \<Rightarrow> u64 \<Rightarrow> settlement_broadcast_guard option" where
  "settlement_guard_new sid wid execution_revision session_record_id session_record_revision =
     (let guard = \<lparr>sg_session_id = sid, sg_execution_workflow_id = wid, sg_execution_revision = execution_revision,
        sg_entity_id = session_record_id, sg_entity_revision = session_record_revision, sg_purpose = CurrentRedeem\<rparr>
      in if settlement_guard_is_valid guard then Some guard else None)"

definition authorize_hns_redeem_broadcast_guard ::
  "crypto \<Rightarrow> protocol \<Rightarrow> swap_session codec \<Rightarrow> persisted_direct_swap codec \<Rightarrow> wallet_store \<Rightarrow> swap_policy \<Rightarrow>
   session_id \<Rightarrow> (market_error, settlement_broadcast_guard) result" where
  "authorize_hns_redeem_broadcast_guard C P JW JS s policy sid =
     rbind (load_shakescape_execution C P JW s policy sid) (\<lambda>found_execution.
     rbind (ok_or found_execution ME_UnknownShakescapeDirectSwap) (\<lambda>execution.
     rbind (load_shakescape_direct_swap C P JS s policy sid) (\<lambda>found_record.
     rbind (ok_or found_record ME_UnknownShakescapeDirectSwap) (\<lambda>r.
       if \<not> first_funding_is_current execution \<or> ss_second_module execution \<noteq> Handshake \<or> sr_hello r = None
       then Err ME_InvalidTransition
       else ok_or (settlement_guard_new sid (shakescape_execution_workflow_id C sid) (ss_revision execution)
              (swap_record_id policy sid) (sr_store_revision r)) ME_InvalidEvidence))))"

definition list_shakescape_executions ::
  "crypto \<Rightarrow> protocol \<Rightarrow> swap_session codec \<Rightarrow> persisted_direct_swap codec \<Rightarrow> wallet_store \<Rightarrow> swap_policy \<Rightarrow>
   (market_error, swap_session list) result" where
  "list_shakescape_executions C P JW JS s policy =
     rbind (load_shakescape_direct_swaps C P JS s policy) (\<lambda>records.
     rbind (collect_results (map (\<lambda>r.
         rbind (load_shakescape_execution C P JW s policy (oa_swap_session_id (sr_acceptance r))) (\<lambda>found.
           ok_or found ME_CorruptShakescapeDirectSwap)) (filter (\<lambda>r. sr_hello r \<noteq> None) records))) (\<lambda>executions.
       Ok (sort_key ss_id executions)))"

end
