(* ===== verification/Execution_Laws.thy ===== *)
theory Execution_Laws
  imports Session_Board Store_Laws
begin

text \<open>
  Laws of the durable execution: the wallet-store journal is a \<open>swap_journal\<close>, and every operation of
  hns-wallet-market/src/lib.rs that applies locally verified evidence leaves in the store a session the
  state machine reached, whether it succeeds or fails part of the way. \<open>execution_call\<close> names the
  operations so that the properties can speak about arbitrary sequences of them.
\<close>

section \<open>Weakest preconditions of store steps\<close>

lemma wp_sread [wp_simps]: "wp (sread f) Q E s = (case f s of Inl e \<Rightarrow> E e s | Inr a \<Rightarrow> Q a s)"
  by (simp add: wp_def sread_def split: sum.splits)

lemma wp_in_store [wp_simps]:
  "wp (in_store f) Q E s =
     (case f s of Inl e \<Rightarrow> E (market_error_from_store e) s | Inr (a, s') \<Rightarrow> Q a s')"
  by (simp add: wp_def in_store_def split: sum.splits prod.splits)

lemma wp_check_saved_revision [wp_simps]:
  "wp (check_saved_revision x n) Q E s = (if n \<noteq> ss_revision x then E ME_Invariant s else Q () s)"
  by (simp add: check_saved_revision_def wp_simps)

section \<open>A workflow saved with its batch\<close>

lemma advance_workflow_frame:
  assumes "advance_workflow C key s i kind r m b u = Inr (n, s')"
  shows "ws_entities s' = ws_entities s" "ws_secrets s' = ws_secrets s" "ws_key s' = ws_key s"
    "ws_database_id s' = ws_database_id s" "n = r + 1"
  using assms by (auto simp: advance_workflow_def write_workflow_def split: option.splits if_splits)

lemma load_save_workflow_with_entity_batch:
  assumes "crypto_law C" "codec_law JW"
    "save_workflow_with_entity_batch C JW JE s i kind r v b u ek saves deletes = Inr (n, s')"
  shows "load_workflow C JW s' i = Inr (Some \<lparr>sw_id = i, sw_kind = kind, sw_revision = n, sw_state = v,
    sw_irreversible_broadcast_prepared = b, sw_updated_at_unix = u\<rparr>)"
  using assms(3)
proof (rule save_workflow_with_entity_batch_Ok)
  fix key m s1
  assume k: "store_key s = Inr key" and m: "js_encode JW v = Some m"
    and w: "authenticated_workflow_revision C key s i kind = Inr r"
    and eff: "batch_effect C JE key ek saves deletes s s1"
    and adv: "advance_workflow C key s1 i kind r m b u = Inr (n, s')"
  have k1: "store_key s1 = Inr key" using k batch_effect_frame(3) [OF eff] by simp
  show "load_workflow C JW s' i = Inr (Some \<lparr>sw_id = i, sw_kind = kind, sw_revision = n, sw_state = v,
    sw_irreversible_broadcast_prepared = b, sw_updated_at_unix = u\<rparr>)"
    by (rule load_advanced_workflow [OF assms(1,2) m adv k1])
      (use authenticated_workflow_kind [OF w] batch_effect_frame(1) [OF eff] in simp)
qed

lemma save_workflow_with_entity_batch_frame:
  assumes "save_workflow_with_entity_batch C JW JE s i kind r v b u ek saves deletes = Inr (n, s')"
  shows "ws_secrets s' = ws_secrets s" "ws_key s' = ws_key s" "ws_database_id s' = ws_database_id s" "n = r + 1"
proof -
  from assms obtain key m s1 where eff: "batch_effect C JE key ek saves deletes s s1"
    and adv: "advance_workflow C key s1 i kind r m b u = Inr (n, s')" by (rule save_workflow_with_entity_batch_Ok)
  from advance_workflow_frame [OF adv] batch_effect_frame [OF eff]
  show "ws_secrets s' = ws_secrets s" "ws_key s' = ws_key s" "ws_database_id s' = ws_database_id s" "n = r + 1"
    by simp_all
qed

lemma save_workflow_frame:
  assumes "save_workflow C J s i kind r v b u = Inr (n, s')"
  shows "ws_entities s' = ws_entities s" "ws_secrets s' = ws_secrets s" "ws_key s' = ws_key s"
    "ws_database_id s' = ws_database_id s" "n = r + 1"
  using assms by (auto elim!: save_workflow_Ok dest: advance_workflow_frame)

section \<open>The wallet-store journal\<close>

definition execution_laws ::
  "crypto \<Rightarrow> swap_session codec \<Rightarrow> persisted_authorization codec \<Rightarrow> bytes \<Rightarrow> wallet_store \<Rightarrow> bool" where
  "execution_laws C JW JA key s \<longleftrightarrow> crypto_law C \<and> codec_law JW \<and> codec_law JA \<and> store_inv C key s"

lemma wallet_journal_save_Ok:
  assumes "wallet_journal_save C JW JA wid u x r s = (Inr (), s')"
  obtains (alone) "save_workflow C JW s wid WK_AtomicSwap r x (irreversible (ss_state x)) u = Inr (ss_revision x, s')"
      "ss_accepted_shakescape_terms x = None"
  | (batch) row saves deletes where "ss_accepted_shakescape_terms x \<noteq> None"
      "wid = shakescape_execution_workflow_id C (ss_id x)"
      "load_entity C JA s EK_SwapFundingAuthorization (second_funding_authorization_entity_id (ss_id x)) = Inr row"
      "authorization_batch C x row u = Inr (saves, deletes)"
      "saves = [] \<and> deletes = [] \<and>
         save_workflow C JW s wid WK_AtomicSwap r x (irreversible (ss_state x)) u = Inr (ss_revision x, s') \<or>
       (saves \<noteq> [] \<or> deletes \<noteq> []) \<and>
         save_workflow_with_entity_batch C JW JA s wid WK_AtomicSwap r x (irreversible (ss_state x)) u
           EK_SwapFundingAuthorization saves deletes = Inr (ss_revision x, s')"
  using assms unfolding wallet_journal_save_def
  by (auto simp: sbind_Inr in_store_Ok sread_Ok check_saved_revision_def map_err_def split: if_splits sum.splits)

lemma wallet_journal_saved:
  assumes "crypto_law C" "codec_law JW" "wallet_journal_save C JW JA wid u x r s = (Inr (), s')"
  shows "load_workflow C JW s' wid = Inr (Some \<lparr>sw_id = wid, sw_kind = WK_AtomicSwap, sw_revision = ss_revision x,
      sw_state = x, sw_irreversible_broadcast_prepared = irreversible (ss_state x), sw_updated_at_unix = u\<rparr>) \<and>
    ws_secrets s' = ws_secrets s \<and> ws_key s' = ws_key s \<and> ws_database_id s' = ws_database_id s"
  using assms(3)
  by (rule wallet_journal_save_Ok)
    (auto simp: load_save_workflow [OF assms(1,2)] load_save_workflow_with_entity_batch [OF assms(1,2)]
      save_workflow_frame save_workflow_with_entity_batch_frame)

lemma wallet_journal_inv:
  assumes "crypto_law C" "store_inv C key s" "wallet_journal_save C JW JA wid u x r s = (Inr (), s')"
  shows "store_inv C key s'"
  using assms(3)
  by (rule wallet_journal_save_Ok)
    (auto intro: save_workflow_inv [OF assms(1,2)] save_workflow_with_entity_batch_inv [OF assms(1,2)])

lemma wallet_journal_save_Err:
  assumes "ss_revision x = r + 1" "wallet_journal_save C JW JA wid u x r s = (Inl e, s')"
  shows "s' = s"
  using assms unfolding wallet_journal_save_def
  by (auto simp: sbind_Inl sbind_Inr in_store_Ok sread_Ok check_saved_revision_def
      dest: in_store_Err save_workflow_frame(5) save_workflow_with_entity_batch_frame(4) split: if_splits)

interpretation wallet_journal: swap_journal "execution_laws C JW JA key" "wallet_journal_save C JW JA wid u"
  "\<lambda>s. lookup_workflow C JW s wid"
  for C :: crypto and JW :: "swap_session codec" and JA :: "persisted_authorization codec" and key :: bytes
    and wid :: workflow_id and u :: u64
proof
  fix s x r s'
  assume "execution_laws C JW JA key s" "wallet_journal_save C JW JA wid u x r s = (Inr (), s')"
  then show "execution_laws C JW JA key s' \<and> lookup_workflow C JW s' wid = Some x"
    using wallet_journal_saved wallet_journal_inv by (fastforce simp: execution_laws_def lookup_workflow_def)
next
  fix s x r e s'
  assume "execution_laws C JW JA key s" "ss_revision x = r + 1"
    "wallet_journal_save C JW JA wid u x r s = (Inl e, s')"
  then show "execution_laws C JW JA key s' \<and> lookup_workflow C JW s' wid = lookup_workflow C JW s wid"
    using wallet_journal_save_Err by blast
qed

section \<open>Steps of an execution\<close>

text \<open>
  An operation changes the store in two ways only: the journal accepts a session that evidence led to, or
  the preimage of the session's hash lock is kept as a secret. The first redemption is recorded only when
  the preimage is already kept.
\<close>

definition secret_kept :: "crypto \<Rightarrow> session_id \<Rightarrow> swap_session \<Rightarrow> wallet_store \<Rightarrow> bool" where
  "secret_kept C sid x s \<longleftrightarrow> (\<exists>p. get_secret C s (shakescape_observed_preimage_id sid) HtlcPreimage = Inr (Some p) \<and>
     sha256 C p = ss_hashlock x)"

inductive execution_step ::
  "crypto \<Rightarrow> swap_session codec \<Rightarrow> persisted_authorization codec \<Rightarrow> session_id \<Rightarrow> wallet_store \<Rightarrow> wallet_store \<Rightarrow> bool"
  for C JW JA sid where
  journal: "lookup_workflow C JW s (shakescape_execution_workflow_id C sid) = Some x \<Longrightarrow>
     apply_evidence (wallet_journal_save C JW JA (shakescape_execution_workflow_id C sid) now) x e now s = (Inr y, t) \<Longrightarrow>
     (\<And>ev. e = FirstRedemptionConfirmed ev \<Longrightarrow> secret_kept C sid x s) \<Longrightarrow> execution_step C JW JA sid s t"
| secret: "lookup_workflow C JW s (shakescape_execution_workflow_id C sid) = Some x \<Longrightarrow>
     put_secret C s (shakescape_observed_preimage_id sid) HtlcPreimage p now = Inr t \<Longrightarrow>
     sha256 C p = ss_hashlock x \<Longrightarrow> execution_step C JW JA sid s t"

lemma put_secret_frame:
  assumes "put_secret C s i kind m u = Inr t"
  shows "ws_entities t = ws_entities s" "ws_workflows t = ws_workflows s" "ws_key t = ws_key s"
    "ws_database_id t = ws_database_id s"
  using put_secret_Ok [OF assms] by auto

lemma put_secret_lookup: "put_secret C s i kind m u = Inr t \<Longrightarrow> lookup_workflow C J t wid = lookup_workflow C J s wid"
  using load_workflow_frame [of t wid s C J] by (simp add: put_secret_frame lookup_workflow_def)

lemma execution_step_laws:
  assumes "execution_step C JW JA sid s t" "execution_laws C JW JA key s"
  shows "execution_laws C JW JA key t"
  using assms(1)
proof (cases rule: execution_step.cases)
  case (journal x now e y)
  then show ?thesis using wallet_journal.apply_current [OF assms(2) journal(2)] by blast
next
  case (secret x p now)
  then show ?thesis using assms(2) put_secret_inv by (auto simp: execution_laws_def)
qed

lemma execution_steps_laws:
  "(execution_step C JW JA sid)\<^sup>*\<^sup>* s t \<Longrightarrow> execution_laws C JW JA key s \<Longrightarrow> execution_laws C JW JA key t"
  by (induction rule: rtranclp_induct) (auto intro: execution_step_laws)

lemma execution_step_session:
  assumes "execution_step C JW JA sid s t" "execution_laws C JW JA key s"
  obtains x y where "lookup_workflow C JW s (shakescape_execution_workflow_id C sid) = Some x"
    "lookup_workflow C JW t (shakescape_execution_workflow_id C sid) = Some y" "swap_step\<^sup>*\<^sup>* x y"
  using assms(1)
proof (cases rule: execution_step.cases)
  case (journal x now e y)
  then show ?thesis
    using that wallet_journal.apply_current [OF assms(2) journal(2)] apply_evidence_step [OF journal(2)] by blast
next
  case (secret x p now)
  then show ?thesis using that [of x x] by (simp add: put_secret_lookup [OF secret(2)])
qed

lemma execution_steps_session:
  assumes "(execution_step C JW JA sid)\<^sup>*\<^sup>* s t" "execution_laws C JW JA key s"
    "lookup_workflow C JW s (shakescape_execution_workflow_id C sid) = Some x"
  shows "\<exists>y. lookup_workflow C JW t (shakescape_execution_workflow_id C sid) = Some y \<and> swap_step\<^sup>*\<^sup>* x y"
  using assms
proof (induction rule: rtranclp_induct)
  case (step b c)
  then obtain y where y: "lookup_workflow C JW b (shakescape_execution_workflow_id C sid) = Some y" "swap_step\<^sup>*\<^sup>* x y"
    by blast
  have "execution_laws C JW JA key b" using execution_steps_laws [OF step(1) step(4)] .
  from execution_step_session [OF step(2) this] y show ?case by (metis option.inject rtranclp_trans)
qed auto

section \<open>Operations are sequences of steps\<close>

text \<open>
  \<open>execution_sound m\<close>: from a lawful store, \<open>m\<close> only takes execution steps, also when it fails, and a
  session it returns is the one the store holds.
\<close>

abbreviation steps_to ::
  "crypto \<Rightarrow> swap_session codec \<Rightarrow> persisted_authorization codec \<Rightarrow> session_id \<Rightarrow> wallet_store \<Rightarrow> 'r \<Rightarrow> wallet_store \<Rightarrow> bool" where
  "steps_to C JW JA sid s \<equiv> \<lambda>_ t. (execution_step C JW JA sid)\<^sup>*\<^sup>* s t"

definition holds_session ::
  "crypto \<Rightarrow> swap_session codec \<Rightarrow> persisted_authorization codec \<Rightarrow> session_id \<Rightarrow> wallet_store \<Rightarrow> swap_session \<Rightarrow> wallet_store \<Rightarrow> bool" where
  "holds_session C JW JA sid s x t \<longleftrightarrow> (execution_step C JW JA sid)\<^sup>*\<^sup>* s t \<and>
     lookup_workflow C JW t (shakescape_execution_workflow_id C sid) = Some x"

lemma apply_refused:
  assumes "apply_evidence (wallet_journal_save C JW JA wid u) x e now s = (Inl err, t)"
  shows "t = s"
  using assms
proof (cases rule: apply_evidence_Err)
  case (unsaved y)
  show ?thesis by (rule wallet_journal_save_Err [OF _ unsaved]) simp
qed

lemma wp_apply_evidence:
  assumes laws: "execution_laws C JW JA key s0" and at: "holds_session C JW JA sid s0 x s"
    and kept: "\<And>ev. e = FirstRedemptionConfirmed ev \<Longrightarrow> secret_kept C sid x s"
  shows "wp (apply_evidence (wallet_journal_save C JW JA (shakescape_execution_workflow_id C sid) now) x e now)
    (holds_session C JW JA sid s0) (steps_to C JW JA sid s0) s"
proof -
  let ?m = "apply_evidence (wallet_journal_save C JW JA (shakescape_execution_workflow_id C sid) now) x e now"
  have l: "execution_laws C JW JA key s" using at execution_steps_laws laws by (auto simp: holds_session_def)
  show ?thesis
  proof (cases "?m s")
    case (Pair r t)
    show ?thesis
    proof (cases r)
      case (Inl err)
      with Pair have "?m s = (Inl err, t)" by simp
      then have "t = s" by (rule apply_refused)
      with at Pair Inl show ?thesis by (simp add: wp_def holds_session_def)
    next
      case (Inr y)
      with Pair have m: "?m s = (Inr y, t)" by simp
      have "execution_step C JW JA sid s t"
        using at kept by (intro execution_step.journal [OF _ m]) (auto simp: holds_session_def)
      with at wallet_journal.apply_current [OF l m] Pair Inr show ?thesis
        by (auto simp: wp_def holds_session_def)
    qed
  qed
qed

lemma load_lookup: "load_workflow C JW s wid = Inr (Some w) \<Longrightarrow> lookup_workflow C JW s wid = Some (sw_state w)"
  by (simp add: lookup_workflow_def)

lemma load_shakescape_execution_Some:
  assumes "load_shakescape_execution C P JW s policy sid = Inr (Some x)"
  shows "lookup_workflow C JW s (shakescape_execution_workflow_id C sid) = Some x"
  using assms
  by (auto simp: load_shakescape_execution_def validate_shakescape_execution_def Let_def map_err_def
      split: sum.splits option.splits dest!: load_lookup)

lemma load_for_local_evidence_Ok:
  assumes "load_shakescape_execution_for_local_evidence C P JW s policy sid wid = Inr w"
  shows "load_workflow C JW s wid = Inr (Some w)" "lookup_workflow C JW s wid = Some (sw_state w)"
    "validate_shakescape_execution_record P policy sid wid w = Inr ()"
  using assms
  by (auto simp: load_shakescape_execution_for_local_evidence_def map_err_def lookup_workflow_def ok_or_def
      split: sum.splits option.splits)

lemma load_execution_with_terms_Ok:
  assumes "load_execution_with_terms C P JW s policy sid = Inr (x, hello)"
  shows "lookup_workflow C JW s (shakescape_execution_workflow_id C sid) = Some x"
  using assms
  by (auto simp: load_execution_with_terms_def map_err_def ok_or_def if_Inl_eq_Inr lookup_workflow_def
      split: sum.splits option.splits if_splits)

lemma holds_here: "lookup_workflow C JW s (shakescape_execution_workflow_id C sid) = Some x \<Longrightarrow> holds_session C JW JA sid s x s"
  by (simp add: holds_session_def)

lemma wp_load_existing:
  assumes "\<And>x. load_shakescape_execution C P JW s policy sid = Inr (Some x) \<Longrightarrow> holds_session C JW JA sid s x s \<Longrightarrow>
      wp (f x) Q (steps_to C JW JA sid s) s"
  shows "wp (sbind (load_existing_execution C P JW policy sid) f) Q (steps_to C JW JA sid s) s"
  using assms holds_here [OF load_shakescape_execution_Some]
  by (auto simp: load_existing_execution_def wp_simps ok_or_def split: sum.splits option.splits)

lemma holds_steps: "holds_session C JW JA sid s x t \<Longrightarrow> steps_to C JW JA sid s r t"
  by (simp add: holds_session_def)

lemma begin_sound:
  assumes "execution_laws C JW JA key s"
  shows "wp (begin_shakescape_first_funding_observation C P JW JA policy sid m now)
    (steps_to C JW JA sid s) (steps_to C JW JA sid s) s"
  unfolding begin_shakescape_first_funding_observation_def
  by (rule wp_load_existing, simp only: wp_simps ok_or_def)
    (auto simp: wp_basic split: option.splits sum.splits
      intro!: wp_mono [OF wp_apply_evidence [OF assms]] holds_steps)

lemma invalidate_sound:
  assumes "execution_laws C JW JA key s"
  shows "wp (invalidate_locally_verified_shakescape_first_funding_inner C P JW JA policy sid g now)
    (holds_session C JW JA sid s) (steps_to C JW JA sid s) s"
  unfolding invalidate_locally_verified_shakescape_first_funding_inner_def
  by (rule wp_load_existing, simp only: wp_simps ok_or_def)
    (auto split: option.splits sum.splits intro!: wp_apply_evidence [OF assms])

lemma issue_sound:
  assumes "execution_laws C JW JA key s"
  shows "wp (issue_shakescape_second_funding_authorization C P JW JA policy sid m a ex now)
    (holds_session C JW JA sid s) (steps_to C JW JA sid s) s"
  unfolding issue_shakescape_second_funding_authorization_def
  by (rule wp_load_existing, simp only: wp_simps ok_or_def)
    (auto split: option.splits sum.splits intro!: wp_apply_evidence [OF assms])

lemma wp_apply_all:
  assumes "execution_laws C JW JA key s0" "holds_session C JW JA sid s0 x s"
    and "\<And>ev. FirstRedemptionConfirmed ev \<notin> set es"
  shows "wp (apply_all (wallet_journal_save C JW JA (shakescape_execution_workflow_id C sid) now) x es now)
    (holds_session C JW JA sid s0) (steps_to C JW JA sid s0) s"
  using assms(2,3)
proof (induction es arbitrary: x s)
  case (Cons e es)
  then show ?case
    by (auto simp: wp_simps intro!: wp_mono [OF wp_apply_evidence [OF assms(1) Cons.prems(1)]])
qed (simp add: wp_simps)

lemma funding_evidence_steps_kinds:
  "funding_evidence_steps st m ev g = Inr es \<Longrightarrow> FirstRedemptionConfirmed x \<notin> set es"
  by (auto simp: funding_evidence_steps_def first_funding_evidence_def if_Inl_eq_Inr split: if_splits option.splits)

lemma funding_sound:
  assumes "execution_laws C JW JA key s"
  shows "wp (apply_locally_verified_shakescape_funding_inner C P JW JA policy sid funding g now)
    (holds_session C JW JA sid s) (steps_to C JW JA sid s) s"
proof (cases "load_execution_with_terms C P JW s policy sid")
  case (Inr p)
  obtain x hello where p: "p = (x, hello)" by fastforce
  have at: "holds_session C JW JA sid s x s"
    by (rule holds_here [OF load_execution_with_terms_Ok [OF Inr [unfolded p]]])
  have es: "funding_evidence_steps x m ev g = Inr es \<Longrightarrow>
      wp (apply_all (wallet_journal_save C JW JA (shakescape_execution_workflow_id C sid) now) x es now)
        (holds_session C JW JA sid s) (steps_to C JW JA sid s) s" for m ev es
    using wp_apply_all [OF assms at] funding_evidence_steps_kinds by blast
  show ?thesis
    unfolding apply_locally_verified_shakescape_funding_inner_def wp_simps Inr p sum.case prod.case Let_def
    using at by (auto split: sum.split intro: es)
qed (simp add: apply_locally_verified_shakescape_funding_inner_def wp_simps)

lemma get_put_secret:
  assumes "crypto_law C" "put_secret C s i kind m u = Inr t" "kind \<noteq> RecoverySeed"
  shows "get_secret C t i kind = Inr (Some m)"
  using assms(2,3)
  by (auto simp: put_secret_def get_secret_def Let_def if_Inl_eq_Inr tbl_get_put
      dest!: decrypt_encrypt [OF assms(1)] split: option.splits if_splits)

lemma wp_case_unit [wp_simps]:
  "wp (case x of None \<Rightarrow> m | Some y \<Rightarrow> if b y then n y else f y) Q E s =
    (case x of None \<Rightarrow> wp m Q E s | Some y \<Rightarrow> if b y then wp (n y) Q E s else wp (f y) Q E s)"
  by (simp split: option.split)

lemma wp_recorded_then:
  assumes laws: "execution_laws C JW JA key s0" and at: "holds_session C JW JA sid s0 x s"
    and kept: "\<And>ev. b \<Longrightarrow> e = FirstRedemptionConfirmed ev \<Longrightarrow> secret_kept C sid x s"
    and second: "\<And>y ev. f y \<noteq> FirstRedemptionConfirmed ev"
  shows "wp (sbind (if b
       then apply_evidence (wallet_journal_save C JW JA (shakescape_execution_workflow_id C sid) now) x e now
       else sreturn x) (\<lambda>y.
      if c y then apply_evidence (wallet_journal_save C JW JA (shakescape_execution_workflow_id C sid) now) y (f y) now
      else sreturn y)) (holds_session C JW JA sid s0) (steps_to C JW JA sid s0) s"
proof -
  have then_step: "wp (if c y
      then apply_evidence (wallet_journal_save C JW JA (shakescape_execution_workflow_id C sid) now) y (f y) now
      else sreturn y) (holds_session C JW JA sid s0) (steps_to C JW JA sid s0) t"
    if "holds_session C JW JA sid s0 y t" for y t
    using that second by (auto simp: wp_simps intro!: wp_apply_evidence [OF laws])
  show ?thesis
  proof (cases b)
    case True
    then show ?thesis unfolding wp_sbind
      using kept by (auto intro!: wp_mono [OF wp_apply_evidence [OF laws at]] then_step)
  qed (use then_step [OF at] in \<open>simp add: wp_sbind wp_basic(2)\<close>)
qed

lemma first_redemption_sound:
  assumes laws: "execution_laws C JW JA key s"
  shows "wp (apply_locally_verified_shakescape_first_redemption C P JW JA policy sid spend now)
    (holds_session C JW JA sid s) (steps_to C JW JA sid s) s"
proof (cases "load_shakescape_execution_for_local_evidence C P JW s policy sid (shakescape_execution_workflow_id C sid)")
  case (Inr w)
  let ?x = "sw_state w"
  have at: "holds_session C JW JA sid s ?x s" by (rule holds_here [OF load_for_local_evidence_Ok(2) [OF Inr]])
  have found: "secret_kept C sid ?x s" if "sha256 C p = ss_hashlock ?x"
    "get_secret C s (shakescape_observed_preimage_id sid) HtlcPreimage = Inr (Some p)" for p
    using that by (auto simp: secret_kept_def)
  have stored: "holds_session C JW JA sid s ?x t" "secret_kept C sid ?x t" if "sha256 C p = ss_hashlock ?x"
    "put_secret C s (shakescape_observed_preimage_id sid) HtlcPreimage p now = Inr t" for p t
  proof -
    have "execution_step C JW JA sid s t"
      using at that by (intro execution_step.secret [of _ _ _ _ ?x]) (auto simp: holds_session_def)
    then show "holds_session C JW JA sid s ?x t" "secret_kept C sid ?x t"
      using at get_put_secret [OF _ that(2)] laws that(1)
      by (auto simp: holds_session_def secret_kept_def execution_laws_def put_secret_lookup [OF that(2)])
  qed
  define rest where "rest ev = sbind (if ss_first_redemption ?x = None
      then apply_evidence (wallet_journal_save C JW JA (shakescape_execution_workflow_id C sid) now) ?x
        (FirstRedemptionConfirmed ev) now else sreturn ?x) (\<lambda>y.
      if ss_state y = FirstRedeemed
      then apply_evidence (wallet_journal_save C JW JA (shakescape_execution_workflow_id C sid) now) y
        (SecretExtracted (ss_hashlock y)) now
      else sreturn y)" for ev
  have rest: "wp (rest ev) (holds_session C JW JA sid s) (steps_to C JW JA sid s) t"
    if "holds_session C JW JA sid s ?x t" "secret_kept C sid ?x t" for ev t
    unfolding rest_def by (rule wp_recorded_then [OF laws that(1)]) (use that(2) in simp_all)
  show ?thesis
    unfolding apply_locally_verified_shakescape_first_redemption_def Let_def wp_sbind [of "sread _"] wp_sread Inr sum.case
      rest_def [symmetric]
    using at found stored rest
    by (auto simp: wp_simps map_err_def split: sum.splits option.splits)
qed (simp add: apply_locally_verified_shakescape_first_redemption_def wp_simps)

lemma second_redemption_sound:
  assumes laws: "execution_laws C JW JA key s"
  shows "wp (apply_locally_verified_shakescape_second_redemption C P JW JA policy sid spend now)
    (holds_session C JW JA sid s) (steps_to C JW JA sid s) s"
proof (cases "load_shakescape_execution_for_local_evidence C P JW s policy sid (shakescape_execution_workflow_id C sid)")
  case (Inr w)
  let ?x = "sw_state w"
  have at: "holds_session C JW JA sid s ?x s" by (rule holds_here [OF load_for_local_evidence_Ok(2) [OF Inr]])
  define rest where "rest ev = sbind (if ss_second_redemption ?x = None
      then apply_evidence (wallet_journal_save C JW JA (shakescape_execution_workflow_id C sid) now) ?x
        (SecondRedemptionConfirmed ev) now else sreturn ?x) (\<lambda>y.
      if ss_state y = SecondRedeemed
      then apply_evidence (wallet_journal_save C JW JA (shakescape_execution_workflow_id C sid) now) y
        CompletionValidated now
      else sreturn y)" for ev
  have rest: "wp (rest ev) (holds_session C JW JA sid s) (steps_to C JW JA sid s) s" for ev
    unfolding rest_def by (rule wp_recorded_then [OF laws at]) simp_all
  show ?thesis
    unfolding apply_locally_verified_shakescape_second_redemption_def Let_def wp_sbind [of "sread _"] wp_sread Inr
      sum.case rest_def [symmetric]
    using at rest by (auto simp: wp_simps map_err_def split: sum.splits option.splits)
qed (simp add: apply_locally_verified_shakescape_second_redemption_def wp_simps)

lemma refund_sound:
  assumes laws: "execution_laws C JW JA key s"
  shows "wp (apply_locally_verified_shakescape_refund C P JW JA policy sid spend now)
    (holds_session C JW JA sid s) (steps_to C JW JA sid s) s"
proof (cases "load_shakescape_execution_for_local_evidence C P JW s policy sid (shakescape_execution_workflow_id C sid)")
  case (Inr w)
  have at: "holds_session C JW JA sid s (sw_state w) s"
    by (rule holds_here [OF load_for_local_evidence_Ok(2) [OF Inr]])
  then show ?thesis
    unfolding apply_locally_verified_shakescape_refund_def Let_def wp_sbind [of "sread _"] wp_sread Inr sum.case
    by (auto simp: wp_simps split: option.splits intro!: wp_apply_evidence [OF laws])
qed (simp add: apply_locally_verified_shakescape_refund_def wp_simps)

section \<open>Sequences of operations\<close>

datatype execution_call =
    BeginObservation module_id u64
  | ApplyFunding locally_verified_swap_funding "u64 option" u64
  | InvalidateFunding "u64 option" u64
  | IssueAuthorization module_id object_hash u64 u64
  | FirstRedemption locally_verified_swap_spend u64
  | SecondRedemption locally_verified_swap_spend u64
  | RecordRefund locally_verified_swap_spend u64

fun run_execution_call ::
  "crypto \<Rightarrow> protocol \<Rightarrow> swap_session codec \<Rightarrow> persisted_authorization codec \<Rightarrow> swap_policy \<Rightarrow> session_id \<Rightarrow>
   execution_call \<Rightarrow> (wallet_store, market_error, swap_session option) step" where
  "run_execution_call C P JW JA policy sid (BeginObservation m now) =
     sbind (begin_shakescape_first_funding_observation C P JW JA policy sid m now) (\<lambda>_. sreturn None)"
| "run_execution_call C P JW JA policy sid (ApplyFunding funding generation now) =
     sbind (apply_locally_verified_shakescape_funding_inner C P JW JA policy sid funding generation now) (\<lambda>x. sreturn (Some x))"
| "run_execution_call C P JW JA policy sid (InvalidateFunding generation now) =
     sbind (invalidate_locally_verified_shakescape_first_funding_inner C P JW JA policy sid generation now)
       (\<lambda>x. sreturn (Some x))"
| "run_execution_call C P JW JA policy sid (IssueAuthorization m authorization_id expires_at now) =
     sbind (issue_shakescape_second_funding_authorization C P JW JA policy sid m authorization_id expires_at now)
       (\<lambda>x. sreturn (Some x))"
| "run_execution_call C P JW JA policy sid (FirstRedemption spend now) =
     sbind (apply_locally_verified_shakescape_first_redemption C P JW JA policy sid spend now) (\<lambda>x. sreturn (Some x))"
| "run_execution_call C P JW JA policy sid (SecondRedemption spend now) =
     sbind (apply_locally_verified_shakescape_second_redemption C P JW JA policy sid spend now) (\<lambda>x. sreturn (Some x))"
| "run_execution_call C P JW JA policy sid (RecordRefund spend now) =
     sbind (apply_locally_verified_shakescape_refund C P JW JA policy sid spend now) (\<lambda>x. sreturn (Some x))"

definition run_executions ::
  "crypto \<Rightarrow> protocol \<Rightarrow> swap_session codec \<Rightarrow> persisted_authorization codec \<Rightarrow> swap_policy \<Rightarrow> session_id \<Rightarrow>
   execution_call list \<Rightarrow> wallet_store \<Rightarrow> wallet_store" where
  "run_executions C P JW JA policy sid = fold (\<lambda>call s. snd (run_execution_call C P JW JA policy sid call s))"

lemma run_execution_call_sound:
  assumes "execution_laws C JW JA key s"
  shows "wp (run_execution_call C P JW JA policy sid call)
    (\<lambda>r t. steps_to C JW JA sid s r t \<and> (\<forall>x. r = Some x \<longrightarrow> holds_session C JW JA sid s x t))
    (steps_to C JW JA sid s) s"
  using assms
  by (cases call)
    (auto simp: wp_sbind wp_basic intro!: wp_mono [OF begin_sound] wp_mono [OF funding_sound] wp_mono [OF invalidate_sound]
      wp_mono [OF issue_sound] wp_mono [OF first_redemption_sound] wp_mono [OF second_redemption_sound]
      wp_mono [OF refund_sound] holds_steps)

lemma run_execution_call_steps:
  assumes "execution_laws C JW JA key s"
  shows "(execution_step C JW JA sid)\<^sup>*\<^sup>* s (snd (run_execution_call C P JW JA policy sid call s))"
proof -
  have "wp (run_execution_call C P JW JA policy sid call) (steps_to C JW JA sid s) (steps_to C JW JA sid s) s"
    by (rule wp_mono [OF run_execution_call_sound [OF assms]]) simp_all
  then show ?thesis by (simp only: wp_snd)
qed

lemma run_executions_steps:
  assumes "execution_laws C JW JA key s"
  shows "(execution_step C JW JA sid)\<^sup>*\<^sup>* s (run_executions C P JW JA policy sid calls s)"
  using assms
proof (induction calls arbitrary: s)
  case (Cons call calls)
  note st = run_execution_call_steps [OF Cons.prems, of sid P policy call]
  from Cons.IH [OF execution_steps_laws [OF st Cons.prems]] st show ?case
    by (simp add: run_executions_def)
qed (simp add: run_executions_def)

end
