(* ===== verification/Execution_Invariants.thy ===== *)
theory Execution_Invariants
  imports Execution_Laws
begin

text \<open>
  Invariants of executions over sequences of operations: a recorded first redemption has its preimage in
  the wallet, and a consumed second-funding authorization stays consumed until the second leg is funded.
\<close>

section \<open>The revealed secret\<close>

lemma next_state_first_redemption:
  "next_state x e now = Inr (y, n) \<Longrightarrow> ss_first_redemption x = None \<Longrightarrow> ss_first_redemption y \<noteq> None \<Longrightarrow>
    \<exists>ev. e = FirstRedemptionConfirmed ev"
  by (cases e) (auto simp: move_from_Ok if_Ok_eq on_observation_started_def on_first_funding_def
      on_first_funding_at_generation_def on_first_funding_invalidated_def on_authorization_issued_def
      on_chain_refund_def on_terminal_failure_def record_first_funding_def Let_def
      split: if_splits)

lemma transition_first_redemption:
  assumes "transition x e now = Inr y" "ss_first_redemption x = None" "ss_first_redemption y \<noteq> None"
  shows "\<exists>ev. e = FirstRedemptionConfirmed ev"
  using assms(1)
proof (rule transition_Ok)
  fix v n
  assume v: "next_state x e now = Inr (v, n)" "y = finish_transition v n now"
  show ?thesis using next_state_first_redemption [OF v(1) assms(2)] assms(3) v(2) by simp
qed

lemma apply_evidence_frame:
  assumes "crypto_law C" "codec_law JW" "apply_evidence (wallet_journal_save C JW JA wid u) x e now s = (Inr y, t)"
  shows "ws_secrets t = ws_secrets s" "ws_key t = ws_key s" "ws_database_id t = ws_database_id s"
  using assms(3) wallet_journal_saved [OF assms(1,2)] by (auto simp: apply_evidence_Ok)

lemma get_secret_frame:
  assumes "ws_secrets t = ws_secrets s" "ws_key t = ws_key s" "ws_database_id t = ws_database_id s"
  shows "get_secret C t i k = get_secret C s i k"
  using assms by (simp add: get_secret_def cong: option.case_cong if_cong)

definition secret_recoverable :: "crypto \<Rightarrow> swap_session codec \<Rightarrow> session_id \<Rightarrow> wallet_store \<Rightarrow> bool" where
  "secret_recoverable C JW sid s \<longleftrightarrow> (\<forall>x. lookup_workflow C JW s (shakescape_execution_workflow_id C sid) = Some x \<longrightarrow>
     ss_first_redemption x \<noteq> None \<longrightarrow> secret_kept C sid x s)"

lemma execution_step_secret:
  assumes "execution_step C JW JA sid s t" "execution_laws C JW JA key s" "secret_recoverable C JW sid s"
  shows "secret_recoverable C JW sid t"
  using assms(1)
proof (cases rule: execution_step.cases)
  case (journal x now e y)
  have law: "crypto_law C" "codec_law JW" using assms(2) by (auto simp: execution_laws_def)
  have at: "lookup_workflow C JW t (shakescape_execution_workflow_id C sid) = Some y"
    using wallet_journal.apply_current [OF assms(2) journal(2)] by blast
  have h: "ss_hashlock y = ss_hashlock x"
    using swap_step_frame(1) [OF apply_evidence_step [OF journal(2)]] by (simp add: frozen_terms_def)
  have "secret_kept C sid x s" if "ss_first_redemption y \<noteq> None"
  proof (cases "ss_first_redemption x = None")
    case True
    with journal(2) that transition_first_redemption [of x e now] have "\<exists>ev. e = FirstRedemptionConfirmed ev"
      by (auto simp: apply_evidence_Ok)
    then show ?thesis using journal(3) by blast
  qed (use assms(3) journal(1) in \<open>auto simp: secret_recoverable_def\<close>)
  then show ?thesis
    using at h get_secret_frame [OF apply_evidence_frame [OF law journal(2)]]
    by (auto simp: secret_recoverable_def secret_kept_def)
next
  case (secret x p now)
  have "get_secret C t (shakescape_observed_preimage_id sid) HtlcPreimage = Inr (Some p)"
    using get_put_secret [OF _ secret(2)] assms(2) by (simp add: execution_laws_def)
  then show ?thesis
    using secret(1,3) by (auto simp: secret_recoverable_def secret_kept_def put_secret_lookup [OF secret(2)])
qed

lemma execution_steps_secret:
  "(execution_step C JW JA sid)\<^sup>*\<^sup>* s t \<Longrightarrow> execution_laws C JW JA key s \<Longrightarrow> secret_recoverable C JW sid s \<Longrightarrow>
    secret_recoverable C JW sid t"
  by (induction rule: rtranclp_induct) (blast intro: execution_step_secret execution_steps_laws)+

section \<open>The second-funding authorization\<close>

abbreviation authorization_row :: "session_id \<Rightarrow> bytes" where
  "authorization_row sid \<equiv> second_funding_authorization_entity_id sid"

lemma load_entity_rev:
  assumes "load_entity C J s k i = Inr r"
  shows "entity_rev s k i = (case r of None \<Rightarrow> 0 | Some e \<Rightarrow> se_revision e)"
    "r = Some e \<Longrightarrow> se_id e = i"
  using assms by (auto simp: load_entity_def open_entity_def entity_rev_def split: option.splits)

lemma batch_deleted:
  assumes "save_workflow_with_entity_batch C JW JE s i kind r v b u ek [] [d] = Inr (n, t)"
  shows "entity_rev t ek (bd_id d) = 0"
proof -
  from assms obtain key m s1 where eff: "batch_effect C JE key ek [] [d] s s1"
    and adv: "advance_workflow C key s1 i kind r m b u = Inr (n, t)" by (rule save_workflow_with_entity_batch_Ok)
  have "tbl_get (ws_entities s1) (ek, bd_id d) = None" using eff by (simp add: batch_effect_def)
  then show ?thesis by (simp add: entity_rev_def advance_workflow_frame(1) [OF adv])
qed

definition spent ::
  "crypto \<Rightarrow> swap_session codec \<Rightarrow> persisted_authorization codec \<Rightarrow> session_id \<Rightarrow> u64 \<Rightarrow> wallet_store \<Rightarrow> bool" where
  "spent C JW JA sid n s \<longleftrightarrow>
     (\<exists>x. lookup_workflow C JW s (shakescape_execution_workflow_id C sid) = Some x \<and> swap_inv x \<and> ss_id x = sid \<and>
        ss_accepted_shakescape_terms x \<noteq> None \<and>
        ((\<exists>row. load_entity C JA s EK_SwapFundingAuthorization (authorization_row sid) = Inr (Some row) \<and>
            se_revision row = n + 1 \<and> pa_issued_entity_revision (se_value row) = n) \<or>
         ss_second_funding x \<noteq> None \<and>
           entity_rev s EK_SwapFundingAuthorization (authorization_row sid) \<in> {0, n + 1}))"

lemma spent_batch:
  assumes inv: "swap_inv y" "ss_id y = sid" and row: "load_entity C JA s EK_SwapFundingAuthorization (authorization_row sid) = Inr row"
    and old: "(\<exists>r. row = Some r \<and> se_revision r = n + 1 \<and> pa_issued_entity_revision (se_value r) = n) \<or> ss_second_funding y \<noteq> None"
    and b: "authorization_batch C y row u = Inr (saves, deletes)"
  shows "saves = [] \<and> (deletes = [] \<or>
    (\<exists>e. deletes = [\<lparr>bd_id = authorization_row sid, bd_expected_revision = e\<rparr>]) \<and> ss_second_funding y \<noteq> None)"
proof -
  have "ss_second_funding_authorization y = None"
  proof (rule ccontr)
    assume "ss_second_funding_authorization y \<noteq> None"
    then obtain a where a: "ss_second_funding_authorization y = Some a" by blast
    with inv have "ss_second_funding y = None" by (simp add: swap_inv_def authorization_inv_def)
    with old a b show False by (auto simp: authorization_batch_def Let_def)
  qed
  with b old inv(2) show ?thesis by (auto simp: authorization_batch_def Let_def split: option.splits if_splits)
qed

lemma spent_journal:
  assumes laws: "execution_laws C JW JA key s" and sp: "spent C JW JA sid n s"
    and x: "lookup_workflow C JW s (shakescape_execution_workflow_id C sid) = Some x"
    and ap: "apply_evidence (wallet_journal_save C JW JA (shakescape_execution_workflow_id C sid) now) x e now s = (Inr y, t)"
  shows "spent C JW JA sid n t"
proof -
  let ?row = "authorization_row sid" and ?k = EK_SwapFundingAuthorization
  have st: "swap_step x y" and at: "lookup_workflow C JW t (shakescape_execution_workflow_id C sid) = Some y"
    using apply_evidence_step [OF ap] wallet_journal.apply_current [OF laws ap] by blast+
  have y: "swap_inv y" "ss_id y = sid" "ss_accepted_shakescape_terms y \<noteq> None"
    using sp x swap_step_inv [OF st] swap_step_frame(1) [OF st] by (auto simp: spent_def frozen_terms_def)
  have kept: "ss_second_funding x \<noteq> None \<Longrightarrow> ss_second_funding y \<noteq> None"
    using swap_step_settlement [OF _ st] sp x by (auto simp: spent_def settlement_kept_def)
  from ap obtain r where "wallet_journal_save C JW JA (shakescape_execution_workflow_id C sid) now y r s = (Inr (), t)"
    by (auto simp: apply_evidence_Ok)
  then show ?thesis
  proof (cases rule: wallet_journal_save_Ok)
    case (batch row saves deletes)
    have old: "(\<exists>r. row = Some r \<and> se_revision r = n + 1 \<and> pa_issued_entity_revision (se_value r) = n) \<or>
        ss_second_funding y \<noteq> None \<and> entity_rev s ?k ?row \<in> {0, n + 1}"
      using sp x kept batch(3) load_entity_rev(1) [OF batch(3)] by (auto simp: spent_def y(2))
    have b: "saves = []" "deletes = [] \<or>
        (\<exists>e. deletes = [\<lparr>bd_id = ?row, bd_expected_revision = e\<rparr>]) \<and> ss_second_funding y \<noteq> None"
      using spent_batch [OF y(1,2) batch(3) [unfolded y(2)] _ batch(4)] old by auto
    from b(2) show ?thesis
    proof (elim disjE conjE exE)
      assume "deletes = []"
      with b(1) batch(5) have "save_workflow C JW s (shakescape_execution_workflow_id C sid) WK_AtomicSwap r y
          (irreversible (ss_state y)) now = Inr (ss_revision y, t)" by simp
      note f = save_workflow_frame [OF this]
      have "load_entity C JA t ?k ?row = Inr row" "entity_rev t ?k ?row = entity_rev s ?k ?row"
        using batch(3) load_entity_frame [of t ?k ?row s C JA] f by (simp_all add: y(2) entity_rev_def)
      with at y old show ?thesis by (auto simp: spent_def)
    next
      fix e assume d: "deletes = [\<lparr>bd_id = ?row, bd_expected_revision = e\<rparr>]" "ss_second_funding y \<noteq> None"
      with b(1) batch(5) have "entity_rev t ?k ?row = 0" using batch_deleted by fastforce
      with at y d(2) show ?thesis by (auto simp: spent_def)
    qed
  qed (use y(3) in simp)
qed

lemma execution_step_spent:
  assumes "execution_step C JW JA sid s t" "execution_laws C JW JA key s" "spent C JW JA sid n s"
  shows "spent C JW JA sid n t"
  using assms(1)
proof (cases rule: execution_step.cases)
  case (journal x now e y)
  then show ?thesis using spent_journal [OF assms(2,3)] by blast
next
  case (secret x p now)
  note f = put_secret_frame [OF secret(2)]
  have "load_entity C JA t EK_SwapFundingAuthorization (authorization_row sid) =
      load_entity C JA s EK_SwapFundingAuthorization (authorization_row sid)"
    by (rule load_entity_frame) (simp_all add: f)
  then show ?thesis
    using assms(3) by (simp add: spent_def put_secret_lookup [OF secret(2)] entity_rev_def f)
qed

lemma execution_steps_spent:
  "(execution_step C JW JA sid)\<^sup>*\<^sup>* s t \<Longrightarrow> execution_laws C JW JA key s \<Longrightarrow> spent C JW JA sid n s \<Longrightarrow>
    spent C JW JA sid n t"
  by (induction rule: rtranclp_induct) (blast intro: execution_step_spent execution_steps_laws)+

text \<open>Committing a broadcast under a guard consumes the authorization row.\<close>

lemma broadcast_guard_Ok:
  assumes "shakescape_second_funding_broadcast_guard C P JW JA s policy sid m a now = Inr g"
  obtains x row where "load_shakescape_execution C P JW s policy sid = Inr (Some x)"
    "lookup_workflow C JW s (shakescape_execution_workflow_id C sid) = Some x"
    "load_entity C JA s EK_SwapFundingAuthorization (authorization_row sid) = Inr (Some row)"
    "se_revision row = pa_issued_entity_revision (se_value row)" "ss_second_funding x = None" "ss_id x = sid"
    "ss_accepted_shakescape_terms x \<noteq> None" "bg_authorization_entity_id g = authorization_row sid"
    "bg_authorization_entity_revision g = se_revision row" "bg_execution_workflow_id g = shakescape_execution_workflow_id C sid"
    "bg_execution_revision g = ss_revision x"
proof -
  from assms obtain x row where l: "load_shakescape_execution C P JW s policy sid = Inr (Some x)"
    and r: "load_entity C JA s EK_SwapFundingAuthorization (authorization_row sid) = Inr (Some row)"
    and v: "validate_persisted_second_funding_authorization C (se_value row) x = Inr ()"
    and "se_revision row = pa_issued_entity_revision (se_value row)" "ss_second_funding x = None"
    and g: "bg_authorization_entity_id g = se_id row" "bg_authorization_entity_revision g = se_revision row"
      "bg_execution_workflow_id g = pa_execution_workflow_id (se_value row)"
      "bg_execution_revision g = pa_execution_revision (se_value row)"
    unfolding shakescape_second_funding_broadcast_guard_def
    by (auto simp: Let_def if_Inl_eq_Inr ok_or_def map_err_def split: sum.splits option.splits if_splits)
  moreover from l have "ss_id x = sid" "ss_accepted_shakescape_terms x \<noteq> None"
    by (auto simp: load_shakescape_execution_def validate_shakescape_execution_def validate_shakescape_execution_record_def
        Let_def if_Inl_eq_Inr ok_or_def map_err_def split: sum.splits option.splits if_splits)
  moreover have "pa_execution_workflow_id (se_value row) = shakescape_execution_workflow_id C (ss_id x)"
    "pa_execution_revision (se_value row) = ss_revision x"
    using v by (auto simp: validate_persisted_second_funding_authorization_def if_Inl_eq_Inr split: if_splits)
  ultimately show ?thesis using that load_shakescape_execution_Some [OF l] load_entity_rev(2) [OF r] by simp
qed

lemma load_consumed:
  assumes law: "crypto_law C" and k: "store_key s = Inr key"
    and c: "consume_authenticated_entity_revision C key s kind a u = Inr t"
    and l: "load_entity C J s kind (ea_id a) = Inr (Some e)"
  shows "load_entity C J t kind (ea_id a) =
    Inr (Some (e\<lparr>se_revision := ea_expected_revision a + 1, se_updated_at_unix := u\<rparr>))"
  using c
proof (rule consume_Ok)
  fix row m c
  assume row: "tbl_get (ws_entities s) (kind, ea_id a) = Some row"
    and m: "rbind (revisioned_aad_id (ea_id a) (er_revision row) (er_updated row) None)
       (\<lambda>x. decrypt_record C key (ws_database_id s) (entity_label kind) x (er_value row)) = Inr m"
    and sealed: "seal_entity C key s kind (ea_id a) (ea_expected_revision a + 1) m u = Inr c"
    and w: "write_entity s kind (ea_id a) (ea_expected_revision a + 1) c u = Inr t"
  from l m k row obtain v where v: "js_decode J m = Some v" and e: "e = \<lparr>se_kind = kind, se_id = ea_id a,
      se_revision = er_revision row, se_value = v, se_updated_at_unix = er_updated row\<rparr>"
    by (auto simp: load_entity_def open_entity_def ok_or_def split: option.splits)
  from w sealed k v e show ?thesis
    by (auto simp: write_entity_Ok load_entity_def open_entity_def seal_entity_def tbl_get_put
        dest!: decrypt_encrypt [OF law])
qed

lemma guarded_commit_frame:
  assumes "save_workflow_with_entity_batch_and_guards C JB JE s i kind r v b u ek saves deletes wg gk eg True = Inr (n, t)"
    "crypto_law C" "load_entity C J s gk (ea_id eg) = Inr (Some e)"
  shows "load_entity C J t gk (ea_id eg) =
      Inr (Some (e\<lparr>se_revision := ea_expected_revision eg + 1, se_updated_at_unix := u\<rparr>))"
    "lookup_workflow C JW t (wa_id wg) = lookup_workflow C JW s (wa_id wg)"
proof -
  from assms(1) obtain m ps key s1 s2 where p: "prepare_entity_batch JE saves deletes = Inr ps"
    and k: "store_key s = Inr key" and ne: "wa_id wg \<noteq> i"
    and a: "apply_entity_batch_in_transaction C key s ek ps deletes = Inr s1"
    and c: "(if True then consume_authenticated_entity_revision C key s1 gk eg u else Inr s1) = Inr s2"
    and adv: "advance_workflow C key s2 i kind r m b u = Inr (n, t)"
    and free: "\<not> (gk = ek \<and> batch_touches saves deletes (ea_id eg))"
    and w: "authenticated_workflow_revision C key s i kind = Inr r"
    by (rule save_workflow_with_entity_batch_and_guards_Ok)
  note eff = apply_batch_effect [OF p a]
  note f1 = batch_effect_frame [OF eff]
  have "tbl_get (ws_entities s1) (gk, ea_id eg) = tbl_get (ws_entities s) (gk, ea_id eg)"
    using eff free by (auto simp: batch_effect_def)
  then have l1: "load_entity C J s1 gk (ea_id eg) = Inr (Some e)"
    using load_entity_frame [of s1 gk "ea_id eg" s C J] f1 assms(3) by simp
  have k1: "store_key s1 = Inr key" using k f1(3) by simp
  have l2: "load_entity C J s2 gk (ea_id eg) =
      Inr (Some (e\<lparr>se_revision := ea_expected_revision eg + 1, se_updated_at_unix := u\<rparr>))"
    by (rule load_consumed [OF assms(2) k1 c [simplified] l1])
  show "load_entity C J t gk (ea_id eg) =
      Inr (Some (e\<lparr>se_revision := ea_expected_revision eg + 1, se_updated_at_unix := u\<rparr>))"
    using l2 load_entity_frame [of t gk "ea_id eg" s2 C J] advance_workflow_frame [OF adv] by simp
  have w2: "ws_workflows s2 = ws_workflows s" using consume_workflows [OF c] f1(1) by simp
  have "tbl_get (ws_workflows t) (wa_id wg) = tbl_get (ws_workflows s) (wa_id wg)"
    using advance_workflow_row [OF adv] authenticated_workflow_kind [OF w] w2 ne by (auto simp: tbl_get_put)
  moreover have "ws_key s2 = ws_key s1" "ws_database_id s2 = ws_database_id s1"
    using c by (auto elim!: consume_Ok simp: write_entity_Ok)
  ultimately show "lookup_workflow C JW t (wa_id wg) = lookup_workflow C JW s (wa_id wg)"
    using load_workflow_frame [of t "wa_id wg" s C JW] advance_workflow_frame [OF adv] f1
    by (simp add: lookup_workflow_def)
qed

lemma guarded_commit_spends:
  assumes g: "shakescape_second_funding_broadcast_guard C P JW JA s policy sid m a now = Inr g"
    and law: "crypto_law C" and inv: "\<And>x. lookup_workflow C JW s (shakescape_execution_workflow_id C sid) = Some x \<Longrightarrow> swap_inv x"
    and c: "save_workflow_with_entity_batch_and_guards C JB JE s i kind r v b u ek saves deletes
      (guard_workflow_assertion g) EK_SwapFundingAuthorization (guard_authorization_assertion g) True = Inr (n, t)"
  shows "spent C JW JA sid (bg_authorization_entity_revision g) t"
  using g
proof (rule broadcast_guard_Ok)
  fix x row
  assume x: "lookup_workflow C JW s (shakescape_execution_workflow_id C sid) = Some x" "ss_id x = sid"
      "ss_accepted_shakescape_terms x \<noteq> None"
    and row: "load_entity C JA s EK_SwapFundingAuthorization (authorization_row sid) = Inr (Some row)"
      "se_revision row = pa_issued_entity_revision (se_value row)"
    and b: "bg_authorization_entity_id g = authorization_row sid" "bg_authorization_entity_revision g = se_revision row"
      "bg_execution_workflow_id g = shakescape_execution_workflow_id C sid"
  have "load_entity C JA t EK_SwapFundingAuthorization (authorization_row sid) =
      Inr (Some (row\<lparr>se_revision := se_revision row + 1, se_updated_at_unix := u\<rparr>))"
    "lookup_workflow C JW t (shakescape_execution_workflow_id C sid) = Some x"
    using guarded_commit_frame(1) [OF c law, of JA row] guarded_commit_frame(2) [OF c law, of JA row JW] row b x
    by (simp_all add: guard_authorization_assertion_def guard_workflow_assertion_def)
  with x inv [OF x(1)] row(2) b(2) show ?thesis by (auto simp: spent_def)
qed

lemma spent_refuses_guard:
  assumes "spent C JW JA sid n s"
  shows "shakescape_second_funding_broadcast_guard C P JW JA s policy sid m a now \<noteq> Inr g"
proof
  assume "shakescape_second_funding_broadcast_guard C P JW JA s policy sid m a now = Inr g"
  then show False by (rule broadcast_guard_Ok) (use assms in \<open>auto simp: spent_def\<close>)
qed

lemma spent_refuses_commit:
  assumes "spent C JW JA sid (bg_authorization_entity_revision g) s" "bg_authorization_entity_id g = authorization_row sid"
  shows "save_workflow_with_entity_batch_and_guards C JB JE s i kind r v b u ek saves deletes
    wg EK_SwapFundingAuthorization (guard_authorization_assertion g) c \<noteq> Inr res"
proof
  obtain n t where "res = (n, t)" by fastforce
  moreover assume "save_workflow_with_entity_batch_and_guards C JB JE s i kind r v b u ek saves deletes
    wg EK_SwapFundingAuthorization (guard_authorization_assertion g) c = Inr res"
  ultimately have "entity_rev s EK_SwapFundingAuthorization (authorization_row sid) = bg_authorization_entity_revision g"
    "0 < bg_authorization_entity_revision g"
    using assms(2) by (auto elim!: save_workflow_with_entity_batch_and_guards_Ok simp: guard_authorization_assertion_def)
  with assms(1) show False by (auto simp: spent_def dest: load_entity_rev(1))
qed

end
