(* ===== verification/Market_Sample.thy ===== *)
theory Market_Sample
  imports Execution_Invariants Swap_Properties Sample_Data
begin

text \<open>
  Concrete values for the market theories: a codec given by a table, an instance of \<open>protocol\<close> that meets
  \<open>protocol_law\<close>, an agreement, and wallet stores that hold a session of it. They stand for no code of
  the repository.
\<close>

definition table_codec :: "(bytes \<times> 'a) list \<Rightarrow> 'a codec" where
  "table_codec ps = \<lparr>js_encode = (\<lambda>x. map_option fst (find (\<lambda>p. snd p = x) ps)), js_decode = map_of ps\<rparr>"

lemma table_codec_law:
  assumes "distinct (map fst ps)"
  shows "codec_law (table_codec ps)"
  using assms by (auto simp: codec_law_def table_codec_def find_Some_iff set_conv_nth intro!: map_of_is_SomeI)
    (metis snd_conv)

definition demo_header :: signed_object_header where
  "demo_header = \<lparr>hd_network = [1], hd_signer_public_key = [2], hd_sequence = 1, hd_created_at = 500000000, hd_expires_at = 500000060\<rparr>"

definition demo_hello :: swap_session_hello where
  "demo_hello = \<lparr>he_header = demo_header, he_swap_session_id = [1], he_direct_offer_id = [5],
     he_offered_asset = AssetBTC, he_offered_amount = 700, he_received_asset = AssetHNS, he_received_amount = 9,
     he_first_funding_chain = ChainBitcoin, he_offered_minimum_confirmations = 1,
     he_received_minimum_confirmations = 2,
     he_offered_refund_deadline = \<lparr>sd_kind = UnixTime, sd_value = 500007260\<rparr>,
     he_received_refund_deadline = \<lparr>sd_kind = UnixTime, sd_value = 500003660\<rparr>,
     he_hashlock = replicate 32 32, he_offered_lock_commitment = [], he_received_lock_commitment = [],
     he_maker_settlement_public_key = [3], he_taker_settlement_public_key = [4], he_taker_signature = [],
     he_rest = []\<rparr>"

definition demo_offer :: direct_offer where
  "demo_offer = \<lparr>of_header = demo_header, of_offer_id = [5], of_swap_session_id = [1],
     of_offer_setter_settlement_public_key = [4], of_offered_asset = AssetBTC, of_offered_amount = 700,
     of_received_asset = AssetHNS, of_received_amount = 9, of_rest = []\<rparr>"

definition demo_cancellation :: direct_offer_cancellation where
  "demo_cancellation = \<lparr>oc_header = demo_header, oc_offer_id = [5], oc_rest = []\<rparr>"

definition demo_acceptance :: direct_offer_acceptance where
  "demo_acceptance = \<lparr>oa_header = demo_header, oa_offer_id = [5], oa_swap_session_id = [1], oa_rest = []\<rparr>"

definition demo_proposal :: swap_session_proposal where
  "demo_proposal = \<lparr>sp_terms = maker_terms demo_hello, sp_rest = []\<rparr>"

definition demo_funding_status :: swap_funding_status where
  "demo_funding_status = \<lparr>fs_header = demo_header, fs_swap_session_id = [1], fs_chain = ChainBitcoin, fs_rest = []\<rparr>"

definition demo_watch_ready :: swap_watch_ready where
  "demo_watch_ready = \<lparr>wr_header = demo_header, wr_swap_session_id = [1], wr_chain = ChainBitcoin, wr_rest = []\<rparr>"

definition demo_messages :: "(bytes \<times> u64 \<times> cross_chain_message) list" where
  "demo_messages = [([1], 1, MsgDirectOffer demo_offer), ([2], 2, MsgCancelDirectOffer demo_cancellation),
     ([3], 3, MsgAcceptDirectOffer demo_acceptance), ([4], 4, MsgSwapSessionProposal demo_proposal),
     ([5], 4, MsgSwapSessionHello demo_hello), ([6], 6, MsgSwapWatchReady demo_watch_ready),
     ([7], 7, MsgSwapFundingStatus demo_funding_status)]"

definition demo_protocol :: protocol where
  "demo_protocol = \<lparr>
     mp_decode_envelope = map_of demo_messages,
     mp_encode_envelope = (\<lambda>i m. map_option fst (find (\<lambda>p. snd p = (i, m)) demo_messages)),
     mp_offer = one_codec demo_offer, mp_cancellation = one_codec demo_cancellation,
     mp_acceptance = one_codec demo_acceptance, mp_proposal = one_codec demo_proposal, mp_hello = one_codec demo_hello,
     mp_funding_status = one_codec demo_funding_status, mp_watch_ready = one_codec demo_watch_ready,
     mp_verify_offer_at = (\<lambda>x n t. t < hd_expires_at (of_header x)),
     mp_verify_cancellation = (\<lambda>c x n t. t < hd_expires_at (oc_header c)),
     mp_verify_acceptance = (\<lambda>a x n t. t < hd_expires_at (oa_header a)),
     mp_verify_proposal_at = (\<lambda>p n t. if t < hd_expires_at (he_header (sp_terms p)) then Inr () else Inl MarketplaceExpired),
     mp_verify_proposal = (\<lambda>p x a n t. if t < hd_expires_at (he_header (sp_terms p)) then Inr () else Inl MarketplaceExpired),
     mp_verify_hello = (\<lambda>h x a n t. if t < hd_expires_at (he_header h) then Inr () else Inl MarketplaceExpired),
     mp_verify_agreement = (\<lambda>h n. hd_network (he_header h) = n),
     mp_verify_new_funding_at = (\<lambda>h n t. t < hd_expires_at (he_header h)),
     mp_verify_funding_status = (\<lambda>x h n t. if t < hd_expires_at (fs_header x) then Inr () else Inl MarketplaceExpired),
     mp_verify_redeem_status = (\<lambda>x h n t. Inr ()), mp_verify_refund_status = (\<lambda>x h n t. Inr ()),
     mp_verify_watch_ready = (\<lambda>x h n t. if t < hd_expires_at (wr_header x) then Inr () else Inl MarketplaceExpired),
     mp_validate_for_hns_btc = (\<lambda>n. n \<noteq> []), mp_encode_network = Some,
     mp_asset_chain = (\<lambda>a. case a of AssetHNS \<Rightarrow> ChainHandshake | AssetBTC \<Rightarrow> ChainBitcoin | AssetOther n \<Rightarrow> ChainOther n),
     mp_chain_rank = (\<lambda>c. case c of ChainHandshake \<Rightarrow> 0 | ChainBitcoin \<Rightarrow> 1 | ChainOther n \<Rightarrow> n + 2),
     mp_hns_refund_time = (\<lambda>d. Some (sd_value d)),
     mp_build_hns_htlc = (\<lambda>h side a b. Some (\<lparr>hh_value = he_received_amount h, hh_hashlock = he_hashlock h,
        hh_refund_locktime = 40\<rparr>, [])),
     mp_max_inventory_entries = 8,
     mp_hex_encode = map (\<lambda>w. char_of (unat w)), mp_hex_decode = (\<lambda>t. Some (map (\<lambda>c. word_of_nat (of_char c)) t)),
     mp_public_key_from_slice = (\<lambda>b. if b = [] then None else Some b), mp_script_bytes = (\<lambda>xs. [99]),
     mp_p2wsh = (\<lambda>b. 0 # b), mp_deserialize_transaction = (\<lambda>b. None), mp_compute_txid = (\<lambda>t. [8]),
     mp_lock_time_from_consensus = (\<lambda>n. if n < 500000000 then Blocks n else Seconds n),
     mp_height_from_consensus = (\<lambda>n. if n < 500000000 then Some n else None)\<rparr>"

lemma word8_char: "word_of_nat (unat w mod 256) = (w :: 8 word)"
proof -
  have "unat w < 256" using unsigned_less [of w] by simp
  then show ?thesis by simp
qed

lemma demo_protocol_law: "protocol_law demo_protocol"
  by (simp add: protocol_law_def demo_protocol_def one_codec_law word8_char comp_def)

definition demo_policy :: swap_policy where
  "demo_policy = \<lparr>dp_board_policy = \<lparr>bp_network = [1], bp_fingerprint = replicate 32 11\<rparr>, dp_fingerprint = replicate 32 12\<rparr>"

section \<open>A stored session\<close>

abbreviation demo_time :: u64 where "demo_time \<equiv> 500000012"

definition demo_session :: swap_session where
  "demo_session = sample_swap\<lparr>ss_hashlock := replicate 32 32, ss_accepted_shakescape_terms := Some [1],
     ss_last_verified_at_unix := demo_time\<rparr>"

definition demo_both_funded :: swap_session where
  "demo_both_funded = demo_session\<lparr>ss_revision := 7, ss_state := BothFunded, ss_first_funding := Some [21],
     ss_first_funding_observation_generation := 1, ss_first_funding_confirmed_generation := Some 1,
     ss_second_funding := Some [22]\<rparr>"

definition demo_spend :: locally_verified_swap_spend where
  "demo_spend = SpendHns (NativeRedeem [31] 2 (replicate 32 9))"

definition demo_redeemed :: swap_session where
  "demo_redeemed = demo_both_funded\<lparr>ss_revision := 8, ss_state := FirstRedeemed,
     ss_first_redemption := Some (spend_evidence_id demo_crypto demo_spend)\<rparr>"

definition demo_observed :: swap_session where
  "demo_observed = demo_redeemed\<lparr>ss_revision := 9, ss_state := SecretObserved\<rparr>"

definition demo_authorization :: second_funding_authorization where
  "demo_authorization = \<lparr>sf_id = [7], sf_module = Handshake, sf_first_funding = [21],
     sf_first_funding_observation_generation = 1, sf_expires_at_unix = 500000040\<rparr>"

definition demo_authorized :: swap_session where
  "demo_authorized = demo_session\<lparr>ss_revision := 7, ss_state := SecondFundingPending, ss_first_funding := Some [21],
     ss_first_funding_observation_generation := 1, ss_first_funding_confirmed_generation := Some 1,
     ss_second_funding_authorization := Some demo_authorization\<rparr>"

definition demo_sessions :: "swap_session codec" where
  "demo_sessions = table_codec [([1], demo_both_funded), ([2], demo_redeemed), ([3], demo_observed),
     ([4], demo_authorized), ([5], demo_session)]"

abbreviation demo_workflow :: workflow_id where
  "demo_workflow \<equiv> shakescape_execution_workflow_id demo_crypto [1]"

definition demo_persisted :: persisted_authorization where
  "demo_persisted = persisted_second_funding_authorization demo_crypto demo_authorized demo_authorization 1"

definition demo_session_row :: "bytes \<Rightarrow> u64 \<Rightarrow> workflow_row" where
  "demo_session_row m n = \<lparr>wr_kind = workflow_kind_label WK_AtomicSwap, wr_revision = n,
     wr_state = replicate 24 7 @ m @ replicate 16 0, wr_broadcast = True, wr_updated = demo_time, wr_version = 1\<rparr>"

definition demo_funded_store :: wallet_store where
  "demo_funded_store = demo_store\<lparr>ws_workflows := [(demo_workflow, demo_session_row [1] 7)]\<rparr>"

definition demo_authorized_store :: wallet_store where
  "demo_authorized_store = demo_store\<lparr>ws_workflows := [(demo_workflow, demo_session_row [4] 7)],
     ws_entities := [((EK_SwapFundingAuthorization, second_funding_authorization_entity_id [1]),
       \<lparr>er_revision = 1, er_value = replicate 24 7 @ [1] @ replicate 16 0, er_updated = demo_time\<rparr>)]\<rparr>"

lemma demo_workflow_eq: "demo_workflow = replicate 16 47"
  by (simp add: shakescape_execution_workflow_id_def demo_crypto_def SHAKESCAPE_EXECUTION_WORKFLOW_DOMAIN_def byte_str_def)

lemma demo_sessions_law: "codec_law demo_sessions"
  unfolding demo_sessions_def by (rule table_codec_law) simp

lemma workflow_label_ok: "workflow_label WK_AtomicSwap \<noteq> []" "length (workflow_label WK_AtomicSwap) \<le> 64"
  by (simp_all add: workflow_label_def)

lemmas atomic_swap_kind = parse_workflow_kind_label [of WK_AtomicSwap, simplified]

lemmas demo_row_simps = demo_session_row_def atomic_swap_kind demo_workflow_eq validate_id_def store_limits
  demo_decrypt demo_encrypt workflow_label_ok revisioned_aad_id_def

lemma demo_row_opens:
  "m \<noteq> [] \<Longrightarrow> length m \<le> 9 \<Longrightarrow> 0 < n \<Longrightarrow> n < 100 \<Longrightarrow>
    workflow_opens demo_crypto key db demo_workflow (demo_session_row m n)"
  by (simp add: workflow_opens_def is_ok_def demo_row_simps)

lemma demo_load:
  assumes "tbl_get (ws_workflows s) demo_workflow = Some (demo_session_row m n)" "ws_key s = Some k"
    "m \<noteq> []" "length m \<le> 9" "js_decode J m = Some v"
  shows "load_workflow demo_crypto J s demo_workflow = Inr (Some \<lparr>sw_id = demo_workflow, sw_kind = WK_AtomicSwap,
    sw_revision = n, sw_state = v, sw_irreversible_broadcast_prepared = True, sw_updated_at_unix = demo_time\<rparr>)"
  using assms by (simp add: load_workflow_def demo_row_simps)

lemma demo_save:
  assumes "tbl_get (ws_workflows s) demo_workflow = Some (demo_session_row m' n)" "ws_key s = Some k"
    "m' \<noteq> []" "length m' \<le> 9" "js_encode J v = Some m" "m \<noteq> []" "length m \<le> 9" "0 < n" "n < 100"
  shows "save_workflow demo_crypto J s demo_workflow WK_AtomicSwap n v True demo_time =
    Inr (n + 1, s\<lparr>ws_workflows := tbl_put demo_workflow (demo_session_row m (n + 1)) (ws_workflows s)\<rparr>)"
  using assms
  by (simp add: save_workflow_def authenticated_workflow_revision_def advance_workflow_def write_workflow_def
      seal_workflow_def encode_state_def assert_revision_def checked_add_w_def demo_row_simps)

lemma demo_funded_inv: "store_inv demo_crypto (replicate 32 4) demo_funded_store"
  by (auto simp: store_inv_def demo_funded_store_def demo_store_def table_simps demo_row_opens tbl_wf_def split: if_splits)

lemma demo_funded_laws: "execution_laws demo_crypto demo_sessions (one_codec demo_persisted) (replicate 32 4) demo_funded_store"
  by (simp add: execution_laws_def demo_crypto_law demo_sessions_law one_codec_law demo_funded_inv)

lemma authorization_id_ok: "validate_id (second_funding_authorization_entity_id [1]) = Inr ()"
  "validate_id (shakescape_observed_preimage_id [1]) = Inr ()"
  by (simp_all add: second_funding_authorization_entity_id_def SHAKESCAPE_SECOND_FUNDING_AUTHORIZATION_DOMAIN_def
      shakescape_observed_preimage_id_def SHAKESCAPE_OBSERVED_PREIMAGE_DOMAIN_def byte_str_def store_limits)

lemma demo_journal:
  assumes "tbl_get (ws_workflows s) demo_workflow = Some (demo_session_row m' n)" "ws_key s = Some k"
    "m' \<noteq> []" "length m' \<le> 9" "js_encode JW v = Some m" "m \<noteq> []" "length m \<le> 9" "0 < n" "n < 100"
    "ss_accepted_shakescape_terms v = Some terms" "ss_id v = [1]" "ss_second_funding_authorization v = None"
    "irreversible (ss_state v)" "ss_revision v = n + 1"
    "tbl_get (ws_entities s) (EK_SwapFundingAuthorization, second_funding_authorization_entity_id [1]) = None"
  shows "wallet_journal_save demo_crypto JW JA demo_workflow demo_time v n s =
    (Inr (), s\<lparr>ws_workflows := tbl_put demo_workflow (demo_session_row m (n + 1)) (ws_workflows s)\<rparr>)"
  using demo_save [OF assms(1-9)] assms(2,10-)
  by (simp add: wallet_journal_save_def sbind_def sread_def load_entity_def authorization_id_ok map_err_def
      authorization_batch_def in_store_def check_saved_revision_def)

lemma demo_codec [simp]:
  "js_encode demo_sessions demo_redeemed = Some [2]" "js_encode demo_sessions demo_observed = Some [3]"
  "js_decode demo_sessions [1] = Some demo_both_funded" "js_decode demo_sessions [4] = Some demo_authorized"
  "js_decode demo_sessions [3] = Some demo_observed"
  by (simp_all add: demo_sessions_def table_codec_def demo_both_funded_def demo_redeemed_def demo_observed_def
      demo_authorized_def demo_session_def sample_swap_def)

lemmas demo_session_simps = demo_both_funded_def demo_session_def sample_swap_def

lemma demo_local_evidence:
  "load_shakescape_execution_for_local_evidence demo_crypto demo_protocol demo_sessions demo_funded_store demo_policy [1]
     demo_workflow = Inr \<lparr>sw_id = demo_workflow, sw_kind = WK_AtomicSwap, sw_revision = 7, sw_state = demo_both_funded,
       sw_irreversible_broadcast_prepared = True, sw_updated_at_unix = demo_time\<rparr>"
proof -
  have "load_workflow demo_crypto demo_sessions demo_funded_store demo_workflow = Inr (Some \<lparr>sw_id = demo_workflow,
      sw_kind = WK_AtomicSwap, sw_revision = 7, sw_state = demo_both_funded,
      sw_irreversible_broadcast_prepared = True, sw_updated_at_unix = demo_time\<rparr>)"
    by (rule demo_load [of _ "[1]"]) (simp_all add: demo_funded_store_def demo_store_def)
  then show ?thesis
    by (simp add: load_shakescape_execution_for_local_evidence_def map_err_def validate_shakescape_execution_record_def
        decode_accepted_terms_def demo_session_simps demo_protocol_def one_codec_def demo_hello_def demo_policy_def
        dp_network_def demo_header_def)
qed

definition demo_secret_store :: wallet_store where
  "demo_secret_store = demo_funded_store\<lparr>ws_secrets := [(shakescape_observed_preimage_id [1],
     \<lparr>sr_kind = secret_kind_label HtlcPreimage, sr_value = replicate 24 7 @ replicate 32 9 @ replicate 16 0,
      sr_updated = demo_time\<rparr>)]\<rparr>"

lemma demo_put_secret:
  "put_secret demo_crypto demo_funded_store (shakescape_observed_preimage_id [1]) HtlcPreimage (replicate 32 9) demo_time =
     Inr demo_secret_store"
  "get_secret demo_crypto demo_funded_store (shakescape_observed_preimage_id [1]) HtlcPreimage = Inr None"
proof -
  have i: "shakescape_observed_preimage_id [1] \<noteq> []" "length (shakescape_observed_preimage_id [1]) \<le> 192"
    by (simp_all add: shakescape_observed_preimage_id_def SHAKESCAPE_OBSERVED_PREIMAGE_DOMAIN_def byte_str_def)
  show "put_secret demo_crypto demo_funded_store (shakescape_observed_preimage_id [1]) HtlcPreimage (replicate 32 9) demo_time =
     Inr demo_secret_store"
    by (simp add: put_secret_def authorization_id_ok demo_funded_store_def demo_store_def demo_encrypt i Let_def store_limits
        sql_uint_def demo_secret_store_def)
  show "get_secret demo_crypto demo_funded_store (shakescape_observed_preimage_id [1]) HtlcPreimage = Inr None"
    by (simp add: get_secret_def authorization_id_ok demo_funded_store_def demo_store_def)
qed

definition demo_redeemed_store :: wallet_store where
  "demo_redeemed_store = demo_secret_store\<lparr>ws_workflows := [(demo_workflow, demo_session_row [2] 8)]\<rparr>"

definition demo_observed_store :: wallet_store where
  "demo_observed_store = demo_secret_store\<lparr>ws_workflows := [(demo_workflow, demo_session_row [3] 9)]\<rparr>"

lemma demo_fields:
  "ss_accepted_shakescape_terms demo_redeemed = Some [1]" "ss_id demo_redeemed = [1]" "ss_revision demo_redeemed = 8"
  "ss_second_funding_authorization demo_redeemed = None" "ss_state demo_redeemed = FirstRedeemed"
  "ss_accepted_shakescape_terms demo_observed = Some [1]" "ss_id demo_observed = [1]" "ss_revision demo_observed = 9"
  "ss_second_funding_authorization demo_observed = None" "ss_state demo_observed = SecretObserved"
  by (simp_all add: demo_observed_def demo_redeemed_def demo_session_simps)

lemma demo_applies:
  "apply_evidence (wallet_journal_save demo_crypto demo_sessions JA demo_workflow demo_time) demo_both_funded
     (FirstRedemptionConfirmed (spend_evidence_id demo_crypto demo_spend)) demo_time demo_secret_store =
     (Inr demo_redeemed, demo_redeemed_store)"
  "apply_evidence (wallet_journal_save demo_crypto demo_sessions JA demo_workflow demo_time) demo_redeemed
     (SecretExtracted (replicate 32 32)) demo_time demo_redeemed_store = (Inr demo_observed, demo_observed_store)"
proof -
  have "wallet_journal_save demo_crypto demo_sessions JA demo_workflow demo_time demo_redeemed 7 demo_secret_store =
    (Inr (), demo_redeemed_store)"
    by (subst demo_journal [where m' = "[1]" and m = "[2]" and terms = "[1]"])
      (simp_all add: demo_secret_store_def demo_funded_store_def demo_store_def demo_fields
        irreversible_def demo_redeemed_store_def)
  moreover have "transition demo_both_funded (FirstRedemptionConfirmed (spend_evidence_id demo_crypto demo_spend)) demo_time =
      Inr (demo_redeemed\<lparr>ss_revision := 7\<rparr>)"
    by (simp add: demo_session_simps run_simps demo_redeemed_def)
  ultimately show "apply_evidence (wallet_journal_save demo_crypto demo_sessions JA demo_workflow demo_time) demo_both_funded
     (FirstRedemptionConfirmed (spend_evidence_id demo_crypto demo_spend)) demo_time demo_secret_store =
     (Inr demo_redeemed, demo_redeemed_store)"
    by (simp add: apply_evidence_Ok demo_redeemed_def demo_session_simps)
  have "wallet_journal_save demo_crypto demo_sessions JA demo_workflow demo_time demo_observed 8 demo_redeemed_store =
    (Inr (), demo_observed_store)"
    by (subst demo_journal [where m' = "[2]" and m = "[3]" and terms = "[1]"])
      (simp_all add: demo_redeemed_store_def demo_secret_store_def demo_funded_store_def demo_store_def demo_fields
        irreversible_def demo_observed_store_def)
  moreover have "transition demo_redeemed (SecretExtracted (replicate 32 32)) demo_time = Inr (demo_observed\<lparr>ss_revision := 8\<rparr>)"
    by (simp add: demo_session_simps run_simps demo_redeemed_def demo_observed_def)
  ultimately show "apply_evidence (wallet_journal_save demo_crypto demo_sessions JA demo_workflow demo_time) demo_redeemed
     (SecretExtracted (replicate 32 32)) demo_time demo_redeemed_store = (Inr demo_observed, demo_observed_store)"
    by (simp add: apply_evidence_Ok demo_observed_def demo_redeemed_def demo_session_simps)
qed

lemma demo_first_redemption:
  "run_execution_call demo_crypto demo_protocol demo_sessions JA demo_policy [1] (FirstRedemption demo_spend demo_time)
     demo_funded_store = (Inr (Some demo_observed), demo_observed_store)"
proof -
  have b: "ss_second_module demo_both_funded = Handshake" "ss_second_refund demo_both_funded = None"
    "ss_hashlock demo_both_funded = replicate 32 32" "ss_first_redemption demo_both_funded = None"
    "ss_state demo_both_funded = BothFunded" "ss_state demo_redeemed = FirstRedeemed" "ss_hashlock demo_redeemed = replicate 32 32"
    by (simp_all add: demo_session_simps demo_redeemed_def)
  have s: "spend_module demo_spend = Handshake" "confirmation_count demo_spend = 2"
    "redeem_preimage demo_spend = Inr (replicate 32 9)" "sha256 demo_crypto (replicate 32 9) = replicate 32 32"
    by (simp_all add: demo_spend_def demo_crypto_def)
  show ?thesis
    by (simp add: apply_locally_verified_shakescape_first_redemption_def sbind_def sread_def Let_def demo_local_evidence b s
        demo_put_secret map_err_def in_store_def demo_applies)
qed

lemma demo_observed_lookup: "lookup_workflow demo_crypto demo_sessions demo_observed_store demo_workflow = Some demo_observed"
proof -
  have "load_workflow demo_crypto demo_sessions demo_observed_store demo_workflow = Inr (Some \<lparr>sw_id = demo_workflow,
      sw_kind = WK_AtomicSwap, sw_revision = 9, sw_state = demo_observed,
      sw_irreversible_broadcast_prepared = True, sw_updated_at_unix = demo_time\<rparr>)"
    by (rule demo_load [of _ "[3]"])
      (simp_all add: demo_observed_store_def demo_secret_store_def demo_funded_store_def demo_store_def)
  then show ?thesis by (simp add: lookup_workflow_def)
qed

abbreviation demo_authorizations :: "persisted_authorization codec" where
  "demo_authorizations \<equiv> one_codec demo_persisted"

lemma demo_authorization_id: "second_funding_authorization_entity_id [1] \<noteq> []"
  "length (second_funding_authorization_entity_id [1]) \<le> 100"
  by (simp_all add: second_funding_authorization_entity_id_def SHAKESCAPE_SECOND_FUNDING_AUTHORIZATION_DOMAIN_def byte_str_def)

lemma demo_authorization_decrypt:
  "decrypt_record demo_crypto key db (entity_label EK_SwapFundingAuthorization)
     (second_funding_authorization_entity_id [1] @ be_bytes 8 n @ be_bytes 8 u) (replicate 24 7 @ [1] @ replicate 16 0) = Inr [1]"
  "encrypt_record demo_crypto key db (entity_label EK_SwapFundingAuthorization)
     (second_funding_authorization_entity_id [1] @ be_bytes 8 n @ be_bytes 8 u) [1] =
   Inr (replicate 24 7 @ [1] @ replicate 16 0)"
  using demo_authorization_id by (intro demo_decrypt demo_encrypt; simp add: entity_label_def)+

lemma demo_authorization_load:
  "load_entity demo_crypto demo_authorizations demo_authorized_store EK_SwapFundingAuthorization
     (second_funding_authorization_entity_id [1]) = Inr (Some \<lparr>se_kind = EK_SwapFundingAuthorization,
       se_id = second_funding_authorization_entity_id [1], se_revision = 1, se_value = demo_persisted,
       se_updated_at_unix = demo_time\<rparr>)"
  using demo_authorization_decrypt(1) [of _ _ 1 demo_time]
  by (simp add: load_entity_def demo_authorized_store_def demo_store_def open_entity_def authorization_id_ok
      revisioned_aad_id_def one_codec_def)

lemma demo_authorized_load:
  "load_workflow demo_crypto demo_sessions demo_authorized_store demo_workflow = Inr (Some \<lparr>sw_id = demo_workflow,
      sw_kind = WK_AtomicSwap, sw_revision = 7, sw_state = demo_authorized,
      sw_irreversible_broadcast_prepared = True, sw_updated_at_unix = demo_time\<rparr>)"
  by (rule demo_load [of _ "[4]"]) (simp_all add: demo_authorized_store_def demo_store_def)

definition demo_guard :: broadcast_guard where
  "demo_guard = \<lparr>bg_session_id = [1], bg_execution_workflow_id = demo_workflow, bg_execution_revision = 7,
     bg_authorization_entity_id = second_funding_authorization_entity_id [1], bg_authorization_entity_revision = 1,
     bg_authorization = demo_authorization\<rparr>"

lemma demo_guard_issued:
  "shakescape_second_funding_broadcast_guard demo_crypto demo_protocol demo_sessions demo_authorizations
     demo_authorized_store demo_policy [1] Handshake [7] demo_time = Inr demo_guard"
proof -
  have "load_shakescape_execution demo_crypto demo_protocol demo_sessions demo_authorized_store demo_policy [1] =
      Inr (Some demo_authorized)"
    by (simp add: load_shakescape_execution_def demo_authorized_load map_err_def validate_shakescape_execution_def
        validate_shakescape_execution_record_def decode_accepted_terms_def demo_authorized_def demo_session_simps
        demo_protocol_def one_codec_def demo_hello_def demo_policy_def dp_network_def demo_header_def Let_def
        demo_authorization_def all_zero_def)
  moreover have "pa_schema_version demo_persisted = SHAKESCAPE_SECOND_FUNDING_AUTHORIZATION_SCHEMA_VERSION"
    "pa_session_id demo_persisted = [1]" "pa_execution_workflow_id demo_persisted = demo_workflow"
    "pa_execution_revision demo_persisted = 7" "pa_issued_entity_revision demo_persisted = 1"
    "pa_authorization demo_persisted = demo_authorization"
    by (simp_all add: demo_persisted_def persisted_second_funding_authorization_def demo_authorized_def demo_session_simps)
  ultimately show ?thesis
    by (simp add: shakescape_second_funding_broadcast_guard_def demo_authorization_load [simplified] map_err_def
        validate_persisted_second_funding_authorization_def
        demo_authorized_def demo_session_simps demo_authorization_def Let_def first_funding_is_current_def demo_guard_def)
qed

definition demo_broadcast :: "wallet_store \<Rightarrow> workflow_id \<Rightarrow> (store_error, u64 \<times> wallet_store) result" where
  "demo_broadcast s i = save_workflow_with_entity_batch_and_guards demo_crypto (one_codec ()) (one_codec ()) s i
     WK_HnsSend 0 () True demo_time EK_InputReservation [] [] (guard_workflow_assertion demo_guard)
     EK_SwapFundingAuthorization (guard_authorization_assertion demo_guard) True"

lemma demo_broadcast_Ok: "\<exists>t. demo_broadcast demo_authorized_store [8] = Inr (1, t)"
proof -
  have ne: "([8] :: bytes) \<noteq> replicate 16 47"
  proof
    assume "([8] :: bytes) = replicate 16 47"
    then have "length ([8] :: bytes) = length (replicate 16 47 :: bytes)" by metis
    then show False by simp
  qed
  have "decrypt_record demo_crypto (replicate 32 4) (replicate 16 3) (workflow_label WK_AtomicSwap)
      (replicate 16 47 @ be_bytes 8 7 @ be_bytes 8 demo_time @ [1]) (replicate 24 7 @ [4] @ replicate 16 0) = Inr [4]"
    by (rule demo_decrypt) (simp_all add: workflow_label_def)
  moreover have "encrypt_record demo_crypto (replicate 32 4) (replicate 16 3) (workflow_label WK_HnsSend)
      (8 # be_bytes 8 1 @ be_bytes 8 demo_time @ [1]) [1] = Inr (replicate 24 7 @ [1] @ replicate 16 0)"
    by (rule demo_encrypt) (simp_all add: workflow_label_def)
  ultimately show ?thesis
    using demo_authorization_decrypt [simplified] demo_authorization_id ne
    by (simp add: demo_broadcast_def save_workflow_with_entity_batch_and_guards_def demo_guard_def guard_workflow_assertion_def
      guard_authorization_assertion_def demo_authorized_store_def demo_store_def authorization_id_ok deletion_protected_def
      encode_state_def one_codec_def prepare_entity_batch_def apply_entity_batch_in_transaction_def
      authenticate_entity_batch_def write_entity_batch_def authenticated_workflow_revision_def assert_revision_def
      entity_revision_or_zero_def authenticated_entity_revision_def consume_authenticated_entity_revision_def
      advance_workflow_def write_workflow_def seal_workflow_def write_entity_def seal_entity_def checked_add_w_def
      demo_row_simps)
qed

lemma demo_session_start: "session_start demo_session"
proof -
  let ?t = "\<lparr>tp_first_chain_refund_at = 100, tp_second_chain_refund_at = 50, tp_minimum_safety_margin = 50\<rparr>"
  obtain s where s: "swap_session_new [1] Bitcoin Handshake sample_quote (replicate 32 32) ?t 10 = Inr s"
    by (simp add: swap_session_new_def quote_validate_def timeouts_validate_def sample_quote_def checked_add_w_def)
  then have e: "demo_session = s\<lparr>ss_state := TermsFrozen, ss_revision := 1, ss_accepted_shakescape_terms := Some [1],
       ss_last_verified_at_unix := demo_time\<rparr>"
    by (auto simp: swap_session_new_def quote_validate_def timeouts_validate_def sample_quote_def
        checked_add_w_def sample_swap_def demo_session_def)
  show ?thesis unfolding e by (rule session_start.accepted [OF s])
qed

lemma demo_authorized_steps: "swap_step\<^sup>*\<^sup>* demo_session demo_authorized"
proof -
  have "\<exists>j. apply_all memory_journal_save demo_session (take 5 (settle_path demo_session [21] [22] [23] [24]) @
      [SecondFundingAuthorizationIssued demo_authorization]) demo_time [] = (Inr demo_authorized, j)"
    by (simp add: settle_path_def sample_swap_def demo_session_def demo_authorized_def demo_authorization_def run_simps
        all_zero_def)
  then show ?thesis by (auto dest: apply_all_steps)
qed

lemma demo_funded_lookup: "lookup_workflow demo_crypto demo_sessions demo_funded_store demo_workflow = Some demo_both_funded"
  by (rule load_for_local_evidence_Ok(2) [OF demo_local_evidence, simplified])

lemma demo_authorized_lookup: "lookup_workflow demo_crypto demo_sessions demo_authorized_store demo_workflow = Some demo_authorized"
  by (simp add: lookup_workflow_def demo_authorized_load)

lemma demo_authorized_laws:
  "execution_laws demo_crypto demo_sessions demo_authorizations (replicate 32 4) demo_authorized_store"
proof -
  have "entity_opens demo_crypto (replicate 32 4) (replicate 16 3) EK_SwapFundingAuthorization
      (second_funding_authorization_entity_id [1])
      \<lparr>er_revision = 1, er_value = replicate 24 7 @ [1] @ replicate 16 0, er_updated = demo_time\<rparr>"
    using demo_authorization_decrypt(1) [simplified]
    by (simp add: entity_opens_def is_ok_def revisioned_aad_id_def authorization_id_ok)
  then have "store_inv demo_crypto (replicate 32 4) demo_authorized_store"
    by (auto simp: store_inv_def demo_authorized_store_def demo_store_def table_simps demo_row_opens tbl_wf_def split: if_splits)
  then show ?thesis by (simp add: execution_laws_def demo_crypto_law demo_sessions_law one_codec_law)
qed

end
