(* ===== verification/Execution_Properties.thy ===== *)
theory Execution_Properties
  imports Market_Sample
begin

text \<open>Properties of durable swap executions.\<close>

text \<open>C4. A durable execution follows the swap state machine. Whatever operations are called on a stored
  session, in whatever order, with whatever observations, and whether each one succeeds or fails part of
  the way, the wallet store holds after each of them a session the state machine reached from the first
  one, and the session an operation returns is exactly the one the store holds.
\<close>

theorem durable_execution_follows_state_machine:
  assumes "execution_laws C JW JA key s" "lookup_workflow C JW s (shakescape_execution_workflow_id C sid) = Some x"
  shows "\<exists>y. lookup_workflow C JW (run_executions C P JW JA policy sid calls s) (shakescape_execution_workflow_id C sid) = Some y \<and>
    swap_step\<^sup>*\<^sup>* x y \<and> frozen_terms y = frozen_terms x \<and>
    (\<forall>call z t. run_execution_call C P JW JA policy sid call (run_executions C P JW JA policy sid calls s) = (Inr (Some z), t) \<longrightarrow>
       lookup_workflow C JW t (shakescape_execution_workflow_id C sid) = Some z \<and> swap_step\<^sup>*\<^sup>* y z)"
proof -
  let ?t = "run_executions C P JW JA policy sid calls s"
  note st = run_executions_steps [OF assms(1), of sid P policy calls]
  note laws = execution_steps_laws [OF st assms(1)]
  from execution_steps_session [OF st assms] obtain y where
    y: "lookup_workflow C JW ?t (shakescape_execution_workflow_id C sid) = Some y" "swap_step\<^sup>*\<^sup>* x y" by blast
  have "lookup_workflow C JW u (shakescape_execution_workflow_id C sid) = Some z \<and> swap_step\<^sup>*\<^sup>* y z"
    if "run_execution_call C P JW JA policy sid call ?t = (Inr (Some z), u)" for call z u
  proof -
    have "holds_session C JW JA sid ?t z u" using wpD [OF run_execution_call_sound [OF laws] that] by blast
    with execution_steps_session [OF _ laws y(1), of u] show ?thesis by (auto simp: holds_session_def)
  qed
  with y swap_steps_frame [OF y(2)] show ?thesis by blast
qed

theorem durable_execution_follows_state_machine_witness:
  "swap_step\<^sup>*\<^sup>* demo_both_funded demo_observed \<and>
   lookup_workflow demo_crypto demo_sessions demo_observed_store demo_workflow = Some demo_observed"
  using durable_execution_follows_state_machine [OF demo_funded_laws demo_funded_lookup, of demo_protocol demo_policy "[]"]
    demo_first_redemption [of demo_authorizations]
  by (auto simp: run_executions_def demo_funded_lookup simp del: run_execution_call.simps)

text \<open>C5. The secret that redeems the first chain is never lost. Once an execution has recorded the first
  redemption, the preimage of its hash lock is in the wallet, through any later operations: it was written
  before the redemption was recorded, and nothing replaces it by a value with another hash.
\<close>

theorem redeemed_secret_is_recoverable:
  assumes "execution_laws C JW JA key s" "lookup_workflow C JW s (shakescape_execution_workflow_id C sid) = Some x"
    and "ss_first_redemption x = None" "t = run_executions C P JW JA policy sid calls s"
    and "lookup_workflow C JW t (shakescape_execution_workflow_id C sid) = Some y" "ss_first_redemption y \<noteq> None"
  shows "\<exists>p. get_secret C t (shakescape_observed_preimage_id sid) HtlcPreimage = Inr (Some p) \<and> sha256 C p = ss_hashlock x \<and>
    (length p = 32 \<longrightarrow> load_locally_verified_shakescape_preimage C t sid = Inr (Some p))"
proof -
  note st = run_executions_steps [OF assms(1), of sid P policy calls]
  have "secret_recoverable C JW sid s" using assms(2,3) by (simp add: secret_recoverable_def)
  from execution_steps_secret [OF st assms(1) this] have "secret_kept C sid y t"
    using assms(4-) by (auto simp: secret_recoverable_def)
  moreover have "ss_hashlock y = ss_hashlock x"
    using execution_steps_session [OF st assms(1,2)] swap_steps_frame assms(4,5) by (fastforce simp: frozen_terms_def)
  ultimately show ?thesis
    by (auto simp: secret_kept_def load_locally_verified_shakescape_preimage_def map_err_def)
qed

theorem redeemed_secret_is_recoverable_witness:
  "load_locally_verified_shakescape_preimage demo_crypto demo_observed_store [1] = Inr (Some (replicate 32 9))"
proof -
  have t: "demo_observed_store = run_executions demo_crypto demo_protocol demo_sessions demo_authorizations demo_policy [1]
      [FirstRedemption demo_spend demo_time] demo_funded_store"
    by (simp add: run_executions_def demo_first_redemption del: run_execution_call.simps)
  have "ss_first_redemption demo_both_funded = None" "ss_first_redemption demo_observed \<noteq> None"
    by (simp_all add: demo_session_simps demo_observed_def demo_redeemed_def)
  from redeemed_secret_is_recoverable [OF demo_funded_laws demo_funded_lookup this(1) t demo_observed_lookup this(2)]
  obtain p where p: "get_secret demo_crypto demo_observed_store (shakescape_observed_preimage_id [1]) HtlcPreimage = Inr (Some p)"
    "length p = 32 \<Longrightarrow> load_locally_verified_shakescape_preimage demo_crypto demo_observed_store [1] = Inr (Some p)" by blast
  have "get_secret demo_crypto demo_observed_store (shakescape_observed_preimage_id [1]) HtlcPreimage = Inr (Some (replicate 32 9))"
    using get_put_secret [OF demo_crypto_law demo_put_secret(1)] get_secret_frame [of demo_observed_store demo_secret_store]
    by (simp add: demo_observed_store_def)
  with p(1) have "p = replicate 32 9" by simp
  with p(2) show ?thesis by simp
qed

text \<open>C2. The second leg is funded at most once. When a broadcast commits under the guard of a second-funding
  authorization, it consumes the authorization: after any further operations on the execution no guard is
  given out again, and no broadcast commits under the old one, so a session never authorizes a second
  transaction on the second chain.
\<close>

theorem second_funding_is_broadcast_once:
  assumes "execution_laws C JW JA key s" "lookup_workflow C JW s (shakescape_execution_workflow_id C sid) = Some x"
    and "session_start x0" "swap_step\<^sup>*\<^sup>* x0 x"
    and "shakescape_second_funding_broadcast_guard C P JW JA s policy sid m a now = Inr g"
    and "save_workflow_with_entity_batch_and_guards C JB JE s i kind r v b u ek saves deletes
      (guard_workflow_assertion g) EK_SwapFundingAuthorization (guard_authorization_assertion g) True = Inr (n, s')"
    and "t = run_executions C P JW JA policy sid calls s'"
  shows "(\<forall>m' a' now'. \<not> is_ok (shakescape_second_funding_broadcast_guard C P JW JA t policy sid m' a' now')) \<and>
    (\<forall>i' kind' r' v' b' u' ek' saves' deletes' c. \<not> is_ok (save_workflow_with_entity_batch_and_guards C JB JE t i' kind' r' v' b' u'
      ek' saves' deletes' (guard_workflow_assertion g) EK_SwapFundingAuthorization (guard_authorization_assertion g) c))"
proof -
  have law: "crypto_law C" "store_inv C key s" using assms(1) by (simp_all add: execution_laws_def)
  have inv: "swap_inv z" if "lookup_workflow C JW s (shakescape_execution_workflow_id C sid) = Some z" for z
    using that assms(2) reachable_inv [OF assms(3,4)] by simp
  have laws': "execution_laws C JW JA key s'"
    using assms(1) save_workflow_with_entity_batch_and_guards_inv [OF law assms(6)] by (simp add: execution_laws_def)
  have "spent C JW JA sid (bg_authorization_entity_revision g) t"
    using execution_steps_spent [OF run_executions_steps [OF laws'] laws'
      guarded_commit_spends [OF assms(5) law(1) inv assms(6)]] assms(7) by blast
  moreover have "bg_authorization_entity_id g = authorization_row sid"
    using assms(5) by (rule broadcast_guard_Ok)
  ultimately show ?thesis using spent_refuses_guard spent_refuses_commit by (metis is_ok_iff)
qed

theorem second_funding_is_broadcast_once_witness:
  "\<exists>t. demo_broadcast demo_authorized_store [8] = Inr (1, t) \<and> \<not> is_ok (demo_broadcast t [9]) \<and>
     \<not> is_ok (shakescape_second_funding_broadcast_guard demo_crypto demo_protocol demo_sessions demo_authorizations
       t demo_policy [1] Handshake [7] demo_time)"
proof -
  obtain t where t: "demo_broadcast demo_authorized_store [8] = Inr (1, t)" using demo_broadcast_Ok by blast
  have "t = run_executions demo_crypto demo_protocol demo_sessions demo_authorizations demo_policy [1] [] t"
    by (simp add: run_executions_def)
  from second_funding_is_broadcast_once [OF demo_authorized_laws demo_authorized_lookup demo_session_start
      demo_authorized_steps demo_guard_issued t [unfolded demo_broadcast_def] this] t
  show ?thesis unfolding demo_broadcast_def by blast
qed

end
