(* ===== verification/Swap_Watch.thy ===== *)
theory Swap_Watch
  imports Swap_Terms Store_Leases
begin

text \<open>
  The durable watches of Bitcoin hash-time-locked outputs (hns-wallet-bitcoin-kyoto/src/swap_watch.rs):
  registration under a lease of the account's watches, the reconciliation of every watch with the blocks
  a compact-filter scan matched on the current chain, and the lock and the spend a watch hands out. Blocks
  and their checks, the sparse checkpoint list of the chain and the network constants are those of the
  bitcoin and bdk crates; they are the parameter \<open>chain_lib\<close> and the record \<open>checkpoint_chain\<close>.
\<close>

section \<open>Blocks and checkpoints\<close>

type_synonym bitcoin_network = nat

record bitcoin_block =
  bb_header :: bytes
  bb_txdata :: "bitcoin_transaction list"

record chain_lib =
  cl_block_hash :: "bitcoin_block \<Rightarrow> bytes"
  cl_check_merkle_root :: "bitcoin_block \<Rightarrow> bool"
  cl_check_witness_commitment :: "bitcoin_block \<Rightarrow> bool"
  cl_network_magic :: "bitcoin_network \<Rightarrow> bytes"
  cl_genesis_hash :: "bitcoin_network \<Rightarrow> bytes"

record checkpoint_chain =
  cp_height :: u32
  cp_hash :: bytes
  cp_get :: "u32 \<Rightarrow> bytes option"

record bitcoin_checkpoint =
  ck_height :: u32
  ck_block_hash :: bytes

definition checkpoint_validate :: "chain_lib \<Rightarrow> bitcoin_checkpoint \<Rightarrow> bitcoin_network \<Rightarrow> (bitcoin_wallet_error, unit) result" where
  "checkpoint_validate L c network =
     (if ck_block_hash c = replicate 32 0 then Err BW_InvalidCheckpoint
      else if ck_height c = 0 \<and> ck_block_hash c \<noteq> cl_genesis_hash L network then Err BW_NetworkMismatch
      else Ok ())"

record matched_bitcoin_block =
  mb_height :: u32
  mb_block :: bitcoin_block

definition validate_matched_block :: "chain_lib \<Rightarrow> matched_bitcoin_block \<Rightarrow> (bitcoin_wallet_error, unit) result" where
  "validate_matched_block L block =
     (if cl_block_hash L (mb_block block) = replicate 32 0 \<or> \<not> cl_check_merkle_root L (mb_block block) \<or>
         \<not> cl_check_witness_commitment L (mb_block block) then Err BW_InvalidEvidence else Ok ())"

section \<open>Requests and records\<close>

definition BITCOIN_SWAP_WATCH_SCHEMA_VERSION :: u16 where "BITCOIN_SWAP_WATCH_SCHEMA_VERSION = 1"
definition BITCOIN_SWAP_WATCH_PREFIX :: bytes where "BITCOIN_SWAP_WATCH_PREFIX = byte_str ''bitcoin-htlc-watch-v1'' @ [0]"
definition BITCOIN_SWAP_WATCH_ACCOUNT_DOMAIN :: bytes where
  "BITCOIN_SWAP_WATCH_ACCOUNT_DOMAIN = byte_str ''hns-wallet-bitcoin-watch-account/v1'' @ [0]"
definition BITCOIN_SWAP_WATCH_TERMS_DOMAIN :: bytes where
  "BITCOIN_SWAP_WATCH_TERMS_DOMAIN = byte_str ''hns-wallet-bitcoin-watch-terms/v1'' @ [0]"
definition MAX_BITCOIN_SWAP_WATCHES :: nat where "MAX_BITCOIN_SWAP_WATCHES = 256"

record bitcoin_htlc_watch_request =
  rw_session_id :: session_id
  rw_htlc :: bitcoin_htlc
  rw_expected_value_sats :: u64
  rw_minimum_confirmations :: u32

definition watch_request_validate :: "protocol \<Rightarrow> bitcoin_htlc_watch_request \<Rightarrow> (bitcoin_wallet_error, unit) result" where
  "watch_request_validate P r =
     rbind (bitcoin_htlc_validate P (rw_htlc r)) (\<lambda>_.
       if all_zero (rw_session_id r) \<or> rw_expected_value_sats r < MIN_HTLC_DUST_SATS \<or> rw_minimum_confirmations r = 0
       then Err BW_InvalidSwapWatch else Ok ())"

definition terms_commitment ::
  "crypto \<Rightarrow> protocol \<Rightarrow> bitcoin_htlc_watch_request \<Rightarrow> (bitcoin_wallet_error, object_hash) result" where
  "terms_commitment C P r =
     rbind (watch_request_validate P r) (\<lambda>_.
       Ok (sha256 C (BITCOIN_SWAP_WATCH_TERMS_DOMAIN @ rw_session_id r @ htlc_commitment C (rw_htlc r) @
         be_bytes 8 (rw_expected_value_sats r) @ be_bytes 4 (rw_minimum_confirmations r))))"

record persisted_bitcoin_swap_observation =
  po_txid :: transaction_hash
  po_wtxid :: bytes
  po_block_height :: u32
  po_block_hash :: bytes
  po_confirmation_count :: u32
  po_output_index :: u32
  po_branch :: "htlc_spend_branch option"
  po_preimage :: "bytes option"
  po_raw_transaction :: bytes

record persisted_bitcoin_htlc_watch =
  pw_schema_version :: u16
  pw_network :: bitcoin_network
  pw_account_binding :: bytes
  pw_session_id :: session_id
  pw_terms_commitment :: object_hash
  pw_htlc :: bitcoin_htlc
  pw_expected_value_sats :: u64
  pw_minimum_confirmations :: u32
  pw_registered_checkpoint :: bitcoin_checkpoint
  pw_scanned_checkpoint :: bitcoin_checkpoint
  pw_funding :: "persisted_bitcoin_swap_observation option"
  pw_spend :: "persisted_bitcoin_swap_observation option"
  pw_revealed_preimage :: "bytes option"

record bitcoin_htlc_watch =
  bw_revision :: u64
  bw_persisted :: persisted_bitcoin_htlc_watch

record bitcoin_htlc_watch_snapshot =
  sn_revision :: u64
  sn_session_id :: session_id
  sn_terms_commitment :: object_hash
  sn_registered_checkpoint :: bitcoin_checkpoint
  sn_scanned_checkpoint :: bitcoin_checkpoint
  sn_funding_txid :: "transaction_hash option"
  sn_funding_height :: "u32 option"
  sn_funding_confirmations :: u32
  sn_spending_txid :: "transaction_hash option"
  sn_spending_height :: "u32 option"
  sn_spending_confirmations :: u32
  sn_spend_branch :: "htlc_spend_branch option"
  sn_preimage_revealed :: bool

datatype bitcoin_htlc_watch_admission =
    WatchRegistered bitcoin_htlc_watch_snapshot
  | WatchExisting bitcoin_htlc_watch_snapshot

definition watch_snapshot :: "u64 \<Rightarrow> persisted_bitcoin_htlc_watch \<Rightarrow> bitcoin_htlc_watch_snapshot" where
  "watch_snapshot revision w = \<lparr>sn_revision = revision, sn_session_id = pw_session_id w,
     sn_terms_commitment = pw_terms_commitment w, sn_registered_checkpoint = pw_registered_checkpoint w,
     sn_scanned_checkpoint = pw_scanned_checkpoint w,
     sn_funding_txid = map_option po_txid (pw_funding w), sn_funding_height = map_option po_block_height (pw_funding w),
     sn_funding_confirmations = (case pw_funding w of None \<Rightarrow> 0 | Some x \<Rightarrow> po_confirmation_count x),
     sn_spending_txid = map_option po_txid (pw_spend w), sn_spending_height = map_option po_block_height (pw_spend w),
     sn_spending_confirmations = (case pw_spend w of None \<Rightarrow> 0 | Some x \<Rightarrow> po_confirmation_count x),
     sn_spend_branch = Option.bind (pw_spend w) po_branch, sn_preimage_revealed = (pw_revealed_preimage w \<noteq> None)\<rparr>"

section \<open>Identifiers\<close>

definition account_binding ::
  "crypto \<Rightarrow> chain_lib \<Rightarrow> bitcoin_network \<Rightarrow> bytes \<Rightarrow> (bitcoin_wallet_error, bytes) result" where
  "account_binding C L network account_id =
     (if account_id = [] \<or> MAX_RECORD_ID_BYTES < length account_id then Err BW_InvalidSwapWatch
      else Ok (sha256 C (BITCOIN_SWAP_WATCH_ACCOUNT_DOMAIN @ cl_network_magic L network @
        be_bytes 8 (length account_id) @ account_id)))"

definition watch_prefix :: "bytes \<Rightarrow> bytes" where "watch_prefix binding = BITCOIN_SWAP_WATCH_PREFIX @ binding"

definition watch_id :: "bytes \<Rightarrow> session_id \<Rightarrow> bytes" where "watch_id binding sid = watch_prefix binding @ sid"

section \<open>Validation\<close>

definition watch_confirmation_count :: "u32 \<Rightarrow> u32 \<Rightarrow> (bitcoin_wallet_error, u32) result" where
  "watch_confirmation_count tip_height block_height =
     (if tip_height < block_height then Err BW_InvalidEvidence
      else ok_or (checked_add_w 32 (tip_height - block_height) 1) BW_InvalidEvidence)"

definition validate_observation ::
  "protocol \<Rightarrow> bitcoin_lib \<Rightarrow> persisted_bitcoin_swap_observation \<Rightarrow> (bitcoin_wallet_error, unit) result" where
  "validate_observation P B x =
     (if po_txid x = replicate 32 0 \<or> po_wtxid x = replicate 32 0 \<or> po_block_hash x = replicate 32 0 \<or>
         po_confirmation_count x = 0 \<or> po_raw_transaction x = [] then Err BW_CorruptSwapWatch
      else rbind (ok_or (mp_deserialize_transaction P (po_raw_transaction x)) BW_CorruptSwapWatch) (\<lambda>transaction.
        if bk_serialize B transaction \<noteq> po_raw_transaction x \<or> mp_compute_txid P transaction \<noteq> po_txid x \<or>
           bk_wtxid B transaction \<noteq> po_wtxid x then Err BW_CorruptSwapWatch else Ok ()))"

definition watch_lock ::
  "persisted_bitcoin_htlc_watch \<Rightarrow> persisted_bitcoin_swap_observation \<Rightarrow> verified_bitcoin_lock" where
  "watch_lock w funding = \<lparr>bl_funding_txid = po_txid funding, bl_output_index = po_output_index funding,
     bl_value_sats = pw_expected_value_sats w, bl_confirmation_count = po_confirmation_count funding, bl_htlc = pw_htlc w\<rparr>"

definition validate_watch_funding ::
  "protocol \<Rightarrow> bitcoin_lib \<Rightarrow> persisted_bitcoin_htlc_watch \<Rightarrow> persisted_bitcoin_swap_observation \<Rightarrow>
   (bitcoin_wallet_error, unit) result" where
  "validate_watch_funding P B w funding =
     rbind (validate_observation P B funding) (\<lambda>_.
     if po_branch funding \<noteq> None \<or> po_preimage funding \<noteq> None \<or>
        po_block_height funding < ck_height (pw_registered_checkpoint w) then Err BW_CorruptSwapWatch
     else rbind (watch_confirmation_count (ck_height (pw_scanned_checkpoint w)) (po_block_height funding)) (\<lambda>confirmations.
       if confirmations \<noteq> po_confirmation_count funding then Err BW_CorruptSwapWatch
       else rbind (verify_htlc_funding P (po_raw_transaction funding) (pw_htlc w) (pw_expected_value_sats w)
           (po_confirmation_count funding) 0) (\<lambda>verified.
         if bl_funding_txid verified \<noteq> po_txid funding \<or> bl_output_index verified \<noteq> po_output_index funding
         then Err BW_CorruptSwapWatch else Ok ())))"

definition validate_watch_spend ::
  "crypto \<Rightarrow> protocol \<Rightarrow> bitcoin_lib \<Rightarrow> persisted_bitcoin_htlc_watch \<Rightarrow> persisted_bitcoin_swap_observation \<Rightarrow>
   persisted_bitcoin_swap_observation \<Rightarrow> (bitcoin_wallet_error, unit) result" where
  "validate_watch_spend C P B w funding spend =
     rbind (validate_observation P B spend) (\<lambda>_.
     rbind (watch_confirmation_count (ck_height (pw_scanned_checkpoint w)) (po_block_height spend)) (\<lambda>confirmations.
     if confirmations \<noteq> po_confirmation_count spend then Err BW_CorruptSwapWatch
     else rbind (ok_or (po_branch spend) BW_CorruptSwapWatch) (\<lambda>branch.
       rbind (verify_observed_bitcoin_htlc_spend C P B (po_raw_transaction spend) (watch_lock w funding) branch) (\<lambda>verified.
       if cs_txid verified \<noteq> po_txid spend \<or> cs_wtxid verified \<noteq> po_wtxid spend \<or>
          cs_revealed_preimage verified \<noteq> po_preimage spend \<or>
          (po_preimage spend \<noteq> None \<and> pw_revealed_preimage w \<noteq> po_preimage spend) \<or>
          po_block_height spend < po_block_height funding
       then Err BW_CorruptSwapWatch else Ok ()))))"

definition validate_persisted_watch ::
  "crypto \<Rightarrow> protocol \<Rightarrow> bitcoin_lib \<Rightarrow> chain_lib \<Rightarrow> bitcoin_network \<Rightarrow> bytes \<Rightarrow> persisted_bitcoin_htlc_watch \<Rightarrow>
   (bitcoin_wallet_error, unit) result" where
  "validate_persisted_watch C P B L network binding w =
     (if pw_schema_version w \<noteq> BITCOIN_SWAP_WATCH_SCHEMA_VERSION \<or> pw_network w \<noteq> network \<or>
         pw_account_binding w \<noteq> binding then Err BW_CorruptSwapWatch
      else rbind (terms_commitment C P \<lparr>rw_session_id = pw_session_id w, rw_htlc = pw_htlc w,
          rw_expected_value_sats = pw_expected_value_sats w, rw_minimum_confirmations = pw_minimum_confirmations w\<rparr>)
        (\<lambda>commitment.
        if pw_terms_commitment w \<noteq> commitment \<or>
           ck_height (pw_scanned_checkpoint w) < ck_height (pw_registered_checkpoint w) \<or>
           (pw_spend w \<noteq> None \<and> pw_funding w = None) \<or>
           (case pw_revealed_preimage w of None \<Rightarrow> False | Some p \<Rightarrow> sha256 C p \<noteq> bh_hashlock (pw_htlc w))
        then Err BW_CorruptSwapWatch
        else rbind (checkpoint_validate L (pw_registered_checkpoint w) network) (\<lambda>_.
          rbind (checkpoint_validate L (pw_scanned_checkpoint w) network) (\<lambda>_.
          rbind (case pw_funding w of None \<Rightarrow> Ok () | Some funding \<Rightarrow> validate_watch_funding P B w funding) (\<lambda>_.
            case (pw_funding w, pw_spend w) of
              (Some funding, Some spend) \<Rightarrow> validate_watch_spend C P B w funding spend
            | _ \<Rightarrow> Ok ())))))"

definition decode_watch ::
  "crypto \<Rightarrow> protocol \<Rightarrow> bitcoin_lib \<Rightarrow> chain_lib \<Rightarrow> bitcoin_network \<Rightarrow> bytes \<Rightarrow> persisted_bitcoin_htlc_watch stored_entity \<Rightarrow>
   (bitcoin_wallet_error, bitcoin_htlc_watch) result" where
  "decode_watch C P B L network binding stored =
     (if se_id stored \<noteq> watch_id binding (pw_session_id (se_value stored)) then Err BW_CorruptSwapWatch
      else rbind (validate_persisted_watch C P B L network binding (se_value stored)) (\<lambda>_.
        Ok \<lparr>bw_revision = se_revision stored, bw_persisted = se_value stored\<rparr>))"

section \<open>Loading and registration\<close>

definition load_bitcoin_htlc_watch ::
  "crypto \<Rightarrow> protocol \<Rightarrow> bitcoin_lib \<Rightarrow> chain_lib \<Rightarrow> persisted_bitcoin_htlc_watch codec \<Rightarrow> wallet_store \<Rightarrow>
   bitcoin_network \<Rightarrow> bytes \<Rightarrow> session_id \<Rightarrow> (bitcoin_wallet_error, bitcoin_htlc_watch option) result" where
  "load_bitcoin_htlc_watch C P B L J s network account_id sid =
     rbind (account_binding C L network account_id) (\<lambda>binding.
     rbind (map_err BW_Store (load_entity C J s EK_BitcoinSwapWatch (watch_id binding sid))) (\<lambda>found.
       case found of None \<Rightarrow> Ok None
       | Some stored \<Rightarrow> rbind (decode_watch C P B L network binding stored) (\<lambda>w. Ok (Some w))))"

definition load_bitcoin_htlc_watches ::
  "crypto \<Rightarrow> protocol \<Rightarrow> bitcoin_lib \<Rightarrow> chain_lib \<Rightarrow> persisted_bitcoin_htlc_watch codec \<Rightarrow> wallet_store \<Rightarrow>
   bitcoin_network \<Rightarrow> bytes \<Rightarrow> (bitcoin_wallet_error, bitcoin_htlc_watch list) result" where
  "load_bitcoin_htlc_watches C P B L J s network account_id =
     rbind (account_binding C L network account_id) (\<lambda>binding.
     rbind (map_err BW_Store (list_entities_by_id_prefix C J s EK_BitcoinSwapWatch (watch_prefix binding)
         (MAX_BITCOIN_SWAP_WATCHES + 1))) (\<lambda>stored.
       if MAX_BITCOIN_SWAP_WATCHES < length stored then Err BW_SwapWatchCapacity
       else collect_results (map (decode_watch C P B L network binding) stored)))"

definition load_watch_set_with_lease ::
  "crypto \<Rightarrow> persisted_bitcoin_htlc_watch codec \<Rightarrow> wallet_store \<Rightarrow> bytes \<Rightarrow>
   (bitcoin_wallet_error, persisted_bitcoin_htlc_watch stored_entity list \<times> prefix_set_lease) result" where
  "load_watch_set_with_lease C J s binding =
     map_err BW_Store (try_with_entity_read_snapshot (\<lambda>e. e) s (\<lambda>snapshot.
       rbind (list_entities_by_id_prefix C J snapshot EK_BitcoinSwapWatch (watch_prefix binding) (MAX_BITCOIN_SWAP_WATCHES + 1)) (\<lambda>stored.
       rbind (entity_prefix_set_lease C snapshot EK_BitcoinSwapWatch (watch_prefix binding) (MAX_BITCOIN_SWAP_WATCHES + 1)) (\<lambda>lease.
         Ok (stored, lease)))))"

definition new_watch ::
  "bitcoin_network \<Rightarrow> bytes \<Rightarrow> bitcoin_htlc_watch_request \<Rightarrow> object_hash \<Rightarrow> bitcoin_checkpoint \<Rightarrow> persisted_bitcoin_htlc_watch" where
  "new_watch network binding request commitment checkpoint =
     \<lparr>pw_schema_version = BITCOIN_SWAP_WATCH_SCHEMA_VERSION, pw_network = network, pw_account_binding = binding,
      pw_session_id = rw_session_id request, pw_terms_commitment = commitment, pw_htlc = rw_htlc request,
      pw_expected_value_sats = rw_expected_value_sats request, pw_minimum_confirmations = rw_minimum_confirmations request,
      pw_registered_checkpoint = checkpoint, pw_scanned_checkpoint = checkpoint, pw_funding = None, pw_spend = None,
      pw_revealed_preimage = None\<rparr>"

definition register_bitcoin_htlc_watch ::
  "crypto \<Rightarrow> protocol \<Rightarrow> bitcoin_lib \<Rightarrow> chain_lib \<Rightarrow> persisted_bitcoin_htlc_watch codec \<Rightarrow> wallet_store \<Rightarrow>
   bitcoin_network \<Rightarrow> bytes \<Rightarrow> bitcoin_htlc_watch_request \<Rightarrow> bitcoin_checkpoint \<Rightarrow> u64 \<Rightarrow>
   (bitcoin_wallet_error, bitcoin_htlc_watch_admission \<times> wallet_store) result" where
  "register_bitcoin_htlc_watch C P B L J s network account_id request checkpoint now_unix =
     rbind (watch_request_validate P request) (\<lambda>_.
     rbind (checkpoint_validate L checkpoint network) (\<lambda>_.
     rbind (account_binding C L network account_id) (\<lambda>binding.
     rbind (load_bitcoin_htlc_watch C P B L J s network account_id (rw_session_id request)) (\<lambda>found.
     case found of
       Some existing \<Rightarrow>
         rbind (terms_commitment C P request) (\<lambda>commitment.
           if pw_terms_commitment (bw_persisted existing) = commitment \<and> pw_htlc (bw_persisted existing) = rw_htlc request \<and>
              pw_expected_value_sats (bw_persisted existing) = rw_expected_value_sats request \<and>
              pw_minimum_confirmations (bw_persisted existing) = rw_minimum_confirmations request
           then Ok (WatchExisting (watch_snapshot (bw_revision existing) (bw_persisted existing)), s)
           else Err BW_SwapWatchConflict)
     | None \<Rightarrow>
         rbind (load_watch_set_with_lease C J s binding) (\<lambda>(stored, lease).
         rbind (collect_results (map (decode_watch C P B L network binding) stored)) (\<lambda>_.
         if MAX_BITCOIN_SWAP_WATCHES \<le> length stored then Err BW_SwapWatchCapacity
         else rbind (terms_commitment C P request) (\<lambda>commitment.
           let persisted = new_watch network binding request commitment checkpoint in
           rbind (map_err BW_Store (apply_entity_batch_with_assertions_and_prefix_lease C J s EK_BitcoinSwapWatch
               [\<lparr>bs_id = watch_id binding (rw_session_id request), bs_expected_revision = 0, bs_value = persisted,
                 bs_updated_at_unix = now_unix\<rparr>] [] [] lease)) (\<lambda>s'.
             Ok (WatchRegistered (watch_snapshot 1 persisted), s')))))))))"

section \<open>Reconciliation\<close>

definition observation_conflicts_with_chain :: "checkpoint_chain \<Rightarrow> persisted_bitcoin_swap_observation \<Rightarrow> bool" where
  "observation_conflicts_with_chain chain x \<longleftrightarrow>
     (case cp_get chain (po_block_height x) of None \<Rightarrow> False | Some h \<Rightarrow> h \<noteq> po_block_hash x)"

definition pays_watch :: "persisted_bitcoin_htlc_watch \<Rightarrow> bitcoin_transaction \<Rightarrow> bool" where
  "pays_watch w transaction \<longleftrightarrow> list_ex (\<lambda>output. to_value output = pw_expected_value_sats w \<and>
     to_script_pubkey output = bh_script_pubkey (pw_htlc w)) (tx_output transaction)"

definition funding_candidate ::
  "protocol \<Rightarrow> bitcoin_lib \<Rightarrow> chain_lib \<Rightarrow> persisted_bitcoin_htlc_watch \<Rightarrow> bitcoin_checkpoint \<Rightarrow> matched_bitcoin_block \<Rightarrow>
   bitcoin_transaction \<Rightarrow> (bitcoin_wallet_error, persisted_bitcoin_swap_observation) result" where
  "funding_candidate P B L w tip matched transaction =
     (let raw = bk_serialize B transaction in
      rbind (watch_confirmation_count (ck_height tip) (mb_height matched)) (\<lambda>confirmations.
      rbind (verify_htlc_funding P raw (pw_htlc w) (pw_expected_value_sats w) confirmations 0) (\<lambda>verified.
        Ok \<lparr>po_txid = bl_funding_txid verified, po_wtxid = bk_wtxid B transaction, po_block_height = mb_height matched,
          po_block_hash = cl_block_hash L (mb_block matched), po_confirmation_count = confirmations,
          po_output_index = bl_output_index verified, po_branch = None, po_preimage = None, po_raw_transaction = raw\<rparr>)))"

definition funding_candidates ::
  "protocol \<Rightarrow> bitcoin_lib \<Rightarrow> chain_lib \<Rightarrow> persisted_bitcoin_htlc_watch \<Rightarrow> matched_bitcoin_block list \<Rightarrow> bitcoin_checkpoint \<Rightarrow>
   (bitcoin_wallet_error, persisted_bitcoin_swap_observation list) result" where
  "funding_candidates P B L w blocks tip =
     rbind (collect_results (map (\<lambda>matched.
       if mb_height matched < ck_height (pw_registered_checkpoint w) then Ok []
       else rbind (validate_matched_block L matched) (\<lambda>_.
         collect_results (map (funding_candidate P B L w tip matched) (filter (pays_watch w) (bb_txdata (mb_block matched)))))) blocks))
       (\<lambda>candidates. Ok (concat candidates))"

definition spend_candidate ::
  "crypto \<Rightarrow> protocol \<Rightarrow> bitcoin_lib \<Rightarrow> chain_lib \<Rightarrow> verified_bitcoin_lock \<Rightarrow> bitcoin_checkpoint \<Rightarrow> matched_bitcoin_block \<Rightarrow>
   bitcoin_transaction \<Rightarrow> (bitcoin_wallet_error, persisted_bitcoin_swap_observation) result" where
  "spend_candidate C P B L lk tip matched transaction =
     (let raw = bk_serialize B transaction in
      rbind (case verify_observed_bitcoin_htlc_spend C P B raw lk Redeem of
          Inr verified \<Rightarrow> Ok verified
        | Inl redeem_error \<Rightarrow>
            (case verify_observed_bitcoin_htlc_spend C P B raw lk Refund of
               Inr verified \<Rightarrow> Ok verified
             | Inl refund_error \<Rightarrow>
                 Err (BW_InvalidSwapSpendEvidence (mp_compute_txid P transaction) redeem_error refund_error))) (\<lambda>verified.
      rbind (watch_confirmation_count (ck_height tip) (mb_height matched)) (\<lambda>confirmations.
        Ok \<lparr>po_txid = cs_txid verified, po_wtxid = cs_wtxid verified, po_block_height = mb_height matched,
          po_block_hash = cl_block_hash L (mb_block matched), po_confirmation_count = confirmations, po_output_index = 0,
          po_branch = Some (cs_branch verified), po_preimage = cs_revealed_preimage verified, po_raw_transaction = raw\<rparr>)))"

definition spend_candidates ::
  "crypto \<Rightarrow> protocol \<Rightarrow> bitcoin_lib \<Rightarrow> chain_lib \<Rightarrow> persisted_bitcoin_htlc_watch \<Rightarrow> persisted_bitcoin_swap_observation \<Rightarrow>
   matched_bitcoin_block list \<Rightarrow> bitcoin_checkpoint \<Rightarrow> (bitcoin_wallet_error, persisted_bitcoin_swap_observation list) result" where
  "spend_candidates C P B L w funding blocks tip =
     rbind (collect_results (map (\<lambda>matched.
       if mb_height matched < po_block_height funding then Ok []
       else rbind (validate_matched_block L matched) (\<lambda>_.
         collect_results (map (spend_candidate C P B L (watch_lock w funding) tip matched)
           (filter (\<lambda>transaction. list_ex (spends_lock (watch_lock w funding)) (tx_input transaction)) (bb_txdata (mb_block matched)))))) blocks))
       (\<lambda>candidates. Ok (concat candidates))"

definition drop_conflicting :: "checkpoint_chain \<Rightarrow> persisted_bitcoin_htlc_watch \<Rightarrow> persisted_bitcoin_htlc_watch" where
  "drop_conflicting chain w =
     (if case pw_funding w of None \<Rightarrow> False | Some x \<Rightarrow> observation_conflicts_with_chain chain x
      then w\<lparr>pw_funding := None, pw_spend := None\<rparr>
      else if case pw_spend w of None \<Rightarrow> False | Some x \<Rightarrow> observation_conflicts_with_chain chain x
      then w\<lparr>pw_spend := None\<rparr>
      else w)"

definition find_funding ::
  "protocol \<Rightarrow> bitcoin_lib \<Rightarrow> chain_lib \<Rightarrow> matched_bitcoin_block list \<Rightarrow> bitcoin_checkpoint \<Rightarrow> persisted_bitcoin_htlc_watch \<Rightarrow>
   (bitcoin_wallet_error, persisted_bitcoin_htlc_watch) result" where
  "find_funding P B L blocks tip w =
     (if pw_funding w \<noteq> None then Ok w
      else rbind (funding_candidates P B L w blocks tip) (\<lambda>candidates.
        case candidates of
          [] \<Rightarrow> Ok w
        | [candidate] \<Rightarrow> Ok (w\<lparr>pw_funding := Some candidate\<rparr>)
        | _ \<Rightarrow> Err BW_SwapWatchConflict))"

definition record_spend ::
  "persisted_bitcoin_htlc_watch \<Rightarrow> persisted_bitcoin_swap_observation \<Rightarrow> (bitcoin_wallet_error, persisted_bitcoin_htlc_watch) result" where
  "record_spend w candidate =
     (case po_preimage candidate of
        None \<Rightarrow> Ok (w\<lparr>pw_spend := Some candidate\<rparr>)
      | Some preimage \<Rightarrow>
          if pw_revealed_preimage w \<noteq> None \<and> pw_revealed_preimage w \<noteq> Some preimage then Err BW_SwapWatchConflict
          else Ok (w\<lparr>pw_revealed_preimage := Some preimage, pw_spend := Some candidate\<rparr>))"

definition find_spend ::
  "crypto \<Rightarrow> protocol \<Rightarrow> bitcoin_lib \<Rightarrow> chain_lib \<Rightarrow> matched_bitcoin_block list \<Rightarrow> bitcoin_checkpoint \<Rightarrow>
   persisted_bitcoin_htlc_watch \<Rightarrow> (bitcoin_wallet_error, persisted_bitcoin_htlc_watch) result" where
  "find_spend C P B L blocks tip w =
     (case (pw_spend w, pw_funding w) of
        (None, Some funding) \<Rightarrow>
          rbind (spend_candidates C P B L w funding blocks tip) (\<lambda>candidates.
            case candidates of
              [] \<Rightarrow> Ok w
            | [candidate] \<Rightarrow> record_spend w candidate
            | _ \<Rightarrow> Err BW_SwapWatchConflict)
      | _ \<Rightarrow> Ok w)"

definition refresh_confirmations ::
  "bitcoin_checkpoint \<Rightarrow> persisted_bitcoin_swap_observation option \<Rightarrow>
   (bitcoin_wallet_error, persisted_bitcoin_swap_observation option) result" where
  "refresh_confirmations tip observation =
     (case observation of
        None \<Rightarrow> Ok None
      | Some x \<Rightarrow> rbind (watch_confirmation_count (ck_height tip) (po_block_height x)) (\<lambda>confirmations.
          Ok (Some (x\<lparr>po_confirmation_count := confirmations\<rparr>))))"

definition reconcile_watch ::
  "crypto \<Rightarrow> protocol \<Rightarrow> bitcoin_lib \<Rightarrow> chain_lib \<Rightarrow> bitcoin_network \<Rightarrow> bytes \<Rightarrow> checkpoint_chain \<Rightarrow> bitcoin_checkpoint \<Rightarrow>
   matched_bitcoin_block list \<Rightarrow> persisted_bitcoin_htlc_watch \<Rightarrow>
   (bitcoin_wallet_error, persisted_bitcoin_htlc_watch \<times> bool) result" where
  "reconcile_watch C P B L network binding chain tip blocks w =
     (let w0 = drop_conflicting chain w in
     rbind (find_funding P B L blocks tip w0) (\<lambda>w1.
     rbind (find_spend C P B L blocks tip w1) (\<lambda>w2.
     rbind (refresh_confirmations tip (pw_funding w2)) (\<lambda>funding.
     rbind (refresh_confirmations tip (pw_spend w2)) (\<lambda>spend.
       let w3 = w2\<lparr>pw_funding := funding, pw_spend := spend, pw_scanned_checkpoint := tip\<rparr> in
       rbind (validate_persisted_watch C P B L network binding w3) (\<lambda>_.
         Ok (w3, w0 \<noteq> w \<or> w1 \<noteq> w0 \<or> w2 \<noteq> w1 \<or> w3 \<noteq> w2)))))))"

fun reconcile_each ::
  "crypto \<Rightarrow> protocol \<Rightarrow> bitcoin_lib \<Rightarrow> chain_lib \<Rightarrow> persisted_bitcoin_htlc_watch codec \<Rightarrow> bitcoin_network \<Rightarrow> bytes \<Rightarrow>
   checkpoint_chain \<Rightarrow> bitcoin_checkpoint \<Rightarrow> matched_bitcoin_block list \<Rightarrow> u64 \<Rightarrow> bitcoin_htlc_watch list \<Rightarrow>
   (wallet_store, bitcoin_wallet_error, unit) step" where
  "reconcile_each C P B L J network binding chain tip blocks now_unix [] = sreturn ()"
| "reconcile_each C P B L J network binding chain tip blocks now_unix (watch # watches) =
     sbind (lift_result (reconcile_watch C P B L network binding chain tip blocks (bw_persisted watch))) (\<lambda>(w, changed).
     sbind (if \<not> changed then sreturn ()
            else (\<lambda>s. case save_entity C J s EK_BitcoinSwapWatch (watch_id binding (pw_session_id w)) (bw_revision watch) w now_unix of
                   Inl e \<Rightarrow> (Inl (BW_Store e), s) | Inr (_, s') \<Rightarrow> (Inr (), s'))) (\<lambda>_.
       reconcile_each C P B L J network binding chain tip blocks now_unix watches))"

definition reconcile_bitcoin_htlc_watches ::
  "crypto \<Rightarrow> protocol \<Rightarrow> bitcoin_lib \<Rightarrow> chain_lib \<Rightarrow> persisted_bitcoin_htlc_watch codec \<Rightarrow> bitcoin_network \<Rightarrow> bytes \<Rightarrow>
   checkpoint_chain \<Rightarrow> bitcoin_checkpoint \<Rightarrow> matched_bitcoin_block list \<Rightarrow> u64 \<Rightarrow> (wallet_store, bitcoin_wallet_error, unit) step" where
  "reconcile_bitcoin_htlc_watches C P B L J network account_id chain tip matched_blocks now_unix =
     sbind (lift_result (checkpoint_validate L tip network)) (\<lambda>_.
     sbind (if cp_height chain \<noteq> ck_height tip \<or> cp_hash chain \<noteq> ck_block_hash tip then sfail BW_InvalidCheckpoint else sreturn ()) (\<lambda>_.
     sbind (lift_result (collect_results (map (\<lambda>matched.
         rbind (map_err (\<lambda>_. BW_InvalidSwapBlockEvidence) (validate_matched_block L matched)) (\<lambda>_.
           if cp_get chain (mb_height matched) \<noteq> Some (cl_block_hash L (mb_block matched))
           then Err BW_InvalidSwapBlockEvidence else Ok ())) matched_blocks))) (\<lambda>_.
     sbind (lift_result (account_binding C L network account_id)) (\<lambda>binding.
     sbind (\<lambda>s. (load_bitcoin_htlc_watches C P B L J s network account_id, s)) (\<lambda>watches.
       reconcile_each C P B L J network binding chain tip matched_blocks now_unix watches)))))"

section \<open>What a watch hands out\<close>

definition verified_lock_at :: "bitcoin_htlc_watch \<Rightarrow> bitcoin_checkpoint \<Rightarrow> verified_bitcoin_lock option" where
  "verified_lock_at watch current_checkpoint =
     (case pw_funding (bw_persisted watch) of
        None \<Rightarrow> None
      | Some funding \<Rightarrow>
          if current_checkpoint = pw_scanned_checkpoint (bw_persisted watch) \<and>
             pw_minimum_confirmations (bw_persisted watch) \<le> po_confirmation_count funding
          then Some (watch_lock (bw_persisted watch) funding) else None)"

definition verified_spend_at ::
  "crypto \<Rightarrow> protocol \<Rightarrow> bitcoin_lib \<Rightarrow> bitcoin_htlc_watch \<Rightarrow> bitcoin_checkpoint \<Rightarrow>
   verified_bitcoin_htlc_spend_observation option" where
  "verified_spend_at C P B watch current_checkpoint =
     (let w = bw_persisted watch in
      if current_checkpoint \<noteq> pw_scanned_checkpoint w then None
      else case (pw_funding w, pw_spend w) of
        (Some funding, Some spend) \<Rightarrow>
          (case (po_branch spend, verified_lock_at watch current_checkpoint) of
             (Some branch, Some lk) \<Rightarrow>
               (case verify_observed_bitcoin_htlc_spend C P B (po_raw_transaction spend) lk branch of
                  Inl _ \<Rightarrow> None
                | Inr verified \<Rightarrow>
                    if cs_txid verified = po_txid spend \<and> cs_wtxid verified = po_wtxid spend \<and>
                       cs_revealed_preimage verified = po_preimage spend \<and>
                       pw_minimum_confirmations w \<le> po_confirmation_count funding \<and> po_confirmation_count spend \<noteq> 0
                    then Some \<lparr>so_spend = verified, so_confirmation_count = po_confirmation_count spend\<rparr> else None)
           | _ \<Rightarrow> None)
      | _ \<Rightarrow> None)"

definition watched_scripts :: "bitcoin_htlc_watch list \<Rightarrow> (session_id \<times> bytes) list" where
  "watched_scripts watches = map (\<lambda>watch. (pw_session_id (bw_persisted watch), bh_script_pubkey (pw_htlc (bw_persisted watch)))) watches"

end
