(* ===== verification/Watch_Laws.thy ===== *)
theory Watch_Laws
  imports Store_Properties Swap_Watch
begin

text \<open>
  Facts about the durable watch of a Bitcoin contract: what one reconciliation of a watch does, what a validated
  watch guarantees about the lock it hands out, and what reconciling the list of watches does to the store.
\<close>

section \<open>One watch\<close>

definition watch_observations :: "persisted_bitcoin_htlc_watch \<Rightarrow> persisted_bitcoin_swap_observation set" where
  "watch_observations w = set_option (pw_funding w) \<union> set_option (pw_spend w)"

definition watch_current :: "checkpoint_chain \<Rightarrow> bitcoin_checkpoint \<Rightarrow> persisted_bitcoin_htlc_watch \<Rightarrow> bool" where
  "watch_current chain tip w \<longleftrightarrow> pw_scanned_checkpoint w = tip \<and>
     (\<forall>x \<in> watch_observations w. \<not> observation_conflicts_with_chain chain x \<and> po_block_height x \<le> ck_height tip \<and>
        po_confirmation_count x = ck_height tip - po_block_height x + 1)"

definition same_contract :: "persisted_bitcoin_htlc_watch \<Rightarrow> persisted_bitcoin_htlc_watch \<Rightarrow> bool" where
  "same_contract w w' \<longleftrightarrow> pw_session_id w' = pw_session_id w \<and> pw_htlc w' = pw_htlc w \<and>
     pw_expected_value_sats w' = pw_expected_value_sats w \<and> pw_minimum_confirmations w' = pw_minimum_confirmations w \<and>
     pw_terms_commitment w' = pw_terms_commitment w \<and> pw_registered_checkpoint w' = pw_registered_checkpoint w \<and>
     (pw_revealed_preimage w \<noteq> None \<longrightarrow> pw_revealed_preimage w' = pw_revealed_preimage w)"

definition blocks_on_chain :: "chain_lib \<Rightarrow> checkpoint_chain \<Rightarrow> matched_bitcoin_block list \<Rightarrow> bool" where
  "blocks_on_chain L chain blocks \<longleftrightarrow> (\<forall>b \<in> set blocks. cp_get chain (mb_height b) = Some (cl_block_hash L (mb_block b)))"

lemma same_contract_refl: "same_contract w w"
  by (simp add: same_contract_def)

lemma same_contract_trans: "same_contract u v \<Longrightarrow> same_contract v w \<Longrightarrow> same_contract u w"
  by (auto simp: same_contract_def)

lemma no_conflict_on_chain:
  "cp_get chain (po_block_height x) = Some (po_block_hash x) \<Longrightarrow> \<not> observation_conflicts_with_chain chain x"
  by (simp add: observation_conflicts_with_chain_def)

lemma confirmations_no_conflict [simp]:
  "observation_conflicts_with_chain chain (x\<lparr>po_confirmation_count := n\<rparr>) = observation_conflicts_with_chain chain x"
  by (simp add: observation_conflicts_with_chain_def split: option.split)

lemma collect_results_mem:
  assumes "collect_results (map f ys) = Inr xs" "x \<in> set xs"
  shows "\<exists>y \<in> set ys. f y = Inr x"
proof -
  have "Inr x \<in> set (map f ys)" using assms by (simp add: collect_results_Ok)
  then show ?thesis by auto
qed

lemma block_candidates_mem:
  assumes "collect_results (map (\<lambda>b. if skip b then Inr [] else rbind (v b) (\<lambda>_. collect_results (map (f b) (g b)))) blocks) = Inr xss"
    and "x \<in> set (concat xss)"
  shows "\<exists>b t. b \<in> set blocks \<and> f b t = Inr x"
proof -
  from assms(2) obtain xs where xs: "xs \<in> set xss" "x \<in> set xs" by auto
  from collect_results_mem [OF assms(1) xs(1)] obtain b where b: "b \<in> set blocks"
    and e: "(if skip b then Inr [] else rbind (v b) (\<lambda>_. collect_results (map (f b) (g b)))) = Inr xs" by blast
  from e xs(2) have "collect_results (map (f b) (g b)) = Inr xs" by (auto split: if_splits)
  from collect_results_mem [OF this xs(2)] b show ?thesis by blast
qed

lemma funding_candidates_chain:
  assumes "funding_candidates P B L w blocks tip = Inr xs" "blocks_on_chain L chain blocks" "x \<in> set xs"
  shows "\<not> observation_conflicts_with_chain chain x"
proof (rule no_conflict_on_chain)
  have "\<exists>b t. b \<in> set blocks \<and> funding_candidate P B L w tip b t = Inr x"
    using assms(1,3) unfolding funding_candidates_def rbind_eq_Inr
    by (elim exE conjE) (rule block_candidates_mem, assumption, simp)
  then show "cp_get chain (po_block_height x) = Some (po_block_hash x)"
    using assms(2) by (auto simp: funding_candidate_def Let_def blocks_on_chain_def)
qed

lemma spend_candidates_chain:
  assumes "spend_candidates C P B L w funding blocks tip = Inr xs" "blocks_on_chain L chain blocks" "x \<in> set xs"
  shows "\<not> observation_conflicts_with_chain chain x"
proof (rule no_conflict_on_chain)
  have "\<exists>b t. b \<in> set blocks \<and> spend_candidate C P B L (watch_lock w funding) tip b t = Inr x"
    using assms(1,3) unfolding spend_candidates_def rbind_eq_Inr
    by (elim exE conjE) (rule block_candidates_mem, assumption, simp)
  then show "cp_get chain (po_block_height x) = Some (po_block_hash x)"
    using assms(2) by (auto simp: spend_candidate_def Let_def blocks_on_chain_def)
qed

lemma drop_conflicting_Ok:
  "same_contract w (drop_conflicting chain w)"
  "x \<in> watch_observations (drop_conflicting chain w) \<Longrightarrow> \<not> observation_conflicts_with_chain chain x"
  by (auto simp: drop_conflicting_def same_contract_def watch_observations_def split: option.splits if_splits)

lemma find_funding_cases:
  assumes "find_funding P B L blocks tip w = Inr w'"
  shows "w' = w \<or> (\<exists>c. funding_candidates P B L w blocks tip = Inr [c] \<and> w' = w\<lparr>pw_funding := Some c\<rparr>)"
proof (cases "pw_funding w")
  case None
  with assms obtain xs where "funding_candidates P B L w blocks tip = Inr xs"
    "(case xs of [] \<Rightarrow> Ok w | [c] \<Rightarrow> Ok (w\<lparr>pw_funding := Some c\<rparr>) | _ \<Rightarrow> Err BW_SwapWatchConflict) = Inr w'"
    unfolding find_funding_def rbind_eq_Inr by auto
  then show ?thesis by (cases xs rule: remdups_adj.cases) auto
qed (use assms in \<open>simp add: find_funding_def\<close>)

lemma find_spend_cases:
  assumes "find_spend C P B L blocks tip w = Inr w'"
  shows "w' = w \<or> (\<exists>f c. spend_candidates C P B L w f blocks tip = Inr [c] \<and> record_spend w c = Inr w')"
proof (cases "pw_spend w = None \<and> pw_funding w \<noteq> None")
  case True
  with assms obtain f xs where "spend_candidates C P B L w f blocks tip = Inr xs"
    "(case xs of [] \<Rightarrow> Ok w | [c] \<Rightarrow> record_spend w c | _ \<Rightarrow> Err BW_SwapWatchConflict) = Inr w'"
    unfolding find_spend_def by auto
  then show ?thesis by (cases xs rule: remdups_adj.cases) auto
qed (use assms in \<open>auto simp: find_spend_def split: option.splits\<close>)

lemma find_funding_Ok:
  assumes "find_funding P B L blocks tip w = Inr w'" "blocks_on_chain L chain blocks"
  shows "same_contract w w'" "x \<in> watch_observations w' \<Longrightarrow> x \<in> watch_observations w \<or> \<not> observation_conflicts_with_chain chain x"
  using find_funding_cases [OF assms(1)] funding_candidates_chain [OF _ assms(2)]
  by (auto simp: same_contract_def watch_observations_def)

lemma find_spend_Ok:
  assumes "find_spend C P B L blocks tip w = Inr w'" "blocks_on_chain L chain blocks"
  shows "same_contract w w'" "x \<in> watch_observations w' \<Longrightarrow> x \<in> watch_observations w \<or> \<not> observation_conflicts_with_chain chain x"
  using find_spend_cases [OF assms(1)] spend_candidates_chain [OF _ assms(2)]
  by (auto simp: record_spend_def same_contract_def watch_observations_def split: if_splits option.split_asm)

lemma watch_confirmation_count_Ok:
  "watch_confirmation_count t h = Inr n \<longleftrightarrow> h \<le> t \<and> n = t - h + 1 \<and> t - h + 1 < 2 ^ 32"
  by (auto simp: watch_confirmation_count_def checked_add_w_def ok_or_def)

lemma refresh_confirmations_Ok:
  assumes "refresh_confirmations tip ob = Inr ob'" "y \<in> set_option ob'"
  shows "\<exists>x \<in> set_option ob. y = x\<lparr>po_confirmation_count := ck_height tip - po_block_height x + 1\<rparr> \<and> po_block_height x \<le> ck_height tip"
  using assms by (auto simp: refresh_confirmations_def watch_confirmation_count_Ok split: option.splits)

lemma reconcile_watch_Ok:
  assumes r: "reconcile_watch C P B L network binding chain tip blocks w = Inr (w', ch)" and "blocks_on_chain L chain blocks"
  shows "same_contract w w'" "watch_current chain tip w'" "validate_persisted_watch C P B L network binding w' = Inr ()"
    "\<not> ch \<Longrightarrow> w' = w"
proof -
  from r obtain w1 w2 funding spend where 1: "find_funding P B L blocks tip (drop_conflicting chain w) = Inr w1"
    and 2: "find_spend C P B L blocks tip w1 = Inr w2" and f: "refresh_confirmations tip (pw_funding w2) = Inr funding"
    and s: "refresh_confirmations tip (pw_spend w2) = Inr spend"
    and w': "w' = w2\<lparr>pw_funding := funding, pw_spend := spend, pw_scanned_checkpoint := tip\<rparr>"
    and v: "validate_persisted_watch C P B L network binding w' = Inr ()"
    and ch: "ch \<longleftrightarrow> drop_conflicting chain w \<noteq> w \<or> w1 \<noteq> drop_conflicting chain w \<or> w2 \<noteq> w1 \<or> w' \<noteq> w2"
    unfolding reconcile_watch_def Let_def rbind_eq_Inr by auto
  note n1 = find_funding_Ok [OF 1 assms(2)] and n2 = find_spend_Ok [OF 2 assms(2)]
  have o2: "\<forall>x \<in> watch_observations w2. \<not> observation_conflicts_with_chain chain x" using n1(2) n2(2) drop_conflicting_Ok(2) by blast
  have "same_contract w w2" using same_contract_trans [OF drop_conflicting_Ok(1) same_contract_trans [OF n1(1) n2(1)]] .
  then show "same_contract w w'" by (simp add: w' same_contract_def)
  have "\<not> observation_conflicts_with_chain chain y \<and> po_block_height y \<le> ck_height tip \<and>
      po_confirmation_count y = ck_height tip - po_block_height y + 1" if "y \<in> watch_observations w'" for y
  proof -
    from that have "y \<in> set_option funding \<or> y \<in> set_option spend" by (auto simp: w' watch_observations_def)
    then obtain x where x: "x \<in> watch_observations w2" "po_block_height x \<le> ck_height tip"
      "y = x\<lparr>po_confirmation_count := ck_height tip - po_block_height x + 1\<rparr>"
      using refresh_confirmations_Ok [OF f] refresh_confirmations_Ok [OF s] by (auto simp: watch_observations_def)
    then show ?thesis using o2 by simp
  qed
  then show "watch_current chain tip w'" by (simp add: watch_current_def w')
  show "validate_persisted_watch C P B L network binding w' = Inr ()" by (rule v)
  show "w' = w" if "\<not> ch" using that ch by blast
qed

section \<open>What a validated watch hands out\<close>

lemma funding_fields:
  assumes "verify_htlc_funding P raw h v c m = Inr lk"
  shows "bl_value_sats lk = v" "bl_confirmation_count lk = c" "bl_htlc lk = h"
proof -
  from assms obtain t where
    "(case matching_outputs t v (bh_script_pubkey h) of [] \<Rightarrow> Err BW_InvalidEvidence | _ # _ # _ \<Rightarrow> Err BW_AmbiguousEvidence
      | [i] \<Rightarrow> if 2 ^ 32 \<le> i then Err BW_InvalidEvidence else Ok \<lparr>bl_funding_txid = mp_compute_txid P t, bl_output_index = i,
          bl_value_sats = v, bl_confirmation_count = c, bl_htlc = h\<rparr>) = Inr lk"
    by (auto simp: verify_htlc_funding_def split: if_splits)
  then show "bl_value_sats lk = v" "bl_confirmation_count lk = c" "bl_htlc lk = h"
    by (cases "matching_outputs t v (bh_script_pubkey h)" rule: remdups_adj.cases; auto split: if_splits)+
qed

lemma validated_funding:
  assumes "validate_persisted_watch C P B L network binding w = Inr ()" "pw_funding w = Some x"
  shows "verify_htlc_funding P (po_raw_transaction x) (pw_htlc w) (pw_expected_value_sats w) (po_confirmation_count x) 0 = Inr (watch_lock w x)"
proof -
  have "validate_watch_funding P B w x = Inr ()"
    using assms by (auto simp: validate_persisted_watch_def split: if_splits)
  then obtain v where v: "verify_htlc_funding P (po_raw_transaction x) (pw_htlc w) (pw_expected_value_sats w) (po_confirmation_count x) 0 = Inr v"
    "bl_funding_txid v = po_txid x" "bl_output_index v = po_output_index x"
    by (auto simp: validate_watch_funding_def split: if_splits)
  then show ?thesis using funding_fields [OF v(1)] by (cases v) (simp add: watch_lock_def)
qed

lemma funding_minimum:
  assumes "verify_htlc_funding P raw h v c 0 = Inr lk" "m \<le> c"
  shows "verify_htlc_funding P raw h v c m = Inr lk"
  using assms by (simp add: verify_htlc_funding_def split: if_splits)

lemma watch_lock_verified:
  assumes "validate_persisted_watch C P B L network binding (bw_persisted w) = Inr ()" "verified_lock_at w c = Some lk"
  shows "\<exists>raw. verify_htlc_funding P raw (pw_htlc (bw_persisted w)) (pw_expected_value_sats (bw_persisted w))
    (bl_confirmation_count lk) (pw_minimum_confirmations (bw_persisted w)) = Inr lk"
proof -
  from assms(2) obtain x where x: "pw_funding (bw_persisted w) = Some x" "lk = watch_lock (bw_persisted w) x"
    "pw_minimum_confirmations (bw_persisted w) \<le> po_confirmation_count x"
    by (auto simp: verified_lock_at_def split: option.splits if_splits)
  have "bl_confirmation_count lk = po_confirmation_count x" by (simp add: x(2) watch_lock_def)
  then show ?thesis using funding_minimum [OF validated_funding [OF assms(1) x(1)] x(3)] x(2) by metis
qed

section \<open>The watches of an account in the store\<close>

definition holds_watch ::
  "crypto \<Rightarrow> persisted_bitcoin_htlc_watch codec \<Rightarrow> wallet_store \<Rightarrow> bytes \<Rightarrow> session_id \<Rightarrow> u64 \<Rightarrow> persisted_bitcoin_htlc_watch \<Rightarrow> bool" where
  "holds_watch C J s binding sid n w \<longleftrightarrow> (\<exists>u. load_entity C J s EK_BitcoinSwapWatch (watch_id binding sid) =
     Inr (Some \<lparr>se_kind = EK_BitcoinSwapWatch, se_id = watch_id binding sid, se_revision = n, se_value = w, se_updated_at_unix = u\<rparr>))"

lemma watch_id_inject [simp]: "watch_id b x = watch_id b y \<longleftrightarrow> x = y"
  by (simp add: watch_id_def)

abbreviation watch_sid :: "bitcoin_htlc_watch \<Rightarrow> session_id" where
  "watch_sid w \<equiv> pw_session_id (bw_persisted w)"

lemma reconcile_each_step:
  assumes "reconcile_each C P B L J network binding chain tip blocks now (w # ws) s = (r, s')"
  obtains (failed) "r \<noteq> Inr ()" "s' = s"
  | (kept) w' where "reconcile_watch C P B L network binding chain tip blocks (bw_persisted w) = Inr (w', False)"
      "reconcile_each C P B L J network binding chain tip blocks now ws s = (r, s')"
  | (saved) w' n s1 where "reconcile_watch C P B L network binding chain tip blocks (bw_persisted w) = Inr (w', True)"
      "save_entity C J s EK_BitcoinSwapWatch (watch_id binding (pw_session_id w')) (bw_revision w) w' now = Inr (n, s1)"
      "reconcile_each C P B L J network binding chain tip blocks now ws s1 = (r, s')"
proof (cases "reconcile_watch C P B L network binding chain tip blocks (bw_persisted w)")
  case (Inl e)
  then show thesis using assms by (intro failed) (auto simp: sbind_def lift_result_def)
next
  case (Inr x)
  obtain w' ch where x: "x = (w', ch)" by fastforce
  show thesis
  proof (cases ch)
    case False
    then show thesis using assms Inr x by (intro kept) (auto simp: sbind_def lift_result_def sreturn_def)
  next
    case True
    show thesis
    proof (cases "save_entity C J s EK_BitcoinSwapWatch (watch_id binding (pw_session_id w')) (bw_revision w) w' now")
      case (Inl e)
      then show thesis using assms Inr x True by (intro failed) (auto simp: sbind_def lift_result_def)
    next
      case (Inr y)
      then show thesis using assms \<open>_ = Inr x\<close> x True by (cases y) (intro saved, auto simp: sbind_def lift_result_def)
    qed
  qed
qed

lemma reconcile_each_Ok:
  assumes law: "crypto_law C" "codec_law J" and on: "blocks_on_chain L chain blocks"
  shows "reconcile_each C P B L J network binding chain tip blocks now ws s = (r, s') \<Longrightarrow> distinct (map watch_sid ws) \<Longrightarrow>
    \<forall>w \<in> set ws. holds_watch C J s binding (watch_sid w) (bw_revision w) (bw_persisted w) \<Longrightarrow>
    (\<forall>k i. k \<noteq> EK_BitcoinSwapWatch \<or> i \<notin> watch_id binding ` watch_sid ` set ws \<longrightarrow> load_entity C J s' k i = load_entity C J s k i) \<and>
    (\<forall>w \<in> set ws. \<exists>n w'. holds_watch C J s' binding (watch_sid w) n w' \<and>
       ((\<exists>ch. reconcile_watch C P B L network binding chain tip blocks (bw_persisted w) = Inr (w', ch)) \<or>
        r \<noteq> Inr () \<and> n = bw_revision w \<and> w' = bw_persisted w))"
proof (induction ws arbitrary: s)
  case Nil
  then show ?case by (simp add: sreturn_def)
next
  case (Cons w ws)
  let ?R = "\<lambda>w. reconcile_watch C P B L network binding chain tip blocks (bw_persisted w)"
  from Cons.prems(2) have apart: "v \<in> set ws \<Longrightarrow> watch_sid v \<noteq> watch_sid w" for v by (auto simp: image_iff)
  then have ni: "watch_id binding (watch_sid w) \<notin> watch_id binding ` watch_sid ` set ws"
    by (metis (no_types, lifting) imageE watch_id_inject)
  have d: "distinct (map watch_sid ws)" using Cons.prems(2) by simp
  have tail: "\<forall>v \<in> set ws. holds_watch C J s binding (watch_sid v) (bw_revision v) (bw_persisted v)" using Cons.prems(3) by simp
  from Cons.prems(1) show ?case
  proof (cases rule: reconcile_each_step)
    case failed
    then show ?thesis using Cons.prems(3) by blast
  next
    case (kept w')
    note IH = Cons.IH [OF kept(2) d tail]
    have h: "load_entity C J s' EK_BitcoinSwapWatch (watch_id binding (watch_sid w)) =
        load_entity C J s EK_BitcoinSwapWatch (watch_id binding (watch_sid w))" using IH ni by blast
    have "holds_watch C J s' binding (watch_sid w) (bw_revision w) (bw_persisted w)"
      using Cons.prems(3) by (simp add: holds_watch_def h)
    moreover have "?R w = Inr (bw_persisted w, False)" using kept(1) reconcile_watch_Ok(4) [OF kept(1) on] by simp
    ultimately show ?thesis using IH by (simp add: ball_simps) blast
  next
    case (saved w' n s1)
    have sid: "pw_session_id w' = watch_sid w" using reconcile_watch_Ok(1) [OF saved(1) on] by (simp add: same_contract_def)
    note ld = save_entity_load [OF law saved(2) [unfolded sid]]
    have "\<forall>v \<in> set ws. holds_watch C J s1 binding (watch_sid v) (bw_revision v) (bw_persisted v)"
      using tail apart by (simp add: holds_watch_def ld(2))
    note IH = Cons.IH [OF saved(3) d this]
    have h: "load_entity C J s' EK_BitcoinSwapWatch (watch_id binding (watch_sid w)) =
        load_entity C J s1 EK_BitcoinSwapWatch (watch_id binding (watch_sid w))" using IH ni by blast
    have "holds_watch C J s' binding (watch_sid w) n w'" using ld(1) by (simp add: holds_watch_def h)
    moreover have "load_entity C J s' k i = load_entity C J s k i"
      if "k \<noteq> EK_BitcoinSwapWatch \<or> i \<notin> watch_id binding ` watch_sid ` set (w # ws)" for k i
    proof -
      have "load_entity C J s' k i = load_entity C J s1 k i" using IH that by (metis (no_types, lifting) image_insert insert_iff list.simps(15))
      also have "\<dots> = load_entity C J s k i" using that by (intro ld(2)) auto
      finally show ?thesis .
    qed
    ultimately show ?thesis using IH saved(1) by (simp add: ball_simps) blast
  qed
qed

end
