(* ===== verification/Spend_Laws.thy ===== *)
theory Spend_Laws
  imports Bitcoin_Spend
begin

text \<open>
  Facts about signed Bitcoin spends: what a prepared spend looks like, that a signed one passes the check
  made before a broadcast, that this check implies the one made on a spend seen in a block, and what the
  refinement of the fee returns.
\<close>

section \<open>Prepared spends\<close>

lemma htlc_validate_keys:
  assumes "bitcoin_htlc_validate P htlc = Inr u"
  shows "mp_public_key_from_slice P (branch_public_key branch htlc) = Some (branch_public_key branch htlc)"
  using assms by (cases branch; cases htlc) (auto simp: bitcoin_htlc_validate_def bitcoin_htlc_new_def Let_def split: if_splits)

definition template_witness :: "verified_bitcoin_lock \<Rightarrow> htlc_spend_branch \<Rightarrow> bytes option \<Rightarrow> bytes \<Rightarrow> bytes list" where
  "template_witness lk branch preimage signature = (case branch of
     Redeem \<Rightarrow> [signature, the preimage, [1], bh_witness_script (bl_htlc lk)]
   | Refund \<Rightarrow> [signature, [], bh_witness_script (bl_htlc lk)])"

definition template ::
  "protocol \<Rightarrow> verified_bitcoin_lock \<Rightarrow> bytes \<Rightarrow> u64 \<Rightarrow> htlc_spend_branch \<Rightarrow> bytes list \<Rightarrow> bitcoin_transaction" where
  "template P lk destination fee branch witness =
     \<lparr>tx_version = 2,
      tx_lock_time = (case branch of Redeem \<Rightarrow> Blocks 0 | Refund \<Rightarrow> mp_lock_time_from_consensus P (bh_refund_locktime (bl_htlc lk))),
      tx_input = [\<lparr>ti_txid = bl_funding_txid lk, ti_vout = bl_output_index lk, ti_script_sig = [],
        ti_sequence = (case branch of Redeem \<Rightarrow> SequenceMax | Refund \<Rightarrow> EnableLocktimeNoRbf), ti_witness = witness\<rparr>],
      tx_output = [\<lparr>to_value = bl_value_sats lk - fee, to_script_pubkey = destination\<rparr>]\<rparr>"

definition spend_allowed ::
  "crypto \<Rightarrow> protocol \<Rightarrow> verified_bitcoin_lock \<Rightarrow> u64 \<Rightarrow> htlc_spend_branch \<Rightarrow> bytes option \<Rightarrow>
   bitcoin_chain_lock_context option \<Rightarrow> bool" where
  "spend_allowed C P lk fee branch preimage context \<longleftrightarrow>
     is_ok (bitcoin_htlc_validate P (bl_htlc lk)) \<and> 0 < fee \<and> fee + MIN_HTLC_DUST_SATS \<le> bl_value_sats lk \<and>
     (case branch of
        Redeem \<Rightarrow> (\<exists>p. preimage = Some p \<and> sha256 C p = bh_hashlock (bl_htlc lk))
      | Refund \<Rightarrow> preimage = None \<and>
          (\<forall>c. context = Some c \<longrightarrow> lock_permits c (mp_lock_time_from_consensus P (bh_refund_locktime (bl_htlc lk)))))"

lemma prepare_template_iff:
  "prepare_htlc_spend_template C P lk destination fee branch preimage context = Inr t \<longleftrightarrow>
     spend_allowed C P lk fee branch preimage context \<and>
     t = template P lk destination fee branch (template_witness lk branch preimage [])"
  by (cases branch)
     (auto simp: prepare_htlc_spend_template_def spend_allowed_def template_def template_witness_def Let_def
       MIN_HTLC_DUST_SATS_def is_ok_iff split: option.splits)

lemma template_rewitness:
  "with_first_witness (template P lk destination fee branch w) w' = template P lk destination fee branch w'"
  by (simp add: with_first_witness_def template_def)

lemma template_sighash:
  assumes "bitcoin_law P B"
  shows "bk_p2wsh_signature_hash B (template P lk destination fee branch w) =
    bk_p2wsh_signature_hash B (template P lk destination fee branch w')"
proof -
  have "strip_witnesses (template P lk destination fee branch w) = strip_witnesses (template P lk destination fee branch w')"
    by (simp add: strip_witnesses_def template_def)
  then show ?thesis using assms unfolding bitcoin_law_def by blast
qed

lemma spend_allowed_context: "spend_allowed C P lk fee branch preimage context \<Longrightarrow> spend_allowed C P lk fee branch preimage None"
  by (auto simp: spend_allowed_def split: htlc_spend_branch.splits)

section \<open>A signed spend is verified\<close>

definition signature_item :: "bitcoin_lib \<Rightarrow> ecdsa_signature \<Rightarrow> bytes" where
  "signature_item B signature = bk_serialize_der B signature @ [word_of_nat (bk_sighash_to_u32 B SighashAll)]"

lemma sign_template_Ok:
  assumes "sign_bitcoin_htlc_spend_template_with_settlement_signer C P B lk destination fee branch preimage context signer = Inr raw"
  obtains signature h where "spend_allowed C P lk fee branch preimage context"
    "raw = bk_serialize B (template P lk destination fee branch (template_witness lk branch preimage (signature_item B signature)))"
    "length raw \<le> MAX_BITCOIN_TRANSACTION_BYTES"
    "bk_p2wsh_signature_hash B (template P lk destination fee branch (template_witness lk branch preimage []))
       0 (bh_witness_script (bl_htlc lk)) (bl_value_sats lk) SighashAll = Some h"
    "bk_normalize_s B signature = signature" "bk_verify_ecdsa B h signature (branch_public_key branch (bl_htlc lk))"
proof -
  have w: "(template_witness lk branch preimage [])[0 := x] = template_witness lk branch preimage x" for x
    by (cases branch) (simp_all add: template_witness_def)
  have t: "ti_witness (hd (tx_input (template P lk destination fee branch w))) = w" for w by (simp add: template_def)
  show thesis
    using assms that unfolding sign_bitcoin_htlc_spend_template_with_settlement_signer_def
    by (auto simp: prepare_template_iff finalize_signed_htlc_spend_def Let_def template_rewitness t w signature_item_def
        not_less split: if_splits)
qed

lemma signature_item_facts:
  assumes "bitcoin_law P B"
  shows "\<not> length (signature_item B x) \<le> 1" "unat (last (signature_item B x)) = bk_sighash_to_u32 B SighashAll"
    "bk_from_der B (butlast (signature_item B x)) = Some x"
proof -
  have l: "bk_serialize_der B x \<noteq> []" "bk_from_der B (bk_serialize_der B x) = Some x" "bk_sighash_to_u32 B SighashAll < 256"
    using assms by (auto simp: bitcoin_law_def)
  show "\<not> length (signature_item B x) \<le> 1" "bk_from_der B (butlast (signature_item B x)) = Some x"
    using l(1,2) by (auto simp: signature_item_def Suc_le_eq)
  show "unat (last (signature_item B x)) = bk_sighash_to_u32 B SighashAll"
    using l(3) by (simp add: signature_item_def unat_of_nat)
qed

lemma signed_spend_verified:
  assumes law: "bitcoin_law P B" and raw: "raw \<noteq> []" and size: "\<forall>p. preimage = Some p \<longrightarrow> length p = 32"
    and sign: "sign_bitcoin_htlc_spend_template_with_settlement_signer C P B lk destination fee branch preimage context signer = Inr raw"
  obtains t where "mp_deserialize_transaction P raw = Some t"
    "verify_signed_bitcoin_htlc_spend C P B raw lk branch = Inr \<lparr>vs_txid = mp_compute_txid P t, vs_wtxid = bk_wtxid B t,
       vs_fee_sats = fee, vs_branch = branch, vs_revealed_preimage = preimage\<rparr>"
proof (rule sign_template_Ok [OF sign])
  fix signature h
  let ?w = "template_witness lk branch preimage (signature_item B signature)"
  let ?t = "template P lk destination fee branch ?w"
  assume allowed: "spend_allowed C P lk fee branch preimage context" and r: "raw = bk_serialize B ?t"
    and len: "length raw \<le> MAX_BITCOIN_TRANSACTION_BYTES"
    and h: "bk_p2wsh_signature_hash B (template P lk destination fee branch (template_witness lk branch preimage []))
       0 (bh_witness_script (bl_htlc lk)) (bl_value_sats lk) SighashAll = Some h"
    and sig: "bk_normalize_s B signature = signature" "bk_verify_ecdsa B h signature (branch_public_key branch (bl_htlc lk))"
  have d: "mp_deserialize_transaction P raw = Some ?t" using law raw r by (simp add: bitcoin_law_def)
  note item = signature_item_facts [OF law, of signature]
  note p = prepare_template_iff [THEN iffD2, OF conjI [OF spend_allowed_context [OF allowed] refl], of destination]
  have k: "mp_public_key_from_slice P (branch_public_key branch (bl_htlc lk)) = Some (branch_public_key branch (bl_htlc lk))"
    using allowed htlc_validate_keys by (auto simp: spend_allowed_def is_ok_iff)
  have f: "\<not> bl_value_sats lk \<le> bl_value_sats lk - fee" "bl_value_sats lk - (bl_value_sats lk - fee) = fee"
    using allowed by (auto simp: spend_allowed_def MIN_HTLC_DUST_SATS_def)
  have "bk_p2wsh_signature_hash B ?t 0 (bh_witness_script (bl_htlc lk)) (bl_value_sats lk) SighashAll = Some h"
    using h template_sighash [OF law] by metis
  then have "verify_signed_bitcoin_htlc_spend C P B raw lk branch = Inr \<lparr>vs_txid = mp_compute_txid P ?t, vs_wtxid = bk_wtxid B ?t,
       vs_fee_sats = fee, vs_branch = branch, vs_revealed_preimage = preimage\<rparr>"
    using allowed sig f p k raw len size item d r
    by (cases branch; cases preimage)
       (simp_all add: verify_signed_bitcoin_htlc_spend_def spend_allowed_def template_witness_def Let_def spends_lock_def
         is_ok_iff template_def with_first_witness_def witness_preimage_def split: option.splits)
  with d that show thesis by blast
qed

section \<open>A verified spend is recognised in a block\<close>

definition valid_signature_item ::
  "protocol \<Rightarrow> bitcoin_lib \<Rightarrow> verified_bitcoin_lock \<Rightarrow> htlc_spend_branch \<Rightarrow> bitcoin_transaction \<Rightarrow> bytes \<Rightarrow> bool" where
  "valid_signature_item P B lk branch t item \<longleftrightarrow> \<not> length item \<le> 1 \<and> unat (last item) = bk_sighash_to_u32 B SighashAll \<and>
     (\<exists>x key h. bk_from_der B (butlast item) = Some x \<and> bk_normalize_s B x = x \<and>
        mp_public_key_from_slice P (branch_public_key branch (bl_htlc lk)) = Some key \<and>
        bk_p2wsh_signature_hash B t 0 (bh_witness_script (bl_htlc lk)) (bl_value_sats lk) SighashAll = Some h \<and>
        bk_verify_ecdsa B h x key)"

lemma list_of_length_4: "length xs = 4 \<Longrightarrow> xs = [xs ! 0, xs ! 1, xs ! 2, xs ! 3]"
  by (simp add: list_eq_iff_nth_eq numeral_eq_Suc less_Suc_eq)

lemma list_of_length_3: "length xs = 3 \<Longrightarrow> xs = [xs ! 0, xs ! 1, xs ! 2]"
  by (simp add: list_eq_iff_nth_eq numeral_eq_Suc less_Suc_eq)

lemma verify_signed_Ok:
  assumes "verify_signed_bitcoin_htlc_spend C P B raw lk branch = Inr v"
  obtains t destination item where "raw \<noteq> []" "length raw \<le> MAX_BITCOIN_TRANSACTION_BYTES"
    "mp_deserialize_transaction P raw = Some t" "bk_serialize B t = raw"
    "spend_allowed C P lk (vs_fee_sats v) branch (vs_revealed_preimage v) None"
    "\<forall>p. vs_revealed_preimage v = Some p \<longrightarrow> length p = 32"
    "t = template P lk destination (vs_fee_sats v) branch (template_witness lk branch (vs_revealed_preimage v) item)"
    "valid_signature_item P B lk branch t item"
    "vs_txid v = mp_compute_txid P t" "vs_wtxid v = bk_wtxid B t" "vs_branch v = branch"
proof -
  let ?w = "\<lambda>t. ti_witness (tx_input t ! 0)" and ?o = "\<lambda>t. tx_output t ! 0"
  obtain t pre where sh: "raw \<noteq> []" "length raw \<le> MAX_BITCOIN_TRANSACTION_BYTES"
      "mp_deserialize_transaction P raw = Some t" "bk_serialize B t = raw"
    and pre: "(case branch of Redeem \<Rightarrow>
          if length (?w t) \<noteq> 4 \<or> ?w t ! 2 \<noteq> [1] \<or> ?w t ! 3 \<noteq> bh_witness_script (bl_htlc lk) then Err BW_InvalidEvidence
          else witness_preimage C (bl_htlc lk) (?w t ! 1)
        | Refund \<Rightarrow> if length (?w t) \<noteq> 3 \<or> ?w t ! 1 \<noteq> [] \<or> ?w t ! 2 \<noteq> bh_witness_script (bl_htlc lk)
          then Err BW_InvalidEvidence else Ok None) = Inr pre"
    and t: "spend_allowed C P lk (bl_value_sats lk - to_value (?o t)) branch pre None"
      "t = template P lk (to_script_pubkey (?o t)) (bl_value_sats lk - to_value (?o t)) branch (?w t)"
      "valid_signature_item P B lk branch t (?w t ! 0)"
    and v: "v = \<lparr>vs_txid = mp_compute_txid P t, vs_wtxid = bk_wtxid B t, vs_fee_sats = bl_value_sats lk - to_value (?o t),
       vs_branch = branch, vs_revealed_preimage = pre\<rparr>"
    using assms unfolding verify_signed_bitcoin_htlc_spend_def Let_def valid_signature_item_def
    by (auto simp: prepare_template_iff template_rewitness simp del: if_Inl_eq_Inr split: if_splits)
  have w: "?w t = template_witness lk branch pre (?w t ! 0)" "\<forall>p. pre = Some p \<longrightarrow> length p = 32"
    using pre list_of_length_4 [of "?w t"] list_of_length_3 [of "?w t"]
    by (auto simp: template_witness_def witness_preimage_def split: htlc_spend_branch.splits if_splits)
  show thesis
    by (rule that [OF sh, of "to_script_pubkey (?o t)" "?w t ! 0"]) (use t v w in simp_all)
qed

lemma template_matching:
  "matching_inputs lk (template P lk destination fee branch w) = [(0, tx_input (template P lk destination fee branch w) ! 0)]"
  by (simp add: matching_inputs_def template_def spends_lock_def)

lemma template_fields:
  "ti_witness (tx_input (template P lk destination fee branch w) ! 0) = w"
  "tx_input (template P lk destination fee branch w) \<noteq> []" "tx_output (template P lk destination fee branch w) \<noteq> []"
  "ti_sequence (tx_input (template P lk destination fee Refund w) ! 0) = EnableLocktimeNoRbf"
  "protocol_law P \<Longrightarrow> lock_time_to_consensus (tx_lock_time (template P lk destination fee Refund w)) =
     bh_refund_locktime (bl_htlc lk)"
  "filter (spends_lock lk) (tx_input (template P lk destination fee branch w)) =
     [tx_input (template P lk destination fee branch w) ! 0]"
  by (simp_all add: template_def protocol_law_def spends_lock_def)

lemma verified_is_observed:
  assumes "protocol_law P" "bitcoin_law P B" "verify_signed_bitcoin_htlc_spend C P B raw lk branch = Inr v"
    "branch = Redeem \<or> BITCOIN_TIMESTAMP_LOCKTIME_THRESHOLD \<le> bh_refund_locktime (bl_htlc lk)"
  shows "verify_observed_bitcoin_htlc_spend C P B raw lk branch = Inr \<lparr>cs_txid = vs_txid v, cs_wtxid = vs_wtxid v,
    cs_branch = branch, cs_revealed_preimage = vs_revealed_preimage v\<rparr>"
proof (rule verify_signed_Ok [OF assms(3)])
  fix t destination item
  let ?w = "template_witness lk branch (vs_revealed_preimage v) item"
  assume sh: "raw \<noteq> []" "length raw \<le> MAX_BITCOIN_TRANSACTION_BYTES" "mp_deserialize_transaction P raw = Some t"
      "bk_serialize B t = raw"
    and allowed: "spend_allowed C P lk (vs_fee_sats v) branch (vs_revealed_preimage v) None"
      "\<forall>p. vs_revealed_preimage v = Some p \<longrightarrow> length p = 32"
    and t: "t = template P lk destination (vs_fee_sats v) branch ?w"
    and item: "valid_signature_item P B lk branch t item"
    and v: "vs_txid v = mp_compute_txid P t" "vs_wtxid v = bk_wtxid B t" "vs_branch v = branch"
  have std: "bk_sighash_from_standard B (bk_sighash_to_u32 B SighashAll) = Some SighashAll" using assms(2) by (simp add: bitcoin_law_def)
  have pre: "(case branch of Redeem \<Rightarrow> observed_redeem_witness C (bl_htlc lk) ?w
      | Refund \<Rightarrow> observed_refund_witness (bl_htlc lk) t (tx_input t ! 0)) = Inr (vs_revealed_preimage v)"
    using allowed assms(4)
    by (cases branch; cases "vs_revealed_preimage v")
       (auto simp: t observed_redeem_witness_def observed_refund_witness_def Let_def template_fields(5) [OF assms(1)] template_fields
         template_witness_def spend_allowed_def witness_preimage_def)
  have w0: "?w ! 0 = item" by (simp add: template_witness_def split: htlc_spend_branch.splits)
  have parts: "matching_inputs lk t = [(0, tx_input t ! 0)]" "tx_input t \<noteq> []" "tx_output t \<noteq> []" "ti_witness (tx_input t ! 0) = ?w"
    by (simp_all add: t template_matching template_fields)
  show ?thesis
    using item allowed(1) sh
    by (auto simp: verify_observed_bitcoin_htlc_spend_def parts valid_signature_item_def spend_allowed_def is_ok_iff Let_def pre w0 std v)
qed

lemma verified_reveals:
  assumes "verify_signed_bitcoin_htlc_spend C P B raw lk Redeem = Inr v"
  shows "\<exists>p. observe_preimage C P raw lk = Inr (Some p) \<and> length p = 32 \<and> sha256 C p = bh_hashlock (bl_htlc lk)"
proof (rule verify_signed_Ok [OF assms])
  fix t destination item
  assume sh: "raw \<noteq> []" "length raw \<le> MAX_BITCOIN_TRANSACTION_BYTES" "mp_deserialize_transaction P raw = Some t"
    and allowed: "spend_allowed C P lk (vs_fee_sats v) Redeem (vs_revealed_preimage v) None"
      "\<forall>p. vs_revealed_preimage v = Some p \<longrightarrow> length p = 32"
    and t: "t = template P lk destination (vs_fee_sats v) Redeem (template_witness lk Redeem (vs_revealed_preimage v) item)"
  obtain p where "vs_revealed_preimage v = Some p" "sha256 C p = bh_hashlock (bl_htlc lk)"
    using allowed(1) by (auto simp: spend_allowed_def)
  then show ?thesis using allowed(2) sh
    by (auto simp: observe_preimage_def t template_fields template_witness_def not_less)
qed

section \<open>The fee\<close>

lemma refine_fee_Ok:
  assumes "refine_fee n sign P B rate limit fee = Inr raw" "fee \<le> limit"
  shows "\<exists>f t. sign f = Inr raw \<and> mp_deserialize_transaction P raw = Some t \<and> fee \<le> f \<and> f \<le> limit \<and>
    rate * bk_vsize B t \<le> f"
  using assms
proof (induction n arbitrary: fee)
  case (Suc n)
  let ?q = "\<lambda>t. rate * bk_vsize B t"
  from Suc.prems(1) obtain r t where t: "sign fee = Inr r" "mp_deserialize_transaction P r = Some t"
    and k: "(if limit < ?q t then Err BW_FeeLimit else if ?q t \<le> fee then Ok r
      else refine_fee n sign P B rate limit (?q t)) = Inr raw"
    by (auto simp: Let_def simp del: if_Inl_eq_Inr split: if_split_asm)
  show ?case using k Suc.IH [of "?q t"] t Suc.prems(2)
    by (auto simp: not_less not_le split: if_split_asm intro: less_imp_le order_trans)
qed simp

definition signs_within ::
  "(u64 \<Rightarrow> (bitcoin_wallet_error, bytes) result) \<Rightarrow> protocol \<Rightarrow> bitcoin_lib \<Rightarrow> u64 \<Rightarrow> nat \<Rightarrow> nat \<Rightarrow> bool" where
  "signs_within sign P B limit low high \<longleftrightarrow> (\<forall>f. 0 < f \<and> f \<le> limit \<longrightarrow>
     (\<exists>raw t. sign f = Inr raw \<and> mp_deserialize_transaction P raw = Some t \<and> low \<le> bk_vsize B t \<and> bk_vsize B t \<le> high))"

lemma refine_fee_settles:
  assumes sign: "signs_within sign P B limit low high" "rate * high \<le> limit" "limit < 2 ^ 64" "high < 2 ^ 64"
    and "0 < fee" "fee \<le> limit" "\<forall>v \<ge> low. fee < rate * v \<longrightarrow> low' \<le> v" "low' \<le> Suc high" "Suc (Suc high) \<le> low' + n"
  shows "is_ok (refine_fee n sign P B rate limit fee)"
  using assms(5-)
proof (induction n arbitrary: fee low')
  case (Suc n)
  obtain raw t where t: "sign fee = Inr raw" "mp_deserialize_transaction P raw = Some t" "low \<le> bk_vsize B t" "bk_vsize B t \<le> high"
    using sign(1) Suc.prems(1,2) unfolding signs_within_def by blast
  let ?q = "rate * bk_vsize B t"
  have q: "?q \<le> limit" using t(4) sign(2) mult_le_mono2 order_trans by blast
  have "is_ok (refine_fee n sign P B rate limit ?q)" if "fee < ?q"
  proof (rule Suc.IH [of _ "Suc (bk_vsize B t)"])
    show "\<forall>v \<ge> low. ?q < rate * v \<longrightarrow> Suc (bk_vsize B t) \<le> v" by (auto simp: Suc_le_eq)
    show "0 < ?q" using that by (rule le_less_trans [OF le0])
    show "Suc (Suc high) \<le> Suc (bk_vsize B t) + n" using Suc.prems(3,5) t(3) that by fastforce
  qed (use q t(4) in auto)
  then show ?case using t q sign(3,4) by (auto simp: Let_def not_le)
qed simp

end
