(* ===== verification/Spend_Properties.thy ===== *)
theory Spend_Properties
  imports Spend_Laws Market_Sample
begin

text \<open>
  Properties of signed Bitcoin spends, with the lock, the transaction library and the signer their
  witnesses evaluate.
\<close>


text \<open>C37. Refining the fee ends with a fee the user allowed. A spend signed at a fee rate pays at least the rate
  for its own size and at most the user's limit. The eight rounds are enough: if signing succeeds at every fee
  up to the limit and the signed sizes differ by at most six virtual bytes, the rate for the largest size being
  within the limit, a signed spend is returned.
\<close>

theorem fee_refinement_settles:
  assumes "0 < rate" "0 < limit" "limit < 2 ^ 64"
    and "sign = (\<lambda>f. sign_bitcoin_htlc_spend_template_with_settlement_signer C P B lk destination f branch preimage context signer)"
  shows "(\<forall>raw. sign_bitcoin_htlc_spend_at_fee_rate_template_with_settlement_signer C P B lk destination branch preimage context
        rate limit signer = Inr raw \<longrightarrow>
      (\<exists>f t. sign f = Inr raw \<and> mp_deserialize_transaction P raw = Some t \<and> rate * bk_vsize B t \<le> f \<and> f \<le> limit)) \<and>
    (\<forall>low. signs_within sign P B limit low (low + 6) \<and> rate * (low + 6) \<le> limit \<longrightarrow>
      is_ok (sign_bitcoin_htlc_spend_at_fee_rate_template_with_settlement_signer C P B lk destination branch preimage context
        rate limit signer))"
proof -
  have u: "sign_bitcoin_htlc_spend_at_fee_rate_template_with_settlement_signer C P B lk destination branch preimage context
      rate limit signer = refine_fee 8 sign P B rate limit 1"
    using assms by (simp add: sign_bitcoin_htlc_spend_at_fee_rate_template_with_settlement_signer_def)
  have "is_ok (refine_fee 8 sign P B rate limit 1)" if s: "signs_within sign P B limit low (low + 6)" "rate * (low + 6) \<le> limit" for low
  proof (rule refine_fee_settles [OF s assms(3), of _ low])
    have "low + 6 \<le> rate * (low + 6)" using assms(1) by (cases rate) auto
    also note s(2)
    also note assms(3)
    finally show "low + 6 < 2 ^ 64" .
  qed (use assms in auto)
  moreover have "\<exists>f t. sign f = Inr raw \<and> mp_deserialize_transaction P raw = Some t \<and> rate * bk_vsize B t \<le> f \<and> f \<le> limit"
    if "refine_fee 8 sign P B rate limit 1 = Inr raw" for raw
    using refine_fee_Ok [OF that] assms(2) by auto
  ultimately show ?thesis unfolding u by blast
qed

section \<open>A lock and its redeem\<close>

definition sample_htlc :: bitcoin_htlc where
  "sample_htlc = \<lparr>bh_hashlock = replicate 32 32, bh_receiver_public_key = [2], bh_refund_public_key = [3],
     bh_refund_locktime = 600000000, bh_witness_script = [99], bh_script_pubkey = [0, 99]\<rparr>"

definition sample_lock :: verified_bitcoin_lock where
  "sample_lock = \<lparr>bl_funding_txid = [8], bl_output_index = 0, bl_value_sats = 100000, bl_confirmation_count = 1,
     bl_htlc = sample_htlc\<rparr>"

definition sample_redeem :: "u64 \<Rightarrow> bitcoin_transaction" where
  "sample_redeem n = template demo_protocol sample_lock [77] (100000 - n) Redeem
     (template_witness sample_lock Redeem (Some (replicate 32 9)) [0, 6, 1])"

definition sample_protocol :: protocol where
  "sample_protocol = demo_protocol\<lparr>mp_deserialize_transaction :=
     (\<lambda>b. if length b = 8 then Some (sample_redeem (be_value b 0)) else None)\<rparr>"

definition sample_lib :: bitcoin_lib where
  "sample_lib = \<lparr>
     bk_serialize = (\<lambda>t. let n = to_value (tx_output t ! 0) in if n < 2 ^ 64 \<and> t = sample_redeem n then be_bytes 8 n else []),
     bk_wtxid = (\<lambda>t. [5]), bk_vsize = (\<lambda>t. 120), bk_sighash_to_u32 = (\<lambda>x. case x of SighashAll \<Rightarrow> 1 | SighashOther n \<Rightarrow> n),
     bk_sighash_from_standard = (\<lambda>n. if n = 1 then Some SighashAll else None),
     bk_p2wsh_signature_hash = (\<lambda>t i script v ty. Some [4]), bk_from_compact = Some, bk_normalize_s = (\<lambda>x. x),
     bk_serialize_der = (\<lambda>x. 0 # x), bk_from_der = (\<lambda>b. case b of [] \<Rightarrow> None | _ # x \<Rightarrow> Some x),
     bk_verify_ecdsa = (\<lambda>h x key. x = [6] \<and> h = [4])\<rparr>"

definition sample_signer :: settlement_signer where
  "sample_signer = \<lparr>sg_compressed_public_key = [2], sg_sign_digest = (\<lambda>d. Some [6])\<rparr>"



lemma sample_htlc_valid: "bitcoin_htlc_validate sample_protocol sample_htlc = Inr ()"
  by (simp add: bitcoin_htlc_validate_def bitcoin_htlc_new_def sample_protocol_def demo_protocol_def sample_htlc_def all_zero_def
      MAX_HTLC_SCRIPT_BYTES_def Let_def list_all_iff)

lemma sample_signs:
  assumes "0 < fee" "fee \<le> 99670"
  shows "sign_bitcoin_htlc_spend_template_with_settlement_signer demo_crypto sample_protocol sample_lib sample_lock [77] fee Redeem
     (Some (replicate 32 9)) None sample_signer = Inr (be_bytes 8 (100000 - fee))"
proof -
  let ?w = "template_witness sample_lock Redeem (Some (replicate 32 9))"
  have "spend_allowed demo_crypto sample_protocol sample_lock fee Redeem (Some (replicate 32 9)) None"
    using assms sample_htlc_valid
    by (simp add: spend_allowed_def sample_lock_def MIN_HTLC_DUST_SATS_def sample_htlc_def demo_crypto_def is_ok_iff)
  then have p: "prepare_htlc_spend_template demo_crypto sample_protocol sample_lock [77] fee Redeem (Some (replicate 32 9)) None =
      Inr (template sample_protocol sample_lock [77] fee Redeem (?w []))" by (simp add: prepare_template_iff)
  have w: "(?w [])[0 := [0, 6, 1]] = ?w [0, 6, 1]" "length (?w []) = 4" "?w [] ! 0 = []" by (simp_all add: template_witness_def)
  have r: "template sample_protocol sample_lock [77] fee Redeem (?w [0, 6, 1]) = sample_redeem (100000 - fee)"
    "to_value (tx_output (sample_redeem (100000 - fee)) ! 0) = 100000 - fee"
    using assms by (simp_all add: template_def sample_redeem_def sample_lock_def)
  have "100000 - fee < 2 ^ 64" by (rule le_less_trans [of _ 100000]) simp_all
  then have l: "bk_serialize sample_lib (sample_redeem (100000 - fee)) = be_bytes 8 (100000 - fee)"
    using r(2) by (simp add: sample_lib_def Let_def)
  have k: "mp_public_key_from_slice sample_protocol [2] = Some [2]" by (simp add: sample_protocol_def demo_protocol_def)
  have x: "bk_from_compact sample_lib [6] = Some [6]" "bk_normalize_s sample_lib [6] = [6]" "bk_verify_ecdsa sample_lib [4] [6] k"
    "bk_sighash_to_u32 sample_lib SighashAll = 1" "bk_serialize_der sample_lib [6] = [0, 6]" for k
    by (simp_all add: sample_lib_def)
  have i: "ti_witness (hd (tx_input (template P lk d n branch u))) = u" for P lk d n branch u by (simp add: template_def)
  have f: "finalize_signed_htlc_spend sample_lib (template sample_protocol sample_lock [77] fee Redeem (?w [])) Redeem [4] [6] [2] =
      Inr (be_bytes 8 (100000 - fee))"
    by (simp add: finalize_signed_htlc_spend_def template_rewitness Let_def r l w x i MAX_BITCOIN_TRANSACTION_BYTES_def)
  have h: "bk_p2wsh_signature_hash sample_lib t i x v y = Some [4]" for t i x v y by (simp add: sample_lib_def)
  show ?thesis using sample_htlc_valid
    by (simp add: sign_bitcoin_htlc_spend_template_with_settlement_signer_def sample_signer_def p k f h)
       (simp add: sample_lock_def sample_htlc_def)
qed


theorem fee_refinement_settles_witness:
  "is_ok (sign_bitcoin_htlc_spend_at_fee_rate_template_with_settlement_signer demo_crypto sample_protocol sample_lib sample_lock [77]
     Redeem (Some (replicate 32 9)) None 2 300 sample_signer)"
proof -
  let ?sign = "\<lambda>f. sign_bitcoin_htlc_spend_template_with_settlement_signer demo_crypto sample_protocol sample_lib sample_lock [77] f
     Redeem (Some (replicate 32 9)) None sample_signer"
  have "signs_within ?sign sample_protocol sample_lib 300 120 (120 + 6)"
    unfolding signs_within_def
  proof (intro allI impI)
    fix f :: u64
    assume "0 < f \<and> f \<le> 300"
    then have "?sign f = Inr (be_bytes 8 (100000 - f))" by (intro sample_signs) auto
    then show "\<exists>raw t. ?sign f = Inr raw \<and> mp_deserialize_transaction sample_protocol raw = Some t \<and>
        120 \<le> bk_vsize sample_lib t \<and> bk_vsize sample_lib t \<le> 120 + 6"
      by (simp add: sample_protocol_def sample_lib_def)
  qed
  with fee_refinement_settles [of 2 300 ?sign] show ?thesis by fastforce
qed

end
