(* ===== verification/Watch_Properties.thy ===== *)
theory Watch_Properties
  imports Watch_Laws Spend_Properties
begin

text \<open>
  Properties of the durable watch of a Bitcoin contract (hns-wallet-bitcoin-kyoto/src/swap_watch.rs).
\<close>

lemma decode_watch_Ok:
  assumes "decode_watch C P B L network b e = Inr w"
  shows "se_id e = watch_id b (watch_sid w)" "se_revision e = bw_revision w" "se_value e = bw_persisted w"
  using assms by (auto simp: decode_watch_def split: if_splits)

lemma loaded_watches:
  assumes inv: "store_inv C key s" and b: "account_binding C L network account = Inr b"
    and ws: "load_bitcoin_htlc_watches C P B L J s network account = Inr ws"
  shows "distinct (map watch_sid ws)" "w \<in> set ws \<Longrightarrow> holds_watch C J s b (watch_sid w) (bw_revision w) (bw_persisted w)"
    "load_bitcoin_htlc_watch C P B L J s network account sid = Inr (Some w) \<Longrightarrow> w \<in> set ws \<and> watch_sid w = sid"
proof -
  from ws b obtain es where es: "list_entities_by_id_prefix C J s EK_BitcoinSwapWatch (watch_prefix b) (MAX_BITCOIN_SWAP_WATCHES + 1) = Inr es"
    and c: "map (decode_watch C P B L network b) es = map Inr ws"
    by (auto simp: load_bitcoin_htlc_watches_def map_err_def collect_results_Ok split: if_splits sum.splits)
  note l = prefix_listing_Ok [OF inv es]
  have len: "length es = length ws" using arg_cong [OF c, of length] by simp
  have nth: "decode_watch C P B L network b (es ! k) = Inr (ws ! k)" if "k < length ws" for k
    using arg_cong [OF c, of "\<lambda>xs. xs ! k"] that len by simp
  have dec: "se_id (es ! k) = watch_id b (watch_sid (ws ! k))" "se_revision (es ! k) = bw_revision (ws ! k)"
    "se_value (es ! k) = bw_persisted (ws ! k)" if "k < length ws" for k
    using decode_watch_Ok [OF nth [OF that]] by simp_all
  have "map se_id es = map (watch_id b) (map watch_sid ws)" using len dec(1) by (intro nth_equalityI) simp_all
  then show "distinct (map watch_sid ws)" using l by (metis distinct_map)
  show "holds_watch C J s b (watch_sid w) (bw_revision w) (bw_persisted w)" if w: "w \<in> set ws"
  proof -
    from w obtain k where k: "k < length ws" "ws ! k = w" by (auto simp: in_set_conv_nth)
    have e: "load_entity C J s EK_BitcoinSwapWatch (watch_id b (watch_sid w)) = Inr (Some (es ! k))"
      using l nth_mem [of k es] k len dec(1) [OF k(1)] by metis
    show ?thesis using e load_entity_Some(1,2) [OF inv e] dec(2,3) [OF k(1)] k(2)
      unfolding holds_watch_def by (intro exI [of _ "se_updated_at_unix (es ! k)"]) simp
  qed
  assume ld: "load_bitcoin_htlc_watch C P B L J s network account sid = Inr (Some w)"
  then obtain e where e: "load_entity C J s EK_BitcoinSwapWatch (watch_id b sid) = Inr (Some e)" "decode_watch C P B L network b e = Inr w"
    using b by (auto simp: load_bitcoin_htlc_watch_def map_err_def split: sum.splits option.splits)
  have "watch_id b sid \<in> set (map se_id es)" using l load_entity_Some(3) [OF inv e(1)] by (simp add: watch_id_def)
  then obtain k where k: "k < length es" "se_id (es ! k) = watch_id b sid" by (auto simp: in_set_conv_nth)
  then have "load_entity C J s EK_BitcoinSwapWatch (watch_id b sid) = Inr (Some (es ! k))" using l nth_mem [of k es] by metis
  then have "ws ! k = w" using nth k(1) len e by simp
  then show "w \<in> set ws \<and> watch_sid w = sid" using k len dec(1) [of k] by auto
qed

lemma sbind_reads:
  "sbind (lift_result x) f s = (r, s') \<Longrightarrow> (r \<noteq> Inr () \<and> s' = s) \<or> (\<exists>a. x = Inr a \<and> f a s = (r, s'))"
  "sbind (if c then sfail e else sreturn u) g s = (r, s') \<Longrightarrow> (r \<noteq> Inr () \<and> s' = s) \<or> (\<not> c \<and> g u s = (r, s'))"
  "sbind (\<lambda>s. (q s, s)) h s = (r, s') \<Longrightarrow> (r \<noteq> Inr () \<and> s' = s) \<or> (\<exists>a. q s = Inr a \<and> h a s = (r, s'))"
  by (auto simp: sbind_def lift_result_def sfail_def sreturn_def split: sum.splits if_splits)

definition block_check :: "chain_lib \<Rightarrow> checkpoint_chain \<Rightarrow> matched_bitcoin_block \<Rightarrow> (bitcoin_wallet_error, unit) result" where
  "block_check L chain m = rbind (map_err (\<lambda>_. BW_InvalidSwapBlockEvidence) (validate_matched_block L m)) (\<lambda>_.
     if cp_get chain (mb_height m) \<noteq> Some (cl_block_hash L (mb_block m)) then Err BW_InvalidSwapBlockEvidence else Ok ())"

lemma blocks_checked:
  assumes "collect_results (map (block_check L chain) blocks) = Inr us"
  shows "blocks_on_chain L chain blocks"
proof -
  have "is_ok (block_check L chain m)" if "m \<in> set blocks" for m
  proof -
    have "block_check L chain m \<in> set (map Inr us)" using assms that unfolding collect_results_Ok by (metis image_eqI set_map)
    then show ?thesis by auto
  qed
  then show ?thesis by (fastforce simp: blocks_on_chain_def block_check_def is_ok_iff split: if_splits)
qed

lemma reconcile_all_cases:
  assumes "reconcile_bitcoin_htlc_watches C P B L J network account chain tip blocks now s = (r, s')"
  shows "(r \<noteq> Inr () \<and> s' = s) \<or> (\<exists>b ws. account_binding C L network account = Inr b \<and> blocks_on_chain L chain blocks \<and>
    load_bitcoin_htlc_watches C P B L J s network account = Inr ws \<and>
    reconcile_each C P B L J network b chain tip blocks now ws s = (r, s'))"
  using assms unfolding reconcile_bitcoin_htlc_watches_def block_check_def [symmetric]
  by (elim sbind_reads [THEN disjE] exE conjE) (blast intro: blocks_checked)+

text \<open>C12. Reconciling the watches of an account with the chain never loses a watch or its evidence, whether it succeeds or fails part way:
  every watch that was stored is still stored for the same contract, with any preimage it had learned, and is either
  exactly as before or reconciled. If reconciling succeeds, every watch is reconciled: scanned at the new tip, with
  observations that do not contradict the chain and have as many confirmations as their depth below the tip. A lock
  it hands out at that tip is one the funding check accepts for the watched contract and value at the required number
  of confirmations.\<close>

theorem reconciliation_keeps_watches:
  assumes law: "crypto_law C" "codec_law J" "store_inv C key s"
    and run: "reconcile_bitcoin_htlc_watches C P B L J network account chain tip blocks now s = (r, s')"
    and w: "load_bitcoin_htlc_watch C P B L J s network account sid = Inr (Some w)"
  shows "\<exists>w'. load_bitcoin_htlc_watch C P B L J s' network account sid = Inr (Some w') \<and>
    same_contract (bw_persisted w) (bw_persisted w') \<and>
    (r \<noteq> Inr () \<and> w' = w \<or> watch_current chain tip (bw_persisted w')) \<and>
    (\<forall>lk. verified_lock_at w' tip = Some lk \<longrightarrow> (\<exists>raw. verify_htlc_funding P raw (pw_htlc (bw_persisted w))
       (pw_expected_value_sats (bw_persisted w)) (bl_confirmation_count lk) (pw_minimum_confirmations (bw_persisted w)) = Inr lk))"
proof -
  have b: "\<exists>b. account_binding C L network account = Inr b" and wv: "\<And>b. account_binding C L network account = Inr b \<Longrightarrow>
      validate_persisted_watch C P B L network b (bw_persisted w) = Inr ()"
    using w by (auto simp: load_bitcoin_htlc_watch_def decode_watch_def split: option.splits if_splits)
  from reconcile_all_cases [OF run] show ?thesis
  proof (elim disjE conjE exE)
    assume "r \<noteq> Inr ()" "s' = s"
    then show ?thesis using w b wv watch_lock_verified same_contract_refl by (intro exI [of _ w]) blast
  next
    fix b ws
    assume b: "account_binding C L network account = Inr b" and on: "blocks_on_chain L chain blocks"
      and ws: "load_bitcoin_htlc_watches C P B L J s network account = Inr ws"
      and each: "reconcile_each C P B L J network b chain tip blocks now ws s = (r, s')"
    note ld = loaded_watches [OF law(3) b ws]
    have m: "w \<in> set ws" "watch_sid w = sid" using ld(3) [OF w] by simp_all
    from reconcile_each_Ok [OF law(1,2) on each ld(1)] ld(2) m obtain n v where h: "holds_watch C J s' b sid n v"
      and v: "(\<exists>ch. reconcile_watch C P B L network b chain tip blocks (bw_persisted w) = Inr (v, ch)) \<or>
        r \<noteq> Inr () \<and> n = bw_revision w \<and> v = bw_persisted w" by blast
    have sc: "same_contract (bw_persisted w) v \<and> validate_persisted_watch C P B L network b v = Inr () \<and>
        (watch_current chain tip v \<or> r \<noteq> Inr () \<and> \<lparr>bw_revision = n, bw_persisted = v\<rparr> = w)"
      using v
    proof (elim disjE exE conjE)
      fix ch assume c: "reconcile_watch C P B L network b chain tip blocks (bw_persisted w) = Inr (v, ch)"
      show ?thesis using reconcile_watch_Ok(1-3) [OF c on] by simp
    qed (use wv [OF b] in \<open>simp add: same_contract_refl\<close>)
    have "pw_session_id v = sid" using sc m(2) by (simp add: same_contract_def)
    then have "load_bitcoin_htlc_watch C P B L J s' network account sid = Inr (Some \<lparr>bw_revision = n, bw_persisted = v\<rparr>)"
      using h sc b by (auto simp: load_bitcoin_htlc_watch_def holds_watch_def decode_watch_def map_err_def)
    moreover have "\<exists>raw. verify_htlc_funding P raw (pw_htlc (bw_persisted w)) (pw_expected_value_sats (bw_persisted w))
        (bl_confirmation_count lk) (pw_minimum_confirmations (bw_persisted w)) = Inr lk"
      if "verified_lock_at \<lparr>bw_revision = n, bw_persisted = v\<rparr> tip = Some lk" for lk
      using watch_lock_verified [OF _ that] sc by (simp add: same_contract_def) metis
    ultimately show ?thesis using sc by (intro exI [of _ "\<lparr>bw_revision = n, bw_persisted = v\<rparr>"]) auto
  qed
qed

section \<open>A watch and its reconciliation\<close>

definition sample_chain :: chain_lib where
  "sample_chain = \<lparr>cl_block_hash = (\<lambda>b. replicate 32 1), cl_check_merkle_root = (\<lambda>b. True), cl_check_witness_commitment = (\<lambda>b. True),
     cl_network_magic = (\<lambda>n. [0]), cl_genesis_hash = (\<lambda>n. replicate 32 2)\<rparr>"

definition sample_binding :: bytes where
  "sample_binding = projr (account_binding demo_crypto sample_chain 0 [1])"

definition sample_request :: bitcoin_htlc_watch_request where
  "sample_request = \<lparr>rw_session_id = replicate 32 5, rw_htlc = sample_htlc, rw_expected_value_sats = 100000, rw_minimum_confirmations = 1\<rparr>"

definition sample_tip :: "u32 \<Rightarrow> bitcoin_checkpoint" where
  "sample_tip h = \<lparr>ck_height = h, ck_block_hash = replicate 32 1\<rparr>"

definition sample_watch :: "u32 \<Rightarrow> persisted_bitcoin_htlc_watch" where
  "sample_watch h = (new_watch 0 sample_binding sample_request (projr (terms_commitment demo_crypto sample_protocol sample_request))
     (sample_tip 1))\<lparr>pw_scanned_checkpoint := sample_tip h\<rparr>"

definition sample_watch_codec :: "persisted_bitcoin_htlc_watch codec" where
  "sample_watch_codec = \<lparr>
     js_encode = (\<lambda>x. if x = sample_watch 2 then Some [1] else if x = sample_watch 3 then Some [2] else None),
     js_decode = (\<lambda>b. if b = [1] then Some (sample_watch 2) else if b = [2] then Some (sample_watch 3) else None)\<rparr>"

definition sample_watch_store :: wallet_store where
  "sample_watch_store = demo_store\<lparr>ws_entities := [((EK_BitcoinSwapWatch, watch_id sample_binding (replicate 32 5)),
     \<lparr>er_revision = 1, er_value = replicate 24 7 @ [1] @ replicate 16 0, er_updated = 5\<rparr>)]\<rparr>"

lemma sample_watch_codec_law: "codec_law sample_watch_codec"
  by (auto simp: codec_law_def sample_watch_codec_def)

lemma sample_binding: "account_binding demo_crypto sample_chain 0 [1] = Inr sample_binding" "length sample_binding = 32"
  by (simp_all add: sample_binding_def account_binding_def demo_crypto_def MAX_RECORD_ID_BYTES_def)

lemma sample_terms: "terms_commitment demo_crypto sample_protocol sample_request =
    Inr (projr (terms_commitment demo_crypto sample_protocol sample_request))"
  using sample_htlc_valid
  by (simp add: terms_commitment_def watch_request_validate_def sample_request_def all_zero_def MIN_HTLC_DUST_SATS_def list_all_iff)

lemma sample_watch_fields: "pw_session_id (sample_watch h) = replicate 32 5" "pw_funding (sample_watch h) = None"
  "pw_spend (sample_watch h) = None" "pw_scanned_checkpoint (sample_watch h) = sample_tip h"
  "(sample_watch h)\<lparr>pw_scanned_checkpoint := sample_tip n\<rparr> = sample_watch n" "sample_watch h = sample_watch n \<longleftrightarrow> h = n"
  by (simp_all add: sample_watch_def new_watch_def sample_request_def sample_tip_def)

lemma sample_watch_valid: "1 \<le> h \<Longrightarrow> validate_persisted_watch demo_crypto sample_protocol sample_lib sample_chain 0 sample_binding (sample_watch h) = Inr ()"
  using sample_terms
  by (simp add: validate_persisted_watch_def sample_watch_def new_watch_def sample_tip_def checkpoint_validate_def sample_request_def)

lemma sample_watch_loaded: "load_bitcoin_htlc_watches demo_crypto sample_protocol sample_lib sample_chain sample_watch_codec sample_watch_store 0 [1] =
    Inr [\<lparr>bw_revision = 1, bw_persisted = sample_watch 2\<rparr>]"
    "load_bitcoin_htlc_watch demo_crypto sample_protocol sample_lib sample_chain sample_watch_codec sample_watch_store 0 [1] (replicate 32 5) =
    Inr (Some \<lparr>bw_revision = 1, bw_persisted = sample_watch 2\<rparr>)"
proof -
  let ?i = "watch_id sample_binding (replicate 32 5)"
  let ?row = "\<lparr>er_revision = 1, er_value = replicate 24 7 @ [1] @ replicate 16 0, er_updated = 5\<rparr>"
  have len: "length ?i = 86" "length (watch_prefix sample_binding) = 54"
    by (simp_all add: watch_id_def watch_prefix_def sample_binding(2) BITCOIN_SWAP_WATCH_PREFIX_def byte_str_def)
  then have ne: "?i \<noteq> []" "watch_prefix sample_binding \<noteq> []" by auto
  have o: "open_entity demo_crypto sample_watch_codec key sample_watch_store EK_BitcoinSwapWatch ?i ?row =
      Inr \<lparr>se_kind = EK_BitcoinSwapWatch, se_id = ?i, se_revision = 1, se_value = sample_watch 2, se_updated_at_unix = 5\<rparr>" for key
    using len ne by (simp add: open_entity_def revisioned_aad_id_def validate_id_def store_limits entity_label_def demo_decrypt_one
        sample_watch_codec_def)
  have v: "validate_id ?i = Inr ()" "validate_id (watch_prefix sample_binding) = Inr ()" using len ne by (simp_all add: store_limits)
  have k: "ws_key sample_watch_store = Some (replicate 32 4)" by (simp add: sample_watch_store_def demo_store_def)
  have rows: "ws_entities sample_watch_store = [((EK_BitcoinSwapWatch, ?i), ?row)]" by (simp add: sample_watch_store_def)
  have pre: "take (length (watch_prefix sample_binding)) ?i = watch_prefix sample_binding" by (simp add: watch_id_def)
  have d: "decode_watch demo_crypto sample_protocol sample_lib sample_chain 0 sample_binding
      \<lparr>se_kind = EK_BitcoinSwapWatch, se_id = ?i, se_revision = 1, se_value = sample_watch 2, se_updated_at_unix = 5\<rparr> =
      Inr \<lparr>bw_revision = 1, bw_persisted = sample_watch 2\<rparr>"
    using sample_watch_valid [of 2] by (simp add: decode_watch_def sample_watch_fields)
  show "load_bitcoin_htlc_watches demo_crypto sample_protocol sample_lib sample_chain sample_watch_codec sample_watch_store 0 [1] =
    Inr [\<lparr>bw_revision = 1, bw_persisted = sample_watch 2\<rparr>]"
    using o v d by (simp add: load_bitcoin_htlc_watches_def sample_binding list_entities_by_id_prefix_def rows pre k ok_or_def open_listed_def
        map_err_def MAX_BITCOIN_SWAP_WATCHES_def MAX_ENTITY_LIST_RESULTS_def del: validate_id_Ok)
  show "load_bitcoin_htlc_watch demo_crypto sample_protocol sample_lib sample_chain sample_watch_codec sample_watch_store 0 [1] (replicate 32 5) =
    Inr (Some \<lparr>bw_revision = 1, bw_persisted = sample_watch 2\<rparr>)"
    using o v d by (simp add: load_bitcoin_htlc_watch_def sample_binding load_entity_def rows k ok_or_def map_err_def del: validate_id_Ok)
qed

lemma sample_watch_store_sound: "store_inv demo_crypto (replicate 32 4) sample_watch_store"
proof -
  have "length (watch_id sample_binding (replicate 32 5)) = 86"
    by (simp add: watch_id_def watch_prefix_def sample_binding(2) BITCOIN_SWAP_WATCH_PREFIX_def byte_str_def)
  moreover from this have "watch_id sample_binding (replicate 32 5) \<noteq> []" by auto
  ultimately show ?thesis
    by (auto simp: store_inv_def sample_watch_store_def demo_store_def tbl_wf_def entity_opens_def is_ok_def entity_label_def
        store_limits revisioned_aad_id_def validate_id_def demo_decrypt_one split: if_splits)
qed

lemma sample_watch_reconciled:
  "reconcile_watch demo_crypto sample_protocol sample_lib sample_chain 0 sample_binding chain (sample_tip 3) [] (sample_watch 2) =
     Inr (sample_watch 3, True)"
proof -
  have d: "drop_conflicting chain (sample_watch 2) = sample_watch 2" by (simp add: drop_conflicting_def sample_watch_fields)
  have f: "find_funding sample_protocol sample_lib sample_chain [] (sample_tip 3) (sample_watch 2) = Inr (sample_watch 2)"
    "find_spend demo_crypto sample_protocol sample_lib sample_chain [] (sample_tip 3) (sample_watch 2) = Inr (sample_watch 2)"
    by (simp_all add: find_funding_def find_spend_def funding_candidates_def sample_watch_fields)
  have u: "(sample_watch 2)\<lparr>pw_funding := None, pw_spend := None, pw_scanned_checkpoint := sample_tip 3\<rparr> = sample_watch 3"
    by (simp add: sample_watch_def new_watch_def)
  show ?thesis
    using sample_watch_valid [of 3] by (simp add: reconcile_watch_def Let_def d f sample_watch_fields refresh_confirmations_def u)
qed

definition sample_checkpoints :: checkpoint_chain where
  "sample_checkpoints = \<lparr>cp_height = 3, cp_hash = replicate 32 1, cp_get = (\<lambda>h. if h = 3 then Some (replicate 32 1) else None)\<rparr>"

lemma sample_watch_saved: "\<exists>x. save_entity demo_crypto sample_watch_codec sample_watch_store EK_BitcoinSwapWatch
    (watch_id sample_binding (replicate 32 5)) 1 (sample_watch 3) 9 = Inr x"
proof -
  let ?i = "watch_id sample_binding (replicate 32 5)"
  have len: "length ?i = 86" by (simp add: watch_id_def watch_prefix_def sample_binding(2) BITCOIN_SWAP_WATCH_PREFIX_def byte_str_def)
  then have "?i \<noteq> []" by auto
  moreover have "js_encode sample_watch_codec (sample_watch 3) = Some [2]" by (simp add: sample_watch_codec_def sample_watch_fields)
  ultimately show ?thesis using len
    by (simp add: sample_watch_store_def entity_eval)
qed

theorem reconciliation_keeps_watches_witness:
  "\<exists>s' w'. reconcile_bitcoin_htlc_watches demo_crypto sample_protocol sample_lib sample_chain sample_watch_codec 0 [1] sample_checkpoints
      (sample_tip 3) [] 9 sample_watch_store = (Inr (), s') \<and>
    load_bitcoin_htlc_watch demo_crypto sample_protocol sample_lib sample_chain sample_watch_codec s' 0 [1] (replicate 32 5) = Inr (Some w') \<and>
    watch_current sample_checkpoints (sample_tip 3) (bw_persisted w')"
proof -
  obtain n s' where sv: "save_entity demo_crypto sample_watch_codec sample_watch_store EK_BitcoinSwapWatch
    (watch_id sample_binding (replicate 32 5)) 1 (sample_watch 3) 9 = Inr (n, s')" using sample_watch_saved by auto
  have "reconcile_bitcoin_htlc_watches demo_crypto sample_protocol sample_lib sample_chain sample_watch_codec 0 [1] sample_checkpoints
      (sample_tip 3) [] 9 sample_watch_store = (Inr (), s')"
    by (simp add: reconcile_bitcoin_htlc_watches_def sbind_def lift_result_def sreturn_def sample_binding sample_watch_loaded sample_watch_reconciled
        sample_watch_fields checkpoint_validate_def) (simp add: sample_tip_def sample_checkpoints_def sreturn_def sv [simplified])
  from this reconciliation_keeps_watches [OF demo_crypto_law sample_watch_codec_law sample_watch_store_sound this sample_watch_loaded(2)]
  show ?thesis by blast
qed

end
