(* ===== verification/Store_Passphrase.thy ===== *)
theory Store_Passphrase
  imports Provider_Store
begin

text \<open>
  The key of the encrypted store (hns-wallet-store/src/lib.rs): its derivation from a passphrase, the
  key check written at creation, unlocking with the encryption of rows an older schema left in clear,
  and the change of passphrase that seals every row again under a new key. Argon2 is the parameter
  \<open>kdf\<close>, the bytes drawn from the system and the outcomes of the write-ahead-log truncations are
  arguments. Tables are visited in the order of their rows. Creation is modelled after the file has been
  created and migrated, which are operations of the file system.
\<close>

section \<open>Key derivation\<close>

record kdf_config =
  kc_memory_kib :: u32
  kc_iterations :: u32
  kc_lanes :: u32

record kdf =
  argon2_params :: "kdf_config \<Rightarrow> bool"
  argon2id :: "kdf_config \<Rightarrow> bytes \<Rightarrow> bytes \<Rightarrow> bytes option"

definition MAX_PASSPHRASE_BYTES :: nat where "MAX_PASSPHRASE_BYTES = 1024"
definition SENTINEL :: bytes where "SENTINEL = byte_str ''hns-wallet-store-key-check-v1''"
definition CHECKPOINT_PENDING_KEY :: string where "CHECKPOINT_PENDING_KEY = ''plaintext_checkpoint_pending''"

definition kdf_config_validate :: "kdf \<Rightarrow> kdf_config \<Rightarrow> (store_error, unit) result" where
  "kdf_config_validate K config =
     (if kc_memory_kib config < 19456 \<or> kc_iterations config < 2 \<or> kc_lanes config = 0 \<or> 4 < kc_lanes config
      then Err SE_UnsafeKdfParameters
      else if \<not> argon2_params K config then Err SE_UnsafeKdfParameters else Ok ())"

definition validate_passphrase :: "bytes \<Rightarrow> (store_error, unit) result" where
  "validate_passphrase passphrase =
     (if passphrase = [] \<or> MAX_PASSPHRASE_BYTES < length passphrase then Err SE_InvalidPassphrase else Ok ())"

definition derive_key :: "kdf \<Rightarrow> bytes \<Rightarrow> bytes \<Rightarrow> kdf_config \<Rightarrow> (store_error, bytes) result" where
  "derive_key K passphrase salt config =
     rbind (validate_passphrase passphrase) (\<lambda>_.
     rbind (kdf_config_validate K config) (\<lambda>_.
       ok_or (argon2id K config passphrase salt) SE_KeyDerivation))"

section \<open>The wallet file\<close>

record legacy_tables =
  lg_populated :: "string list"
  lg_permissions :: "(bytes \<times> u64 \<times> bytes \<times> u64) list"
  lg_approvals :: bool
  lg_replay :: "(bytes \<times> u64 \<times> u64) list"

record wallet_file =
  wf_store :: wallet_store
  wf_meta :: "(string, bytes) tbl"
  wf_salt :: bytes
  wf_kdf :: kdf_config
  wf_legacy :: legacy_tables

definition required_meta :: "(string, bytes) tbl \<Rightarrow> string \<Rightarrow> (store_error, bytes) result" where
  "required_meta t key = ok_or (tbl_get t key) SE_NotInitialized"

definition set_meta :: "(string, bytes) tbl \<Rightarrow> string \<Rightarrow> bytes \<Rightarrow> (store_error, (string, bytes) tbl) result" where
  "set_meta t key v = (if tbl_get t key \<noteq> None then Err SE_Sqlite else Ok (tbl_put key v t))"

definition update_meta :: "(string, bytes) tbl \<Rightarrow> string \<Rightarrow> bytes \<Rightarrow> (store_error, (string, bytes) tbl) result" where
  "update_meta t key v = (if tbl_get t key = None then Err SE_CorruptMetadata else Ok (tbl_put key v t))"

definition check_key :: "crypto \<Rightarrow> wallet_file \<Rightarrow> bytes \<Rightarrow> (store_error, bytes) result" where
  "check_key C f key =
     rbind (required_meta (wf_meta f) ''key_check'') (\<lambda>encrypted.
       map_err (\<lambda>_. SE_InvalidPassphrase)
         (decrypt_record C key (ws_database_id (wf_store f)) (secret_kind_label MetadataKey)
            (byte_str ''key_check'') encrypted))"

definition seal_sentinel :: "crypto \<Rightarrow> bytes \<Rightarrow> bytes \<Rightarrow> (store_error, bytes) result" where
  "seal_sentinel C key database_id =
     encrypt_record C key database_id (secret_kind_label MetadataKey) (byte_str ''key_check'') SENTINEL"

definition LEGACY_ENTITY_TABLES :: "string list" where
  "LEGACY_ENTITY_TABLES = [''wallet_accounts'', ''derived_addresses'', ''hns_utxos'', ''hns_transactions'',
     ''known_names'', ''name_owner_outpoints'', ''name_transfer_state'', ''shakedex_state'',
     ''shakescape_board_cache'', ''bitcoin_headers'', ''bitcoin_filter_headers'', ''bitcoin_peers'',
     ''bitcoin_scan_state'', ''bitcoin_utxos'', ''bitcoin_transactions'', ''ethereum_accounts'',
     ''ethereum_transactions'', ''market_intents'', ''fill_grants'', ''price_rounds'', ''swap_sessions'',
     ''htlc_secrets'', ''refund_transactions'']"

definition reject_unmigrated_legacy_entities :: "legacy_tables \<Rightarrow> (store_error, unit) result" where
  "reject_unmigrated_legacy_entities l =
     (case find (\<lambda>t. t \<in> set (lg_populated l)) LEGACY_ENTITY_TABLES of
        Some t \<Rightarrow> Err (SE_LegacyEntityMigrationRequired t)
      | None \<Rightarrow> Ok ())"

section \<open>Creation\<close>

definition create_wallet ::
  "crypto \<Rightarrow> kdf \<Rightarrow> kdf_config codec \<Rightarrow> (string, bytes) tbl \<Rightarrow> bytes \<Rightarrow> kdf_config \<Rightarrow> bytes option \<Rightarrow>
   bytes option \<Rightarrow> (store_error, wallet_file) result" where
  "create_wallet C K J migrated passphrase config random_id random_salt =
     rbind (validate_passphrase passphrase) (\<lambda>_.
     rbind (kdf_config_validate K config) (\<lambda>_.
     if tbl_get migrated ''database_id'' \<noteq> None then Err SE_AlreadyInitialized
     else rbind (ok_or random_id SE_Randomness) (\<lambda>database_id.
       rbind (ok_or random_salt SE_Randomness) (\<lambda>salt.
       rbind (derive_key K passphrase salt config) (\<lambda>key.
       rbind (seal_sentinel C key database_id) (\<lambda>sentinel.
       rbind (ok_or (js_encode J config) SE_Json) (\<lambda>kdf_json.
       rbind (set_meta migrated ''database_id'' database_id) (\<lambda>m1.
       rbind (set_meta m1 ''kdf_salt'' salt) (\<lambda>m2.
       rbind (set_meta m2 ''kdf_config'' kdf_json) (\<lambda>m3.
       rbind (set_meta m3 ''key_check'' sentinel) (\<lambda>m4.
         Ok \<lparr>wf_store = \<lparr>ws_database_id = database_id, ws_key = Some key, ws_workflows = [], ws_entities = [],
               ws_secrets = [], ws_permissions = [], ws_approvals = [], ws_replay = []\<rparr>,
             wf_meta = m4, wf_salt = salt, wf_kdf = config,
             wf_legacy = \<lparr>lg_populated = [], lg_permissions = [], lg_approvals = False, lg_replay = []\<rparr>\<rparr>)))))))))))"

section \<open>Encryption of rows left in clear\<close>

fun encrypt_legacy_workflows ::
  "crypto \<Rightarrow> bytes \<Rightarrow> bytes \<Rightarrow> (workflow_id, workflow_row) tbl \<Rightarrow> (store_error, (workflow_id, workflow_row) tbl) result" where
  "encrypt_legacy_workflows C key db [] = Ok []"
| "encrypt_legacy_workflows C key db ((i, row) # rows) =
     (if wr_version row \<noteq> 0 then rbind (encrypt_legacy_workflows C key db rows) (\<lambda>rest. Ok ((i, row) # rest))
      else rbind (validate_id i) (\<lambda>_.
        rbind (parse_workflow_kind (wr_kind row)) (\<lambda>kind.
        rbind (revisioned_aad_id i (wr_revision row) (wr_updated row) (Some (wr_broadcast row))) (\<lambda>aad_id.
        rbind (encrypt_record C key db (workflow_label kind) aad_id (wr_state row)) (\<lambda>encrypted.
        rbind (encrypt_legacy_workflows C key db rows) (\<lambda>rest.
          Ok ((i, row\<lparr>wr_state := encrypted, wr_version := 1\<rparr>) # rest)))))))"

fun encrypt_legacy_permissions ::
  "crypto \<Rightarrow> bytes \<Rightarrow> bytes \<Rightarrow> (bytes \<times> u64 \<times> bytes \<times> u64) list \<Rightarrow> (bytes, permission_row) tbl \<Rightarrow>
   (store_error, (bytes, permission_row) tbl) result" where
  "encrypt_legacy_permissions C key db [] t = Ok t"
| "encrypt_legacy_permissions C key db ((origin, generation, json, updated_at_unix) # rows) t =
     rbind (validate_origin origin) (\<lambda>_.
     if generation = 0 then Err SE_InvalidGeneration
     else let token = origin_lookup_token C key db origin in
       rbind (encode_origin_payload origin json) (\<lambda>clear.
       rbind (encrypt_record C key db ''provider_permission''
           (permission_record_id token generation False updated_at_unix) clear) (\<lambda>encrypted.
       if tbl_get t token \<noteq> None then Err SE_Sqlite
       else encrypt_legacy_permissions C key db rows
         (tbl_put token \<lparr>pr_generation = generation, pr_record = encrypted, pr_updated = updated_at_unix,
            pr_revoked = False\<rparr> t))))"

fun legacy_replay_rows ::
  "(bytes \<times> u64 \<times> u64) list \<Rightarrow> bytes option \<Rightarrow> nat \<Rightarrow> nat \<Rightarrow> (store_error, unit) result" where
  "legacy_replay_rows [] previous_origin origin_count rows_for_origin = Ok ()"
| "legacy_replay_rows ((origin, nonce, _) # rows) previous_origin origin_count rows_for_origin =
     rbind (validate_origin origin) (\<lambda>_.
     if nonce = 0 then Err SE_InvalidReplayWindow
     else let fresh = (previous_origin \<noteq> Some origin);
              origins = (if fresh then origin_count + 1 else origin_count);
              count = (if fresh then 1 else rows_for_origin + 1)
          in if fresh \<and> MAX_REPLAY_ORIGINS < origins then Err SE_ReplayOriginCapacity
             else if MAX_REPLAY_ROWS_PER_ORIGIN < count then Err SE_ReplayCapacity
             else legacy_replay_rows rows (Some origin) origins count)"

definition validate_legacy_replay_capacity :: "(bytes \<times> u64 \<times> u64) list \<Rightarrow> (store_error, unit) result" where
  "validate_legacy_replay_capacity rows =
     (if MAX_REPLAY_ROWS < length rows then Err SE_ReplayGlobalCapacity else legacy_replay_rows rows None 0 0)"

fun encrypt_legacy_replay ::
  "crypto \<Rightarrow> bytes \<Rightarrow> bytes \<Rightarrow> (bytes \<times> u64 \<times> u64) list \<Rightarrow> (bytes \<times> u64, replay_row) tbl \<Rightarrow>
   (store_error, (bytes \<times> u64, replay_row) tbl) result" where
  "encrypt_legacy_replay C key db [] t = Ok t"
| "encrypt_legacy_replay C key db ((origin, nonce, expires_at_unix) # rows) t =
     rbind (validate_origin origin) (\<lambda>_.
       let token = origin_lookup_token C key db origin in
       rbind (encrypt_record C key db ''replay_origin'' (replay_record_id token nonce expires_at_unix) origin)
         (\<lambda>encrypted_origin.
           if tbl_get t (token, nonce) \<noteq> None then Err SE_Sqlite
           else encrypt_legacy_replay C key db rows
             (tbl_put (token, nonce) \<lparr>rr_origin = encrypted_origin, rr_expires = expires_at_unix\<rparr> t)))"

definition encrypt_legacy_rows :: "crypto \<Rightarrow> wallet_file \<Rightarrow> (store_error, wallet_file) result" where
  "encrypt_legacy_rows C f =
     (let s = wf_store f; db = ws_database_id s; l = wf_legacy f in
      rbind (store_key s) (\<lambda>key.
      rbind (reject_unmigrated_legacy_entities l) (\<lambda>_.
      rbind (encrypt_legacy_workflows C key db (ws_workflows s)) (\<lambda>workflows.
      if MAX_PROVIDER_PERMISSIONS < length (lg_permissions l) then Err SE_ProviderCapacity
      else rbind (encrypt_legacy_permissions C key db (lg_permissions l) (ws_permissions s)) (\<lambda>permissions.
        rbind (validate_legacy_replay_capacity (lg_replay l)) (\<lambda>_.
        rbind (encrypt_legacy_replay C key db (lg_replay l) (ws_replay s)) (\<lambda>replay.
        rbind (if list_ex (\<lambda>(_, row). wr_version row = 0) (ws_workflows s) \<or> lg_permissions l \<noteq> [] \<or>
                  lg_approvals l \<or> lg_replay l \<noteq> []
               then set_meta (wf_meta f) CHECKPOINT_PENDING_KEY (byte_str ''1'') else Ok (wf_meta f)) (\<lambda>meta.
          Ok (f\<lparr>wf_store := s\<lparr>ws_workflows := workflows, ws_permissions := permissions, ws_replay := replay\<rparr>,
               wf_meta := meta,
               wf_legacy := l\<lparr>lg_permissions := [], lg_approvals := False, lg_replay := []\<rparr>\<rparr>)))))))))"

definition complete_plaintext_checkpoint ::
  "wallet_file \<Rightarrow> (store_error, unit) result \<Rightarrow> (store_error, unit) result \<Rightarrow> (store_error, unit) result \<times> wallet_file" where
  "complete_plaintext_checkpoint f truncated truncated_again =
     (case truncated of
        Inl e \<Rightarrow> (Inl e, f)
      | Inr _ \<Rightarrow>
          if tbl_get (wf_meta f) CHECKPOINT_PENDING_KEY = None then (Inr (), f)
          else (truncated_again, f\<lparr>wf_meta := tbl_del CHECKPOINT_PENDING_KEY (wf_meta f)\<rparr>))"

section \<open>Unlocking\<close>

definition set_key :: "wallet_file \<Rightarrow> bytes option \<Rightarrow> wallet_file" where
  "set_key f key = f\<lparr>wf_store := (wf_store f)\<lparr>ws_key := key\<rparr>\<rparr>"

definition unlock ::
  "crypto \<Rightarrow> kdf \<Rightarrow> wallet_file \<Rightarrow> bytes \<Rightarrow> (store_error, unit) result \<Rightarrow> (store_error, unit) result \<Rightarrow>
   (store_error, unit) result \<times> wallet_file" where
  "unlock C K f passphrase truncated truncated_again =
     (case rbind (validate_passphrase passphrase) (\<lambda>_.
           rbind (derive_key K passphrase (wf_salt f) (wf_kdf f)) (\<lambda>key.
           rbind (check_key C f key) (\<lambda>clear.
             if clear \<noteq> SENTINEL then Err SE_InvalidPassphrase else Ok key))) of
        Inl e \<Rightarrow> (Inl e, f)
      | Inr key \<Rightarrow>
          (case encrypt_legacy_rows C (set_key f (Some key)) of
             Inl e \<Rightarrow> (Inl e, set_key f None)
           | Inr g \<Rightarrow>
               (case complete_plaintext_checkpoint g truncated truncated_again of
                  (Inl e, h) \<Rightarrow> (Inl e, set_key h None)
                | (Inr _, h) \<Rightarrow> (Inr (), h))))"

section \<open>Change of passphrase\<close>

definition rekey_rows ::
  "('k \<Rightarrow> 'v \<Rightarrow> (store_error, 'v) result) \<Rightarrow> ('k, 'v) tbl \<Rightarrow> (store_error, ('k, 'v) tbl) result" where
  "rekey_rows rekey t = collect_results (map (\<lambda>(k, row). rbind (rekey k row) (\<lambda>row'. Ok (k, row'))) t)"

fun rekey_keyed_rows ::
  "('k \<Rightarrow> 'v \<Rightarrow> (store_error, 'k \<times> 'v) result) \<Rightarrow> ('k, 'v) tbl \<Rightarrow> ('k, 'v) tbl \<Rightarrow> (store_error, ('k, 'v) tbl) result" where
  "rekey_keyed_rows rekey visited [] = Ok visited"
| "rekey_keyed_rows rekey visited ((k, row) # rows) =
     rbind (rekey k row) (\<lambda>(k', row').
       if k' \<in> set (map fst (visited @ rows)) then Err SE_Sqlite
       else rekey_keyed_rows rekey (visited @ [(k', row')]) rows)"

definition rekey_record ::
  "crypto \<Rightarrow> bytes \<Rightarrow> bytes \<Rightarrow> bytes \<Rightarrow> string \<Rightarrow> bytes \<Rightarrow> bytes \<Rightarrow> (store_error, bytes) result" where
  "rekey_record C old_key new_key db label aad_id encrypted =
     rbind (decrypt_record C old_key db label aad_id encrypted) (\<lambda>clear.
       encrypt_record C new_key db label aad_id clear)"

definition rekey_secret :: "crypto \<Rightarrow> bytes \<Rightarrow> bytes \<Rightarrow> bytes \<Rightarrow> bytes \<Rightarrow> secret_row \<Rightarrow> (store_error, secret_row) result" where
  "rekey_secret C old_key new_key db i row =
     rbind (rekey_record C old_key new_key db (sr_kind row) i (sr_value row)) (\<lambda>encrypted.
       Ok (row\<lparr>sr_value := encrypted\<rparr>))"

definition rekey_entity ::
  "crypto \<Rightarrow> bytes \<Rightarrow> bytes \<Rightarrow> bytes \<Rightarrow> entity_kind \<times> bytes \<Rightarrow> entity_row \<Rightarrow> (store_error, entity_row) result" where
  "rekey_entity C old_key new_key db entry row =
     (let (kind, i) = entry in
      rbind (revisioned_aad_id i (er_revision row) (er_updated row) None) (\<lambda>aad_id.
      rbind (rekey_record C old_key new_key db (entity_label kind) aad_id (er_value row)) (\<lambda>encrypted.
        Ok (row\<lparr>er_value := encrypted\<rparr>))))"

definition rekey_workflow ::
  "crypto \<Rightarrow> bytes \<Rightarrow> bytes \<Rightarrow> bytes \<Rightarrow> workflow_id \<Rightarrow> workflow_row \<Rightarrow> (store_error, workflow_row) result" where
  "rekey_workflow C old_key new_key db i row =
     (if wr_version row \<noteq> 1 then Err SE_LegacyEncryptionPending
      else rbind (parse_workflow_kind (wr_kind row)) (\<lambda>kind.
        rbind (revisioned_aad_id i (wr_revision row) (wr_updated row) (Some (wr_broadcast row))) (\<lambda>aad_id.
        rbind (rekey_record C old_key new_key db (workflow_label kind) aad_id (wr_state row)) (\<lambda>encrypted.
          Ok (row\<lparr>wr_state := encrypted\<rparr>)))))"

definition exact_array :: "nat \<Rightarrow> bytes \<Rightarrow> (store_error, bytes) result" where
  "exact_array n b = (if length b \<noteq> n then Err SE_CorruptMetadata else Ok b)"

definition rekey_permission ::
  "crypto \<Rightarrow> bytes \<Rightarrow> bytes \<Rightarrow> bytes \<Rightarrow> bytes \<Rightarrow> permission_row \<Rightarrow> (store_error, bytes \<times> permission_row) result" where
  "rekey_permission C old_key new_key db token row =
     rbind (exact_array 32 token) (\<lambda>token.
     rbind (decrypt_record C old_key db ''provider_permission''
         (permission_record_id token (pr_generation row) (pr_revoked row) (pr_updated row)) (pr_record row)) (\<lambda>clear.
     rbind (decode_origin_payload clear) (\<lambda>(origin, _).
     if origin_lookup_token C old_key db origin \<noteq> token then Err SE_Encryption
     else let new_token = origin_lookup_token C new_key db origin in
       rbind (encrypt_record C new_key db ''provider_permission''
           (permission_record_id new_token (pr_generation row) (pr_revoked row) (pr_updated row)) clear) (\<lambda>encrypted.
         Ok (new_token, row\<lparr>pr_record := encrypted\<rparr>)))))"

definition rekey_approval ::
  "crypto \<Rightarrow> bytes \<Rightarrow> bytes \<Rightarrow> bytes \<Rightarrow> approval_id \<Rightarrow> approval_row \<Rightarrow> (store_error, approval_row) result" where
  "rekey_approval C old_key new_key db i row =
     rbind (exact_array 16 i) (\<lambda>i.
     rbind (exact_array 32 (ar_origin_token row)) (\<lambda>token.
     rbind (decrypt_record C old_key db ''pending_approval''
         (approval_record_id i token (ar_expires row)) (ar_record row)) (\<lambda>clear.
     rbind (decode_origin_payload clear) (\<lambda>(origin, _).
     if origin_lookup_token C old_key db origin \<noteq> token then Err SE_Encryption
     else let new_token = origin_lookup_token C new_key db origin in
       rbind (encrypt_record C new_key db ''pending_approval''
           (approval_record_id i new_token (ar_expires row)) clear) (\<lambda>encrypted.
         Ok (row\<lparr>ar_origin_token := new_token, ar_record := encrypted\<rparr>))))))"

definition rekey_replay ::
  "crypto \<Rightarrow> bytes \<Rightarrow> bytes \<Rightarrow> bytes \<Rightarrow> bytes \<times> u64 \<Rightarrow> replay_row \<Rightarrow> (store_error, (bytes \<times> u64) \<times> replay_row) result" where
  "rekey_replay C old_key new_key db entry row =
     (let (token, nonce) = entry in
      rbind (exact_array 32 token) (\<lambda>token.
      rbind (decrypt_record C old_key db ''replay_origin''
          (replay_record_id token nonce (rr_expires row)) (rr_origin row)) (\<lambda>origin.
      rbind (map_err (\<lambda>_. SE_Encryption) (validate_origin origin)) (\<lambda>_.
      if origin_lookup_token C old_key db origin \<noteq> token then Err SE_Encryption
      else let new_token = origin_lookup_token C new_key db origin in
        rbind (encrypt_record C new_key db ''replay_origin''
            (replay_record_id new_token nonce (rr_expires row)) origin) (\<lambda>encrypted.
          Ok ((new_token, nonce), row\<lparr>rr_origin := encrypted\<rparr>))))))"

definition rekey_store :: "crypto \<Rightarrow> bytes \<Rightarrow> bytes \<Rightarrow> wallet_store \<Rightarrow> (store_error, wallet_store) result" where
  "rekey_store C old_key new_key s =
     (let db = ws_database_id s in
      rbind (rekey_rows (rekey_secret C old_key new_key db) (ws_secrets s)) (\<lambda>secrets.
      rbind (rekey_rows (rekey_entity C old_key new_key db) (ws_entities s)) (\<lambda>entities.
      rbind (rekey_rows (rekey_workflow C old_key new_key db) (ws_workflows s)) (\<lambda>workflows.
      rbind (rekey_keyed_rows (rekey_permission C old_key new_key db) [] (ws_permissions s)) (\<lambda>permissions.
      rbind (rekey_rows (rekey_approval C old_key new_key db) (ws_approvals s)) (\<lambda>approvals.
      rbind (rekey_keyed_rows (rekey_replay C old_key new_key db) [] (ws_replay s)) (\<lambda>replay.
        Ok (s\<lparr>ws_key := Some new_key, ws_secrets := secrets, ws_entities := entities, ws_workflows := workflows,
              ws_permissions := permissions, ws_approvals := approvals, ws_replay := replay\<rparr>))))))))"

definition change_passphrase_transaction ::
  "crypto \<Rightarrow> kdf \<Rightarrow> wallet_file \<Rightarrow> bytes \<Rightarrow> bytes \<Rightarrow> bytes option \<Rightarrow> (store_error, wallet_file) result" where
  "change_passphrase_transaction C K f old new random_salt =
     rbind (store_key (wf_store f)) (\<lambda>current_key.
     rbind (validate_passphrase new) (\<lambda>_.
     if old = new then Err SE_InvalidPassphrase
     else rbind (derive_key K old (wf_salt f) (wf_kdf f)) (\<lambda>old_key.
       rbind (check_key C f old_key) (\<lambda>clear.
       if clear \<noteq> SENTINEL \<or> current_key \<noteq> old_key then Err SE_InvalidPassphrase
       else rbind (ok_or random_salt SE_Randomness) (\<lambda>salt.
         rbind (derive_key K new salt (wf_kdf f)) (\<lambda>new_key.
         rbind (reject_unmigrated_legacy_entities (wf_legacy f)) (\<lambda>_.
         rbind (rekey_store C old_key new_key (wf_store f)) (\<lambda>s.
         rbind (seal_sentinel C new_key (ws_database_id s)) (\<lambda>sentinel.
         rbind (update_meta (wf_meta f) ''kdf_salt'' salt) (\<lambda>m1.
         rbind (update_meta m1 ''key_check'' sentinel) (\<lambda>m2.
         rbind (set_meta m2 CHECKPOINT_PENDING_KEY (byte_str ''1'')) (\<lambda>m3.
           Ok (f\<lparr>wf_store := s, wf_meta := m3, wf_salt := salt\<rparr>)))))))))))))"

definition change_passphrase ::
  "crypto \<Rightarrow> kdf \<Rightarrow> wallet_file \<Rightarrow> bytes \<Rightarrow> bytes \<Rightarrow> bytes option \<Rightarrow> (store_error, unit) result \<Rightarrow>
   (store_error, unit) result \<Rightarrow> (store_error, unit) result \<times> wallet_file" where
  "change_passphrase C K f old new random_salt truncated truncated_again =
     (case change_passphrase_transaction C K f old new random_salt of
        Inl e \<Rightarrow> (Inl e, f)
      | Inr g \<Rightarrow>
          (case complete_plaintext_checkpoint g truncated truncated_again of
             (Inl _, h) \<Rightarrow> (Inl SE_PassphraseChangedCheckpointPending, h)
           | (Inr _, h) \<Rightarrow> (Inr (), h)))"

end
