(* ===== verification/Passphrase_Laws.thy ===== *)
theory Passphrase_Laws
  imports Store_Laws Store_Passphrase
begin

text \<open>
  Facts about sealing the store again under another key: what each table becomes row by row, and that every
  record opens under the new key to what it opened to under the old one.
\<close>

section \<open>Tables\<close>

lemma rekey_rows_Ok:
  assumes "rekey_rows f t = Inr t'"
  shows "map fst t' = map fst t"
    "tbl_get t k = None \<Longrightarrow> tbl_get t' k = None"
    "tbl_get t k = Some row \<Longrightarrow> \<exists>row'. f k row = Inr row' \<and> tbl_get t' k = Some row'"
  using assms by (induction t arbitrary: t') (auto simp: rekey_rows_def split: if_splits)

lemma rekey_rows_get:
  assumes "rekey_rows f t = Inr t'"
  shows "(tbl_get t k = None \<and> tbl_get t' k = None) \<or>
    (\<exists>row row'. tbl_get t k = Some row \<and> f k row = Inr row' \<and> tbl_get t' k = Some row')"
  using rekey_rows_Ok(2,3) [OF assms, of k] by (cases "tbl_get t k") auto

lemma rekey_rows_mem: "rekey_rows f t = Inr t' \<Longrightarrow> (k, row') \<in> set t' \<Longrightarrow> \<exists>row. (k, row) \<in> set t \<and> f k row = Inr row'"
  by (induction t arbitrary: t') (auto simp: rekey_rows_def, blast+)

lemma rekey_rows_wf: "rekey_rows f t = Inr t' \<Longrightarrow> tbl_wf t \<Longrightarrow> tbl_wf t'"
  by (simp add: tbl_wf_def rekey_rows_Ok(1))

lemma rekey_keyed_rows_step:
  assumes "rekey_keyed_rows f v ((k, row) # rows) = Inr t'"
  obtains k' row' where "f k row = Inr (k', row')" "k' \<notin> fst ` set v" "rekey_keyed_rows f (v @ [(k', row')]) rows = Inr t'"
  using assms by (auto split: if_splits)

lemma rekey_keyed_rows_Ok:
  "rekey_keyed_rows f v t = Inr t' \<Longrightarrow> \<exists>rs. t' = v @ rs \<and> list_all2 (\<lambda>x y. f (fst x) (snd x) = Inr y) t rs"
proof (induction t arbitrary: v)
  case (Cons x t)
  obtain k row where x: "x = (k, row)" by fastforce
  from Cons.prems [unfolded x] obtain k' row' where f: "f k row = Inr (k', row')"
    and r: "rekey_keyed_rows f (v @ [(k', row')]) t = Inr t'" by (rule rekey_keyed_rows_step)
  from Cons.IH [OF r] obtain rs where "t' = v @ (k', row') # rs" "list_all2 (\<lambda>x y. f (fst x) (snd x) = Inr y) t rs" by auto
  then show ?case using f x by (intro exI [of _ "(k', row') # rs"]) simp
qed simp

lemma rekey_keyed_rows_distinct:
  "rekey_keyed_rows f v t = Inr t' \<Longrightarrow> distinct (map fst v) \<Longrightarrow> distinct (map fst t')"
proof (induction t arbitrary: v)
  case (Cons x t)
  obtain k row where x: "x = (k, row)" by fastforce
  from Cons.prems(1) [unfolded x] show ?case
  proof (rule rekey_keyed_rows_step)
    fix k' row'
    assume "k' \<notin> fst ` set v" and r: "rekey_keyed_rows f (v @ [(k', row')]) t = Inr t'"
    then show ?thesis using Cons.prems(2) by (intro Cons.IH [OF r]) simp
  qed
qed simp

lemma rekey_keyed_rows_mem:
  assumes "rekey_keyed_rows f [] t = Inr t'"
  shows "x \<in> set t \<Longrightarrow> \<exists>y \<in> set t'. f (fst x) (snd x) = Inr y" "y \<in> set t' \<Longrightarrow> \<exists>x \<in> set t. f (fst x) (snd x) = Inr y"
    "tbl_wf t'" "length t' = length t"
proof -
  have l: "list_all2 (\<lambda>x y. f (fst x) (snd x) = Inr y) t t'" using rekey_keyed_rows_Ok [OF assms] by simp
  show "x \<in> set t \<Longrightarrow> \<exists>y \<in> set t'. f (fst x) (snd x) = Inr y" using l by (fastforce simp: list_all2_conv_all_nth in_set_conv_nth)
  show "y \<in> set t' \<Longrightarrow> \<exists>x \<in> set t. f (fst x) (snd x) = Inr y" using l by (fastforce simp: list_all2_conv_all_nth in_set_conv_nth)
  show "length t' = length t" by (rule list_all2_lengthD [OF l, symmetric])
  show "tbl_wf t'" using rekey_keyed_rows_distinct [OF assms] by (simp add: tbl_wf_def)
qed

section \<open>Rows\<close>

lemma rekey_record_opens:
  assumes "crypto_law C" "rekey_record C old new db l a e = Inr e'"
  shows "decrypt_record C new db l a e' = decrypt_record C old db l a e" "is_ok (decrypt_record C old db l a e)"
  using assms by (auto simp: rekey_record_def is_ok_iff dest: decrypt_encrypt)

lemma rekey_store_Ok:
  assumes "rekey_store C old new s = Inr s'"
  shows "ws_database_id s' = ws_database_id s" "ws_key s' = Some new"
    "rekey_rows (rekey_secret C old new (ws_database_id s)) (ws_secrets s) = Inr (ws_secrets s')"
    "rekey_rows (rekey_entity C old new (ws_database_id s)) (ws_entities s) = Inr (ws_entities s')"
    "rekey_rows (rekey_workflow C old new (ws_database_id s)) (ws_workflows s) = Inr (ws_workflows s')"
    "rekey_keyed_rows (rekey_permission C old new (ws_database_id s)) [] (ws_permissions s) = Inr (ws_permissions s')"
    "rekey_rows (rekey_approval C old new (ws_database_id s)) (ws_approvals s) = Inr (ws_approvals s')"
    "rekey_keyed_rows (rekey_replay C old new (ws_database_id s)) [] (ws_replay s) = Inr (ws_replay s')"
  using assms by (auto simp: rekey_store_def Let_def)

lemma rekey_secret_row:
  assumes "crypto_law C" "rekey_secret C old new db i row = Inr row'"
  shows "sr_kind row' = sr_kind row"
    "decrypt_record C new db (sr_kind row) i (sr_value row') = decrypt_record C old db (sr_kind row) i (sr_value row)"
    "secret_opens C new db i row'"
proof -
  from assms(2) obtain e where e: "rekey_record C old new db (sr_kind row) i (sr_value row) = Inr e" and r: "row' = row\<lparr>sr_value := e\<rparr>"
    by (auto simp: rekey_secret_def)
  show "sr_kind row' = sr_kind row" using r by simp
  show d: "decrypt_record C new db (sr_kind row) i (sr_value row') = decrypt_record C old db (sr_kind row) i (sr_value row)"
    using rekey_record_opens(1) [OF assms(1) e] r by simp
  show "secret_opens C new db i row'" using rekey_record_opens(2) [OF assms(1) e] d r by (simp add: secret_opens_def)
qed

lemma rekey_entity_row:
  assumes "crypto_law C" "rekey_entity C old new db (kind, i) row = Inr row'"
  obtains a where "revisioned_aad_id i (er_revision row) (er_updated row) None = Inr a"
    "er_revision row' = er_revision row" "er_updated row' = er_updated row"
    "decrypt_record C new db (entity_label kind) a (er_value row') = decrypt_record C old db (entity_label kind) a (er_value row)"
    "is_ok (decrypt_record C old db (entity_label kind) a (er_value row))"
proof -
  from assms(2) obtain a e where aad: "revisioned_aad_id i (er_revision row) (er_updated row) None = Inr a"
    and e: "rekey_record C old new db (entity_label kind) a (er_value row) = Inr e" and r: "row' = row\<lparr>er_value := e\<rparr>"
    by (auto simp: rekey_entity_def simp del: revisioned_aad_id_Ok)
  have f: "er_revision row' = er_revision row" "er_updated row' = er_updated row" "er_value row' = e" using r by simp_all
  show thesis by (rule that [OF aad f(1,2)]) (simp_all only: f(3) rekey_record_opens [OF assms(1) e])
qed

lemma rekey_workflow_row:
  assumes "crypto_law C" "rekey_workflow C old new db i row = Inr row'"
  obtains a kind where "revisioned_aad_id i (wr_revision row) (wr_updated row) (Some (wr_broadcast row)) = Inr a"
    "wr_version row = 1" "parse_workflow_kind (wr_kind row) = Inr kind" "row' = row\<lparr>wr_state := wr_state row'\<rparr>"
    "decrypt_record C new db (workflow_label kind) a (wr_state row') = decrypt_record C old db (workflow_label kind) a (wr_state row)"
    "is_ok (decrypt_record C old db (workflow_label kind) a (wr_state row))"
proof -
  from assms(2) obtain a kind e where w: "revisioned_aad_id i (wr_revision row) (wr_updated row) (Some (wr_broadcast row)) = Inr a"
    "wr_version row = 1" "parse_workflow_kind (wr_kind row) = Inr kind"
    and e: "rekey_record C old new db (workflow_label kind) a (wr_state row) = Inr e" and r: "row' = row\<lparr>wr_state := e\<rparr>"
    by (auto simp: rekey_workflow_def simp del: revisioned_aad_id_Ok split: if_splits)
  have f: "row' = row\<lparr>wr_state := wr_state row'\<rparr>" "wr_state row' = e" using r by simp_all
  show thesis by (rule that [OF w f(1)]) (simp_all only: f(2) rekey_record_opens [OF assms(1) e])
qed

lemma rekey_permission_row:
  assumes "crypto_law C" "rekey_permission C old new db token row = Inr (token', row')"
  obtains origin payload clear where "token = origin_lookup_token C old db origin" "token' = origin_lookup_token C new db origin"
    "decode_origin_payload clear = Inr (origin, payload)" "row' = row\<lparr>pr_record := pr_record row'\<rparr>"
    "decrypt_record C old db ''provider_permission''
       (permission_record_id token (pr_generation row) (pr_revoked row) (pr_updated row)) (pr_record row) = Inr clear"
    "decrypt_record C new db ''provider_permission''
       (permission_record_id token' (pr_generation row) (pr_revoked row) (pr_updated row)) (pr_record row') = Inr clear"
  using assms by (auto simp: rekey_permission_def exact_array_def Let_def split: if_splits dest: decrypt_encrypt)

lemma rekey_approval_row:
  assumes "crypto_law C" "rekey_approval C old new db i row = Inr row'"
  obtains origin payload clear where "length i = 16" "length (ar_origin_token row) = 32"
    "ar_origin_token row = origin_lookup_token C old db origin" "ar_origin_token row' = origin_lookup_token C new db origin"
    "decode_origin_payload clear = Inr (origin, payload)" "ar_expires row' = ar_expires row"
    "decrypt_record C old db ''pending_approval'' (approval_record_id i (ar_origin_token row) (ar_expires row)) (ar_record row) = Inr clear"
    "decrypt_record C new db ''pending_approval'' (approval_record_id i (ar_origin_token row') (ar_expires row)) (ar_record row') = Inr clear"
proof -
  from assms(2) obtain clear origin payload e where l: "length i = 16" "length (ar_origin_token row) = 32"
    and o: "origin_lookup_token C old db origin = ar_origin_token row" and d: "decode_origin_payload clear = Inr (origin, payload)"
    "decrypt_record C old db ''pending_approval'' (approval_record_id i (ar_origin_token row) (ar_expires row)) (ar_record row) = Inr clear"
    and enc: "encrypt_record C new db ''pending_approval'' (approval_record_id i (origin_lookup_token C new db origin) (ar_expires row)) clear = Inr e"
    and r: "row' = row\<lparr>ar_origin_token := origin_lookup_token C new db origin, ar_record := e\<rparr>"
    by (auto simp: rekey_approval_def exact_array_def Let_def split: if_splits)
  have f: "ar_origin_token row' = origin_lookup_token C new db origin" "ar_record row' = e" "ar_expires row' = ar_expires row"
    using r by simp_all
  show thesis by (rule that [OF l o [symmetric] f(1) d(1) f(3) d(2)]) (simp only: f decrypt_encrypt [OF assms(1) enc])
qed

lemma rekey_replay_row:
  assumes "crypto_law C" "rekey_replay C old new db (token, nonce) row = Inr (k', row')"
  obtains origin where "token = origin_lookup_token C old db origin" "k' = (origin_lookup_token C new db origin, nonce)"
    "rr_expires row' = rr_expires row"
    "decrypt_record C old db ''replay_origin'' (replay_record_id token nonce (rr_expires row)) (rr_origin row) = Inr origin"
    "decrypt_record C new db ''replay_origin'' (replay_record_id (fst k') nonce (rr_expires row)) (rr_origin row') = Inr origin"
  using assms by (auto simp: rekey_replay_def exact_array_def Let_def split: if_splits dest: decrypt_encrypt)

section \<open>Reads\<close>

lemma rekeyed_secret:
  assumes "crypto_law C" "rekey_store C old new s = Inr s'" "ws_key s = Some old"
  shows "get_secret C s' i kind = get_secret C s i kind"
  using rekey_rows_get [OF rekey_store_Ok(3) [OF assms(2)], of i]
proof (elim disjE exE conjE)
  fix row row'
  assume g: "tbl_get (ws_secrets s) i = Some row" "tbl_get (ws_secrets s') i = Some row'"
    and r: "rekey_secret C old new (ws_database_id s) i row = Inr row'"
  have "sr_kind row = secret_kind_label kind \<Longrightarrow> decrypt_record C new (ws_database_id s) (secret_kind_label kind) i (sr_value row') =
      decrypt_record C old (ws_database_id s) (secret_kind_label kind) i (sr_value row)"
    using rekey_secret_row(2) [OF assms(1) r] by simp
  then show ?thesis
    by (simp add: get_secret_def g ok_or_def assms(3) rekey_store_Ok(1,2) [OF assms(2)] rekey_secret_row(1) [OF assms(1) r])
qed (simp add: get_secret_def ok_or_def assms(3) rekey_store_Ok(1,2) [OF assms(2)])

lemma rekeyed_entity:
  assumes "crypto_law C" "rekey_store C old new s = Inr s'" "ws_key s = Some old"
  shows "load_entity C J s' kind i = load_entity C J s kind i"
  using rekey_rows_get [OF rekey_store_Ok(4) [OF assms(2)], of "(kind, i)"]
proof (elim disjE exE conjE)
  fix row row'
  assume g: "tbl_get (ws_entities s) (kind, i) = Some row" "tbl_get (ws_entities s') (kind, i) = Some row'"
    and r: "rekey_entity C old new (ws_database_id s) (kind, i) row = Inr row'"
  from assms(1) r show ?thesis
    by (rule rekey_entity_row)
       (simp del: revisioned_aad_id_Ok add: load_entity_def open_entity_def g ok_or_def assms(3) rekey_store_Ok(1,2) [OF assms(2)])
qed (simp add: load_entity_def ok_or_def assms(3) rekey_store_Ok(1,2) [OF assms(2)])

lemma rekeyed_workflow:
  assumes "crypto_law C" "rekey_store C old new s = Inr s'" "ws_key s = Some old"
  shows "load_workflow C J s' i = load_workflow C J s i"
  using rekey_rows_get [OF rekey_store_Ok(5) [OF assms(2)], of i]
proof (elim disjE exE conjE)
  fix row row'
  assume g: "tbl_get (ws_workflows s) i = Some row" "tbl_get (ws_workflows s') i = Some row'"
    and r: "rekey_workflow C old new (ws_database_id s) i row = Inr row'"
  from assms(1) r obtain a kind where w: "revisioned_aad_id i (wr_revision row) (wr_updated row) (Some (wr_broadcast row)) = Inr a"
    "wr_version row = 1" "parse_workflow_kind (wr_kind row) = Inr kind" "row' = row\<lparr>wr_state := wr_state row'\<rparr>"
    "decrypt_record C new (ws_database_id s) (workflow_label kind) a (wr_state row') =
      decrypt_record C old (ws_database_id s) (workflow_label kind) a (wr_state row)" by (rule rekey_workflow_row)
  from arg_cong [OF w(4), of wr_version] arg_cong [OF w(4), of wr_kind] arg_cong [OF w(4), of wr_revision]
    arg_cong [OF w(4), of wr_updated] arg_cong [OF w(4), of wr_broadcast]
  show ?thesis using w(1-3,5)
    by (simp del: revisioned_aad_id_Ok add: load_workflow_def g ok_or_def assms(3) rekey_store_Ok(1,2) [OF assms(2)])
qed (simp add: load_workflow_def ok_or_def assms(3) rekey_store_Ok(1,2) [OF assms(2)])

lemma rekeyed_approval:
  assumes "crypto_law C" "rekey_store C old new s = Inr s'" "ws_key s = Some old" "\<And>k m. length (hmac_sha256 C k m) = 32"
  shows "get_pending_approval C s' i now = get_pending_approval C s i now"
  using rekey_rows_get [OF rekey_store_Ok(7) [OF assms(2)], of i]
proof (elim disjE exE conjE)
  fix row row'
  assume g: "tbl_get (ws_approvals s) i = Some row" "tbl_get (ws_approvals s') i = Some row'"
    and r: "rekey_approval C old new (ws_database_id s) i row = Inr row'"
  from assms(1) r show ?thesis
    by (rule rekey_approval_row)
       (simp add: get_pending_approval_def authenticated_pending_approval_def open_approval_def g ok_or_def assms(3)
          rekey_store_Ok(1,2) [OF assms(2)], simp add: origin_lookup_token_def assms(4))
qed (simp add: get_pending_approval_def authenticated_pending_approval_def ok_or_def assms(3) rekey_store_Ok(1,2) [OF assms(2)])

definition permission_reads :: "crypto \<Rightarrow> bytes \<Rightarrow> wallet_store \<Rightarrow> origin_text \<Rightarrow> u64 \<Rightarrow> bool \<Rightarrow> bytes \<Rightarrow> bool" where
  "permission_reads C key s origin g r p \<longleftrightarrow> (\<exists>row. tbl_get (ws_permissions s) (origin_lookup_token C key (ws_database_id s) origin) = Some row \<and>
     open_permission C key s origin (origin_lookup_token C key (ws_database_id s) origin) row = Inr p \<and>
     pr_generation row = g \<and> pr_revoked row = r)"

lemma rekeyed_permission_row:
  assumes law: "crypto_law C" and ok: "rekey_store C old new s = Inr s'" and wf: "tbl_wf (ws_permissions s)"
  shows "permission_reads C new s' origin g r p \<longleftrightarrow> permission_reads C old s origin g r p"
proof -
  let ?db = "ws_database_id s" and ?f = "rekey_permission C old new (ws_database_id s)"
  note mem = rekey_keyed_rows_mem [OF rekey_store_Ok(6) [OF ok]] and db = rekey_store_Ok(1) [OF ok]
  have get: "tbl_get (ws_permissions s) k = Some row \<longleftrightarrow> (k, row) \<in> set (ws_permissions s)"
    "tbl_get (ws_permissions s') k = Some row \<longleftrightarrow> (k, row) \<in> set (ws_permissions s')" for k row
    using wf mem(3) by (simp_all add: tbl_wf_def)
  have step: "t = origin_lookup_token C old ?db origin \<and> open_permission C old s origin t row = Inr p \<longleftrightarrow>
      t' = origin_lookup_token C new ?db origin \<and> open_permission C new s' origin t' row' = Inr p"
    "pr_generation row' = pr_generation row" "pr_revoked row' = pr_revoked row" if "?f t row = Inr (t', row')" for t row t' row'
  proof -
    from law that obtain org payload clear where t: "t = origin_lookup_token C old ?db org" "t' = origin_lookup_token C new ?db org"
      and d: "decode_origin_payload clear = Inr (org, payload)" and r: "row' = row\<lparr>pr_record := pr_record row'\<rparr>"
      and dec: "decrypt_record C old ?db ''provider_permission''
        (permission_record_id t (pr_generation row) (pr_revoked row) (pr_updated row)) (pr_record row) = Inr clear"
      "decrypt_record C new ?db ''provider_permission''
        (permission_record_id t' (pr_generation row) (pr_revoked row) (pr_updated row)) (pr_record row') = Inr clear"
      by (rule rekey_permission_row)
    show f: "pr_generation row' = pr_generation row" "pr_revoked row' = pr_revoked row"
      using arg_cong [OF r, of pr_generation] arg_cong [OF r, of pr_revoked] by simp_all
    have "pr_updated row' = pr_updated row" using arg_cong [OF r, of pr_updated] by simp
    with f have "open_permission C old s origin t row = (if org \<noteq> origin then Err SE_Encryption else Ok payload)"
      "open_permission C new s' origin t' row' = (if org \<noteq> origin then Err SE_Encryption else Ok payload)"
      by (simp_all add: open_permission_def db dec d)
    then show "t = origin_lookup_token C old ?db origin \<and> open_permission C old s origin t row = Inr p \<longleftrightarrow>
      t' = origin_lookup_token C new ?db origin \<and> open_permission C new s' origin t' row' = Inr p" using t by auto
  qed
  show ?thesis unfolding permission_reads_def get db
  proof
    assume "\<exists>row. (origin_lookup_token C new ?db origin, row) \<in> set (ws_permissions s') \<and>
      open_permission C new s' origin (origin_lookup_token C new ?db origin) row = Inr p \<and> pr_generation row = g \<and> pr_revoked row = r"
    then show "\<exists>row. (origin_lookup_token C old ?db origin, row) \<in> set (ws_permissions s) \<and>
      open_permission C old s origin (origin_lookup_token C old ?db origin) row = Inr p \<and> pr_generation row = g \<and> pr_revoked row = r"
      using mem(2) step by (metis prod.collapse)
  next
    assume "\<exists>row. (origin_lookup_token C old ?db origin, row) \<in> set (ws_permissions s) \<and>
      open_permission C old s origin (origin_lookup_token C old ?db origin) row = Inr p \<and> pr_generation row = g \<and> pr_revoked row = r"
    then show "\<exists>row. (origin_lookup_token C new ?db origin, row) \<in> set (ws_permissions s') \<and>
      open_permission C new s' origin (origin_lookup_token C new ?db origin) row = Inr p \<and> pr_generation row = g \<and> pr_revoked row = r"
      using mem(1) step by (metis prod.collapse fst_conv snd_conv)
  qed
qed

lemma provider_permission_Ok:
  assumes "ws_key s = Some key"
  shows "provider_permission C s origin = Inr (Some (g, p)) \<longleftrightarrow> validate_origin origin = Inr () \<and> permission_reads C key s origin g False p"
    "provider_permission_generation C s origin = Inr (Some g) \<longleftrightarrow>
       validate_origin origin = Inr () \<and> (\<exists>r p. permission_reads C key s origin g r p)"
  using assms
  by (auto simp: provider_permission_def provider_permission_generation_def permission_reads_def ok_or_def Let_def split: option.splits if_splits)

lemma rekeyed_permission:
  assumes "crypto_law C" "rekey_store C old new s = Inr s'" "ws_key s = Some old" "tbl_wf (ws_permissions s)"
  shows "provider_permission C s' origin = Inr (Some x) \<longleftrightarrow> provider_permission C s origin = Inr (Some x)"
    "provider_permission_generation C s' origin = Inr (Some g) \<longleftrightarrow> provider_permission_generation C s origin = Inr (Some g)"
proof -
  note r = provider_permission_Ok [OF assms(3)] provider_permission_Ok [OF rekey_store_Ok(2) [OF assms(2)]]
    rekeyed_permission_row [OF assms(1,2,4)]
  show "provider_permission C s' origin = Inr (Some x) \<longleftrightarrow> provider_permission C s origin = Inr (Some x)" by (cases x) (simp add: r)
  show "provider_permission_generation C s' origin = Inr (Some g) \<longleftrightarrow> provider_permission_generation C s origin = Inr (Some g)"
    by (simp add: r)
qed

definition replay_recorded :: "crypto \<Rightarrow> bytes \<Rightarrow> wallet_store \<Rightarrow> origin_text \<Rightarrow> u64 \<Rightarrow> u64 \<Rightarrow> bool" where
  "replay_recorded C key s origin n e \<longleftrightarrow> (\<exists>row. tbl_get (ws_replay s) (origin_lookup_token C key (ws_database_id s) origin, n) = Some row \<and>
     rr_expires row = e \<and> decrypt_record C key (ws_database_id s) ''replay_origin''
       (replay_record_id (origin_lookup_token C key (ws_database_id s) origin) n e) (rr_origin row) = Inr origin)"

lemma rekeyed_nonce:
  assumes law: "crypto_law C" and ok: "rekey_store C old new s = Inr s'" and held: "replay_recorded C old s origin n e"
  shows "replay_recorded C new s' origin n e"
proof -
  let ?db = "ws_database_id s"
  note mem = rekey_keyed_rows_mem [OF rekey_store_Ok(8) [OF ok]] and db = rekey_store_Ok(1) [OF ok]
  from held obtain row where row: "((origin_lookup_token C old ?db origin, n), row) \<in> set (ws_replay s)" "rr_expires row = e"
    "decrypt_record C old ?db ''replay_origin'' (replay_record_id (origin_lookup_token C old ?db origin) n e) (rr_origin row) = Inr origin"
    by (auto simp: replay_recorded_def dest: map_of_SomeD)
  from mem(1) [OF row(1)] obtain k' row' where y: "(k', row') \<in> set (ws_replay s')"
    "rekey_replay C old new ?db (origin_lookup_token C old ?db origin, n) row = Inr (k', row')" by auto
  from law y(2) obtain org where "k' = (origin_lookup_token C new ?db org, n)" "rr_expires row' = rr_expires row"
    "decrypt_record C old ?db ''replay_origin'' (replay_record_id (origin_lookup_token C old ?db origin) n (rr_expires row)) (rr_origin row) = Inr org"
    "decrypt_record C new ?db ''replay_origin'' (replay_record_id (fst k') n (rr_expires row)) (rr_origin row') = Inr org"
    by (rule rekey_replay_row)
  then show ?thesis using row y(1) mem(3) by (auto simp: replay_recorded_def db tbl_wf_def)
qed

lemma rekeyed_inv:
  assumes law: "crypto_law C" and ok: "rekey_store C old new s = Inr s'" and inv: "store_inv C old s"
  shows "store_inv C new s'"
proof -
  note db = rekey_store_Ok(1,2) [OF ok]
  have "entity_opens C new (ws_database_id s) kind i row'" if g: "tbl_get (ws_entities s') (kind, i) = Some row'" for kind i row'
  proof -
    from rekey_rows_get [OF rekey_store_Ok(4) [OF ok], of "(kind, i)"] g obtain row where row: "tbl_get (ws_entities s) (kind, i) = Some row"
      and r: "rekey_entity C old new (ws_database_id s) (kind, i) row = Inr row'" by auto
    have o: "entity_opens C old (ws_database_id s) kind i row" using inv row by (simp add: store_inv_def)
    from law r show ?thesis
    proof (rule rekey_entity_row)
      fix a
      assume e: "revisioned_aad_id i (er_revision row) (er_updated row) None = Inr a" "er_revision row' = er_revision row"
        "er_updated row' = er_updated row" "decrypt_record C new (ws_database_id s) (entity_label kind) a (er_value row') =
           decrypt_record C old (ws_database_id s) (entity_label kind) a (er_value row)"
      show ?thesis using o unfolding entity_opens_def e(2,3) unfolding e(1) rbind_simps e(4) .
    qed
  qed
  moreover have "workflow_opens C new (ws_database_id s) i row'" if g: "tbl_get (ws_workflows s') i = Some row'" for i row'
  proof -
    from rekey_rows_get [OF rekey_store_Ok(5) [OF ok], of i] g obtain row where row: "tbl_get (ws_workflows s) i = Some row"
      and r: "rekey_workflow C old new (ws_database_id s) i row = Inr row'" by auto
    from law r obtain a kind where w: "revisioned_aad_id i (wr_revision row) (wr_updated row) (Some (wr_broadcast row)) = Inr a"
      "parse_workflow_kind (wr_kind row) = Inr kind" "row' = row\<lparr>wr_state := wr_state row'\<rparr>"
      "decrypt_record C new (ws_database_id s) (workflow_label kind) a (wr_state row') =
        decrypt_record C old (ws_database_id s) (workflow_label kind) a (wr_state row)" by (rule rekey_workflow_row)
    have f: "wr_revision row' = wr_revision row" "wr_version row' = wr_version row" "wr_kind row' = wr_kind row"
      "wr_updated row' = wr_updated row" "wr_broadcast row' = wr_broadcast row"
      using arg_cong [OF w(3), of wr_revision] arg_cong [OF w(3), of wr_version] arg_cong [OF w(3), of wr_kind]
        arg_cong [OF w(3), of wr_updated] arg_cong [OF w(3), of wr_broadcast] by simp_all
    have "workflow_opens C old (ws_database_id s) i row" using inv row by (simp add: store_inv_def)
    then show ?thesis unfolding workflow_opens_def f unfolding w(1,2) rbind_simps w(4) .
  qed
  moreover have "secret_opens C new (ws_database_id s) i row'" if g: "tbl_get (ws_secrets s') i = Some row'" for i row'
    using rekey_rows_get [OF rekey_store_Ok(3) [OF ok], of i] g rekey_secret_row(3) [OF law] by auto
  ultimately show ?thesis
    using inv db rekey_rows_wf [OF rekey_store_Ok(3) [OF ok]] rekey_rows_wf [OF rekey_store_Ok(4) [OF ok]]
      rekey_rows_wf [OF rekey_store_Ok(5) [OF ok]] by (simp add: store_inv_def)
qed

end
