(* ===== verification/Passphrase_Properties.thy ===== *)
theory Passphrase_Properties
  imports Store_Properties Passphrase_Laws
begin

text \<open>
  Properties of the change of passphrase (hns-wallet-store/src/lib.rs, change_passphrase): no record is lost or
  altered, and what a failed truncation of the log leaves behind.
\<close>

section \<open>Unlocking a file without legacy rows\<close>

definition legacy_done :: "wallet_file \<Rightarrow> bool" where
  "legacy_done f \<longleftrightarrow> lg_permissions (wf_legacy f) = [] \<and> \<not> lg_approvals (wf_legacy f) \<and> lg_replay (wf_legacy f) = []"

definition opens_under :: "crypto \<Rightarrow> kdf \<Rightarrow> wallet_file \<Rightarrow> bytes \<Rightarrow> bytes \<Rightarrow> bool" where
  "opens_under C K f passphrase key \<longleftrightarrow> derive_key K passphrase (wf_salt f) (wf_kdf f) = Inr key \<and>
     check_key C f key = Inr SENTINEL \<and> reject_unmigrated_legacy_entities (wf_legacy f) = Inr () \<and> legacy_done f \<and>
     (\<forall>x \<in> set (ws_workflows (wf_store f)). wr_version (snd x) = 1)"

lemma encrypt_legacy_workflows_done:
  "\<forall>x \<in> set t. wr_version (snd x) = 1 \<Longrightarrow> encrypt_legacy_workflows C key db t = Inr t"
  by (induction t) auto

lemma unlock_opens:
  assumes "opens_under C K f p key"
  obtains g where "unlock C K (set_key f None) p (Inr ()) (Inr ()) = (Inr (), g)" "wf_store g = (wf_store f)\<lparr>ws_key := Some key\<rparr>"
proof -
  note o = assms [unfolded opens_under_def legacy_done_def]
  have v: "validate_passphrase p = Inr ()" using o by (auto simp: derive_key_def)
  have "list_ex (\<lambda>(_, row). wr_version row = 0) (ws_workflows (wf_store f)) = False"
    using o by (fastforce simp: list_ex_iff)
  then have e: "encrypt_legacy_rows C (set_key (set_key f None) (Some key)) =
      Inr ((set_key f (Some key))\<lparr>wf_legacy := wf_legacy f\<lparr>lg_permissions := [], lg_approvals := False, lg_replay := []\<rparr>\<rparr>)"
    using o by (simp add: encrypt_legacy_rows_def Let_def set_key_def ok_or_def encrypt_legacy_workflows_done
        validate_legacy_replay_capacity_def)
  have c: "check_key C (set_key f None) key = Inr SENTINEL" using o by (simp add: check_key_def set_key_def)
  show thesis
  proof (rule that)
    show "unlock C K (set_key f None) p (Inr ()) (Inr ()) = (Inr (), snd (unlock C K (set_key f None) p (Inr ()) (Inr ())))"
      using o v c e by (simp add: unlock_def set_key_def complete_plaintext_checkpoint_def)
    show "wf_store (snd (unlock C K (set_key f None) p (Inr ()) (Inr ()))) = (wf_store f)\<lparr>ws_key := Some key\<rparr>"
      using o v c e by (simp add: unlock_def set_key_def complete_plaintext_checkpoint_def)
  qed
qed

section \<open>The transaction\<close>

lemma change_transaction_Ok:
  assumes "change_passphrase_transaction C K f old new salt = Inr h"
  obtains key key' s m1 m2 sl sentinel where "ws_key (wf_store f) = Some key" "derive_key K new sl (wf_kdf f) = Inr key'"
    "rekey_store C key key' (wf_store f) = Inr s" "seal_sentinel C key' (ws_database_id s) = Inr sentinel"
    "update_meta (wf_meta f) ''kdf_salt'' sl = Inr m1" "update_meta m1 ''key_check'' sentinel = Inr m2"
    "tbl_get m2 CHECKPOINT_PENDING_KEY = None" "reject_unmigrated_legacy_entities (wf_legacy f) = Inr ()"
    "h = f\<lparr>wf_store := s, wf_meta := tbl_put CHECKPOINT_PENDING_KEY (byte_str ''1'') m2, wf_salt := sl\<rparr>"
  using assms by (auto simp: change_passphrase_transaction_def set_meta_def ok_or_def split: if_splits option.splits)

lemma meta_keys: "CHECKPOINT_PENDING_KEY \<noteq> ''kdf_salt''" "CHECKPOINT_PENDING_KEY \<noteq> ''key_check''"
  by (simp_all add: CHECKPOINT_PENDING_KEY_def)

lemma complete_checkpoint_keeps:
  assumes "complete_plaintext_checkpoint h t u = (r, g)"
  shows "wf_store g = wf_store h" "wf_salt g = wf_salt h" "wf_kdf g = wf_kdf h" "wf_legacy g = wf_legacy h"
    "check_key C g key = check_key C h key"
  using assms meta_keys
  by (auto simp: complete_plaintext_checkpoint_def check_key_def required_meta_def split: sum.splits if_splits)

lemma change_transaction_opens:
  assumes law: "crypto_law C" and "change_passphrase_transaction C K f old new salt = Inr h" and "legacy_done f"
  shows "\<exists>key key'. ws_key (wf_store f) = Some key \<and> rekey_store C key key' (wf_store f) = Inr (wf_store h) \<and> opens_under C K h new key'"
  using assms(2)
proof (rule change_transaction_Ok)
  fix key key' s m1 m2 sl sentinel
  assume k: "ws_key (wf_store f) = Some key" and dk: "derive_key K new sl (wf_kdf f) = Inr key'"
    and r: "rekey_store C key key' (wf_store f) = Inr s" and se: "seal_sentinel C key' (ws_database_id s) = Inr sentinel"
    and u: "update_meta m1 ''key_check'' sentinel = Inr m2" and rej: "reject_unmigrated_legacy_entities (wf_legacy f) = Inr ()"
    and h: "h = f\<lparr>wf_store := s, wf_meta := tbl_put CHECKPOINT_PENDING_KEY (byte_str ''1'') m2, wf_salt := sl\<rparr>"
  have "tbl_get m2 ''key_check'' = Some sentinel" using u by (auto simp: update_meta_def split: if_splits)
  then have "check_key C h key' = Inr SENTINEL"
    using decrypt_encrypt [OF law se [unfolded seal_sentinel_def]] meta_keys(2)
    by (simp add: check_key_def required_meta_def h ok_or_def update_conv map_err_def)
  moreover have "wr_version (snd x) = 1" if x: "x \<in> set (ws_workflows s)" for x
  proof -
    obtain i row' where x': "x = (i, row')" by fastforce
    from rekey_rows_mem [OF rekey_store_Ok(5) [OF r]] x x' obtain row where
      "rekey_workflow C key key' (ws_database_id (wf_store f)) i row = Inr row'" by blast
    then show ?thesis unfolding x' by (auto simp: rekey_workflow_def split: if_splits)
  qed
  ultimately show ?thesis using assms(3) k dk r rej h by (auto simp: opens_under_def legacy_done_def)
qed

section \<open>Nothing is lost\<close>

lemma change_passphrase_cases:
  assumes "change_passphrase C K f old new salt t u = (r, g)"
  obtains (refused) e where "r = Inl e" "g = f"
  | (committed) h where "change_passphrase_transaction C K f old new salt = Inr h" "wf_store g = wf_store h"
      "\<And>p key. opens_under C K h p key \<Longrightarrow> opens_under C K g p key"
proof (cases "change_passphrase_transaction C K f old new salt")
  case (Inl e)
  then show thesis using assms by (intro refused [of e]) (auto simp: change_passphrase_def)
next
  case (Inr h)
  obtain r' where c: "complete_plaintext_checkpoint h t u = (r', g)"
    using assms Inr by (auto simp: change_passphrase_def split: prod.splits sum.splits)
  note k = complete_checkpoint_keeps [OF c]
  show thesis by (rule committed [OF Inr k(1)]) (simp add: opens_under_def legacy_done_def k)
qed

text \<open>C11. Changing the passphrase loses nothing, whatever it returns: every secret, entity, workflow and pending approval
  reads as before, an origin has a permission (or a permission generation) exactly when it had the same one before, and
  every consumed nonce is still recorded for its origin. Either nothing changed and an error was returned, or the store is
  sound under a new key, and after a lock the new passphrase unlocks it to the same state. Tables keyed by an origin have one row per key, and
  the keyed digest of an origin has 32 bytes.\<close>

theorem passphrase_change_keeps_records:
  assumes law: "crypto_law C" "\<And>k m. length (hmac_sha256 C k m) = 32"
    and inv: "ws_key (wf_store f) = Some key" "store_inv C key (wf_store f)" "tbl_wf (ws_permissions (wf_store f))" "legacy_done f"
    and change: "change_passphrase C K f old new salt t u = (r, g)"
  shows "(\<forall>i kind. get_secret C (wf_store g) i kind = get_secret C (wf_store f) i kind) \<and>
    (\<forall>kind i. load_entity C JE (wf_store g) kind i = load_entity C JE (wf_store f) kind i) \<and>
    (\<forall>i. load_workflow C JW (wf_store g) i = load_workflow C JW (wf_store f) i) \<and>
    (\<forall>i now. get_pending_approval C (wf_store g) i now = get_pending_approval C (wf_store f) i now) \<and>
    (\<forall>origin x. provider_permission C (wf_store g) origin = Inr (Some x) \<longleftrightarrow> provider_permission C (wf_store f) origin = Inr (Some x)) \<and>
    (\<forall>origin n. provider_permission_generation C (wf_store g) origin = Inr (Some n) \<longleftrightarrow>
       provider_permission_generation C (wf_store f) origin = Inr (Some n)) \<and>
    (\<exists>key'. store_inv C key' (wf_store g) \<and> ws_key (wf_store g) = Some key' \<and>
       (\<forall>origin n e. replay_recorded C key (wf_store f) origin n e \<longrightarrow> replay_recorded C key' (wf_store g) origin n e) \<and>
       (g = f \<and> r \<noteq> Inr () \<or>
        (\<exists>h. unlock C K (set_key g None) new (Inr ()) (Inr ()) = (Inr (), h) \<and> wf_store h = wf_store g)))"
  using change
proof (cases rule: change_passphrase_cases)
  case refused
  then show ?thesis using inv by blast
next
  case (committed h)
  from change_transaction_opens [OF law(1) committed(1) inv(4)] inv(1) obtain key'
    where rk: "rekey_store C key key' (wf_store f) = Inr (wf_store g)" and o: "opens_under C K g new key'"
    using committed(2,3) by auto
  note rd = rekeyed_secret [OF law(1) rk inv(1)] rekeyed_entity [OF law(1) rk inv(1)] rekeyed_workflow [OF law(1) rk inv(1)]
    rekeyed_approval [OF law(1) rk inv(1) law(2)] rekeyed_permission [OF law(1) rk inv(1,3)]
  have k: "ws_key (wf_store g) = Some key'" by (rule rekey_store_Ok(2) [OF rk])
  have "\<exists>h. unlock C K (set_key g None) new (Inr ()) (Inr ()) = (Inr (), h) \<and> wf_store h = wf_store g"
    using o by (rule unlock_opens) (use k in auto)
  moreover have "store_inv C key' (wf_store g)" by (rule rekeyed_inv [OF law(1) rk inv(2)])
  ultimately show ?thesis using rd k rekeyed_nonce [OF law(1) rk] by blast
qed

text \<open>C39. A change of passphrase whose log truncation fails blocks every further one: it reports that the passphrase was
  changed with the checkpoint pending, the marker row stays, and because the next change inserts the marker again, every
  later change on that file fails and leaves it as it is, however the passphrases and the later truncations turn out, until the wallet is
  unlocked again, which clears the marker when its own truncations succeed.\<close>

theorem pending_checkpoint_blocks_next_change:
  assumes law: "crypto_law C" and ok: "change_passphrase_transaction C K f old new salt = Inr g" and "legacy_done f"
  shows "change_passphrase C K f old new salt (Inl e) u = (Inl SE_PassphraseChangedCheckpointPending, g) \<and>
    (\<forall>p q salt' t' u'. \<exists>e'. change_passphrase C K g p q salt' t' u' = (Inl e', g)) \<and>
    (\<exists>h. unlock C K (set_key g None) new (Inr ()) (Inr ()) = (Inr (), h) \<and> tbl_get (wf_meta h) CHECKPOINT_PENDING_KEY = None)"
proof -
  have m: "tbl_get (wf_meta g) CHECKPOINT_PENDING_KEY \<noteq> None" using ok by (rule change_transaction_Ok) (simp add: update_conv)
  have "change_passphrase_transaction C K g p q salt' \<noteq> Inr h" for p q salt' h
  proof
    assume "change_passphrase_transaction C K g p q salt' = Inr h"
    then show False
      by (rule change_transaction_Ok) (use m meta_keys in \<open>auto simp: update_meta_def update_conv split: if_splits\<close>)
  qed
  then have "\<exists>e'. change_passphrase C K g p q salt' t' u' = (Inl e', g)" for p q salt' t' u'
    by (cases "change_passphrase_transaction C K g p q salt'") (auto simp: change_passphrase_def)
  moreover obtain key' where o: "opens_under C K g new key'" using change_transaction_opens [OF law ok assms(3)] by blast
  from o obtain h where "unlock C K (set_key g None) new (Inr ()) (Inr ()) = (Inr (), h)" by (rule unlock_opens)
  moreover from this have "tbl_get (wf_meta h) CHECKPOINT_PENDING_KEY = None"
    by (auto simp: unlock_def complete_plaintext_checkpoint_def delete_conv split: sum.splits prod.splits if_splits)
  ultimately show ?thesis using ok by (auto simp: change_passphrase_def complete_plaintext_checkpoint_def)
qed

section \<open>A file and its passphrases\<close>

definition sample_kdf :: kdf where
  "sample_kdf = \<lparr>argon2_params = (\<lambda>_. True), argon2id = (\<lambda>config p salt. Some (replicate 32 (if p = [1] then 4 else 5)))\<rparr>"

definition sample_file :: wallet_file where
  "sample_file = \<lparr>wf_store = sample_entities,
     wf_meta = [(''kdf_salt'', replicate 16 1), (''key_check'', replicate 24 7 @ SENTINEL @ replicate 16 0)],
     wf_salt = replicate 16 1, wf_kdf = \<lparr>kc_memory_kib = 65536, kc_iterations = 3, kc_lanes = 1\<rparr>,
     wf_legacy = \<lparr>lg_populated = [], lg_permissions = [], lg_approvals = False, lg_replay = []\<rparr>\<rparr>"

lemma sample_file_facts: "ws_key (wf_store sample_file) = Some (replicate 32 4)" "wf_store sample_file = sample_entities"
  "tbl_wf (ws_permissions (wf_store sample_file))" "legacy_done sample_file"
  by (simp_all add: sample_file_def sample_entities_def demo_store_def tbl_wf_def legacy_done_def)

lemma demo_hmac_length: "length (hmac_sha256 demo_crypto k m) = 32"
  by (simp add: demo_crypto_def)

lemma sentinel_sealed:
  "seal_sentinel demo_crypto key db = Inr (replicate 24 7 @ SENTINEL @ replicate 16 0)"
  "decrypt_record demo_crypto key db (secret_kind_label MetadataKey) (byte_str ''key_check'') (replicate 24 7 @ SENTINEL @ replicate 16 0) = Inr SENTINEL"
proof -
  have s: "SENTINEL \<noteq> []" "length SENTINEL \<le> 1048576" by (simp_all add: SENTINEL_def byte_str_def)
  show "seal_sentinel demo_crypto key db = Inr (replicate 24 7 @ SENTINEL @ replicate 16 0)"
    unfolding seal_sentinel_def by (rule demo_encrypt) (use s in \<open>simp_all add: byte_str_def\<close>)
  show "decrypt_record demo_crypto key db (secret_kind_label MetadataKey) (byte_str ''key_check'') (replicate 24 7 @ SENTINEL @ replicate 16 0) = Inr SENTINEL"
    by (rule demo_decrypt) (use s in \<open>simp_all add: byte_str_def\<close>)
qed

lemma sample_rekey: "\<exists>s. rekey_store demo_crypto old new sample_entities = Inr s"
  by (simp add: rekey_store_def sample_entities_def demo_store_def rekey_rows_def rekey_entity_def rekey_record_def
      demo_decrypt_one demo_encrypt entity_label_def store_limits Let_def
      revisioned_aad_id_def validate_id_def)

lemma sample_change: "\<exists>g. change_passphrase_transaction demo_crypto sample_kdf sample_file [1] [2] (Some (replicate 16 2)) = Inr g"
proof -
  obtain s where s: "rekey_store demo_crypto (replicate 32 4) (replicate 32 5) sample_entities = Inr s" using sample_rekey by blast
  have "reject_unmigrated_legacy_entities (wf_legacy sample_file) = Inr ()"
    by (simp add: reject_unmigrated_legacy_entities_def sample_file_def LEGACY_ENTITY_TABLES_def)
  moreover have "derive_key sample_kdf [1] (wf_salt sample_file) (wf_kdf sample_file) = Inr (replicate 32 4)"
    "derive_key sample_kdf [2] salt (wf_kdf sample_file) = Inr (replicate 32 5)" for salt
    by (simp_all add: derive_key_def validate_passphrase_def kdf_config_validate_def sample_kdf_def sample_file_def MAX_PASSPHRASE_BYTES_def ok_or_def)
  moreover have "check_key demo_crypto sample_file (replicate 32 4) = Inr SENTINEL"
    by (simp add: check_key_def required_meta_def sample_file_def ok_or_def map_err_def sentinel_sealed(2) [simplified])
  moreover have "tbl_get (wf_meta sample_file) ''kdf_salt'' \<noteq> None" "tbl_get (wf_meta sample_file) ''key_check'' \<noteq> None"
    "tbl_get (wf_meta sample_file) CHECKPOINT_PENDING_KEY = None"
    by (simp_all add: sample_file_def CHECKPOINT_PENDING_KEY_def)
  ultimately show ?thesis using s sentinel_sealed(1) meta_keys sample_file_facts(1)
    by (simp add: change_passphrase_transaction_def sample_file_facts(2) validate_passphrase_def MAX_PASSPHRASE_BYTES_def
        update_meta_def set_meta_def update_conv)
qed

theorem passphrase_change_keeps_records_witness:
  "\<exists>g. change_passphrase demo_crypto sample_kdf sample_file [1] [2] (Some (replicate 16 2)) (Inr ()) (Inr ()) = (Inr (), g) \<and>
     load_entity demo_crypto sample_codec (wf_store g) EK_SwapSession [1] =
       load_entity demo_crypto sample_codec sample_entities EK_SwapSession [1] \<and>
     fst (unlock demo_crypto sample_kdf (set_key g None) [2] (Inr ()) (Inr ())) = Inr ()"
proof -
  obtain h where h: "change_passphrase_transaction demo_crypto sample_kdf sample_file [1] [2] (Some (replicate 16 2)) = Inr h"
    using sample_change by blast
  then obtain g where g: "change_passphrase demo_crypto sample_kdf sample_file [1] [2] (Some (replicate 16 2)) (Inr ()) (Inr ()) = (Inr (), g)"
    by (cases "tbl_get (wf_meta h) CHECKPOINT_PENDING_KEY") (auto simp: change_passphrase_def complete_plaintext_checkpoint_def)
  have "store_inv demo_crypto (replicate 32 4) (wf_store sample_file)" using sample_entities_sound sample_file_facts(2) by simp
  note P = passphrase_change_keeps_records [OF demo_crypto_law demo_hmac_length sample_file_facts(1) this sample_file_facts(3,4) g,
      of sample_codec sample_codec]
  have "load_entity demo_crypto sample_codec (wf_store g) EK_SwapSession [1] =
      load_entity demo_crypto sample_codec (wf_store sample_file) EK_SwapSession [1]" using P by blast
  moreover obtain h where "unlock demo_crypto sample_kdf (set_key g None) [2] (Inr ()) (Inr ()) = (Inr (), h)" using P by blast
  ultimately show ?thesis using g unfolding sample_file_facts(2) by (intro exI [of _ g]) simp
qed

theorem pending_checkpoint_blocks_next_change_witness:
  "\<exists>g. change_passphrase demo_crypto sample_kdf sample_file [1] [2] (Some (replicate 16 2)) (Inl SE_Sqlite) (Inr ()) =
      (Inl SE_PassphraseChangedCheckpointPending, g) \<and>
    fst (change_passphrase demo_crypto sample_kdf g [2] [3] (Some (replicate 16 3)) (Inr ()) (Inr ())) \<noteq> Inr ()"
proof -
  obtain g where g: "change_passphrase_transaction demo_crypto sample_kdf sample_file [1] [2] (Some (replicate 16 2)) = Inr g"
    using sample_change by blast
  note P = pending_checkpoint_blocks_next_change [OF demo_crypto_law g sample_file_facts(4), of SE_Sqlite "Inr ()"]
  from P
  obtain e' where "change_passphrase demo_crypto sample_kdf g [2] [3] (Some (replicate 16 3)) (Inr ()) (Inr ()) = (Inl e', g)" by blast
  with P show ?thesis by (intro exI [of _ g]) simp
qed

end
