(* ===== verification/Board_Properties.thy ===== *)
theory Board_Properties
  imports Store_Properties Market_Sample
begin

text \<open>
  Properties of the offer board (hns-wallet-market/src/direct_board.rs): the price levels against a reference
  grouping, and what a cancellation stored under an earlier clock does to the board.
\<close>

section \<open>Price levels\<close>

lemma gcd_u128_gcd: "gcd_u128 a b = gcd a b"
  by (induction a b rule: gcd_u128.induct) (subst gcd_u128.simps, simp add: gcd_red_nat [symmetric] gcd.commute)

definition price_key :: "offer_record \<Rightarrow> bool \<times> u128 \<times> u128" where
  "price_key r = (let (sells_hns, hns, btc) = level_of r in (sells_hns, btc div gcd btc hns, hns div gcd btc hns))"

definition reference_level :: "offer_record list \<Rightarrow> bool \<times> u128 \<times> u128 \<Rightarrow> offer_level" where
  "reference_level rs key = (let same = filter (\<lambda>r. price_key r = key) rs in
     \<lparr>lv_offer_setter_sells_hns = fst key, lv_btc_per_hns_numerator = fst (snd key), lv_btc_per_hns_denominator = snd (snd key),
      lv_total_hns_amount = sum_list (map (fst \<circ> snd \<circ> level_of) same), lv_total_btc_amount = sum_list (map (snd \<circ> snd \<circ> level_of) same),
      lv_offer_count = length same\<rparr>)"

definition level_key :: "offer_level \<Rightarrow> bool \<times> u128 \<times> u128" where
  "level_key l = (lv_offer_setter_sells_hns l, lv_btc_per_hns_numerator l, lv_btc_per_hns_denominator l)"

definition groups :: "offer_record list \<Rightarrow> (bool \<times> u128 \<times> u128, offer_level) tbl \<Rightarrow> bool" where
  "groups rs t \<longleftrightarrow> tbl_wf t \<and> (\<forall>k. tbl_get t k = (if k \<in> price_key ` set rs then Some (reference_level rs k) else None)) \<and>
     (\<forall>r \<in> set rs. snd (level_of r) \<noteq> (0, 0))"

lemma level_key_reference [simp]: "level_key (reference_level rs k) = k"
  by (simp add: level_key_def reference_level_def Let_def)

lemma add_to_level_groups:
  assumes g: "groups rs t" and a: "add_to_level r t = Inr t'"
  shows "groups (rs @ [r]) t'"
proof -
  obtain s h b where l: "level_of r = (s, h, b)" by (metis prod_cases3)
  let ?k = "price_key r"
  have k: "?k = (s, b div gcd b h, h div gcd b h)" by (simp add: price_key_def l)
  have e: "(case tbl_get t ?k of Some e \<Rightarrow> e | None \<Rightarrow> reference_level [] ?k) = reference_level rs ?k"
  proof (cases "?k \<in> price_key ` set rs")
    case True
    then show ?thesis using g unfolding groups_def by (metis option.simps(5))
  next
    case False
    then have "filter (\<lambda>x. price_key x = ?k) rs = []" by (auto simp: filter_empty_conv image_iff)
    then have "reference_level rs ?k = reference_level [] ?k" by (simp add: reference_level_def)
    moreover have "tbl_get t ?k = None" using g False unfolding groups_def by metis
    ultimately show ?thesis by simp
  qed
  have r0: "reference_level [] ?k = \<lparr>lv_offer_setter_sells_hns = s, lv_btc_per_hns_numerator = b div gcd b h,
      lv_btc_per_hns_denominator = h div gcd b h, lv_total_hns_amount = 0, lv_total_btc_amount = 0, lv_offer_count = 0\<rparr>"
    by (simp add: reference_level_def k)
  from a have t': "t' = tbl_put ?k (reference_level (rs @ [r]) ?k) t" and nz: "gcd b h \<noteq> 0"
    unfolding add_to_level_def l gcd_u128_gcd Let_def prod.case k [symmetric] r0 [symmetric] e
    by (auto simp: reference_level_def Let_def l ok_or_def checked_add_w_def k split: if_splits)
  have other: "reference_level (rs @ [r]) x = reference_level rs x" if "x \<noteq> ?k" for x
    using that by (simp add: reference_level_def)
  show ?thesis using g nz l other by (auto simp: groups_def t' tbl_wf_put tbl_get_put)
qed

lemma group_levels_groups:
  "group_levels now rs t = Inr t' \<Longrightarrow> groups done t \<Longrightarrow> groups (done @ filter (\<lambda>r. is_active_at r now) rs) t'"
proof (induction rs arbitrary: t "done")
  case (Cons r rs)
  show ?case
  proof (cases "is_active_at r now")
    case True
    with Cons.prems obtain t1 where "add_to_level r t = Inr t1" "group_levels now rs t1 = Inr t'" by auto
    with Cons.IH [OF this(2) add_to_level_groups [OF Cons.prems(2) this(1)]] True show ?thesis by simp
  qed (use Cons in simp)
qed simp

lemma same_price:
  assumes "snd (level_of r) \<noteq> (0, 0)" "snd (level_of r') \<noteq> (0, 0)" "level_of r = (s, h, b)" "level_of r' = (s', h', b')"
  shows "price_key r = price_key r' \<longleftrightarrow> s = s' \<and> b * h' = b' * h"
proof -
  have nz: "gcd b h \<noteq> 0" "gcd b' h' \<noteq> 0" using assms by auto
  define g g' n d n' d' where defs: "g = gcd b h" "g' = gcd b' h'" "n = b div g" "d = h div g" "n' = b' div g'" "d' = h' div g'"
  have b: "b = n * g" "h = d * g" "b' = n' * g'" "h' = d' * g'" by (simp_all add: defs)
  have c: "coprime n d" "coprime n' d'" using nz by (simp_all add: defs div_gcd_coprime)
  have "b * h' = b' * h \<longleftrightarrow> (n * d') * (g * g') = (n' * d) * (g * g')" by (simp add: b ac_simps)
  also have "\<dots> \<longleftrightarrow> n * d' = n' * d" using nz unfolding defs(1,2) by (simp only: mult_cancel2 mult_eq_0_iff simp_thms)
  also have "\<dots> \<longleftrightarrow> n = n' \<and> d = d'" using coprime_crossproduct_nat [OF c] by blast
  finally show ?thesis using assms(3,4) by (auto simp: price_key_def defs)
qed

text \<open>C38. The price levels of the board are a grouping of its active offers by side and exact price: the levels are in
  increasing order of side and reduced price, no two with the same; each has the totals and the number of the active offers
  of its price, and every active offer is in one. Two active offers share a level exactly when they are on the same side
  and their prices, as ratios of the amounts, are equal.\<close>

theorem price_levels_match_reference:
  assumes "load_shakescape_direct_offers C P J s policy now = Inr records"
    and "live_shakescape_direct_offer_levels C P J s policy now = Inr levels"
    and "active = filter (\<lambda>r. is_active_at r now) records"
  shows "set levels = reference_level active ` price_key ` set active \<and>
    sorted_wrt (<) (map level_key levels) \<and>
    (\<forall>l \<in> set levels. coprime (lv_btc_per_hns_numerator l) (lv_btc_per_hns_denominator l)) \<and>
    (\<forall>r \<in> set active. \<forall>r' \<in> set active. price_key r = price_key r' \<longleftrightarrow> fst (level_of r) = fst (level_of r') \<and>
       snd (snd (level_of r)) * fst (snd (level_of r')) = snd (snd (level_of r')) * fst (snd (level_of r)))"
proof -
  from assms(1,2) obtain t where t: "group_levels now records [] = Inr t" and lv: "levels = map snd (sort_key fst t)"
    by (auto simp: live_shakescape_direct_offer_levels_def)
  have "groups [] []" by (simp add: groups_def tbl_wf_def)
  from group_levels_groups [OF t this] have g: "groups active t" by (simp add: assms(3))
  then have d: "distinct (map fst t)" and get: "tbl_get t k = (if k \<in> price_key ` set active then Some (reference_level active k) else None)" for k
    unfolding groups_def tbl_wf_def by blast+
  have mem: "(k, l) \<in> set t \<longleftrightarrow> k \<in> price_key ` set active \<and> l = reference_level active k" for k l
    using map_of_eq_Some_iff [OF d, of k l] get [of k] by (auto split: if_splits)
  have "set levels = snd ` set t" by (simp add: lv)
  also have "\<dots> = reference_level active ` price_key ` set active" using mem by force
  finally have s: "set levels = reference_level active ` price_key ` set active" .
  have "map level_key levels = map fst (sort_key fst t)" using mem by (auto simp: lv)
  moreover have "sorted_wrt (<) (map fst (sort_key fst t))"
    using d by (simp add: strict_sorted_iff distinct_map)
  ultimately have o: "sorted_wrt (<) (map level_key levels)" by simp
  have nz: "r \<in> set active \<Longrightarrow> snd (level_of r) \<noteq> (0, 0)" for r using g by (simp add: groups_def)
  have cp: "coprime (lv_btc_per_hns_numerator l) (lv_btc_per_hns_denominator l)" if "l \<in> set levels" for l
  proof -
    from that s obtain r where r: "r \<in> set active" "l = reference_level active (price_key r)" by auto
    obtain sd h b where l: "level_of r = (sd, h, b)" by (metis prod_cases3)
    with nz [OF r(1)] show ?thesis by (auto simp: r(2) reference_level_def Let_def price_key_def intro: div_gcd_coprime)
  qed
  have pr: "price_key r = price_key r' \<longleftrightarrow> fst (level_of r) = fst (level_of r') \<and>
       snd (snd (level_of r)) * fst (snd (level_of r')) = snd (snd (level_of r')) * fst (snd (level_of r))"
    if "r \<in> set active" "r' \<in> set active" for r r'
    using same_price [OF nz [OF that(1)] nz [OF that(2)]] by (metis prod.collapse)
  show ?thesis using s o cp pr by blast
qed

section \<open>A cancellation under an earlier clock\<close>

lemma decode_stored_offer_id: "decode_stored_offer P policy e = Inr r \<Longrightarrow> \<not> all_zero (of_offer_id (or_offer r))"
  by (auto simp: decode_stored_offer_def Let_def split: if_split_asm)

lemma cancellation_applied:
  assumes "admit_shakescape_direct_offer_cancellation C P J policy env at s = (Inr (CancellationApplied snap), s')"
  obtains v n i r where "save_entity C J s EK_ShakescapeBoardObject (offer_record_id policy i) r v at = Inr (n, s')"
    "os_offer_id snap = i" "os_accepted_at_unix snap = po_accepted_at_unix v" "po_offer_id v = i" "po_cancelled_at_unix v = Some at" "\<not> all_zero i"
proof -
  from assms obtain q m where d: "decode_canonical_envelope P env = Inr (q, m)"
    by (auto simp: admit_shakescape_direct_offer_cancellation_def sbind_Inr lift_result_def)
  from assms d obtain c where m: "m = MsgCancelDirectOffer c"
    by (cases m) (simp_all add: admit_shakescape_direct_offer_cancellation_def sbind_def lift_result_def sfail_def)
  from assms d m obtain r offer_hex cancellation_hex n where l: "Inr (Some r) = load_shakescape_direct_offer C P J s policy (oc_offer_id c)"
    and sv: "save_entity C J s EK_ShakescapeBoardObject (offer_record_id policy (of_offer_id (or_offer r))) (or_store_revision r)
      \<lparr>po_schema_version = DIRECT_OFFER_BOARD_SCHEMA_VERSION, po_policy_fingerprint = bp_fingerprint policy,
       po_offer_id = of_offer_id (or_offer r), po_accepted_at_unix = or_accepted_at_unix r, po_offer_hex = offer_hex,
       po_cancellation_hex = Some cancellation_hex, po_cancelled_at_unix = Some at\<rparr> at = Inr (n, s')"
    and sn: "snap = offer_snapshot_of (r\<lparr>or_store_revision := n, or_cancelled_at_unix := Some at, or_cancellation := Some c\<rparr>)"
    by (auto simp: admit_shakescape_direct_offer_cancellation_def sbind_Inr lift_result_def sfail_def sread_Ok in_store_Ok sreturn_def ok_or_def
        split: if_split_asm option.split_asm)
  from l [symmetric] have "\<not> all_zero (of_offer_id (or_offer r))"
    by (auto simp: load_shakescape_direct_offer_def dest: decode_stored_offer_id split: if_split_asm option.split_asm)
  with sv sn show thesis by (intro that) (auto simp: offer_snapshot_of_def)
qed

lemma early_cancellation_undecodable:
  assumes "po_cancelled_at_unix (se_value e) = Some at" "at < po_accepted_at_unix (se_value e)"
  shows "decode_stored_offer P policy e = Inl ME_CorruptShakescapeDirectOfferBoard"
proof -
  have "decode_stored_cancellation P policy (se_value e) offer encoded = Inl ME_CorruptShakescapeDirectOfferBoard" for offer encoded
    using assms by (cases "js_decode (mp_cancellation P) encoded") (simp_all add: decode_stored_cancellation_def ok_or_def)
  moreover have "decode_hex_bytes P h = Inl ME_CorruptShakescapeDirectOfferBoard \<or> (\<exists>b. decode_hex_bytes P h = Inr b)" for h
    by (auto simp: decode_hex_bytes_def ok_or_def split: option.splits)
  ultimately have c: "rbind (decode_hex_bytes P h) (\<lambda>encoded. rbind (decode_stored_cancellation P policy (se_value e) offer encoded) g) =
      Inl ME_CorruptShakescapeDirectOfferBoard" for h offer and g :: "_ \<Rightarrow> (market_error, direct_offer_cancellation option) result"
    by (metis rbind_simps)
  obtain r where r: "decode_hex_bytes P (po_offer_hex (se_value e)) = r" by blast
  have "r = Inl ME_CorruptShakescapeDirectOfferBoard \<or> (\<exists>b. r = Inr b)"
    unfolding r [symmetric] by (auto simp: decode_hex_bytes_def ok_or_def split: option.splits)
  then show ?thesis using assms(1) r
    by (cases "po_cancellation_hex (se_value e)") (auto simp: decode_stored_offer_def Let_def c ok_or_def split: option.splits)
qed

text \<open>C40. A cancellation admitted under an earlier clock destroys the board. When a cancellation is applied at a local
  time before the one at which the offer was accepted, the operation succeeds, and from then on neither that offer nor
  any list of offers, inventory or price level can be read: every read of the board fails.\<close>

theorem early_cancellation_corrupts_board:
  assumes law: "crypto_law C" "codec_law J" "store_inv C key s"
    and ok: "admit_shakescape_direct_offer_cancellation C P J policy env at s = (Inr (CancellationApplied snap), s')"
    and early: "at < os_accepted_at_unix snap"
  shows "load_shakescape_direct_offer C P J s' policy (os_offer_id snap) = Inl ME_CorruptShakescapeDirectOfferBoard \<and>
    (\<forall>now. \<not> is_ok (load_shakescape_direct_offers C P J s' policy now)) \<and>
    (\<forall>now. \<not> is_ok (shakescape_direct_offer_inventory C P J s' policy now)) \<and>
    (\<forall>now. \<not> is_ok (live_shakescape_direct_offer_levels C P J s' policy now))"
  using ok
proof (rule cancellation_applied)
  fix v :: persisted_direct_offer and n i r
  let ?id = "offer_record_id policy i"
  let ?e = "\<lparr>se_kind = EK_ShakescapeBoardObject, se_id = ?id, se_revision = n, se_value = v, se_updated_at_unix = at\<rparr>"
  assume sv: "save_entity C J s EK_ShakescapeBoardObject ?id r v at = Inr (n, s')" and i: "os_offer_id snap = i"
    and v: "os_accepted_at_unix snap = po_accepted_at_unix v" "po_cancelled_at_unix v = Some at" and nz: "\<not> all_zero i"
  have d: "decode_stored_offer P policy ?e = Inl ME_CorruptShakescapeDirectOfferBoard"
    using v early by (intro early_cancellation_undecodable [of _ at]) simp_all
  have ld: "load_entity C J s' EK_ShakescapeBoardObject ?id = Inr (Some ?e)" by (rule save_entity_load(1) [OF law(1,2) sv])
  have inv: "store_inv C key s'" by (rule save_entity_inv [OF law(1,3) sv])
  have offers: "\<not> is_ok (load_shakescape_direct_offers C P J s' policy now)" for now
  proof
    assume "is_ok (load_shakescape_direct_offers C P J s' policy now)"
    then obtain es rs where es: "list_entities_by_id_prefix C J s' EK_ShakescapeBoardObject (offer_record_prefix policy)
        (mp_max_inventory_entries P + 1) = Inr es" and c: "collect_results (map (decode_stored_offer P policy) es) = Inr rs"
      by (auto simp: load_shakescape_direct_offers_def list_offer_rows_def is_ok_iff map_err_def split: if_splits sum.splits)
    note l = prefix_listing_Ok [OF inv es]
    have "entity_rev s' EK_ShakescapeBoardObject ?id \<noteq> 0" using load_entity_Some(3) [OF inv ld] .
    then have "?id \<in> set (map se_id es)" using l by (simp add: offer_record_id_def)
    then obtain e where e: "e \<in> set es" "se_id e = ?id" by auto
    with l ld have "e = ?e" by (metis option.inject sum.inject(2))
    moreover have "is_ok (decode_stored_offer P policy e)"
      using c e(1) unfolding collect_results_Ok is_ok_iff by (metis image_eqI imageE list.set_map)
    ultimately show False using d by simp
  qed
  have "\<not> is_ok (shakescape_direct_offer_inventory C P J s' policy now)" "\<not> is_ok (live_shakescape_direct_offer_levels C P J s' policy now)" for now
    using offers [of now] by (cases "load_shakescape_direct_offers C P J s' policy now";
      simp add: shakescape_direct_offer_inventory_def live_shakescape_direct_offer_levels_def)+
  moreover have "load_shakescape_direct_offer C P J s' policy i = Inl ME_CorruptShakescapeDirectOfferBoard"
    using nz by (simp add: load_shakescape_direct_offer_def ld map_err_def d)
  ultimately show ?thesis using offers i by simp
qed

section \<open>A board with one offer\<close>

definition sample_board :: board_policy where
  "sample_board = \<lparr>bp_network = [1], bp_fingerprint = replicate 32 6\<rparr>"

definition sample_offer_row :: "(string \<times> u64) option \<Rightarrow> persisted_direct_offer" where
  "sample_offer_row c = \<lparr>po_schema_version = DIRECT_OFFER_BOARD_SCHEMA_VERSION, po_policy_fingerprint = replicate 32 6, po_offer_id = [5],
     po_accepted_at_unix = 500000012, po_offer_hex = mp_hex_encode demo_protocol [1], po_cancellation_hex = map_option fst c,
     po_cancelled_at_unix = map_option snd c\<rparr>"

definition sample_board_codec :: "persisted_direct_offer codec" where
  "sample_board_codec = table_codec [([1], sample_offer_row None), ([2], sample_offer_row (Some (mp_hex_encode demo_protocol [1], 500000011)))]"

definition sample_board_store :: wallet_store where
  "sample_board_store = demo_store\<lparr>ws_entities := [((EK_ShakescapeBoardObject, offer_record_id sample_board [5]),
     \<lparr>er_revision = 1, er_value = replicate 24 7 @ [1] @ replicate 16 0, er_updated = 500000012\<rparr>)]\<rparr>"

definition sample_offer_record :: offer_record where
  "sample_offer_record = \<lparr>or_store_revision = 1, or_accepted_at_unix = 500000012, or_cancelled_at_unix = None, or_offer = demo_offer,
     or_cancellation = None\<rparr>"

lemma sample_board_codec_law: "codec_law sample_board_codec"
  unfolding sample_board_codec_def by (rule table_codec_law) simp

lemma sample_board_id: "validate_id (offer_record_id sample_board [5]) = Inr ()" "validate_id (offer_record_prefix sample_board) = Inr ()"
  "offer_record_id sample_board [5] \<noteq> []" "length (offer_record_id sample_board [5]) = 60"
  by (simp_all add: offer_record_id_def offer_record_prefix_def DIRECT_OFFER_BOARD_RECORD_PREFIX_def byte_str_def sample_board_def store_limits)

lemma sample_board_sound: "store_inv demo_crypto (replicate 32 4) sample_board_store"
  using sample_board_id
  by (auto simp: store_inv_def sample_board_store_def demo_store_def tbl_wf_def entity_opens_def is_ok_def entity_label_def
      store_limits revisioned_aad_id_def validate_id_def demo_decrypt_one split: if_splits)

lemma sample_board_fields: "bp_network sample_board = [1]" "bp_fingerprint sample_board = replicate 32 6"
  by (simp_all add: sample_board_def)

lemma sample_row_decodes: "decode_stored_offer demo_protocol sample_board
    \<lparr>se_kind = k, se_id = offer_record_id sample_board [5], se_revision = 1, se_value = sample_offer_row None, se_updated_at_unix = 500000012\<rparr> =
    Inr sample_offer_record"
proof -
  have h: "mp_offer demo_protocol = one_codec demo_offer" "decode_hex_bytes demo_protocol (mp_hex_encode demo_protocol [1]) = Inr [1]"
    "mp_verify_offer_at demo_protocol demo_offer n 500000012"
    for n by (simp_all add: demo_protocol_def decode_hex_bytes_def ok_or_def demo_offer_def demo_header_def)
  have o: "of_offer_id demo_offer = [5]" "hd_created_at (of_header demo_offer) = 500000000" by (simp_all add: demo_offer_def demo_header_def)
  show ?thesis
    by (simp add: decode_stored_offer_def sample_offer_row_def h o one_codec_def ok_or_def all_zero_def sample_board_fields
        peer_object_validation_time_def saturating_add_u64_def MAX_SHAKESCAPE_PEER_CLOCK_SKEW_SECONDS_def sample_offer_record_def)
qed

lemma sample_board_loads:
  "list_entities_by_id_prefix demo_crypto sample_board_codec sample_board_store EK_ShakescapeBoardObject (offer_record_prefix sample_board) 9 =
     Inr [\<lparr>se_kind = EK_ShakescapeBoardObject, se_id = offer_record_id sample_board [5], se_revision = 1, se_value = sample_offer_row None,
       se_updated_at_unix = 500000012\<rparr>]"
  "load_entity demo_crypto sample_board_codec sample_board_store EK_ShakescapeBoardObject (offer_record_id sample_board [5]) =
     Inr (Some \<lparr>se_kind = EK_ShakescapeBoardObject, se_id = offer_record_id sample_board [5], se_revision = 1, se_value = sample_offer_row None,
       se_updated_at_unix = 500000012\<rparr>)"
proof -
  let ?i = "offer_record_id sample_board [5]"
  let ?row = "\<lparr>er_revision = 1, er_value = replicate 24 7 @ [1] @ replicate 16 0, er_updated = 500000012\<rparr>"
  have o: "open_entity demo_crypto sample_board_codec key sample_board_store EK_ShakescapeBoardObject ?i ?row =
      Inr \<lparr>se_kind = EK_ShakescapeBoardObject, se_id = ?i, se_revision = 1, se_value = sample_offer_row None, se_updated_at_unix = 500000012\<rparr>" for key
    using sample_board_id(3,4) by (simp add: open_entity_def revisioned_aad_id_def validate_id_def store_limits entity_label_def
        demo_decrypt_one sample_board_codec_def table_codec_def ok_or_def)
  have k: "ws_key sample_board_store = Some (replicate 32 4)" by (simp add: sample_board_store_def demo_store_def)
  have rows: "ws_entities sample_board_store = [((EK_ShakescapeBoardObject, ?i), ?row)]" by (simp add: sample_board_store_def)
  have pre: "take (length (offer_record_prefix sample_board)) ?i = offer_record_prefix sample_board" by (simp add: offer_record_id_def)
  show "list_entities_by_id_prefix demo_crypto sample_board_codec sample_board_store EK_ShakescapeBoardObject (offer_record_prefix sample_board) 9 =
     Inr [\<lparr>se_kind = EK_ShakescapeBoardObject, se_id = ?i, se_revision = 1, se_value = sample_offer_row None, se_updated_at_unix = 500000012\<rparr>]"
    using o sample_board_id(1,2) by (simp add: list_entities_by_id_prefix_def rows pre k ok_or_def open_listed_def MAX_ENTITY_LIST_RESULTS_def
        del: validate_id_Ok)
  show "load_entity demo_crypto sample_board_codec sample_board_store EK_ShakescapeBoardObject ?i =
     Inr (Some \<lparr>se_kind = EK_ShakescapeBoardObject, se_id = ?i, se_revision = 1, se_value = sample_offer_row None, se_updated_at_unix = 500000012\<rparr>)"
    using o sample_board_id(1) by (simp add: load_entity_def rows k ok_or_def del: validate_id_Ok)
qed

lemma sample_offers: "load_shakescape_direct_offers demo_crypto demo_protocol sample_board_codec sample_board_store sample_board 500000012 =
    Inr [sample_offer_record]"
proof -
  have "mp_max_inventory_entries demo_protocol = 8" by (simp add: demo_protocol_def)
  moreover have "still_published sample_offer_record 500000012"
    by (simp add: still_published_def sample_offer_record_def demo_offer_def demo_header_def bounded_publication_window_def
        MAX_DIRECT_PUBLICATION_LIFETIME_SECONDS_def)
  ultimately show ?thesis
    using sample_board_loads(1) sample_row_decodes [of EK_ShakescapeBoardObject]
    by (simp add: load_shakescape_direct_offers_def list_offer_rows_def map_err_def)
qed

theorem price_levels_match_reference_witness:
  "\<exists>levels. live_shakescape_direct_offer_levels demo_crypto demo_protocol sample_board_codec sample_board_store sample_board 500000012 = Inr levels \<and>
     set levels = {reference_level [sample_offer_record] (False, 700, 9)}"
proof -
  have a: "is_active_at sample_offer_record 500000012" "level_of sample_offer_record = (False, 9, 700)"
    by (simp_all add: is_active_at_def level_of_def sample_offer_record_def demo_offer_def demo_header_def)
  have g: "gcd 700 (9 :: nat) = 1" by (simp add: gcd_non_0_nat)
  have "\<exists>levels. live_shakescape_direct_offer_levels demo_crypto demo_protocol sample_board_codec sample_board_store sample_board 500000012 = Inr levels"
    by (simp add: live_shakescape_direct_offer_levels_def sample_offers a add_to_level_def gcd_u128_gcd g ok_or_def checked_add_w_def)
  then obtain levels where l: "live_shakescape_direct_offer_levels demo_crypto demo_protocol sample_board_codec sample_board_store sample_board 500000012 = Inr levels"
    by blast
  have "price_key sample_offer_record = (False, 700, 9)" by (simp add: price_key_def a g)
  with price_levels_match_reference [OF sample_offers l refl] a l show ?thesis by simp
qed

theorem early_cancellation_corrupts_board_witness:
  "\<exists>snap s'. admit_shakescape_direct_offer_cancellation demo_crypto demo_protocol sample_board_codec sample_board [2] 500000011 sample_board_store =
      (Inr (CancellationApplied snap), s') \<and>
    load_shakescape_direct_offer demo_crypto demo_protocol sample_board_codec s' sample_board [5] = Inl ME_CorruptShakescapeDirectOfferBoard \<and>
    \<not> is_ok (load_shakescape_direct_offers demo_crypto demo_protocol sample_board_codec s' sample_board 500000013)"
proof -
  have env: "decode_canonical_envelope demo_protocol [2] = Inr (2, MsgCancelDirectOffer demo_cancellation)"
    by (simp add: decode_canonical_envelope_def demo_protocol_def demo_messages_def ok_or_def)
  have ld: "load_shakescape_direct_offer demo_crypto demo_protocol sample_board_codec sample_board_store sample_board [5] = Inr (Some sample_offer_record)"
    using sample_board_loads(2) sample_row_decodes [of EK_ShakescapeBoardObject] by (simp add: load_shakescape_direct_offer_def map_err_def all_zero_def)
  have c: "hd_created_at (oc_header demo_cancellation) = 500000000" "hd_expires_at (oc_header demo_cancellation) = 500000060"
    "oc_offer_id demo_cancellation = [5]" "mp_verify_cancellation demo_protocol demo_cancellation x n 500000011" for x n
    by (simp_all add: demo_cancellation_def demo_header_def demo_protocol_def)
  have r: "or_cancellation sample_offer_record = None" "or_offer sample_offer_record = demo_offer" "of_offer_id demo_offer = [5]"
    "or_store_revision sample_offer_record = 1" "or_accepted_at_unix sample_offer_record = 500000012"
    by (simp_all add: sample_offer_record_def demo_offer_def)
  have h: "offer_encode_hex demo_protocol (mp_offer demo_protocol) demo_offer = Inr (mp_hex_encode demo_protocol [1])"
    "offer_encode_hex demo_protocol (mp_cancellation demo_protocol) demo_cancellation = Inr (mp_hex_encode demo_protocol [1])"
    by (simp_all add: offer_encode_hex_def demo_protocol_def one_codec_def ok_or_def)
  have row: "\<lparr>po_schema_version = DIRECT_OFFER_BOARD_SCHEMA_VERSION, po_policy_fingerprint = replicate 32 6, po_offer_id = [5],
      po_accepted_at_unix = 500000012, po_offer_hex = mp_hex_encode demo_protocol [1], po_cancellation_hex = Some (mp_hex_encode demo_protocol [1]),
      po_cancelled_at_unix = Some 500000011\<rparr> = sample_offer_row (Some (mp_hex_encode demo_protocol [1], 500000011))"
    by (simp add: sample_offer_row_def)
  have enc: "js_encode sample_board_codec (sample_offer_row (Some (mp_hex_encode demo_protocol [1], 500000011))) = Some [2]"
    by (simp add: sample_board_codec_def table_codec_def sample_offer_row_def)
  obtain n s' where sv: "save_entity demo_crypto sample_board_codec sample_board_store EK_ShakescapeBoardObject (offer_record_id sample_board [5]) 1
      (sample_offer_row (Some (mp_hex_encode demo_protocol [1], 500000011))) 500000011 = Inr (n, s')"
    using sample_board_id(3,4) by (simp add: sample_board_store_def enc entity_eval)
  have "\<exists>snap. admit_shakescape_direct_offer_cancellation demo_crypto demo_protocol sample_board_codec sample_board [2] 500000011 sample_board_store =
      (Inr (CancellationApplied snap), s') \<and> os_accepted_at_unix snap = 500000012 \<and> os_offer_id snap = [5]"
    by (simp add: admit_shakescape_direct_offer_cancellation_def sbind_def lift_result_def sread_def env ld c r h peer_object_validation_time_def
        saturating_add_u64_def MAX_SHAKESCAPE_PEER_CLOCK_SKEW_SECONDS_def bounded_publication_window_def MAX_DIRECT_PUBLICATION_LIFETIME_SECONDS_def
        ok_or_def in_store_def sample_board_fields row sv [simplified] sreturn_def offer_snapshot_of_def)
  then obtain snap where sn: "admit_shakescape_direct_offer_cancellation demo_crypto demo_protocol sample_board_codec sample_board [2] 500000011
      sample_board_store = (Inr (CancellationApplied snap), s')" "os_accepted_at_unix snap = 500000012" "os_offer_id snap = [5]" by blast
  from early_cancellation_corrupts_board [OF demo_crypto_law sample_board_codec_law sample_board_sound sn(1)] sn show ?thesis by auto
qed

end
